(* ===== verification/Prelude.thy ===== *)
theory Prelude
  imports Main "HOL-Library.Word"
begin

unbundle bit_operations_syntax

text \<open>
  Shared vocabulary of the development: the machine types of the LP64 platforms PyStack runs on
  (\<open>uintptr_t\<close>, \<open>size_t\<close> and \<open>remote_addr_t\<close> are \<open>64 word\<close>, a byte is \<open>8 word\<close>), the
  exceptions of the C++ code as a datatype, fallible operations as values of a sum type with
  sequencing (\<open>rbind\<close>), exception handlers (\<open>try_catch\<close>) and iteration (\<open>rmap\<close>), the
  little-endian reading of integers out of copied buffers, and the list and word lemmas that the
  component theories share.
\<close>

section \<open>Machine types\<close>

type_synonym byte = "8 word"
type_synonym bytes = "byte list"
type_synonym addr = "64 word"
type_synonym size_t = "64 word"

named_theorems result_simps "equations and inversion rules of the result combinators"
named_theorems word_order "word comparisons as comparisons of the numbers they stand for"

section \<open>Errors and results\<close>

text \<open>
  One constructor per exception class the modelled code throws or catches, with the data the
  handlers look at, and four outcomes that no handler can catch: \<open>Abort\<close> (a call of
  \<open>abort()\<close>), \<open>Stack_Overflow\<close> (recursion deeper than the thread's stack), \<open>Diverges\<close> (a loop
  that does not end) and \<open>Undefined\<close> (undefined behaviour of C++).
\<close>

datatype error =
    RemoteMemCopyError
  | InvalidRemoteAddress
  | InvalidCopiedMemory
  | InvalidRemoteObject
  | RuntimeError string
  | SystemError nat
  | RangeError
  | OutOfRange
  | InvalidArgument
  | LengthError
  | ElfAnalyzerError
  | CoreAnalyzerError
  | UnwinderError
  | NotEnoughInformation
  | EngineError
  | Abort
  | Stack_Overflow
  | Diverges
  | Undefined

type_synonym 'a result = "error + 'a"

text \<open>
  \<open>catch (RemoteMemCopyError&)\<close> also catches the classes derived from it: \<open>mem.h\<close> derives
  \<open>InvalidRemoteAddress\<close> and \<open>InvalidCopiedMemory\<close>, \<open>process.h\<close> derives
  \<open>InvalidRemoteObject\<close> from the latter. \<open>catch (...)\<close> catches every exception.
\<close>

fun is_remote_copy_error :: "error \<Rightarrow> bool" where
  "is_remote_copy_error RemoteMemCopyError = True"
| "is_remote_copy_error InvalidRemoteAddress = True"
| "is_remote_copy_error InvalidCopiedMemory = True"
| "is_remote_copy_error InvalidRemoteObject = True"
| "is_remote_copy_error _ = False"

fun is_exception :: "error \<Rightarrow> bool" where
  "is_exception Abort = False"
| "is_exception Stack_Overflow = False"
| "is_exception Diverges = False"
| "is_exception Undefined = False"
| "is_exception _ = True"

lemma remote_copy_error_is_exception: "is_remote_copy_error e \<Longrightarrow> is_exception e"
  by (cases e) simp_all

definition rbind :: "'a result \<Rightarrow> ('a \<Rightarrow> 'b result) \<Rightarrow> 'b result" where
  "rbind m f = (case m of Inl e \<Rightarrow> Inl e | Inr x \<Rightarrow> f x)"

definition try_catch :: "'a result \<Rightarrow> (error \<Rightarrow> bool) \<Rightarrow> (error \<Rightarrow> 'a result) \<Rightarrow> 'a result" where
  "try_catch m caught handler =
     (case m of Inl e \<Rightarrow> (if caught e then handler e else Inl e) | Inr x \<Rightarrow> Inr x)"

fun rmap :: "('a \<Rightarrow> 'b result) \<Rightarrow> 'a list \<Rightarrow> 'b list result" where
  "rmap f [] = Inr []"
| "rmap f (x # xs) = rbind (f x) (\<lambda>y. rbind (rmap f xs) (\<lambda>ys. Inr (y # ys)))"

abbreviation succeeds :: "'a result \<Rightarrow> bool" where
  "succeeds m \<equiv> \<exists>x. m = Inr x"

lemma rbind_simps [simp, result_simps]:
  "rbind (Inl e) f = Inl e"
  "rbind (Inr x) f = f x"
  by (simp_all add: rbind_def)

lemma rbind_eq_Inr [result_simps]:
  "rbind m f = Inr y \<longleftrightarrow> (\<exists>x. m = Inr x \<and> f x = Inr y)"
  by (cases m) auto

lemma rbind_eq_Inl [result_simps]:
  "rbind m f = Inl e \<longleftrightarrow> m = Inl e \<or> (\<exists>x. m = Inr x \<and> f x = Inl e)"
  by (cases m) auto

lemma rbind_InrE:
  assumes "rbind m f = Inr y"
  obtains x where "m = Inr x" and "f x = Inr y"
  using assms by (cases m) auto

lemma rbind_Inr_right [simp]: "rbind m Inr = m"
  by (cases m) auto

lemma rbind_assoc: "rbind (rbind m f) g = rbind m (\<lambda>x. rbind (f x) g)"
  by (cases m) auto

lemma rbind_cong [fundef_cong]:
  assumes "m = m'" and "\<And>x. m' = Inr x \<Longrightarrow> f x = f' x"
  shows "rbind m f = rbind m' f'"
  using assms by (cases m') auto

lemma try_catch_simps [simp, result_simps]:
  "try_catch (Inr x) c h = Inr x"
  "try_catch (Inl e) c h = (if c e then h e else Inl e)"
  by (simp_all add: try_catch_def)

lemma try_catch_cong [fundef_cong]:
  assumes "m = m'" and "\<And>e. m' = Inl e \<Longrightarrow> c e \<Longrightarrow> h e = h' e"
  shows "try_catch m c h = try_catch m' c h'"
  using assms by (cases m') auto

lemma try_catch_eq_Inr [result_simps]:
  "try_catch m c h = Inr y \<longleftrightarrow> m = Inr y \<or> (\<exists>e. m = Inl e \<and> c e \<and> h e = Inr y)"
  by (cases m) auto

lemma rmap_eq_Inr_length: "rmap f xs = Inr ys \<Longrightarrow> length ys = length xs"
  by (induction xs arbitrary: ys) (auto simp: result_simps)

lemma rmap_eq_Inr_iff:
  "rmap f xs = Inr ys \<longleftrightarrow> list_all2 (\<lambda>x y. f x = Inr y) xs ys"
  by (induction xs arbitrary: ys) (auto simp: result_simps list_all2_Cons1)

lemma rmap_Inr [simp]: "rmap (\<lambda>x. Inr (f x)) xs = Inr (map f xs)"
  by (induction xs) auto

section \<open>Words as numbers\<close>

text \<open>
  Word arithmetic wraps. The lemmas below say when a sum or a difference of words is the sum or
  difference of the numbers, which is where the range conditions of the properties come from.
\<close>

lemma word_le_unat [word_order]: "(a :: 'a::len word) \<le> b \<longleftrightarrow> unat a \<le> unat b"
  by (simp add: word_le_nat_alt)

lemma word_less_unat [word_order]: "(a :: 'a::len word) < b \<longleftrightarrow> unat a < unat b"
  by (simp add: word_less_nat_alt)

lemma unat_plus_no_wrap:
  "unat a + unat b < 2 ^ 64 \<Longrightarrow> unat (a + b :: 64 word) = unat a + unat b"
  by (subst unat_word_ariths) simp

lemma unat_minus_no_wrap:
  "unat b \<le> unat a \<Longrightarrow> unat (a - b :: 64 word) = unat a - unat b"
  by (simp add: unat_sub_if' )

lemma unat_of_nat_size: "n < 2 ^ 64 \<Longrightarrow> unat (of_nat n :: 64 word) = n"
  by (simp add: unat_of_nat)

lemma unat_lt_64: "unat (a :: 64 word) < 2 ^ 64"
  using unsigned_less [of a] by simp

lemma of_nat_less_64:
  "a < 2 ^ 64 \<Longrightarrow> b < 2 ^ 64 \<Longrightarrow> (of_nat a :: 64 word) < of_nat b \<longleftrightarrow> a < b"
  by (simp add: word_less_unat unat_of_nat_size)

lemma digit_div_mod:
  fixes q r b :: nat
  assumes "r < b"
  shows "(q * b + r) div b = q" and "(q * b + r) mod b = r"
  using assms by auto

lemma of_nat_unat_size [simp]: "(of_nat (unat (a :: 64 word)) :: 64 word) = a"
  by simp

text \<open>\<open>ssize_t\<close> is a \<open>64 word\<close> read with its sign.\<close>

lemma sint_nonneg_unat: "0 \<le> sint (a :: 64 word) \<longleftrightarrow> unat a < 2 ^ 63"
proof -
  have lt: "uint a < 2 ^ 64" using unsigned_less [of a] by simp
  have "0 \<le> sint a \<longleftrightarrow> \<not> bit (uint a) 63"
    by (simp add: sint_uint)
  also have "\<dots> \<longleftrightarrow> even (uint a div 2 ^ 63)" by (simp add: bit_iff_odd)
  also have "\<dots> \<longleftrightarrow> uint a < 2 ^ 63"
  proof -
    have "uint a div 2 ^ 63 \<in> {0, 1}"
      using lt unsigned_greater_eq [of a] by auto
    moreover have "uint a div 2 ^ 63 = 0 \<longleftrightarrow> uint a < 2 ^ 63"
      using unsigned_greater_eq [of a] by (auto simp: div_eq_0_iff zdiv_eq_0_iff)
    ultimately show ?thesis by auto
  qed
  also have "\<dots> \<longleftrightarrow> unat a < 2 ^ 63" by (simp add: uint_nat del: of_nat_unat)
  finally show ?thesis .
qed

lemma sint_eq_unat: "unat (a :: 64 word) < 2 ^ 63 \<Longrightarrow> sint a = int (unat a)"
proof -
  assume "unat a < 2 ^ 63"
  then have "uint a < 2 ^ 63" by (simp add: uint_nat del: of_nat_unat)
  moreover have "- (2 ^ 63) \<le> uint a"
    by (rule order_trans [OF _ uint_ge_0]) simp
  ultimately have "signed_take_bit 63 (uint a) = uint a"
    by (intro signed_take_bit_int_eq_self)
  then show ?thesis by (simp add: sint_uint uint_nat del: of_nat_unat)
qed

lemma unat_scast_nonneg:
  fixes w :: "32 word"
  assumes "0 \<le> sint w"
  shows "unat (scast w :: 64 word) = nat (sint w)"
proof -
  have lt: "sint w < 2 ^ 64" using sint_lt [of w] by simp
  have "uint (scast w :: 64 word) = sint w mod 2 ^ 64" by (simp only: scast_eq uint_word_of_int) simp
  also have "\<dots> = sint w" using assms lt by (intro mod_pos_pos_trivial) simp_all
  finally show ?thesis by (metis nat_uint_eq)
qed

section \<open>Little-endian integers\<close>

text \<open>
  \<open>getField\<close> and \<open>copyObjectFromProcess\<close> reinterpret copied bytes as integers. The
  platforms PyStack supports (x86-64 and AArch64 Linux) are little-endian.
\<close>

primrec le_nat :: "bytes \<Rightarrow> nat" where
  "le_nat [] = 0"
| "le_nat (b # bs) = unat b + 256 * le_nat bs"

definition le_word :: "bytes \<Rightarrow> 'a::len word" where
  "le_word bs = of_nat (le_nat bs)"

primrec le_encode :: "nat \<Rightarrow> nat \<Rightarrow> bytes" where
  "le_encode 0 n = []"
| "le_encode (Suc k) n = of_nat (n mod 256) # le_encode k (n div 256)"

lemma length_le_encode [simp]: "length (le_encode k n) = k"
  by (induction k arbitrary: n) auto

lemma le_nat_encode: "n < 256 ^ k \<Longrightarrow> le_nat (le_encode k n) = n"
proof (induction k arbitrary: n)
  case 0
  then show ?case by simp
next
  case (Suc k)
  have "n div 256 < 256 ^ k"
    using Suc.prems by (simp add: less_mult_imp_div_less mult.commute)
  then have "le_nat (le_encode k (n div 256)) = n div 256" by (rule Suc.IH)
  then show ?case by (simp add: unat_of_nat)
qed

lemma le_nat_bound: "le_nat bs < 256 ^ length bs"
proof (induction bs)
  case Nil
  then show ?case by simp
next
  case (Cons b bs)
  have "unat b < 256" using unsigned_less [of b] by simp
  with Cons.IH show ?case by simp
qed

lemma le_word_encode_8: "le_word (le_encode 8 (unat a)) = (a :: 64 word)"
  using le_nat_encode [of "unat a" 8] unat_lt_64 [of a] by (simp add: le_word_def)

text \<open>The bytes of a \<open>std::string\<close> copied from memory, as characters.\<close>

definition string_of_bytes :: "bytes \<Rightarrow> string" where
  "string_of_bytes bs = map (\<lambda>b. char_of (unat b)) bs"

lemma length_string_of_bytes [simp]: "length (string_of_bytes bs) = length bs"
  by (simp add: string_of_bytes_def)

text \<open>
  \<open>std::vector::resize\<close> to \<open>n\<close> elements of \<open>k\<close> bytes raises \<open>std::length_error\<close> when the vector
  would be larger than \<open>PTRDIFF_MAX\<close> bytes, in particular for a count that was negative before it
  became a \<open>size_t\<close>. Running out of memory is not modelled.
\<close>

definition vec_resize :: "nat \<Rightarrow> size_t \<Rightarrow> unit result" where
  "vec_resize k n = (if unat n * k < 2 ^ 63 then Inr () else Inl LengthError)"

lemma vec_resize_Inr [result_simps]: "vec_resize k n = Inr u \<longleftrightarrow> unat n * k < 2 ^ 63"
  by (simp add: vec_resize_def)

section \<open>Decimal numerals\<close>

text \<open>\<open>std::to_string\<close> of an unsigned and of a signed integer.\<close>

fun to_string :: "nat \<Rightarrow> string" where
  "to_string n =
     (if n < 10 then [char_of (48 + n)] else to_string (n div 10) @ [char_of (48 + n mod 10)])"

declare to_string.simps [simp del]

definition to_string_int :: "int \<Rightarrow> string" where
  "to_string_int i = (if i < 0 then ''-'' @ to_string (nat (- i)) else to_string (nat i))"

text \<open>Hexadecimal numerals, as \<open>std::hex\<close> writes them.\<close>

fun to_hex :: "nat \<Rightarrow> string" where
  "to_hex n =
     (if n < 16 then [''0123456789abcdef'' ! n] else to_hex (n div 16) @ [''0123456789abcdef'' ! (n mod 16)])"

declare to_hex.simps [simp del]

section \<open>Lists\<close>

text \<open>\<open>block off n xs\<close> is the run of \<open>n\<close> elements at offset \<open>off\<close>.\<close>

definition block :: "nat \<Rightarrow> nat \<Rightarrow> 'a list \<Rightarrow> 'a list" where
  "block off n xs = take n (drop off xs)"

lemma length_block: "length (block off n xs) = min n (length xs - off)"
  by (simp add: block_def)

lemma length_block_eq [simp]: "off + n \<le> length xs \<Longrightarrow> length (block off n xs) = n"
  by (simp add: length_block)

lemma block_all [simp]: "block 0 (length xs) xs = xs"
  by (simp add: block_def)

lemma block_block:
  "off' + n' \<le> n \<Longrightarrow> block off' n' (block off n xs) = block (off + off') n' xs"
  by (simp add: block_def drop_take min_def add.commute)

lemma block_append_left [simp]:
  "off + n \<le> length xs \<Longrightarrow> block off n (xs @ ys) = block off n xs"
  by (simp add: block_def)

lemma block_drop: "block a n (drop b xs) = block (a + b) n xs"
  by (simp add: block_def)

lemma map_block: "block off n (map f xs) = map f (block off n xs)"
  by (simp add: block_def take_map drop_map)

lemma block_upt: "off + n \<le> k \<Longrightarrow> block off n [0..<k] = [off..<off + n]"
  by (simp add: block_def)

lemma fst_in_image: "(k, s) \<in> set ns \<Longrightarrow> k \<in> fst ` set ns"
  by force

text \<open>\<open>std::find_if\<close> over a vector is \<open>List.find\<close>; what its result says.\<close>

lemma find_SomeD: "List.find P xs = Some x \<Longrightarrow> x \<in> set xs \<and> P x"
  by (auto simp: find_Some_iff)

lemma find_NoneD: "List.find P xs = None \<Longrightarrow> x \<in> set xs \<Longrightarrow> \<not> P x"
  by (auto simp: find_None_iff)

end
