(* ===== verification/Offsets.thy ===== *)
theory Offsets
  imports Prelude
begin

text \<open>
  The offset tables of \<open>version.h\<close>: for every CPython structure the size to copy and the offset of
  each field PyStack reads. A pointer to a member of such a table, with which the code names the
  field to read, is the selector of the offset together with the size of the field's type.
\<close>

type_synonym offset_t = "64 word"

text \<open>\<open>FieldOffset<T> S::*\<close>: the selector of the offset, and \<open>sizeof(T)\<close>.\<close>

type_synonym 's member = "('s \<Rightarrow> offset_t) \<times> nat"

text \<open>
  The bounds test of \<open>Structure::getField\<close>: the field of \<open>w\<close> bytes at offset \<open>off\<close> lies in
  the \<open>size\<close> bytes that were copied (\<open>size\<close> is an \<open>ssize_t\<close>; the subtraction is unsigned).
\<close>

definition field_in_bounds :: "size_t \<Rightarrow> offset_t \<Rightarrow> nat \<Rightarrow> bool" where
  "field_in_bounds sz off w \<longleftrightarrow>
     \<not> (sint sz < 0 \<or> unat sz < w \<or> sz - of_nat w < off)"

lemma field_in_bounds_unat:
  assumes "w < 2 ^ 63"
  shows "field_in_bounds sz off w \<longleftrightarrow> unat sz < 2 ^ 63 \<and> unat off + w \<le> unat sz"
proof -
  have sgn: "0 \<le> sint sz \<longleftrightarrow> unat sz < 2 ^ 63" by (rule sint_nonneg_unat)
  have w: "unat (of_nat w :: 64 word) = w"
    using assms by (intro unat_of_nat_size) simp
  have diff: "w \<le> unat sz \<Longrightarrow> unat (sz - of_nat w) = unat sz - w"
    using w by (simp add: unat_minus_no_wrap)
  show ?thesis
    unfolding field_in_bounds_def word_less_unat using sgn diff by fastforce
qed

section \<open>Object structures\<close>

record py_tuple_v =
  tuple_size :: size_t
  tuple_o_ob_size :: offset_t
  tuple_o_ob_item :: offset_t

record py_list_v =
  list_size :: size_t
  list_o_ob_size :: offset_t
  list_o_ob_item :: offset_t

record py_dict_v =
  dict_size :: size_t
  o_ma_keys :: offset_t
  o_ma_values :: offset_t

record py_dictkeys_v =
  dictkeys_size :: size_t
  o_dk_size :: offset_t
  o_dk_kind :: offset_t
  o_dk_nentries :: offset_t
  o_dk_indices :: offset_t

record py_dictvalues_v =
  dictvalues_size :: size_t
  o_values :: offset_t

record py_float_v =
  float_size :: size_t
  o_ob_fval :: offset_t

record py_long_v =
  long_size :: size_t
  long_o_ob_size :: offset_t
  o_ob_digit :: offset_t

record py_bytes_v =
  bytes_size :: size_t
  bytes_o_ob_size :: offset_t
  o_ob_sval :: offset_t

record py_unicode_v =
  unicode_size :: size_t
  o_state :: offset_t
  o_length :: offset_t
  o_ascii :: offset_t

record py_object_v =
  object_size :: size_t
  o_ob_type :: offset_t

record py_type_v =
  type_size :: size_t
  o_tp_name :: offset_t
  o_tp_repr :: offset_t
  o_tp_flags :: offset_t

section \<open>Code, frames, threads and interpreters\<close>

record py_code_v =
  code_size :: size_t
  o_filename :: offset_t
  o_name :: offset_t
  o_lnotab :: offset_t
  o_firstlineno :: offset_t
  o_argcount :: offset_t
  o_varnames :: offset_t
  o_code_adaptive :: offset_t

record py_frame_v =
  frame_size :: size_t
  o_back :: offset_t
  o_code :: offset_t
  o_lasti :: offset_t
  o_prev_instr :: offset_t
  o_localsplus :: offset_t
  o_is_entry :: offset_t
  o_owner :: offset_t

record py_thread_v =
  thread_size :: size_t
  o_prev :: offset_t
  thread_o_next :: offset_t
  o_interp :: offset_t
  o_frame :: offset_t
  o_thread_id :: offset_t
  o_native_thread_id :: offset_t

record py_is_v =
  is_size :: size_t
  is_o_next :: offset_t
  o_tstate_head :: offset_t
  is_o_gc :: offset_t
  o_modules :: offset_t
  o_sysdict :: offset_t
  o_builtins :: offset_t
  o_gil_runtime_state :: offset_t
  o_id :: offset_t

record py_gc_v =
  gc_size :: size_t
  o_collecting :: offset_t

record py_cframe_v =
  cframe_size :: size_t
  current_frame :: offset_t

record py_gilruntimestate_v =
  gilruntimestate_size :: size_t
  o_locked :: offset_t
  o_last_holder :: offset_t

section \<open>The runtime state and its debug offsets\<close>

text \<open>
  The fields \<open>o_dbg_off_*\<close> of \<open>py_runtime_v\<close>, one record per part of \<open>_Py_DebugOffsets\<close>: where
  in \<open>_PyRuntime\<close> the target publishes each of its own sizes and offsets.
\<close>

record dbg_runtime_state =
  dbg_runtime_state_struct_size :: offset_t
  dbg_runtime_state_finalizing :: offset_t
  dbg_runtime_state_interpreters_head :: offset_t

record dbg_interpreter_state =
  dbg_interpreter_state_struct_size :: offset_t
  dbg_interpreter_state_id :: offset_t
  dbg_interpreter_state_next :: offset_t
  dbg_interpreter_state_threads_head :: offset_t
  dbg_interpreter_state_gc :: offset_t
  dbg_interpreter_state_imports_modules :: offset_t
  dbg_interpreter_state_sysdict :: offset_t
  dbg_interpreter_state_builtins :: offset_t
  dbg_interpreter_state_ceval_gil :: offset_t
  dbg_interpreter_state_gil_runtime_state :: offset_t
  dbg_interpreter_state_gil_runtime_state_enabled :: offset_t
  dbg_interpreter_state_gil_runtime_state_locked :: offset_t
  dbg_interpreter_state_gil_runtime_state_holder :: offset_t

record dbg_thread_state =
  dbg_thread_state_struct_size :: offset_t
  dbg_thread_state_prev :: offset_t
  dbg_thread_state_next :: offset_t
  dbg_thread_state_interp :: offset_t
  dbg_thread_state_current_frame :: offset_t
  dbg_thread_state_thread_id :: offset_t
  dbg_thread_state_native_thread_id :: offset_t
  dbg_thread_state_datastack_chunk :: offset_t
  dbg_thread_state_status :: offset_t

record dbg_interpreter_frame =
  dbg_interpreter_frame_struct_size :: offset_t
  dbg_interpreter_frame_previous :: offset_t
  dbg_interpreter_frame_executable :: offset_t
  dbg_interpreter_frame_instr_ptr :: offset_t
  dbg_interpreter_frame_localsplus :: offset_t
  dbg_interpreter_frame_owner :: offset_t

record dbg_code_object =
  dbg_code_object_struct_size :: offset_t
  dbg_code_object_filename :: offset_t
  dbg_code_object_name :: offset_t
  dbg_code_object_qualname :: offset_t
  dbg_code_object_linetable :: offset_t
  dbg_code_object_firstlineno :: offset_t
  dbg_code_object_argcount :: offset_t
  dbg_code_object_localsplusnames :: offset_t
  dbg_code_object_localspluskinds :: offset_t
  dbg_code_object_co_code_adaptive :: offset_t

record dbg_type_object =
  dbg_type_object_struct_size :: offset_t
  dbg_type_object_tp_name :: offset_t
  dbg_type_object_tp_repr :: offset_t
  dbg_type_object_tp_flags :: offset_t

record dbg_containers =
  dbg_tuple_object_struct_size :: offset_t
  dbg_tuple_object_ob_item :: offset_t
  dbg_tuple_object_ob_size :: offset_t
  dbg_list_object_struct_size :: offset_t
  dbg_list_object_ob_item :: offset_t
  dbg_list_object_ob_size :: offset_t
  dbg_dict_object_struct_size :: offset_t
  dbg_dict_object_ma_keys :: offset_t
  dbg_dict_object_ma_values :: offset_t

record dbg_scalars =
  dbg_float_object_struct_size :: offset_t
  dbg_float_object_ob_fval :: offset_t
  dbg_long_object_struct_size :: offset_t
  dbg_long_object_lv_tag :: offset_t
  dbg_long_object_ob_digit :: offset_t
  dbg_bytes_object_struct_size :: offset_t
  dbg_bytes_object_ob_size :: offset_t
  dbg_bytes_object_ob_sval :: offset_t

record dbg_unicode_gc =
  dbg_unicode_object_struct_size :: offset_t
  dbg_unicode_object_state :: offset_t
  dbg_unicode_object_length :: offset_t
  dbg_unicode_object_asciiobject_size :: offset_t
  dbg_gc_struct_size :: offset_t
  dbg_gc_collecting :: offset_t

record debug_offsets_v =
  o_dbg_off_cookie :: offset_t
  o_dbg_off_py_version_hex :: offset_t
  o_dbg_off_free_threaded :: offset_t
  runtime_state :: dbg_runtime_state
  interpreter_state :: dbg_interpreter_state
  thread_state :: dbg_thread_state
  interpreter_frame :: dbg_interpreter_frame
  code_object :: dbg_code_object
  dbg_pyobject_struct_size :: offset_t
  dbg_pyobject_ob_type :: offset_t
  type_object :: dbg_type_object
  containers :: dbg_containers
  scalars :: dbg_scalars
  unicode_gc :: dbg_unicode_gc

record py_runtime_v =
  runtime_size :: size_t
  o_finalizing :: offset_t
  o_interp_head :: offset_t
  runtime_o_gc :: offset_t
  o_tstate_current :: offset_t
  debug_offsets :: debug_offsets_v

section \<open>All tables of a Python version\<close>

record python_v =
  py_tuple :: py_tuple_v
  py_list :: py_list_v
  py_dict :: py_dict_v
  py_dictkeys :: py_dictkeys_v
  py_dictvalues :: py_dictvalues_v
  py_float :: py_float_v
  py_long :: py_long_v
  py_bytes :: py_bytes_v
  py_unicode :: py_unicode_v
  py_object :: py_object_v
  py_type :: py_type_v
  py_code :: py_code_v
  py_frame :: py_frame_v
  py_thread :: py_thread_v
  py_is :: py_is_v
  py_runtime :: py_runtime_v
  py_gc :: py_gc_v
  py_cframe :: py_cframe_v
  py_gilruntimestate :: py_gilruntimestate_v

section \<open>Value-initialised tables\<close>

definition zero_py_tuple :: py_tuple_v where
  "zero_py_tuple =
     \<lparr>tuple_size = 0,
      tuple_o_ob_size = 0,
      tuple_o_ob_item = 0\<rparr>"

definition zero_py_list :: py_list_v where
  "zero_py_list =
     \<lparr>list_size = 0,
      list_o_ob_size = 0,
      list_o_ob_item = 0\<rparr>"

definition zero_py_dict :: py_dict_v where
  "zero_py_dict =
     \<lparr>dict_size = 0,
      o_ma_keys = 0,
      o_ma_values = 0\<rparr>"

definition zero_py_dictkeys :: py_dictkeys_v where
  "zero_py_dictkeys =
     \<lparr>dictkeys_size = 0,
      o_dk_size = 0,
      o_dk_kind = 0,
      o_dk_nentries = 0,
      o_dk_indices = 0\<rparr>"

definition zero_py_dictvalues :: py_dictvalues_v where
  "zero_py_dictvalues =
     \<lparr>dictvalues_size = 0,
      o_values = 0\<rparr>"

definition zero_py_float :: py_float_v where
  "zero_py_float =
     \<lparr>float_size = 0,
      o_ob_fval = 0\<rparr>"

definition zero_py_long :: py_long_v where
  "zero_py_long =
     \<lparr>long_size = 0,
      long_o_ob_size = 0,
      o_ob_digit = 0\<rparr>"

definition zero_py_bytes :: py_bytes_v where
  "zero_py_bytes =
     \<lparr>bytes_size = 0,
      bytes_o_ob_size = 0,
      o_ob_sval = 0\<rparr>"

definition zero_py_unicode :: py_unicode_v where
  "zero_py_unicode =
     \<lparr>unicode_size = 0,
      o_state = 0,
      o_length = 0,
      o_ascii = 0\<rparr>"

definition zero_py_object :: py_object_v where
  "zero_py_object =
     \<lparr>object_size = 0,
      o_ob_type = 0\<rparr>"

definition zero_py_type :: py_type_v where
  "zero_py_type =
     \<lparr>type_size = 0,
      o_tp_name = 0,
      o_tp_repr = 0,
      o_tp_flags = 0\<rparr>"

definition zero_py_code :: py_code_v where
  "zero_py_code =
     \<lparr>code_size = 0,
      o_filename = 0,
      o_name = 0,
      o_lnotab = 0,
      o_firstlineno = 0,
      o_argcount = 0,
      o_varnames = 0,
      o_code_adaptive = 0\<rparr>"

definition zero_py_frame :: py_frame_v where
  "zero_py_frame =
     \<lparr>frame_size = 0,
      o_back = 0,
      o_code = 0,
      o_lasti = 0,
      o_prev_instr = 0,
      o_localsplus = 0,
      o_is_entry = 0,
      o_owner = 0\<rparr>"

definition zero_py_thread :: py_thread_v where
  "zero_py_thread =
     \<lparr>thread_size = 0,
      o_prev = 0,
      thread_o_next = 0,
      o_interp = 0,
      o_frame = 0,
      o_thread_id = 0,
      o_native_thread_id = 0\<rparr>"

definition zero_py_is :: py_is_v where
  "zero_py_is =
     \<lparr>is_size = 0,
      is_o_next = 0,
      o_tstate_head = 0,
      is_o_gc = 0,
      o_modules = 0,
      o_sysdict = 0,
      o_builtins = 0,
      o_gil_runtime_state = 0,
      o_id = 0\<rparr>"

definition zero_py_runtime :: py_runtime_v where
  "zero_py_runtime =
     \<lparr>runtime_size = 0,
      o_finalizing = 0,
      o_interp_head = 0,
      runtime_o_gc = 0,
      o_tstate_current = 0,
      debug_offsets =
       \<lparr>o_dbg_off_cookie = 0,
        o_dbg_off_py_version_hex = 0,
        o_dbg_off_free_threaded = 0,
        runtime_state =
         \<lparr>dbg_runtime_state_struct_size = 0,
          dbg_runtime_state_finalizing = 0,
          dbg_runtime_state_interpreters_head = 0\<rparr>,
        interpreter_state =
         \<lparr>dbg_interpreter_state_struct_size = 0,
          dbg_interpreter_state_id = 0,
          dbg_interpreter_state_next = 0,
          dbg_interpreter_state_threads_head = 0,
          dbg_interpreter_state_gc = 0,
          dbg_interpreter_state_imports_modules = 0,
          dbg_interpreter_state_sysdict = 0,
          dbg_interpreter_state_builtins = 0,
          dbg_interpreter_state_ceval_gil = 0,
          dbg_interpreter_state_gil_runtime_state = 0,
          dbg_interpreter_state_gil_runtime_state_enabled = 0,
          dbg_interpreter_state_gil_runtime_state_locked = 0,
          dbg_interpreter_state_gil_runtime_state_holder = 0\<rparr>,
        thread_state =
         \<lparr>dbg_thread_state_struct_size = 0,
          dbg_thread_state_prev = 0,
          dbg_thread_state_next = 0,
          dbg_thread_state_interp = 0,
          dbg_thread_state_current_frame = 0,
          dbg_thread_state_thread_id = 0,
          dbg_thread_state_native_thread_id = 0,
          dbg_thread_state_datastack_chunk = 0,
          dbg_thread_state_status = 0\<rparr>,
        interpreter_frame =
         \<lparr>dbg_interpreter_frame_struct_size = 0,
          dbg_interpreter_frame_previous = 0,
          dbg_interpreter_frame_executable = 0,
          dbg_interpreter_frame_instr_ptr = 0,
          dbg_interpreter_frame_localsplus = 0,
          dbg_interpreter_frame_owner = 0\<rparr>,
        code_object =
         \<lparr>dbg_code_object_struct_size = 0,
          dbg_code_object_filename = 0,
          dbg_code_object_name = 0,
          dbg_code_object_qualname = 0,
          dbg_code_object_linetable = 0,
          dbg_code_object_firstlineno = 0,
          dbg_code_object_argcount = 0,
          dbg_code_object_localsplusnames = 0,
          dbg_code_object_localspluskinds = 0,
          dbg_code_object_co_code_adaptive = 0\<rparr>,
        dbg_pyobject_struct_size = 0,
        dbg_pyobject_ob_type = 0,
        type_object =
         \<lparr>dbg_type_object_struct_size = 0,
          dbg_type_object_tp_name = 0,
          dbg_type_object_tp_repr = 0,
          dbg_type_object_tp_flags = 0\<rparr>,
        containers =
         \<lparr>dbg_tuple_object_struct_size = 0,
          dbg_tuple_object_ob_item = 0,
          dbg_tuple_object_ob_size = 0,
          dbg_list_object_struct_size = 0,
          dbg_list_object_ob_item = 0,
          dbg_list_object_ob_size = 0,
          dbg_dict_object_struct_size = 0,
          dbg_dict_object_ma_keys = 0,
          dbg_dict_object_ma_values = 0\<rparr>,
        scalars =
         \<lparr>dbg_float_object_struct_size = 0,
          dbg_float_object_ob_fval = 0,
          dbg_long_object_struct_size = 0,
          dbg_long_object_lv_tag = 0,
          dbg_long_object_ob_digit = 0,
          dbg_bytes_object_struct_size = 0,
          dbg_bytes_object_ob_size = 0,
          dbg_bytes_object_ob_sval = 0\<rparr>,
        unicode_gc =
         \<lparr>dbg_unicode_object_struct_size = 0,
          dbg_unicode_object_state = 0,
          dbg_unicode_object_length = 0,
          dbg_unicode_object_asciiobject_size = 0,
          dbg_gc_struct_size = 0,
          dbg_gc_collecting = 0\<rparr>\<rparr>\<rparr>"

definition zero_py_gc :: py_gc_v where
  "zero_py_gc =
     \<lparr>gc_size = 0,
      o_collecting = 0\<rparr>"

definition zero_py_cframe :: py_cframe_v where
  "zero_py_cframe =
     \<lparr>cframe_size = 0,
      current_frame = 0\<rparr>"

definition zero_py_gilruntimestate :: py_gilruntimestate_v where
  "zero_py_gilruntimestate =
     \<lparr>gilruntimestate_size = 0,
      o_locked = 0,
      o_last_holder = 0\<rparr>"

text \<open>\<open>python_v{}\<close>.\<close>

definition zero_python_v :: python_v where
  "zero_python_v =
     \<lparr>py_tuple = zero_py_tuple,
      py_list = zero_py_list,
      py_dict = zero_py_dict,
      py_dictkeys = zero_py_dictkeys,
      py_dictvalues = zero_py_dictvalues,
      py_float = zero_py_float,
      py_long = zero_py_long,
      py_bytes = zero_py_bytes,
      py_unicode = zero_py_unicode,
      py_object = zero_py_object,
      py_type = zero_py_type,
      py_code = zero_py_code,
      py_frame = zero_py_frame,
      py_thread = zero_py_thread,
      py_is = zero_py_is,
      py_runtime = zero_py_runtime,
      py_gc = zero_py_gc,
      py_cframe = zero_py_cframe,
      py_gilruntimestate = zero_py_gilruntimestate\<rparr>"

end
