(* ===== verification/Remote_Memory.thy ===== *)
theory Remote_Memory
  imports Prelude
begin

text \<open>
  The interface of the memory managers (\<open>AbstractRemoteMemoryManager\<close> in \<open>mem.h\<close>):
  \<open>copyMemoryFromProcess\<close> fills the destination with exactly the requested number of bytes or
  raises. Everything above the memory layer relies on this contract only, and the live and the
  core-file managers are shown to provide it.
\<close>

type_synonym copier = "addr \<Rightarrow> size_t \<Rightarrow> bytes result"

locale remote_memory =
  fixes copy :: copier
  assumes copy_length: "copy a n = Inr bs \<Longrightarrow> length bs = unat n"

section \<open>Process images\<close>

text \<open>
  The memory of a stopped or dumped process is a partial function from addresses to bytes;
  \<open>image_read\<close> is the content of a range, if every byte of it is mapped.
\<close>

type_synonym image = "addr \<Rightarrow> byte option"

definition image_read :: "image \<Rightarrow> addr \<Rightarrow> nat \<Rightarrow> bytes option" where
  "image_read img a n = those (map (\<lambda>i. img (a + of_nat i)) [0..<n])"

lemma those_eq_Some: "those xs = Some ys \<longleftrightarrow> xs = map Some ys"
  by (induction xs arbitrary: ys) (auto split: option.splits simp: Cons_eq_map_conv)

lemma image_read_Some:
  "image_read img a n = Some bs \<longleftrightarrow>
     length bs = n \<and> (\<forall>i<n. img (a + of_nat i) = Some (bs ! i))"
  by (auto simp: image_read_def those_eq_Some list_eq_iff_nth_eq)

lemma image_read_length: "image_read img a n = Some bs \<Longrightarrow> length bs = n"
  by (simp add: image_read_Some)

lemma image_read_None:
  "image_read img a n = None \<longleftrightarrow> (\<exists>i<n. img (a + of_nat i) = None)"
proof -
  have "(\<forall>i<n. img (a + of_nat i) \<noteq> None) \<longleftrightarrow> (\<exists>bs. image_read img a n = Some bs)"
  proof
    assume "\<forall>i<n. img (a + of_nat i) \<noteq> None"
    then have "image_read img a n = Some (map (\<lambda>i. the (img (a + of_nat i))) [0..<n])"
      by (auto simp: image_read_Some)
    then show "\<exists>bs. image_read img a n = Some bs" ..
  qed (auto simp: image_read_Some)
  then show ?thesis by (metis not_None_eq)
qed

lemma image_read_append:
  assumes "image_read img a (length xs) = Some xs"
  shows "image_read img a (length xs + k) = map_option ((@) xs) (image_read img (a + of_nat (length xs)) k)"
proof (cases "image_read img (a + of_nat (length xs)) k")
  case None
  then obtain i where "i < k" "img (a + of_nat (length xs + i)) = None"
    by (auto simp: image_read_None algebra_simps)
  then have "image_read img a (length xs + k) = None"
    unfolding image_read_None by (intro exI [of _ "length xs + i"]) simp
  with None show ?thesis by simp
next
  case (Some ys)
  have "img (a + of_nat i) = Some ((xs @ ys) ! i)" if "i < length xs + k" for i
  proof (cases "i < length xs")
    case True
    with assms show ?thesis by (auto simp: image_read_Some nth_append)
  next
    case False
    then have a: "a + of_nat i = a + of_nat (length xs) + of_nat (i - length xs)"
      by (simp add: algebra_simps flip: of_nat_add)
    have "i - length xs < k" using that False by simp
    with Some have "img (a + of_nat i) = Some (ys ! (i - length xs))"
      unfolding a image_read_Some by blast
    with False show ?thesis by (simp add: nth_append)
  qed
  then have "image_read img a (length xs + k) = Some (xs @ ys)"
    using image_read_length [OF Some] by (simp add: image_read_Some)
  with Some show ?thesis by simp
qed

lemma image_read_block:
  assumes "image_read img a n = Some bs" and "off + k \<le> n"
  shows "image_read img (a + of_nat off) k = Some (block off k bs)"
  using assms by (auto simp: image_read_Some block_def add.assoc simp flip: of_nat_add)

text \<open>The outcome of a read of a range, and a manager that serves an image.\<close>

definition image_result :: "image \<Rightarrow> addr \<Rightarrow> nat \<Rightarrow> bytes result" where
  "image_result img a n =
     (case image_read img a n of None \<Rightarrow> Inl InvalidRemoteAddress | Some bs \<Rightarrow> Inr bs)"

definition image_copier :: "image \<Rightarrow> copier" where
  "image_copier img a n = image_result img a (unat n)"

interpretation image: remote_memory "image_copier img" for img
  by unfold_locales (auto simp: image_copier_def image_result_def dest: image_read_length
      split: option.splits)

end
