(* ===== verification/Virtual_Map.thy ===== *)
theory Virtual_Map
  imports Prelude
begin

text \<open>
  A mapping of the inspected process (\<open>VirtualMap\<close> in \<open>mem.h\<close> and \<open>mem.cpp\<close>): its fields,
  its accessors, the address test every other component uses and the permission helpers.
\<close>

section \<open>State and accessors\<close>

record virtual_map =
  d_start :: addr
  d_end :: addr
  d_filesize :: size_t
  d_flags :: string
  d_offset :: size_t
  d_device :: string
  d_inode :: size_t
  d_path :: string

definition virtual_map_new ::
  "addr \<Rightarrow> addr \<Rightarrow> size_t \<Rightarrow> string \<Rightarrow> size_t \<Rightarrow> string \<Rightarrow> size_t \<Rightarrow> string \<Rightarrow> virtual_map" where
  "virtual_map_new start fin filesize flags offset device inode pathname =
     \<lparr>d_start = start, d_end = fin, d_filesize = filesize, d_flags = flags, d_offset = offset,
      d_device = device, d_inode = inode, d_path = pathname\<rparr>"

definition containsAddr :: "virtual_map \<Rightarrow> addr \<Rightarrow> bool" where
  "containsAddr m a \<longleftrightarrow> d_start m \<le> a \<and> a < d_end m"

definition map_Size :: "virtual_map \<Rightarrow> size_t" where
  "map_Size m = d_end m - d_start m"

definition isExecutable :: "virtual_map \<Rightarrow> bool" where
  "isExecutable m \<longleftrightarrow> CHR ''x'' \<in> set (d_flags m)"

definition isReadable :: "virtual_map \<Rightarrow> bool" where
  "isReadable m \<longleftrightarrow> CHR ''r'' \<in> set (d_flags m)"

definition isWritable :: "virtual_map \<Rightarrow> bool" where
  "isWritable m \<longleftrightarrow> CHR ''w'' \<in> set (d_flags m)"

definition isPrivate :: "virtual_map \<Rightarrow> bool" where
  "isPrivate m \<longleftrightarrow> CHR ''p'' \<in> set (d_flags m)"

section \<open>Addresses in a mapping\<close>

text \<open>An address in a mapping is its start plus an offset below its size.\<close>

lemma containsAddr_offset:
  assumes "containsAddr m a"
  shows "unat (a - d_start m) < unat (map_Size m)" and "a = d_start m + (a - d_start m)"
    and "unat (map_Size m) = unat (d_end m) - unat (d_start m)"
    and "unat (a - d_start m) = unat a - unat (d_start m)"
proof -
  have le: "unat (d_start m) \<le> unat a" "unat a < unat (d_end m)"
    using assms by (simp_all add: containsAddr_def word_order)
  then show "unat (map_Size m) = unat (d_end m) - unat (d_start m)"
    and "unat (a - d_start m) = unat a - unat (d_start m)"
    by (simp_all add: map_Size_def unat_minus_no_wrap)
  with le show "unat (a - d_start m) < unat (map_Size m)" by simp
qed simp

text \<open>
  A block whose first and last byte lie in a mapping lies in it entirely, provided the block is not
  empty and does not wrap around the address space.
\<close>

lemma containsAddr_block:
  assumes first: "containsAddr m a" and last: "containsAddr m (a + n - 1)"
    and ne: "n \<noteq> 0" and no_wrap: "unat a + unat n \<le> 2 ^ 64"
  shows "unat (a - d_start m) + unat n \<le> unat (map_Size m)"
proof -
  have n: "unat n \<noteq> 0" using ne by (simp add: unat_eq_0)
  have "unat (n - 1) = unat n - 1"
    using n by (simp add: unat_minus_no_wrap)
  moreover from this have "unat (a + (n - 1)) = unat a + (unat n - 1)"
    using no_wrap n by (subst unat_plus_no_wrap) auto
  ultimately have l: "unat (a + n - 1) = unat a + unat n - 1"
    using n by (simp add: algebra_simps)
  have "unat (a + n - 1) < unat (d_end m)" "unat (d_start m) \<le> unat a"
    using first last by (simp_all add: containsAddr_def word_order)
  with l n containsAddr_offset(3,4) [OF first] show ?thesis by simp
qed

end
