(* ===== verification/Structure_Reads.thy ===== *)
theory Structure_Reads
  imports Offsets Remote_Memory Virtual_Map
begin

text \<open>
  Reading structures of the target (\<open>Structure<T>\<close> in \<open>structure.h\<close>) and the part of
  \<open>AbstractProcessManager\<close> (\<open>process.h\<close>, \<open>process.cpp\<close>) that these reads go through: the
  version, the offset tables, the memory maps and the memory manager. The main facts relate a field
  read to the bytes of the process at the field's remote address.
\<close>

section \<open>The process manager\<close>

text \<open>
  The members of \<open>AbstractProcessManager\<close> that readers use. \<open>d_manager\<close> and
  \<open>d_is_address_valid\<close> are the two virtual methods of its memory manager; \<open>d_find_symbol\<close> is the
  lookup of a symbol by its unwinder (0 when there is none); \<open>d_tids\<close> is what \<open>Tids()\<close> returns.
\<close>

record manager =
  d_manager :: copier
  d_is_address_valid :: "addr \<Rightarrow> virtual_map \<Rightarrow> bool"
  d_find_symbol :: "string \<Rightarrow> addr"
  d_memory_maps :: "virtual_map list"
  manager_pid :: int
  d_tids :: "int list"
  d_major :: int
  d_minor :: int
  d_py_v :: "python_v option"
  d_is_free_threaded :: bool
  d_debug_offsets_addr :: addr
  d_debug_offsets :: "python_v option"

definition versionIsAtLeast :: "manager \<Rightarrow> int \<Rightarrow> int \<Rightarrow> bool" where
  "versionIsAtLeast m required_major required_minor \<longleftrightarrow>
     d_major m > required_major \<or> (d_major m = required_major \<and> d_minor m \<ge> required_minor)"

text \<open>\<open>offsets()\<close>; dereferencing a null \<open>d_py_v\<close> is undefined behaviour.\<close>

definition offsets :: "manager \<Rightarrow> python_v result" where
  "offsets m =
     (case d_debug_offsets m of
        Some v \<Rightarrow> Inr v
      | None \<Rightarrow> (case d_py_v m of Some v \<Rightarrow> Inr v | None \<Rightarrow> Inl Undefined))"

definition manager_isAddressValid :: "manager \<Rightarrow> addr \<Rightarrow> bool" where
  "manager_isAddressValid m addr \<longleftrightarrow> list_ex (d_is_address_valid m addr) (d_memory_maps m)"

text \<open>\<open>copyObjectFromProcess\<close> of an object of \<open>n\<close> bytes, read as an integer.\<close>

definition copyObjectFromProcess :: "manager \<Rightarrow> addr \<Rightarrow> nat \<Rightarrow> 'a::len word result" where
  "copyObjectFromProcess m addr n =
     rbind (d_manager m addr (of_nat n)) (\<lambda>bs. Inr (le_word bs))"

section \<open>Structures\<close>

text \<open>
  \<open>Structure<T>\<close> is determined by its address and by the table \<open>offsets().get<T>()\<close> with its
  \<open>size\<close>. The buffer it caches is the result of one copy; copying is a function of the range, so
  reading through the cached buffer and reading through a fresh copy are the same.
\<close>

type_synonym 's struct = "(python_v \<Rightarrow> 's) \<times> ('s \<Rightarrow> size_t)"

abbreviation S_tuple :: "py_tuple_v struct" where "S_tuple \<equiv> (py_tuple, tuple_size)"
abbreviation S_list :: "py_list_v struct" where "S_list \<equiv> (py_list, list_size)"
abbreviation S_dict :: "py_dict_v struct" where "S_dict \<equiv> (py_dict, dict_size)"
abbreviation S_dictkeys :: "py_dictkeys_v struct" where "S_dictkeys \<equiv> (py_dictkeys, dictkeys_size)"
abbreviation S_dictvalues :: "py_dictvalues_v struct" where
  "S_dictvalues \<equiv> (py_dictvalues, dictvalues_size)"
abbreviation S_float :: "py_float_v struct" where "S_float \<equiv> (py_float, float_size)"
abbreviation S_long :: "py_long_v struct" where "S_long \<equiv> (py_long, long_size)"
abbreviation S_bytes :: "py_bytes_v struct" where "S_bytes \<equiv> (py_bytes, bytes_size)"
abbreviation S_unicode :: "py_unicode_v struct" where "S_unicode \<equiv> (py_unicode, unicode_size)"
abbreviation S_object :: "py_object_v struct" where "S_object \<equiv> (py_object, object_size)"
abbreviation S_type :: "py_type_v struct" where "S_type \<equiv> (py_type, type_size)"
abbreviation S_code :: "py_code_v struct" where "S_code \<equiv> (py_code, code_size)"
abbreviation S_frame :: "py_frame_v struct" where "S_frame \<equiv> (py_frame, frame_size)"
abbreviation S_thread :: "py_thread_v struct" where "S_thread \<equiv> (py_thread, thread_size)"
abbreviation S_is :: "py_is_v struct" where "S_is \<equiv> (py_is, is_size)"
abbreviation S_runtime :: "py_runtime_v struct" where "S_runtime \<equiv> (py_runtime, runtime_size)"
abbreviation S_gc :: "py_gc_v struct" where "S_gc \<equiv> (py_gc, gc_size)"
abbreviation S_cframe :: "py_cframe_v struct" where "S_cframe \<equiv> (py_cframe, cframe_size)"
abbreviation S_gilruntimestate :: "py_gilruntimestate_v struct" where
  "S_gilruntimestate \<equiv> (py_gilruntimestate, gilruntimestate_size)"

text \<open>
  \<open>copyFromRemote\<close>: structures below 512 bytes go to an inline buffer of 512 bytes. The size is
  an \<open>ssize_t\<close>, so a negative one also takes that branch and asks for a huge copy, which would
  overrun the buffer if it succeeded.
\<close>

definition copyFromRemote :: "manager \<Rightarrow> 's struct \<Rightarrow> addr \<Rightarrow> bytes result" where
  "copyFromRemote m S addr =
     rbind (offsets m) (\<lambda>v.
       let d_size = snd S (fst S v) in
       if sint d_size < 512 then
         rbind (d_manager m addr d_size) (\<lambda>buf. if length buf \<le> 512 then Inr buf else Inl Undefined)
       else d_manager m addr d_size)"

definition getFieldRemoteAddress :: "manager \<Rightarrow> 's struct \<Rightarrow> addr \<Rightarrow> 's member \<Rightarrow> addr result" where
  "getFieldRemoteAddress m S addr field =
     rbind (offsets m) (\<lambda>v. Inr (addr + fst field (fst S v)))"

definition getField :: "manager \<Rightarrow> 's struct \<Rightarrow> addr \<Rightarrow> 's member \<Rightarrow> bytes result" where
  "getField m S addr field =
     rbind (copyFromRemote m S addr) (\<lambda>buf.
     rbind (offsets m) (\<lambda>v.
       let offset = fst field (fst S v) in
       if field_in_bounds (snd S (fst S v)) offset (snd field)
       then Inr (block (unat offset) (snd field) buf) else Inl Abort))"

text \<open>A field of an integer type.\<close>

definition getWord :: "manager \<Rightarrow> 's struct \<Rightarrow> addr \<Rightarrow> 's member \<Rightarrow> 'a::len word result" where
  "getWord m S addr field = rbind (getField m S addr field) (\<lambda>bs. Inr (le_word bs))"

section \<open>Facts about reads\<close>

lemma copyFromRemote_copied:
  assumes v: "offsets m = Inr v" and sz: "unat (snd S (fst S v)) < 2 ^ 63"
    and buf: "d_manager m addr (snd S (fst S v)) = Inr buf" "length buf = unat (snd S (fst S v))"
  shows "copyFromRemote m S addr = Inr buf"
proof -
  have "sint (snd S (fst S v)) < 512 \<longrightarrow> length buf \<le> 512"
    using sint_eq_unat [OF sz] buf(2) by linarith
  with v buf(1) show ?thesis by (auto simp: copyFromRemote_def Let_def)
qed

context remote_memory
begin

text \<open>A read that does not abort returns exactly the bytes of the field.\<close>

lemma getField_length:
  assumes m: "d_manager m = copy" and w: "snd field < 2 ^ 63"
    and r: "getField m S addr field = Inr bs"
  shows "length bs = snd field"
proof -
  obtain v buf where v: "offsets m = Inr v" "copyFromRemote m S addr = Inr buf"
      "field_in_bounds (snd S (fst S v)) (fst field (fst S v)) (snd field)"
      "bs = block (unat (fst field (fst S v))) (snd field) buf"
    using r by (auto simp: getField_def Let_def result_simps split: if_splits)
  have "length buf = unat (snd S (fst S v))"
    using v(1,2) m copy_length by (auto simp: copyFromRemote_def Let_def result_simps split: if_splits)
  with v(3,4) w show ?thesis by (simp add: field_in_bounds_unat)
qed

text \<open>
  The only ways a read fails: the tables are missing, the copy fails, the structure does not fit the
  inline buffer (a negative size), or the field is outside the structure.
\<close>

lemma getField_copied:
  assumes m: "d_manager m = copy" and v: "offsets m = Inr v"
    and sz: "unat (snd S (fst S v)) < 2 ^ 63" and buf: "copy addr (snd S (fst S v)) = Inr buf"
  shows "getField m S addr field =
    (if field_in_bounds (snd S (fst S v)) (fst field (fst S v)) (snd field)
     then Inr (block (unat (fst field (fst S v))) (snd field) buf) else Inl Abort)"
proof -
  have "copyFromRemote m S addr = Inr buf"
    using copyFromRemote_copied [OF v sz] m buf copy_length [OF buf] by simp
  with v show ?thesis by (simp add: getField_def Let_def)
qed

end

text \<open>
  Property C13. When a structure of the target is readable and the field lies in it, \<open>getField\<close>
  returns the bytes of the process at \<open>getFieldRemoteAddress\<close> of that field: reading through the
  local copy is the same as reading the field in place.
\<close>

theorem getField_reads_in_place:
  assumes v: "offsets m = Inr v"
    and bounds: "field_in_bounds (snd S (fst S v)) (sel (fst S v)) w" and w: "w < 2 ^ 63"
    and copy: "d_manager m addr (snd S (fst S v)) = image_result img addr (unat (snd S (fst S v)))"
    and readable: "image_read img addr (unat (snd S (fst S v))) = Some buf"
  shows "\<exists>field_addr. getFieldRemoteAddress m S addr (sel, w) = Inr field_addr \<and>
           getField m S addr (sel, w) = image_result img field_addr w"
proof -
  let ?sz = "snd S (fst S v)" and ?off = "sel (fst S v)"
  have b: "unat ?sz < 2 ^ 63" "unat ?off + w \<le> unat ?sz"
    using bounds w by (simp_all add: field_in_bounds_unat)
  have buf: "d_manager m addr ?sz = Inr buf" using copy readable by (simp add: image_result_def)
  have "copyFromRemote m S addr = Inr buf"
    by (rule copyFromRemote_copied [OF v b(1) buf image_read_length [OF readable]])
  then have "getField m S addr (sel, w) = Inr (block (unat ?off) w buf)"
    using v bounds by (simp add: getField_def Let_def)
  moreover have "image_read img (addr + ?off) w = Some (block (unat ?off) w buf)"
    using image_read_block [OF readable b(2)] by simp
  ultimately show ?thesis using v by (simp add: getFieldRemoteAddress_def image_result_def)
qed

text \<open>A small target: one Python object header at address 4096, and the tables to read it.\<close>

definition example_manager :: "image \<Rightarrow> python_v \<Rightarrow> manager" where
  "example_manager img v =
     \<lparr>d_manager = image_copier img, d_is_address_valid = (\<lambda>a m. a \<noteq> 0 \<and> containsAddr m a),
      d_find_symbol = (\<lambda>_. 0), d_memory_maps = [], manager_pid = 1, d_tids = [1], d_major = 3,
      d_minor = 12, d_py_v = Some v, d_is_free_threaded = False, d_debug_offsets_addr = 0,
      d_debug_offsets = None\<rparr>"

definition header_image :: image where
  "header_image a = (if 4096 \<le> a \<and> a < 4112 then Some (ucast (a - 4096)) else None)"

definition header_tables :: python_v where
  "header_tables = zero_python_v\<lparr>py_object := \<lparr>object_size = 16, o_ob_type = 8\<rparr>\<rparr>"

theorem getField_reads_in_place_witness:
  "getField (example_manager header_image header_tables) S_object 4096 (o_ob_type, 8) =
     Inr [8, 9, 10, 11, 12, 13, 14, 15]"
proof -
  let ?m = "example_manager header_image header_tables"
  have tables: "snd S_object (fst S_object header_tables) = 16" "o_ob_type (fst S_object header_tables) = 8"
    by (simp_all add: header_tables_def)
  have "\<exists>field_addr. getFieldRemoteAddress ?m S_object 4096 (o_ob_type, 8) = Inr field_addr \<and>
      getField ?m S_object 4096 (o_ob_type, 8) = image_result header_image field_addr 8"
  proof (rule getField_reads_in_place)
    show v: "offsets ?m = Inr header_tables" by (simp add: offsets_def example_manager_def)
    show "field_in_bounds (snd S_object (fst S_object header_tables)) (o_ob_type (fst S_object header_tables)) 8"
      unfolding tables by (simp add: field_in_bounds_unat)
    show "d_manager ?m 4096 (snd S_object (fst S_object header_tables)) =
        image_result header_image 4096 (unat (snd S_object (fst S_object header_tables)))"
      by (simp add: example_manager_def image_copier_def)
    show "image_read header_image 4096 (unat (snd S_object (fst S_object header_tables))) =
        Some [0, 1, 2, 3, 4, 5, 6, 7, 8, 9, 10, 11, 12, 13, 14, 15]"
      unfolding tables by (simp add: image_read_def header_image_def upt_rec)
  qed simp
  moreover have "getFieldRemoteAddress ?m S_object 4096 (o_ob_type, 8) = Inr 4104"
    by (simp add: getFieldRemoteAddress_def offsets_def example_manager_def header_tables_def)
  moreover have "image_result header_image 4104 8 = Inr [8, 9, 10, 11, 12, 13, 14, 15]"
    by (simp add: image_result_def image_read_def header_image_def upt_rec)
  ultimately show ?thesis by simp
qed

end
