(* ===== verification/C_Layout.thy ===== *)
theory C_Layout
  imports Prelude
begin

text \<open>
  The C structures of CPython that PyStack declares in \<open>cpython/*.h\<close>, as data: every struct
  and union with its members in order, and the layout rules of the System V ABI for LP64
  (x86-64 and AArch64) that give \<open>sizeof\<close> and \<open>offsetof\<close>.
\<close>

section \<open>Types and their layout\<close>

text \<open>
  \<open>CPrim n\<close> is a scalar of \<open>n\<close> bytes aligned at \<open>n\<close>; \<open>CAligned\<close> is
  \<open>__attribute__((aligned(n)))\<close>. A member has a name (empty for an anonymous one), the width of a
  bit-field if it is one, and its type.
\<close>

datatype ctype =
    CPrim nat
  | CPtr
  | CArr nat ctype
  | CAligned nat ctype
  | CStruct "(string \<times> nat option \<times> ctype) list"
  | CUnion "(string \<times> nat option \<times> ctype) list"

abbreviation fld :: "string \<Rightarrow> ctype \<Rightarrow> string \<times> nat option \<times> ctype" where
  "fld name t \<equiv> (name, None, t)"

abbreviation bits :: "string \<Rightarrow> nat \<Rightarrow> ctype \<Rightarrow> string \<times> nat option \<times> ctype" where
  "bits name w t \<equiv> (name, Some w, t)"

definition round_up :: "nat \<Rightarrow> nat \<Rightarrow> nat" where
  "round_up n a = ((n + a - 1) div a) * a"

fun calign :: "ctype \<Rightarrow> nat" where
  "calign (CPrim n) = max 1 n"
| "calign CPtr = 8"
| "calign (CArr n t) = calign t"
| "calign (CAligned n t) = max n (calign t)"
| "calign (CStruct fs) = fold (\<lambda>(_, _, t) a. max (calign t) a) fs 1"
| "calign (CUnion fs) = fold (\<lambda>(_, _, t) a. max (calign t) a) fs 1"

text \<open>
  Placing a member at or after bit \<open>pos\<close>: an ordinary member at the next multiple of its
  alignment; a bit-field at \<open>pos\<close> unless it would straddle a storage unit of its type (an integer
  type, as large as it is aligned). The result is the member's first bit and the bit after it.
\<close>

fun place :: "nat \<Rightarrow> nat option \<times> nat \<times> nat \<Rightarrow> nat \<times> nat" where
  "place pos (None, sz, al) = (let start = round_up pos (8 * al) in (start, start + 8 * sz))"
| "place pos (Some w, sz, al) =
     (let start = (if pos mod (8 * al) + w > 8 * al then round_up pos (8 * al) else pos)
      in (start, start + w))"

fun csize :: "ctype \<Rightarrow> nat" where
  "csize (CPrim n) = n"
| "csize CPtr = 8"
| "csize (CArr n t) = n * csize t"
| "csize (CAligned n t) = csize t"
| "csize (CStruct fs) =
     round_up (round_up (fold (\<lambda>(_, b, t) pos. snd (place pos (b, csize t, calign t))) fs 0) 8 div 8)
              (calign (CStruct fs))"
| "csize (CUnion fs) =
     round_up (fold (\<lambda>(_, b, t) n. max (csize t) n) fs 0) (calign (CUnion fs))"

text \<open>
  The byte offset and the type of a member of a struct or union; \<open>offsetof\<close> does not compile for a
  bit-field.
\<close>

fun struct_member ::
  "nat \<Rightarrow> (string \<times> nat option \<times> ctype) list \<Rightarrow> string \<Rightarrow> (nat \<times> ctype) option" where
  "struct_member pos [] name = None"
| "struct_member pos ((n, b, t) # fs) name =
     (case place pos (b, csize t, calign t) of
        (start, stop) \<Rightarrow>
          if n = name then (if b = None then Some (start div 8, t) else None)
          else struct_member stop fs name)"

fun cmember :: "ctype \<Rightarrow> string \<Rightarrow> (nat \<times> ctype) option" where
  "cmember (CStruct fs) name = struct_member 0 fs name"
| "cmember (CUnion fs) name =
     map_option (\<lambda>(_, _, t). (0, t)) (List.find (\<lambda>(n, _, _). n = name) fs)"
| "cmember _ name = None"

fun cpath :: "ctype \<Rightarrow> string list \<Rightarrow> (nat \<times> ctype) option" where
  "cpath t [] = Some (0, t)"
| "cpath t (n # ns) =
     (case cmember t n of
        None \<Rightarrow> None
      | Some (off, t') \<Rightarrow> map_option (\<lambda>(off', t''). (off + off', t'')) (cpath t' ns))"

definition sizeof :: "ctype \<Rightarrow> 64 word" where
  "sizeof t = of_nat (csize t)"

text \<open>\<open>offsetof\<close> does not compile for a member that does not exist.\<close>

definition offsetof :: "ctype \<Rightarrow> string list \<Rightarrow> 64 word" where
  "offsetof t path = (case cpath t path of Some (off, _) \<Rightarrow> of_nat off | None \<Rightarrow> undefined)"

section \<open>A member lies within its structure\<close>

lemma fold_max_pos:
  "0 < k \<Longrightarrow> 0 < fold (\<lambda>(_, _, t) a. max (calign t) a) fs k"
proof (induction fs arbitrary: k)
  case (Cons f fs)
  then show ?case by (cases f) (simp add: less_max_iff_disj)
qed simp

lemma calign_pos: "0 < calign t"
proof (induction t rule: calign.induct)
  case (5 fs)
  show ?case unfolding calign.simps by (rule fold_max_pos) simp
next
  case (6 fs)
  show ?case unfolding calign.simps by (rule fold_max_pos) simp
qed (simp_all add: less_max_iff_disj)

lemma round_up_ge: "0 < a \<Longrightarrow> n \<le> round_up n a"
proof -
  assume "0 < a"
  then have "(n + a - 1) mod a < a" by simp
  moreover have "(n + a - 1) div a * a + (n + a - 1) mod a = n + a - 1" by (rule div_mult_mod_eq)
  ultimately show ?thesis unfolding round_up_def by linarith
qed

lemma round_up_dvd: "a dvd round_up n a"
  by (simp add: round_up_def)

lemma place_ge: "0 < al \<Longrightarrow> pos \<le> snd (place pos (b, sz, al))"
  using round_up_ge [of "8 * al" pos] by (cases b) (auto simp: Let_def)

lemma place_member:
  "place pos (None, sz, al) = (start, stop) \<Longrightarrow> 8 * (start div 8 + sz) = stop"
  using round_up_dvd [of "8 * al" pos] by (auto simp: Let_def dvd_def)

abbreviation place_all :: "(string \<times> nat option \<times> ctype) list \<Rightarrow> nat \<Rightarrow> nat" where
  "place_all fs pos \<equiv> fold (\<lambda>(_, b, t) pos. snd (place pos (b, csize t, calign t))) fs pos"

lemma place_all_ge: "pos \<le> place_all fs pos"
proof (induction fs arbitrary: pos)
  case (Cons f fs)
  obtain n b t where "f = (n, b, t)" by (cases f)
  with Cons [of "snd (place pos (b, csize t, calign t))"] place_ge [OF calign_pos, of pos b "csize t" t]
  show ?case by simp
qed simp

lemma struct_member_bounds:
  "struct_member pos fs name = Some (off, t) \<Longrightarrow> 8 * (off + csize t) \<le> place_all fs pos"
proof (induction pos fs name rule: struct_member.induct)
  case (2 pos n b t' fs name)
  obtain start stop where p: "place pos (b, csize t', calign t') = (start, stop)" by fastforce
  show ?case
  proof (cases "n = name")
    case True
    with 2(2) p have "b = None" "off = start div 8" "t = t'" by (auto split: if_splits)
    with p place_member place_all_ge [of stop fs] show ?thesis by fastforce
  next
    case False
    with 2 p show ?thesis by auto
  qed
qed simp

lemma union_fold_ge: "k \<le> fold (\<lambda>(_, b, t) n. max (csize t) n) fs k"
  by (induction fs arbitrary: k) (auto intro: order_trans [OF max.cobounded2])

lemma union_member_bounds:
  "(n, b, t) \<in> set fs \<Longrightarrow> csize t \<le> fold (\<lambda>(_, b, t) n. max (csize t) n) fs k"
proof (induction fs arbitrary: k)
  case (Cons f fs)
  show ?case
  proof (cases "f = (n, b, t)")
    case True
    have "csize t \<le> max (csize t) k" by simp
    also have "\<dots> \<le> fold (\<lambda>(_, b, t) n. max (csize t) n) fs (max (csize t) k)"
      by (rule union_fold_ge)
    finally show ?thesis using True by simp
  next
    case False
    with Cons show ?thesis by (cases f) auto
  qed
qed simp

lemma cmember_bounds: "cmember t name = Some (off, t') \<Longrightarrow> off + csize t' \<le> csize t"
proof (cases t)
  case (CStruct fs)
  assume "cmember t name = Some (off, t')"
  with CStruct have "8 * (off + csize t') \<le> place_all fs 0" by (auto dest: struct_member_bounds)
  also have "\<dots> \<le> round_up (place_all fs 0) 8" by (rule round_up_ge) simp
  finally have "off + csize t' \<le> round_up (place_all fs 0) 8 div 8" by simp
  also have "\<dots> \<le> round_up (round_up (place_all fs 0) 8 div 8) (calign t)"
    by (rule round_up_ge [OF calign_pos])
  finally show ?thesis using CStruct by simp
next
  case (CUnion fs)
  assume "cmember t name = Some (off, t')"
  with CUnion obtain n b where "(n, b, t') \<in> set fs" "off = 0" by (auto dest: find_SomeD)
  then have "off + csize t' \<le> fold (\<lambda>(_, b, t) n. max (csize t) n) fs 0"
    using union_member_bounds by simp
  also have "\<dots> \<le> round_up (fold (\<lambda>(_, b, t) n. max (csize t) n) fs 0) (calign t)"
    by (rule round_up_ge [OF calign_pos])
  finally show ?thesis using CUnion by simp
qed auto

lemma cpath_bounds: "cpath t p = Some (off, t') \<Longrightarrow> off + csize t' \<le> csize t"
proof (induction t p arbitrary: off rule: cpath.induct)
  case (2 t n ns)
  then obtain o1 t1 o2 where "cmember t n = Some (o1, t1)" "cpath t1 ns = Some (o2, t')" "off = o1 + o2"
    by (auto split: option.splits)
  with 2(1) [of "(o1, t1)" o1 t1] cmember_bounds show ?case by fastforce
qed simp

text \<open>The type of a member, found without computing offsets.\<close>

fun member_type :: "(string \<times> nat option \<times> ctype) list \<Rightarrow> string \<Rightarrow> ctype option" where
  "member_type [] name = None"
| "member_type ((n, b, t) # fs) name =
     (if n = name then (if b = None then Some t else None) else member_type fs name)"

lemma struct_member_type: "map_option snd (struct_member pos fs name) = member_type fs name"
  by (induction pos fs name rule: struct_member.induct) (auto split: prod.splits)

fun path_type :: "ctype \<Rightarrow> string list \<Rightarrow> ctype option" where
  "path_type t [] = Some t"
| "path_type t (n # ns) =
     (case t of CStruct fs \<Rightarrow> Option.bind (member_type fs n) (\<lambda>t'. path_type t' ns) | _ \<Rightarrow> None)"

lemma path_type_cpath: "path_type t p = Some t' \<Longrightarrow> \<exists>off. cpath t p = Some (off, t')"
proof (induction t p rule: path_type.induct)
  case (2 t n ns)
  then obtain fs t1 where t: "t = CStruct fs" "member_type fs n = Some t1" "path_type t1 ns = Some t'"
    by (auto split: ctype.splits Option.bind_splits)
  then obtain o1 where "cmember t n = Some (o1, t1)"
    using struct_member_type [of 0 fs n] by auto
  with 2(1) [OF t(1) t(2)] t(3) show ?case by fastforce
qed simp

named_theorems layout "sizes and alignments of the declared structures"

section \<open>Types of the C library\<close>

text \<open>The two opaque pthread types of glibc on LP64: 48 and 40 bytes, aligned at 8.\<close>

definition C_pthread_cond_t :: ctype where
  "C_pthread_cond_t = CArr 6 (CPrim 8)"

definition C_pthread_mutex_t :: ctype where
  "C_pthread_mutex_t = CArr 5 (CPrim 8)"

lemma layout_pthread [layout]:
  "csize C_pthread_cond_t = 48" "calign C_pthread_cond_t = 8"
  "csize C_pthread_mutex_t = 40" "calign C_pthread_mutex_t = 8"
  by (simp_all add: C_pthread_cond_t_def C_pthread_mutex_t_def)

section \<open>\<open>cpython/object.h\<close>\<close>

definition C_PyObject :: ctype where
  "C_PyObject =
      CStruct [fld ''ob_refcnt'' (CPrim 8), fld ''ob_type'' CPtr]"

lemma layout_C_PyObject [layout]:
  "csize C_PyObject = 16" "calign C_PyObject = 8"
  by (simp_all add: C_PyObject_def round_up_def layout)

definition C_PyVarObject :: ctype where
  "C_PyVarObject =
      CStruct [fld ''ob_base'' C_PyObject, fld ''ob_size'' (CPrim 8)]"

lemma layout_C_PyVarObject [layout]:
  "csize C_PyVarObject = 24" "calign C_PyVarObject = 8"
  by (simp_all add: C_PyVarObject_def round_up_def layout)

definition Python2_PyTypeObject :: ctype where
  "Python2_PyTypeObject =
      CStruct [fld ''ob_base'' C_PyVarObject, fld ''tp_name'' CPtr, fld ''tp_basicsize'' (CPrim 8),
      fld ''tp_itemsize'' (CPrim 8), fld ''tp_dealloc'' CPtr, fld ''tp_print'' CPtr,
      fld ''tp_getattr'' CPtr, fld ''tp_setattr'' CPtr, fld ''tp_compare'' CPtr,
      fld ''tp_repr'' CPtr, fld ''tp_as_number'' CPtr, fld ''tp_as_sequence'' CPtr,
      fld ''tp_as_mapping'' CPtr, fld ''tp_hash'' CPtr, fld ''tp_call'' CPtr, fld ''tp_str'' CPtr,
      fld ''tp_getattro'' CPtr, fld ''tp_setattro'' CPtr, fld ''tp_as_buffer'' CPtr,
      fld ''tp_flags'' (CPrim 8), fld ''tp_doc'' CPtr, fld ''tp_traverse'' CPtr,
      fld ''tp_clear'' CPtr, fld ''tp_richcompare'' CPtr, fld ''tp_weaklistoffset'' (CPrim 8),
      fld ''tp_iter'' CPtr, fld ''tp_iternext'' CPtr, fld ''tp_methods'' CPtr,
      fld ''tp_members'' CPtr, fld ''tp_getset'' CPtr, fld ''tp_base'' CPtr, fld ''tp_dict'' CPtr,
      fld ''tp_descr_get'' CPtr, fld ''tp_descr_set'' CPtr, fld ''tp_dictoffset'' (CPrim 8),
      fld ''tp_init'' CPtr, fld ''tp_alloc'' CPtr, fld ''tp_new'' CPtr, fld ''tp_free'' CPtr,
      fld ''tp_is_gc'' CPtr, fld ''tp_bases'' CPtr, fld ''tp_mro'' CPtr, fld ''tp_cache'' CPtr,
      fld ''tp_subclasses'' CPtr, fld ''tp_weaklist'' CPtr, fld ''tp_del'' CPtr,
      fld ''tp_version_tag'' (CPrim 4)]"

lemma layout_Python2_PyTypeObject [layout]:
  "csize Python2_PyTypeObject = 392" "calign Python2_PyTypeObject = 8"
  by (simp_all add: Python2_PyTypeObject_def round_up_def layout)

definition Python3_3_PyTypeObject :: ctype where
  "Python3_3_PyTypeObject =
      CStruct [fld ''ob_base'' C_PyVarObject, fld ''tp_name'' CPtr, fld ''tp_basicsize'' (CPrim 8),
      fld ''tp_itemsize'' (CPrim 8), fld ''tp_dealloc'' CPtr, fld ''tp_print'' CPtr,
      fld ''tp_getattr'' CPtr, fld ''tp_setattr'' CPtr, fld ''tp_as_async'' CPtr,
      fld ''tp_repr'' CPtr, fld ''tp_as_number'' CPtr, fld ''tp_as_sequence'' CPtr,
      fld ''tp_as_mapping'' CPtr, fld ''tp_hash'' CPtr, fld ''tp_call'' CPtr, fld ''tp_str'' CPtr,
      fld ''tp_getattro'' CPtr, fld ''tp_setattro'' CPtr, fld ''tp_as_buffer'' CPtr,
      fld ''tp_flags'' (CPrim 8), fld ''tp_doc'' CPtr, fld ''tp_traverse'' CPtr,
      fld ''tp_clear'' CPtr, fld ''tp_richcompare'' CPtr, fld ''tp_weaklistoffset'' (CPrim 8),
      fld ''tp_iter'' CPtr, fld ''tp_iternext'' CPtr, fld ''tp_methods'' CPtr,
      fld ''tp_members'' CPtr, fld ''tp_getset'' CPtr, fld ''tp_base'' CPtr, fld ''tp_dict'' CPtr,
      fld ''tp_descr_get'' CPtr, fld ''tp_descr_set'' CPtr, fld ''tp_dictoffset'' (CPrim 8),
      fld ''tp_init'' CPtr, fld ''tp_alloc'' CPtr, fld ''tp_new'' CPtr, fld ''tp_free'' CPtr,
      fld ''tp_is_gc'' CPtr, fld ''tp_bases'' CPtr, fld ''tp_mro'' CPtr, fld ''tp_cache'' CPtr,
      fld ''tp_subclasses'' CPtr, fld ''tp_weaklist'' CPtr, fld ''tp_del'' CPtr,
      fld ''tp_version_tag'' (CPrim 4)]"

lemma layout_Python3_3_PyTypeObject [layout]:
  "csize Python3_3_PyTypeObject = 392" "calign Python3_3_PyTypeObject = 8"
  by (simp_all add: Python3_3_PyTypeObject_def round_up_def layout)

definition Python3_8_PyTypeObject :: ctype where
  "Python3_8_PyTypeObject =
      CStruct [fld ''ob_base'' C_PyVarObject, fld ''tp_name'' CPtr, fld ''tp_basicsize'' (CPrim 8),
      fld ''tp_itemsize'' (CPrim 8), fld ''tp_dealloc'' CPtr,
      fld ''tp_vectorcall_offset'' (CPrim 8), fld ''tp_getattr'' CPtr, fld ''tp_setattr'' CPtr,
      fld ''tp_as_async'' CPtr, fld ''tp_repr'' CPtr, fld ''tp_as_number'' CPtr,
      fld ''tp_as_sequence'' CPtr, fld ''tp_as_mapping'' CPtr, fld ''tp_hash'' CPtr,
      fld ''tp_call'' CPtr, fld ''tp_str'' CPtr, fld ''tp_getattro'' CPtr, fld ''tp_setattro'' CPtr,
      fld ''tp_as_buffer'' CPtr, fld ''tp_flags'' (CPrim 8), fld ''tp_doc'' CPtr,
      fld ''tp_traverse'' CPtr, fld ''tp_clear'' CPtr, fld ''tp_richcompare'' CPtr,
      fld ''tp_weaklistoffset'' (CPrim 8), fld ''tp_iter'' CPtr, fld ''tp_iternext'' CPtr,
      fld ''tp_methods'' CPtr, fld ''tp_members'' CPtr, fld ''tp_getset'' CPtr,
      fld ''tp_base'' CPtr, fld ''tp_dict'' CPtr, fld ''tp_descr_get'' CPtr,
      fld ''tp_descr_set'' CPtr, fld ''tp_dictoffset'' (CPrim 8), fld ''tp_init'' CPtr,
      fld ''tp_alloc'' CPtr, fld ''tp_new'' CPtr, fld ''tp_free'' CPtr, fld ''tp_is_gc'' CPtr,
      fld ''tp_bases'' CPtr, fld ''tp_mro'' CPtr, fld ''tp_cache'' CPtr, fld ''tp_subclasses'' CPtr,
      fld ''tp_weaklist'' CPtr, fld ''tp_del'' CPtr, fld ''tp_version_tag'' (CPrim 4)]"

lemma layout_Python3_8_PyTypeObject [layout]:
  "csize Python3_8_PyTypeObject = 392" "calign Python3_8_PyTypeObject = 8"
  by (simp_all add: Python3_8_PyTypeObject_def round_up_def layout)

section \<open>\<open>cpython/string.h\<close>\<close>

definition Python3_PyBytesObject :: ctype where
  "Python3_PyBytesObject =
      CStruct [fld ''ob_base'' C_PyVarObject, fld ''ob_shash'' (CPrim 8),
      fld ''ob_sval'' (CArr 1 (CPrim 1))]"

lemma layout_Python3_PyBytesObject [layout]:
  "csize Python3_PyBytesObject = 40" "calign Python3_PyBytesObject = 8"
  by (simp_all add: Python3_PyBytesObject_def round_up_def layout)

definition Python2_PyUnicodeObject :: ctype where
  "Python2_PyUnicodeObject =
      CStruct [fld ''ob_base'' C_PyObject, fld ''length'' (CPrim 8), fld ''str'' CPtr,
      fld ''hash'' (CPrim 8), fld ''defenc'' CPtr]"

lemma layout_Python2_PyUnicodeObject [layout]:
  "csize Python2_PyUnicodeObject = 48" "calign Python2_PyUnicodeObject = 8"
  by (simp_all add: Python2_PyUnicodeObject_def round_up_def layout)

definition Python2_PyStringObject :: ctype where
  "Python2_PyStringObject =
      CStruct [fld ''ob_base'' C_PyVarObject, fld ''ob_shash'' (CPrim 8),
      fld ''ob_sstate'' (CPrim 4), fld ''ob_sval'' (CArr 1 (CPrim 1))]"

lemma layout_Python2_PyStringObject [layout]:
  "csize Python2_PyStringObject = 40" "calign Python2_PyStringObject = 8"
  by (simp_all add: Python2_PyStringObject_def round_up_def layout)

definition Python3_PyUnicode_State :: ctype where
  "Python3_PyUnicode_State =
      CStruct [bits ''interned'' 2 (CPrim 4), bits ''kind'' 3 (CPrim 4),
      bits ''compact'' 1 (CPrim 4), bits ''ascii'' 1 (CPrim 4), bits ''ready'' 1 (CPrim 4),
      bits '''' 24 (CPrim 4)]"

lemma layout_Python3_PyUnicode_State [layout]:
  "csize Python3_PyUnicode_State = 4" "calign Python3_PyUnicode_State = 4"
  by (simp_all add: Python3_PyUnicode_State_def round_up_def layout)

definition Python3_PyASCIIObject :: ctype where
  "Python3_PyASCIIObject =
      CStruct [fld ''ob_base'' C_PyObject, fld ''length'' (CPrim 8), fld ''hash'' (CPrim 8),
      fld ''state'' Python3_PyUnicode_State, fld ''wstr'' CPtr]"

lemma layout_Python3_PyASCIIObject [layout]:
  "csize Python3_PyASCIIObject = 48" "calign Python3_PyASCIIObject = 8"
  by (simp_all add: Python3_PyASCIIObject_def round_up_def layout)

definition Python3_PyCompactUnicodeObject :: ctype where
  "Python3_PyCompactUnicodeObject =
      CStruct [fld ''_base'' Python3_PyASCIIObject, fld ''utf8_length'' (CPrim 8),
      fld ''utf8'' CPtr, fld ''wstr_length'' (CPrim 8)]"

lemma layout_Python3_PyCompactUnicodeObject [layout]:
  "csize Python3_PyCompactUnicodeObject = 72" "calign Python3_PyCompactUnicodeObject = 8"
  by (simp_all add: Python3_PyCompactUnicodeObject_def round_up_def layout)

definition Python3_PyUnicodeObject :: ctype where
  "Python3_PyUnicodeObject =
      CStruct [fld ''_base'' Python3_PyCompactUnicodeObject, fld ''data'' (CUnion [fld ''any'' CPtr,
      fld ''latin1'' CPtr, fld ''ucs2'' CPtr, fld ''ucs4'' CPtr])]"

lemma layout_Python3_PyUnicodeObject [layout]:
  "csize Python3_PyUnicodeObject = 80" "calign Python3_PyUnicodeObject = 8"
  by (simp_all add: Python3_PyUnicodeObject_def round_up_def layout)

definition Python3_12_PyASCIIObject :: ctype where
  "Python3_12_PyASCIIObject =
      CStruct [fld ''ob_base'' C_PyObject, fld ''length'' (CPrim 8), fld ''hash'' (CPrim 8),
      fld ''state'' Python3_PyUnicode_State]"

lemma layout_Python3_12_PyASCIIObject [layout]:
  "csize Python3_12_PyASCIIObject = 40" "calign Python3_12_PyASCIIObject = 8"
  by (simp_all add: Python3_12_PyASCIIObject_def round_up_def layout)

definition Python3_12_PyCompactUnicodeObject :: ctype where
  "Python3_12_PyCompactUnicodeObject =
      CStruct [fld ''_base'' Python3_12_PyASCIIObject, fld ''utf8_length'' (CPrim 8),
      fld ''utf8'' CPtr]"

lemma layout_Python3_12_PyCompactUnicodeObject [layout]:
  "csize Python3_12_PyCompactUnicodeObject = 56" "calign Python3_12_PyCompactUnicodeObject = 8"
  by (simp_all add: Python3_12_PyCompactUnicodeObject_def round_up_def layout)

definition Python3_12_PyUnicodeObject :: ctype where
  "Python3_12_PyUnicodeObject =
      CStruct [fld ''_base'' Python3_12_PyCompactUnicodeObject,
      fld ''data'' (CUnion [fld ''any'' CPtr, fld ''latin1'' CPtr, fld ''ucs2'' CPtr,
      fld ''ucs4'' CPtr])]"

lemma layout_Python3_12_PyUnicodeObject [layout]:
  "csize Python3_12_PyUnicodeObject = 64" "calign Python3_12_PyUnicodeObject = 8"
  by (simp_all add: Python3_12_PyUnicodeObject_def round_up_def layout)

definition Python3_14t_PyUnicode_State :: ctype where
  "Python3_14t_PyUnicode_State =
      CStruct [fld ''interned'' (CPrim 1), bits ''kind'' 3 (CPrim 4), bits ''compact'' 1 (CPrim 4),
      bits ''ascii'' 1 (CPrim 4), bits ''statically_allocated'' 1 (CPrim 4)]"

lemma layout_Python3_14t_PyUnicode_State [layout]:
  "csize Python3_14t_PyUnicode_State = 4" "calign Python3_14t_PyUnicode_State = 4"
  by (simp_all add: Python3_14t_PyUnicode_State_def round_up_def layout)

definition C_AnyPyUnicodeState :: ctype where
  "C_AnyPyUnicodeState =
      CUnion [fld ''python3'' Python3_PyUnicode_State,
      fld ''python3_14t'' Python3_14t_PyUnicode_State]"

lemma layout_C_AnyPyUnicodeState [layout]:
  "csize C_AnyPyUnicodeState = 4" "calign C_AnyPyUnicodeState = 4"
  by (simp_all add: C_AnyPyUnicodeState_def round_up_def layout)

section \<open>\<open>cpython/code.h\<close>\<close>

definition Python2_PyCodeObject :: ctype where
  "Python2_PyCodeObject =
      CStruct [fld ''ob_base'' C_PyObject, fld ''co_argcount'' (CPrim 4),
      fld ''co_nlocals'' (CPrim 4), fld ''co_stacksize'' (CPrim 4), fld ''co_flags'' (CPrim 4),
      fld ''co_code'' CPtr, fld ''co_consts'' CPtr, fld ''co_names'' CPtr, fld ''co_varnames'' CPtr,
      fld ''co_freevars'' CPtr, fld ''co_cellvars'' CPtr, fld ''co_filename'' CPtr,
      fld ''co_name'' CPtr, fld ''co_firstlineno'' (CPrim 4), fld ''co_lnotab'' CPtr]"

lemma layout_Python2_PyCodeObject [layout]:
  "csize Python2_PyCodeObject = 112" "calign Python2_PyCodeObject = 8"
  by (simp_all add: Python2_PyCodeObject_def round_up_def layout)

definition Python3_3_PyCodeObject :: ctype where
  "Python3_3_PyCodeObject =
      CStruct [fld ''ob_base'' C_PyObject, fld ''co_argcount'' (CPrim 4),
      fld ''co_kwonlyargcount'' (CPrim 4), fld ''co_nlocals'' (CPrim 4),
      fld ''co_stacksize'' (CPrim 4), fld ''co_flags'' (CPrim 4), fld ''co_code'' CPtr,
      fld ''co_consts'' CPtr, fld ''co_names'' CPtr, fld ''co_varnames'' CPtr,
      fld ''co_freevars'' CPtr, fld ''co_cellvars'' CPtr, fld ''co_cell2arg'' CPtr,
      fld ''co_filename'' CPtr, fld ''co_name'' CPtr, fld ''co_firstlineno'' (CPrim 4),
      fld ''co_lnotab'' CPtr]"

lemma layout_Python3_3_PyCodeObject [layout]:
  "csize Python3_3_PyCodeObject = 128" "calign Python3_3_PyCodeObject = 8"
  by (simp_all add: Python3_3_PyCodeObject_def round_up_def layout)

definition Python3_6_PyCodeObject :: ctype where
  "Python3_6_PyCodeObject =
      CStruct [fld ''ob_base'' C_PyObject, fld ''co_argcount'' (CPrim 4),
      fld ''co_kwonlyargcount'' (CPrim 4), fld ''co_nlocals'' (CPrim 4),
      fld ''co_stacksize'' (CPrim 4), fld ''co_flags'' (CPrim 4), fld ''co_firstlineno'' (CPrim 4),
      fld ''co_code'' CPtr, fld ''co_consts'' CPtr, fld ''co_names'' CPtr, fld ''co_varnames'' CPtr,
      fld ''co_freevars'' CPtr, fld ''co_cellvars'' CPtr, fld ''co_cell2arg'' CPtr,
      fld ''co_filename'' CPtr, fld ''co_name'' CPtr, fld ''co_lnotab'' CPtr]"

lemma layout_Python3_6_PyCodeObject [layout]:
  "csize Python3_6_PyCodeObject = 120" "calign Python3_6_PyCodeObject = 8"
  by (simp_all add: Python3_6_PyCodeObject_def round_up_def layout)

definition Python3_8_PyCodeObject :: ctype where
  "Python3_8_PyCodeObject =
      CStruct [fld ''ob_base'' C_PyObject, fld ''co_argcount'' (CPrim 4),
      fld ''co_posonlyargcount'' (CPrim 4), fld ''co_kwonlyargcount'' (CPrim 4),
      fld ''co_nlocals'' (CPrim 4), fld ''co_stacksize'' (CPrim 4), fld ''co_flags'' (CPrim 4),
      fld ''co_firstlineno'' (CPrim 4), fld ''co_code'' CPtr, fld ''co_consts'' CPtr,
      fld ''co_names'' CPtr, fld ''co_varnames'' CPtr, fld ''co_freevars'' CPtr,
      fld ''co_cellvars'' CPtr, fld ''co_cell2arg'' CPtr, fld ''co_filename'' CPtr,
      fld ''co_name'' CPtr, fld ''co_lnotab'' CPtr]"

lemma layout_Python3_8_PyCodeObject [layout]:
  "csize Python3_8_PyCodeObject = 128" "calign Python3_8_PyCodeObject = 8"
  by (simp_all add: Python3_8_PyCodeObject_def round_up_def layout)

definition Python3_11_PyCodeObject :: ctype where
  "Python3_11_PyCodeObject =
      CStruct [fld ''ob_base'' C_PyVarObject, fld ''co_consts'' CPtr, fld ''co_names'' CPtr,
      fld ''co_exceptiontable'' CPtr, fld ''co_flags'' (CPrim 4), fld ''co_warmup'' (CPrim 2),
      fld ''_co_linearray_entry_size'' (CPrim 2), fld ''co_argcount'' (CPrim 4),
      fld ''co_posonlyargcount'' (CPrim 4), fld ''co_kwonlyargcount'' (CPrim 4),
      fld ''co_stacksize'' (CPrim 4), fld ''co_firstlineno'' (CPrim 4),
      fld ''co_nlocalsplus'' (CPrim 4), fld ''co_nlocals'' (CPrim 4),
      fld ''co_nplaincellvars'' (CPrim 4), fld ''co_ncellvars'' (CPrim 4),
      fld ''co_nfreevars'' (CPrim 4), fld ''co_localsplusnames'' CPtr,
      fld ''co_localspluskinds'' CPtr, fld ''co_filename'' CPtr, fld ''co_name'' CPtr,
      fld ''co_qualname'' CPtr, fld ''co_linetable'' CPtr, fld ''co_weakreflist'' CPtr,
      fld ''_co_code'' CPtr, fld ''_co_linearray'' CPtr, fld ''_co_firsttraceable'' (CPrim 4),
      fld ''co_extra'' CPtr, fld ''co_code_adaptive'' (CArr 1 (CPrim 1))]"

lemma layout_Python3_11_PyCodeObject [layout]:
  "csize Python3_11_PyCodeObject = 192" "calign Python3_11_PyCodeObject = 8"
  by (simp_all add: Python3_11_PyCodeObject_def round_up_def layout)

definition Python3_12_PyCodeObject :: ctype where
  "Python3_12_PyCodeObject =
      CStruct [fld ''ob_base'' C_PyVarObject, fld ''co_consts'' CPtr, fld ''co_names'' CPtr,
      fld ''co_exceptiontable'' CPtr, fld ''co_flags'' (CPrim 4), fld ''co_argcount'' (CPrim 4),
      fld ''co_posonlyargcount'' (CPrim 4), fld ''co_kwonlyargcount'' (CPrim 4),
      fld ''co_stacksize'' (CPrim 4), fld ''co_firstlineno'' (CPrim 4),
      fld ''co_nlocalsplus'' (CPrim 4), fld ''co_framesize'' (CPrim 4),
      fld ''co_nlocals'' (CPrim 4), fld ''co_ncellvars'' (CPrim 4), fld ''co_nfreevars'' (CPrim 4),
      fld ''co_version'' (CPrim 4), fld ''co_localsplusnames'' CPtr,
      fld ''co_localspluskinds'' CPtr, fld ''co_filename'' CPtr, fld ''co_name'' CPtr,
      fld ''co_qualname'' CPtr, fld ''co_linetable'' CPtr, fld ''co_weakreflist'' CPtr,
      fld ''_co_cached'' CPtr, fld ''_co_instrumentation_version'' (CPrim 8),
      fld ''_co_monitoring'' CPtr, fld ''_co_firsttraceable'' (CPrim 4), fld ''co_extra'' CPtr,
      fld ''co_code_adaptive'' (CArr 1 (CPrim 1))]"

lemma layout_Python3_12_PyCodeObject [layout]:
  "csize Python3_12_PyCodeObject = 200" "calign Python3_12_PyCodeObject = 8"
  by (simp_all add: Python3_12_PyCodeObject_def round_up_def layout)

definition Python3_13_PyCodeObject :: ctype where
  "Python3_13_PyCodeObject =
      CStruct [fld ''ob_base'' C_PyVarObject, fld ''co_consts'' CPtr, fld ''co_names'' CPtr,
      fld ''co_exceptiontable'' CPtr, fld ''co_flags'' (CPrim 4), fld ''co_argcount'' (CPrim 4),
      fld ''co_posonlyargcount'' (CPrim 4), fld ''co_kwonlyargcount'' (CPrim 4),
      fld ''co_stacksize'' (CPrim 4), fld ''co_firstlineno'' (CPrim 4),
      fld ''co_nlocalsplus'' (CPrim 4), fld ''co_framesize'' (CPrim 4),
      fld ''co_nlocals'' (CPrim 4), fld ''co_ncellvars'' (CPrim 4), fld ''co_nfreevars'' (CPrim 4),
      fld ''co_version'' (CPrim 4), fld ''co_localsplusnames'' CPtr,
      fld ''co_localspluskinds'' CPtr, fld ''co_filename'' CPtr, fld ''co_name'' CPtr,
      fld ''co_qualname'' CPtr, fld ''co_linetable'' CPtr, fld ''co_weakreflist'' CPtr,
      fld ''co_executors'' CPtr, fld ''_co_cached'' CPtr,
      fld ''_co_instrumentation_version'' (CPrim 8), fld ''_co_monitoring'' CPtr,
      fld ''_co_firsttraceable'' (CPrim 4), fld ''co_extra'' CPtr,
      fld ''co_code_adaptive'' (CArr 1 (CPrim 1))]"

lemma layout_Python3_13_PyCodeObject [layout]:
  "csize Python3_13_PyCodeObject = 208" "calign Python3_13_PyCodeObject = 8"
  by (simp_all add: Python3_13_PyCodeObject_def round_up_def layout)

section \<open>\<open>cpython/dict.h\<close>\<close>

definition Python2_PyDictEntry :: ctype where
  "Python2_PyDictEntry =
      CStruct [fld ''me_hash'' (CPrim 8), fld ''me_key'' CPtr, fld ''me_value'' CPtr]"

lemma layout_Python2_PyDictEntry [layout]:
  "csize Python2_PyDictEntry = 24" "calign Python2_PyDictEntry = 8"
  by (simp_all add: Python2_PyDictEntry_def round_up_def layout)

definition Python2_PyDictObject :: ctype where
  "Python2_PyDictObject =
      CStruct [fld ''ob_base'' C_PyObject, fld ''ma_fill'' (CPrim 8), fld ''ma_used'' (CPrim 8),
      fld ''ma_mask'' (CPrim 8), fld ''ma_table'' CPtr]"

lemma layout_Python2_PyDictObject [layout]:
  "csize Python2_PyDictObject = 48" "calign Python2_PyDictObject = 8"
  by (simp_all add: Python2_PyDictObject_def round_up_def layout)

definition Python3_PyDictKeyEntry :: ctype where
  "Python3_PyDictKeyEntry =
      CStruct [fld ''me_hash'' (CPrim 8), fld ''me_key'' CPtr, fld ''me_value'' CPtr]"

lemma layout_Python3_PyDictKeyEntry [layout]:
  "csize Python3_PyDictKeyEntry = 24" "calign Python3_PyDictKeyEntry = 8"
  by (simp_all add: Python3_PyDictKeyEntry_def round_up_def layout)

definition Python3_PyDictObject :: ctype where
  "Python3_PyDictObject =
      CStruct [fld ''ob_base'' C_PyObject, fld ''ma_used'' (CPrim 8),
      fld ''ma_version_tag'' (CPrim 8), fld ''ma_keys'' CPtr, fld ''ma_values'' CPtr]"

lemma layout_Python3_PyDictObject [layout]:
  "csize Python3_PyDictObject = 48" "calign Python3_PyDictObject = 8"
  by (simp_all add: Python3_PyDictObject_def round_up_def layout)

definition Python3_PyDictValuesObject :: ctype where
  "Python3_PyDictValuesObject =
      CStruct [fld ''values'' (CArr 1 CPtr)]"

lemma layout_Python3_PyDictValuesObject [layout]:
  "csize Python3_PyDictValuesObject = 8" "calign Python3_PyDictValuesObject = 8"
  by (simp_all add: Python3_PyDictValuesObject_def round_up_def layout)

definition Python3_3_PyDictKeysObject :: ctype where
  "Python3_3_PyDictKeysObject =
      CStruct [fld ''dk_refcnt'' (CPrim 8), fld ''dk_size'' (CPrim 8), fld ''dk_lookup'' CPtr,
      fld ''dk_usable'' (CPrim 8), fld ''dk_nentries'' (CPrim 8),
      fld ''dk_indices'' (CArr 0 (CPrim 1))]"

lemma layout_Python3_3_PyDictKeysObject [layout]:
  "csize Python3_3_PyDictKeysObject = 40" "calign Python3_3_PyDictKeysObject = 8"
  by (simp_all add: Python3_3_PyDictKeysObject_def round_up_def layout)

definition Python3_11_PyDictUnicodeEntry :: ctype where
  "Python3_11_PyDictUnicodeEntry =
      CStruct [fld ''me_key'' CPtr, fld ''me_value'' CPtr]"

lemma layout_Python3_11_PyDictUnicodeEntry [layout]:
  "csize Python3_11_PyDictUnicodeEntry = 16" "calign Python3_11_PyDictUnicodeEntry = 8"
  by (simp_all add: Python3_11_PyDictUnicodeEntry_def round_up_def layout)

definition Python3_11_PyDictKeysObject :: ctype where
  "Python3_11_PyDictKeysObject =
      CStruct [fld ''dk_refcnt'' (CPrim 8), fld ''dk_log2_size'' (CPrim 1),
      fld ''dk_log2_index_bytes'' (CPrim 1), fld ''dk_kind'' (CPrim 1),
      fld ''dk_version'' (CPrim 4), fld ''dk_usable'' (CPrim 8), fld ''dk_nentries'' (CPrim 8),
      fld ''dk_indices'' (CArr 1 (CPrim 1))]"

lemma layout_Python3_11_PyDictKeysObject [layout]:
  "csize Python3_11_PyDictKeysObject = 40" "calign Python3_11_PyDictKeysObject = 8"
  by (simp_all add: Python3_11_PyDictKeysObject_def round_up_def layout)

definition Python3_13_PyDictValuesObject :: ctype where
  "Python3_13_PyDictValuesObject =
      CStruct [fld ''capacity'' (CPrim 1), fld ''size'' (CPrim 1), fld ''embedded'' (CPrim 1),
      fld ''valid'' (CPrim 1), fld ''values'' (CArr 1 CPtr)]"

lemma layout_Python3_13_PyDictValuesObject [layout]:
  "csize Python3_13_PyDictValuesObject = 16" "calign Python3_13_PyDictValuesObject = 8"
  by (simp_all add: Python3_13_PyDictValuesObject_def round_up_def layout)

section \<open>\<open>cpython/float.h\<close>\<close>

definition C_PyFloatObject :: ctype where
  "C_PyFloatObject =
      CStruct [fld ''ob_base'' C_PyObject, fld ''ob_fval'' (CPrim 8)]"

lemma layout_C_PyFloatObject [layout]:
  "csize C_PyFloatObject = 24" "calign C_PyFloatObject = 8"
  by (simp_all add: C_PyFloatObject_def round_up_def layout)

section \<open>\<open>cpython/frame.h\<close>\<close>

definition C_PyTryBlock :: ctype where
  "C_PyTryBlock =
      CStruct [fld ''b_type'' (CPrim 4), fld ''b_handler'' (CPrim 4), fld ''b_level'' (CPrim 4)]"

lemma layout_C_PyTryBlock [layout]:
  "csize C_PyTryBlock = 12" "calign C_PyTryBlock = 4"
  by (simp_all add: C_PyTryBlock_def round_up_def layout)

definition Python2_PyFrameObject :: ctype where
  "Python2_PyFrameObject =
      CStruct [fld ''ob_base'' C_PyVarObject, fld ''f_back'' CPtr, fld ''f_code'' CPtr,
      fld ''f_builtins'' CPtr, fld ''f_globals'' CPtr, fld ''f_locals'' CPtr,
      fld ''f_valuestack'' CPtr, fld ''f_stacktop'' CPtr, fld ''f_trace'' CPtr,
      fld ''f_exc_type'' CPtr, fld ''f_exc_value'' CPtr, fld ''f_exc_traceback'' CPtr,
      fld ''f_tstate'' CPtr, fld ''f_lasti'' (CPrim 4), fld ''f_lineno'' (CPrim 4),
      fld ''f_iblock'' (CPrim 4), fld ''f_blockstack'' (CArr 20 C_PyTryBlock),
      fld ''f_localsplus'' (CArr 1 CPtr)]"

lemma layout_Python2_PyFrameObject [layout]:
  "csize Python2_PyFrameObject = 384" "calign Python2_PyFrameObject = 8"
  by (simp_all add: Python2_PyFrameObject_def round_up_def layout)

definition Python3_7_PyFrameObject :: ctype where
  "Python3_7_PyFrameObject =
      CStruct [fld ''ob_base'' C_PyVarObject, fld ''f_back'' CPtr, fld ''f_code'' CPtr,
      fld ''f_builtins'' CPtr, fld ''f_globals'' CPtr, fld ''f_locals'' CPtr,
      fld ''f_valuestack'' CPtr, fld ''f_stacktop'' CPtr, fld ''f_trace'' CPtr,
      fld ''f_trace_lines'' (CPrim 1), fld ''f_trace_opcodes'' (CPrim 1), fld ''f_gen'' CPtr,
      fld ''f_lasti'' (CPrim 4), fld ''f_lineno'' (CPrim 4), fld ''f_iblock'' (CPrim 4),
      fld ''f_executing'' (CPrim 1), fld ''f_blockstack'' (CArr 20 C_PyTryBlock),
      fld ''f_localsplus'' (CArr 1 CPtr)]"

lemma layout_Python3_7_PyFrameObject [layout]:
  "csize Python3_7_PyFrameObject = 368" "calign Python3_7_PyFrameObject = 8"
  by (simp_all add: Python3_7_PyFrameObject_def round_up_def layout)

definition Python3_10_PyFrameObject :: ctype where
  "Python3_10_PyFrameObject =
      CStruct [fld ''ob_base'' C_PyVarObject, fld ''f_back'' CPtr, fld ''f_code'' CPtr,
      fld ''f_builtins'' CPtr, fld ''f_globals'' CPtr, fld ''f_locals'' CPtr,
      fld ''f_valuestack'' CPtr, fld ''f_trace'' CPtr, fld ''f_stackdepth'' (CPrim 4),
      fld ''f_trace_lines'' (CPrim 1), fld ''f_trace_opcodes'' (CPrim 1), fld ''f_gen'' CPtr,
      fld ''f_lasti'' (CPrim 4), fld ''f_lineno'' (CPrim 4), fld ''f_iblock'' (CPrim 4),
      fld ''f_state'' (CPrim 1), fld ''f_blockstack'' (CArr 20 C_PyTryBlock),
      fld ''f_localsplus'' (CArr 1 CPtr)]"

lemma layout_Python3_10_PyFrameObject [layout]:
  "csize Python3_10_PyFrameObject = 360" "calign Python3_10_PyFrameObject = 8"
  by (simp_all add: Python3_10_PyFrameObject_def round_up_def layout)

definition Python3_11_PyFrameObject :: ctype where
  "Python3_11_PyFrameObject =
      CStruct [fld ''f_func'' CPtr, fld ''f_globals'' CPtr, fld ''f_builtins'' CPtr,
      fld ''f_locals'' CPtr, fld ''f_code'' CPtr, fld ''frame_obj'' CPtr, fld ''previous'' CPtr,
      fld ''prev_instr'' CPtr, fld ''stacktop'' (CPrim 4), fld ''is_entry'' (CPrim 1),
      fld ''owner'' (CPrim 1), fld ''localsplus'' (CArr 1 CPtr)]"

lemma layout_Python3_11_PyFrameObject [layout]:
  "csize Python3_11_PyFrameObject = 80" "calign Python3_11_PyFrameObject = 8"
  by (simp_all add: Python3_11_PyFrameObject_def round_up_def layout)

definition Python3_12_PyFrameObject :: ctype where
  "Python3_12_PyFrameObject =
      CStruct [fld ''f_code'' CPtr, fld ''previous'' CPtr, fld ''f_funcobj'' CPtr,
      fld ''f_globals'' CPtr, fld ''f_builtins'' CPtr, fld ''f_locals'' CPtr,
      fld ''frame_obj'' CPtr, fld ''prev_instr'' CPtr, fld ''stacktop'' (CPrim 4),
      fld ''return_offset'' (CPrim 2), fld ''owner'' (CPrim 1), fld ''localsplus'' (CArr 1 CPtr)]"

lemma layout_Python3_12_PyFrameObject [layout]:
  "csize Python3_12_PyFrameObject = 80" "calign Python3_12_PyFrameObject = 8"
  by (simp_all add: Python3_12_PyFrameObject_def round_up_def layout)

definition Python3_14_PyStackRef :: ctype where
  "Python3_14_PyStackRef =
      CUnion [fld ''bits'' (CPrim 8)]"

lemma layout_Python3_14_PyStackRef [layout]:
  "csize Python3_14_PyStackRef = 8" "calign Python3_14_PyStackRef = 8"
  by (simp_all add: Python3_14_PyStackRef_def round_up_def layout)

section \<open>\<open>cpython/gc.h\<close>\<close>

definition C_gc_generation_stats :: ctype where
  "C_gc_generation_stats =
      CStruct [fld ''collections'' (CPrim 8), fld ''collected'' (CPrim 8),
      fld ''uncollectable'' (CPrim 8)]"

lemma layout_C_gc_generation_stats [layout]:
  "csize C_gc_generation_stats = 24" "calign C_gc_generation_stats = 8"
  by (simp_all add: C_gc_generation_stats_def round_up_def layout)

definition Python3_7_PyGC_Head :: ctype where
  "Python3_7_PyGC_Head =
      CUnion [fld ''gc'' (CStruct [fld ''gc_next'' CPtr, fld ''gc_prev'' CPtr,
      fld ''gc_refs'' (CPrim 8)]), fld ''dummy'' (CPrim 16)]"

lemma layout_Python3_7_PyGC_Head [layout]:
  "csize Python3_7_PyGC_Head = 32" "calign Python3_7_PyGC_Head = 16"
  by (simp_all add: Python3_7_PyGC_Head_def round_up_def layout)

definition Python3_7_gc_generation :: ctype where
  "Python3_7_gc_generation =
      CStruct [fld ''head'' Python3_7_PyGC_Head, fld ''threshold'' (CPrim 4),
      fld ''count'' (CPrim 4)]"

lemma layout_Python3_7_gc_generation [layout]:
  "csize Python3_7_gc_generation = 48" "calign Python3_7_gc_generation = 16"
  by (simp_all add: Python3_7_gc_generation_def round_up_def layout)

definition Python3_7_gc_runtime_state :: ctype where
  "Python3_7_gc_runtime_state =
      CStruct [fld ''trash_delete_later'' CPtr, fld ''trash_delete_nesting'' (CPrim 4),
      fld ''enabled'' (CPrim 4), fld ''debug'' (CPrim 4),
      fld ''generations'' (CArr 3 Python3_7_gc_generation), fld ''generation0'' CPtr,
      fld ''permanent_generation'' Python3_7_gc_generation,
      fld ''generation_stats'' (CArr 3 C_gc_generation_stats), fld ''collecting'' (CPrim 4)]"

lemma layout_Python3_7_gc_runtime_state [layout]:
  "csize Python3_7_gc_runtime_state = 320" "calign Python3_7_gc_runtime_state = 16"
  by (simp_all add: Python3_7_gc_runtime_state_def round_up_def layout)

definition Python3_8_PyGC_Head :: ctype where
  "Python3_8_PyGC_Head =
      CStruct [fld ''_gc_next'' (CPrim 8), fld ''_gc_prev'' (CPrim 8)]"

lemma layout_Python3_8_PyGC_Head [layout]:
  "csize Python3_8_PyGC_Head = 16" "calign Python3_8_PyGC_Head = 8"
  by (simp_all add: Python3_8_PyGC_Head_def round_up_def layout)

definition Python3_8_gc_generation :: ctype where
  "Python3_8_gc_generation =
      CStruct [fld ''head'' Python3_8_PyGC_Head, fld ''threshold'' (CPrim 4),
      fld ''count'' (CPrim 4)]"

lemma layout_Python3_8_gc_generation [layout]:
  "csize Python3_8_gc_generation = 24" "calign Python3_8_gc_generation = 8"
  by (simp_all add: Python3_8_gc_generation_def round_up_def layout)

definition Python3_8_gc_runtime_state :: ctype where
  "Python3_8_gc_runtime_state =
      CStruct [fld ''trash_delete_later'' CPtr, fld ''trash_delete_nesting'' (CPrim 4),
      fld ''enabled'' (CPrim 4), fld ''debug'' (CPrim 4),
      fld ''generations'' (CArr 3 Python3_8_gc_generation), fld ''generation0'' CPtr,
      fld ''permanent_generation'' Python3_8_gc_generation,
      fld ''generation_stats'' (CArr 3 C_gc_generation_stats), fld ''collecting'' (CPrim 4),
      fld ''garbage'' CPtr, fld ''callbacks'' CPtr, fld ''long_lived_total'' (CPrim 8),
      fld ''long_lived_pending'' (CPrim 8)]"

lemma layout_Python3_8_gc_runtime_state [layout]:
  "csize Python3_8_gc_runtime_state = 240" "calign Python3_8_gc_runtime_state = 8"
  by (simp_all add: Python3_8_gc_runtime_state_def round_up_def layout)

section \<open>\<open>cpython/int.h\<close>\<close>

definition C_PyIntObject :: ctype where
  "C_PyIntObject =
      CStruct [fld ''ob_base'' C_PyObject, fld ''ob_ival'' (CPrim 8)]"

lemma layout_C_PyIntObject [layout]:
  "csize C_PyIntObject = 24" "calign C_PyIntObject = 8"
  by (simp_all add: C_PyIntObject_def round_up_def layout)

definition C_PyLongObject :: ctype where
  "C_PyLongObject =
      CStruct [fld ''ob_base'' C_PyVarObject, fld ''ob_digit'' (CArr 1 (CPrim 4))]"

lemma layout_C_PyLongObject [layout]:
  "csize C_PyLongObject = 32" "calign C_PyLongObject = 8"
  by (simp_all add: C_PyLongObject_def round_up_def layout)

section \<open>\<open>cpython/list.h\<close>\<close>

definition C_PyListObject :: ctype where
  "C_PyListObject =
      CStruct [fld ''ob_base'' C_PyVarObject, fld ''ob_item'' CPtr, fld ''allocated'' (CPrim 8)]"

lemma layout_C_PyListObject [layout]:
  "csize C_PyListObject = 40" "calign C_PyListObject = 8"
  by (simp_all add: C_PyListObject_def round_up_def layout)

section \<open>\<open>cpython/tuple.h\<close>\<close>

definition C_PyTupleObject :: ctype where
  "C_PyTupleObject =
      CStruct [fld ''ob_base'' C_PyVarObject, fld ''ob_item'' (CArr 1 CPtr)]"

lemma layout_C_PyTupleObject [layout]:
  "csize C_PyTupleObject = 32" "calign C_PyTupleObject = 8"
  by (simp_all add: C_PyTupleObject_def round_up_def layout)

section \<open>\<open>cpython/interpreter.h\<close>\<close>

definition C_Py_atomic_int :: ctype where
  "C_Py_atomic_int =
      CStruct [fld ''_value'' (CPrim 4)]"

lemma layout_C_Py_atomic_int [layout]:
  "csize C_Py_atomic_int = 4" "calign C_Py_atomic_int = 4"
  by (simp_all add: C_Py_atomic_int_def round_up_def layout)

definition C_pending_calls :: ctype where
  "C_pending_calls =
      CStruct [fld ''lock'' CPtr, fld ''calls_to_do'' C_Py_atomic_int, fld ''async_exc'' (CPrim 4),
      fld ''calls'' (CArr 32 (CStruct [fld ''func'' CPtr, fld ''arg'' CPtr])),
      fld ''first'' (CPrim 4), fld ''last'' (CPrim 4)]"

lemma layout_C_pending_calls [layout]:
  "csize C_pending_calls = 536" "calign C_pending_calls = 8"
  by (simp_all add: C_pending_calls_def round_up_def layout)

definition C_ceval_state :: ctype where
  "C_ceval_state =
      CStruct [fld ''recursion_limit'' (CPrim 4), fld ''tracing_possible'' (CPrim 4),
      fld ''eval_breaker'' C_Py_atomic_int, fld ''gil_drop_request'' C_Py_atomic_int,
      fld ''pending'' C_pending_calls]"

lemma layout_C_ceval_state [layout]:
  "csize C_ceval_state = 552" "calign C_ceval_state = 8"
  by (simp_all add: C_ceval_state_def round_up_def layout)

definition Python2_PyInterpreterState :: ctype where
  "Python2_PyInterpreterState =
      CStruct [fld ''next'' CPtr, fld ''tstate_head'' CPtr, fld ''modules'' CPtr,
      fld ''sysdict'' CPtr, fld ''builtins'' CPtr, fld ''gc'' CPtr]"

lemma layout_Python2_PyInterpreterState [layout]:
  "csize Python2_PyInterpreterState = 48" "calign Python2_PyInterpreterState = 8"
  by (simp_all add: Python2_PyInterpreterState_def round_up_def layout)

definition Python3_5_PyInterpreterState :: ctype where
  "Python3_5_PyInterpreterState =
      CStruct [fld ''next'' CPtr, fld ''tstate_head'' CPtr, fld ''modules'' CPtr,
      fld ''modules_by_index'' CPtr, fld ''sysdict'' CPtr, fld ''builtins'' CPtr, fld ''gc'' CPtr]"

lemma layout_Python3_5_PyInterpreterState [layout]:
  "csize Python3_5_PyInterpreterState = 56" "calign Python3_5_PyInterpreterState = 8"
  by (simp_all add: Python3_5_PyInterpreterState_def round_up_def layout)

definition Python3_7_PyInterpreterState :: ctype where
  "Python3_7_PyInterpreterState =
      CStruct [fld ''next'' CPtr, fld ''tstate_head'' CPtr, fld ''id'' (CPrim 8),
      fld ''id_refcount'' (CPrim 8), fld ''id_mutex'' CPtr, fld ''modules'' CPtr,
      fld ''modules_by_index'' CPtr, fld ''sysdict'' CPtr, fld ''builtins'' CPtr, fld ''gc'' CPtr]"

lemma layout_Python3_7_PyInterpreterState [layout]:
  "csize Python3_7_PyInterpreterState = 80" "calign Python3_7_PyInterpreterState = 8"
  by (simp_all add: Python3_7_PyInterpreterState_def round_up_def layout)

definition Python3_8_PyInterpreterState :: ctype where
  "Python3_8_PyInterpreterState =
      CStruct [fld ''next'' CPtr, fld ''tstate_head'' CPtr, fld ''id'' (CPrim 8),
      fld ''id_refcount'' (CPrim 8), fld ''requires_idref'' (CPrim 4), fld ''id_mutex'' CPtr,
      fld ''finalizing'' (CPrim 4), fld ''modules'' CPtr, fld ''modules_by_index'' CPtr,
      fld ''sysdict'' CPtr, fld ''builtins'' CPtr, fld ''gc'' CPtr]"

lemma layout_Python3_8_PyInterpreterState [layout]:
  "csize Python3_8_PyInterpreterState = 96" "calign Python3_8_PyInterpreterState = 8"
  by (simp_all add: Python3_8_PyInterpreterState_def round_up_def layout)

definition Python3_9_PyInterpreterState :: ctype where
  "Python3_9_PyInterpreterState =
      CStruct [fld ''next'' CPtr, fld ''tstate_head'' CPtr, fld ''runtime'' CPtr,
      fld ''id'' (CPrim 8), fld ''id_refcount'' (CPrim 8), fld ''requires_idref'' (CPrim 4),
      fld ''id_mutex'' CPtr, fld ''finalizing'' (CPrim 4), fld ''ceval'' C_ceval_state,
      fld ''gc'' Python3_8_gc_runtime_state, fld ''modules'' CPtr, fld ''modules_by_index'' CPtr,
      fld ''sysdict'' CPtr, fld ''builtins'' CPtr]"

lemma layout_Python3_9_PyInterpreterState [layout]:
  "csize Python3_9_PyInterpreterState = 888" "calign Python3_9_PyInterpreterState = 8"
  by (simp_all add: Python3_9_PyInterpreterState_def round_up_def layout)

definition Python3_11_ceval_state :: ctype where
  "Python3_11_ceval_state =
      CStruct [fld ''recursion_limit'' (CPrim 4), fld ''eval_breaker'' C_Py_atomic_int,
      fld ''gil_drop_request'' C_Py_atomic_int, fld ''pending'' C_pending_calls]"

lemma layout_Python3_11_ceval_state [layout]:
  "csize Python3_11_ceval_state = 552" "calign Python3_11_ceval_state = 8"
  by (simp_all add: Python3_11_ceval_state_def round_up_def layout)

definition Python3_11_PyInterpreterState_pythreads :: ctype where
  "Python3_11_PyInterpreterState_pythreads =
      CStruct [fld ''next_unique_id'' (CPrim 8), fld ''head'' CPtr, fld ''count'' (CPrim 8),
      fld ''stacksize'' (CPrim 8)]"

lemma layout_Python3_11_PyInterpreterState_pythreads [layout]:
  "csize Python3_11_PyInterpreterState_pythreads = 32" "calign Python3_11_PyInterpreterState_pythreads = 8"
  by (simp_all add: Python3_11_PyInterpreterState_pythreads_def round_up_def layout)

definition Python3_11_PyInterpreterState :: ctype where
  "Python3_11_PyInterpreterState =
      CStruct [fld ''next'' CPtr, fld ''threads'' Python3_11_PyInterpreterState_pythreads,
      fld ''runtime'' CPtr, fld ''id'' (CPrim 8), fld ''id_refcount'' (CPrim 8),
      fld ''requires_idref'' (CPrim 4), fld ''id_mutex'' CPtr, fld ''_initialized'' (CPrim 4),
      fld ''finalizing'' (CPrim 4), fld ''_static'' (CPrim 1), fld ''ceval'' Python3_11_ceval_state,
      fld ''gc'' Python3_8_gc_runtime_state, fld ''modules'' CPtr, fld ''modules_by_index'' CPtr,
      fld ''sysdict'' CPtr, fld ''builtins'' CPtr]"

lemma layout_Python3_11_PyInterpreterState [layout]:
  "csize Python3_11_PyInterpreterState = 920" "calign Python3_11_PyInterpreterState = 8"
  by (simp_all add: Python3_11_PyInterpreterState_def round_up_def layout)

definition Python3_12_pending_calls_pending_call :: ctype where
  "Python3_12_pending_calls_pending_call =
      CStruct [fld ''func'' CPtr, fld ''arg'' CPtr]"

lemma layout_Python3_12_pending_calls_pending_call [layout]:
  "csize Python3_12_pending_calls_pending_call = 16" "calign Python3_12_pending_calls_pending_call = 8"
  by (simp_all add: Python3_12_pending_calls_pending_call_def round_up_def layout)

definition Python3_12_pending_calls :: ctype where
  "Python3_12_pending_calls =
      CStruct [fld ''busy'' (CPrim 4), fld ''lock'' CPtr, fld ''calls_to_do'' C_Py_atomic_int,
      fld ''async_exc'' (CPrim 4), fld ''calls'' (CArr 32 Python3_12_pending_calls_pending_call),
      fld ''first'' (CPrim 4), fld ''last'' (CPrim 4)]"

lemma layout_Python3_12_pending_calls [layout]:
  "csize Python3_12_pending_calls = 544" "calign Python3_12_pending_calls = 8"
  by (simp_all add: Python3_12_pending_calls_def round_up_def layout)

definition Python3_12_ceval_state :: ctype where
  "Python3_12_ceval_state =
      CStruct [fld ''eval_breaker'' C_Py_atomic_int, fld ''gil_drop_request'' C_Py_atomic_int,
      fld ''recursion_limit'' (CPrim 4), fld ''gil'' CPtr, fld ''own_gil'' (CPrim 4),
      fld ''gc_scheduled'' C_Py_atomic_int, fld ''pending'' Python3_12_pending_calls]"

lemma layout_Python3_12_ceval_state [layout]:
  "csize Python3_12_ceval_state = 576" "calign Python3_12_ceval_state = 8"
  by (simp_all add: Python3_12_ceval_state_def round_up_def layout)

definition Python3_12_import_state :: ctype where
  "Python3_12_import_state =
      CStruct [fld ''modules'' CPtr, fld ''modules_by_index'' CPtr, fld ''importlib'' CPtr,
      fld ''override_frozen_modules'' (CPrim 4),
      fld ''override_multi_interp_extensions_check'' (CPrim 4), fld ''dlopenflags'' (CPrim 4),
      fld ''import_func'' CPtr, fld ''lock'' (CStruct [fld ''mutex'' CPtr, fld ''thread'' (CPrim 8),
      fld ''level'' (CPrim 4)]), fld ''find_and_load'' (CStruct [fld ''import_level'' (CPrim 4),
      fld ''accumulated'' (CPrim 8), fld ''header'' (CPrim 4)])]"

lemma layout_Python3_12_import_state [layout]:
  "csize Python3_12_import_state = 96" "calign Python3_12_import_state = 8"
  by (simp_all add: Python3_12_import_state_def round_up_def layout)

definition Python3_12_PyInterpreterState_pythreads :: ctype where
  "Python3_12_PyInterpreterState_pythreads =
      CStruct [fld ''next_unique_id'' (CPrim 8), fld ''head'' CPtr, fld ''count'' (CPrim 8),
      fld ''stacksize'' (CPrim 8)]"

lemma layout_Python3_12_PyInterpreterState_pythreads [layout]:
  "csize Python3_12_PyInterpreterState_pythreads = 32" "calign Python3_12_PyInterpreterState_pythreads = 8"
  by (simp_all add: Python3_12_PyInterpreterState_pythreads_def round_up_def layout)

definition Python3_12_PyInterpreterState :: ctype where
  "Python3_12_PyInterpreterState =
      CStruct [fld ''next'' CPtr, fld ''id'' (CPrim 8), fld ''id_refcount'' (CPrim 8),
      fld ''requires_idref'' (CPrim 4), fld ''id_mutex'' CPtr, fld ''_initialized'' (CPrim 4),
      fld ''finalizing'' (CPrim 4), fld ''monitoring_version'' (CPrim 8),
      fld ''last_restart_version'' (CPrim 8),
      fld ''threads'' Python3_12_PyInterpreterState_pythreads, fld ''runtime'' CPtr,
      fld ''_finalizing'' (CPrim 8), fld ''gc'' Python3_8_gc_runtime_state, fld ''sysdict'' CPtr,
      fld ''builtins'' CPtr, fld ''ceval'' Python3_12_ceval_state,
      fld ''imports'' Python3_12_import_state]"

lemma layout_Python3_12_PyInterpreterState [layout]:
  "csize Python3_12_PyInterpreterState = 1040" "calign Python3_12_PyInterpreterState = 8"
  by (simp_all add: Python3_12_PyInterpreterState_def round_up_def layout)

definition Python3_13_PyMutex :: ctype where
  "Python3_13_PyMutex =
      CStruct [fld ''v'' (CPrim 1)]"

lemma layout_Python3_13_PyMutex [layout]:
  "csize Python3_13_PyMutex = 1" "calign Python3_13_PyMutex = 1"
  by (simp_all add: Python3_13_PyMutex_def round_up_def layout)

definition Python3_13_pending_call :: ctype where
  "Python3_13_pending_call =
      CStruct [fld ''func'' CPtr, fld ''arg'' CPtr, fld ''flags'' (CPrim 4)]"

lemma layout_Python3_13_pending_call [layout]:
  "csize Python3_13_pending_call = 24" "calign Python3_13_pending_call = 8"
  by (simp_all add: Python3_13_pending_call_def round_up_def layout)

definition Python3_13_pending_calls :: ctype where
  "Python3_13_pending_calls =
      CStruct [fld ''handling_thread'' CPtr, fld ''mutex'' Python3_13_PyMutex,
      fld ''npending'' (CPrim 4), fld ''max'' (CPrim 4), fld ''maxloop'' (CPrim 4),
      fld ''calls'' (CArr 300 Python3_13_pending_call), fld ''first'' (CPrim 4),
      fld ''next'' (CPrim 4)]"

lemma layout_Python3_13_pending_calls [layout]:
  "csize Python3_13_pending_calls = 7232" "calign Python3_13_pending_calls = 8"
  by (simp_all add: Python3_13_pending_calls_def round_up_def layout)

definition Python3_13_ceval_state :: ctype where
  "Python3_13_ceval_state =
      CStruct [fld ''instrumentation_version'' (CPrim 8), fld ''recursion_limit'' (CPrim 4),
      fld ''gil'' CPtr, fld ''own_gil'' (CPrim 4), fld ''pending'' Python3_13_pending_calls]"

lemma layout_Python3_13_ceval_state [layout]:
  "csize Python3_13_ceval_state = 7264" "calign Python3_13_ceval_state = 8"
  by (simp_all add: Python3_13_ceval_state_def round_up_def layout)

definition Python3_13_import_state :: ctype where
  "Python3_13_import_state =
      CStruct [fld ''modules'' CPtr, fld ''modules_by_index'' CPtr, fld ''importlib'' CPtr,
      fld ''override_frozen_modules'' (CPrim 4),
      fld ''override_multi_interp_extensions_check'' (CPrim 4), fld ''dlopenflags'' (CPrim 4),
      fld ''import_func'' CPtr, fld ''lock'' (CStruct [fld ''mutex'' CPtr, fld ''thread'' (CPrim 8),
      fld ''level'' (CPrim 4)]), fld ''find_and_load'' (CStruct [fld ''import_level'' (CPrim 4),
      fld ''accumulated'' (CPrim 8), fld ''header'' (CPrim 4)])]"

lemma layout_Python3_13_import_state [layout]:
  "csize Python3_13_import_state = 96" "calign Python3_13_import_state = 8"
  by (simp_all add: Python3_13_import_state_def round_up_def layout)

definition Python3_13_PyInterpreterState_pythreads :: ctype where
  "Python3_13_PyInterpreterState_pythreads =
      CStruct [fld ''next_unique_id'' (CPrim 8), fld ''head'' CPtr, fld ''main'' CPtr,
      fld ''count'' (CPrim 8), fld ''stacksize'' (CPrim 8)]"

lemma layout_Python3_13_PyInterpreterState_pythreads [layout]:
  "csize Python3_13_PyInterpreterState_pythreads = 40" "calign Python3_13_PyInterpreterState_pythreads = 8"
  by (simp_all add: Python3_13_PyInterpreterState_pythreads_def round_up_def layout)

definition Python3_13_PyInterpreterState :: ctype where
  "Python3_13_PyInterpreterState =
      CStruct [fld ''ceval'' Python3_13_ceval_state, fld ''next'' CPtr, fld ''id'' (CPrim 8),
      fld ''id_refcount'' (CPrim 8), fld ''requires_idref'' (CPrim 4), fld ''id_mutex'' CPtr,
      fld ''_whence'' (CPrim 8), fld ''_initialized'' (CPrim 4), fld ''_ready'' (CPrim 4),
      fld ''finalizing'' (CPrim 4), fld ''last_restart_version'' (CPrim 8),
      fld ''threads'' Python3_13_PyInterpreterState_pythreads, fld ''runtime'' CPtr,
      fld ''_finalizing'' CPtr, fld ''_finalizing_id'' (CPrim 8),
      fld ''gc'' Python3_8_gc_runtime_state, fld ''sysdict'' CPtr, fld ''builtins'' CPtr,
      fld ''imports'' Python3_13_import_state]"

lemma layout_Python3_13_PyInterpreterState [layout]:
  "csize Python3_13_PyInterpreterState = 7752" "calign Python3_13_PyInterpreterState = 8"
  by (simp_all add: Python3_13_PyInterpreterState_def round_up_def layout)

section \<open>\<open>cpython/thread.h\<close>\<close>

definition Python2_PyThreadState :: ctype where
  "Python2_PyThreadState =
      CStruct [fld ''next'' CPtr, fld ''interp'' CPtr, fld ''frame'' CPtr,
      fld ''recursion_depth'' (CPrim 4), fld ''overflowed'' (CPrim 1),
      fld ''recursion_critical'' (CPrim 1), fld ''tracing'' (CPrim 4),
      fld ''use_tracing'' (CPrim 4), fld ''c_profilefunc'' CPtr, fld ''c_tracefunc'' CPtr,
      fld ''c_profileobj'' CPtr, fld ''c_traceobj'' CPtr, fld ''curexc_type'' CPtr,
      fld ''curexc_value'' CPtr, fld ''curexc_traceback'' CPtr, fld ''exc_type'' CPtr,
      fld ''exc_value'' CPtr, fld ''exc_traceback'' CPtr, fld ''dict'' CPtr,
      fld ''tick_counter'' (CPrim 4), fld ''gilstate_counter'' (CPrim 4), fld ''async_exc'' CPtr,
      fld ''thread_id'' (CPrim 8)]"

lemma layout_Python2_PyThreadState [layout]:
  "csize Python2_PyThreadState = 152" "calign Python2_PyThreadState = 8"
  by (simp_all add: Python2_PyThreadState_def round_up_def layout)

definition Python3_4_PyThreadState :: ctype where
  "Python3_4_PyThreadState =
      CStruct [fld ''prev'' CPtr, fld ''next'' CPtr, fld ''interp'' CPtr, fld ''frame'' CPtr,
      fld ''recursion_depth'' (CPrim 4), fld ''overflowed'' (CPrim 1),
      fld ''recursion_critical'' (CPrim 1), fld ''tracing'' (CPrim 4),
      fld ''use_tracing'' (CPrim 4), fld ''c_profilefunc'' CPtr, fld ''c_tracefunc'' CPtr,
      fld ''c_profileobj'' CPtr, fld ''c_traceobj'' CPtr, fld ''curexc_type'' CPtr,
      fld ''curexc_value'' CPtr, fld ''curexc_traceback'' CPtr, fld ''exc_type'' CPtr,
      fld ''exc_value'' CPtr, fld ''exc_traceback'' CPtr, fld ''dict'' CPtr,
      fld ''gilstate_counter'' (CPrim 4), fld ''async_exc'' CPtr, fld ''thread_id'' (CPrim 8)]"

lemma layout_Python3_4_PyThreadState [layout]:
  "csize Python3_4_PyThreadState = 160" "calign Python3_4_PyThreadState = 8"
  by (simp_all add: Python3_4_PyThreadState_def round_up_def layout)

definition Python3_7_PyErr_StackItem :: ctype where
  "Python3_7_PyErr_StackItem =
      CStruct [fld ''exc_type'' CPtr, fld ''exc_value'' CPtr, fld ''exc_traceback'' CPtr,
      fld ''previous_item'' CPtr]"

lemma layout_Python3_7_PyErr_StackItem [layout]:
  "csize Python3_7_PyErr_StackItem = 32" "calign Python3_7_PyErr_StackItem = 8"
  by (simp_all add: Python3_7_PyErr_StackItem_def round_up_def layout)

definition Python3_7_PyThreadState :: ctype where
  "Python3_7_PyThreadState =
      CStruct [fld ''prev'' CPtr, fld ''next'' CPtr, fld ''interp'' CPtr, fld ''frame'' CPtr,
      fld ''recursion_depth'' (CPrim 4), fld ''overflowed'' (CPrim 1),
      fld ''recursion_critical'' (CPrim 1), fld ''stackcheck_counter'' (CPrim 4),
      fld ''tracing'' (CPrim 4), fld ''use_tracing'' (CPrim 4), fld ''c_profilefunc'' CPtr,
      fld ''c_tracefunc'' CPtr, fld ''c_profileobj'' CPtr, fld ''c_traceobj'' CPtr,
      fld ''curexc_type'' CPtr, fld ''curexc_value'' CPtr, fld ''curexc_traceback'' CPtr,
      fld ''exc_state'' Python3_7_PyErr_StackItem, fld ''exc_info'' CPtr, fld ''dict'' CPtr,
      fld ''gilstate_counter'' (CPrim 4), fld ''async_exc'' CPtr, fld ''thread_id'' (CPrim 8)]"

lemma layout_Python3_7_PyThreadState [layout]:
  "csize Python3_7_PyThreadState = 184" "calign Python3_7_PyThreadState = 8"
  by (simp_all add: Python3_7_PyThreadState_def round_up_def layout)

definition Python3_11_PyErr_StackItem :: ctype where
  "Python3_11_PyErr_StackItem =
      CStruct [fld ''exc_type'' CPtr, fld ''exc_value'' CPtr, fld ''exc_traceback'' CPtr,
      fld ''previous_item'' CPtr]"

lemma layout_Python3_11_PyErr_StackItem [layout]:
  "csize Python3_11_PyErr_StackItem = 32" "calign Python3_11_PyErr_StackItem = 8"
  by (simp_all add: Python3_11_PyErr_StackItem_def round_up_def layout)

definition Python3_11_CFrame :: ctype where
  "Python3_11_CFrame =
      CStruct [fld ''use_tracing'' (CPrim 4), fld ''current_frame'' CPtr, fld ''previous'' CPtr]"

lemma layout_Python3_11_CFrame [layout]:
  "csize Python3_11_CFrame = 24" "calign Python3_11_CFrame = 8"
  by (simp_all add: Python3_11_CFrame_def round_up_def layout)

definition Python3_11_PyThreadState :: ctype where
  "Python3_11_PyThreadState =
      CStruct [fld ''prev'' CPtr, fld ''next'' CPtr, fld ''interp'' CPtr,
      fld ''_initialized'' (CPrim 4), fld ''_static'' (CPrim 4),
      fld ''recursion_remaining'' (CPrim 4), fld ''recursion_limit'' (CPrim 4),
      fld ''recursion_headroom'' (CPrim 4), fld ''tracing'' (CPrim 4),
      fld ''tracing_what'' (CPrim 4), fld ''cframe'' CPtr, fld ''c_profilefunc'' CPtr,
      fld ''c_tracefunc'' CPtr, fld ''c_profileobj'' CPtr, fld ''c_traceobj'' CPtr,
      fld ''curexc_type'' CPtr, fld ''curexc_value'' CPtr, fld ''curexc_traceback'' CPtr,
      fld ''exc_info'' CPtr, fld ''dict'' CPtr, fld ''gilstate_counter'' (CPrim 4),
      fld ''async_exc'' CPtr, fld ''thread_id'' (CPrim 8), fld ''native_thread_id'' (CPrim 8)]"

lemma layout_Python3_11_PyThreadState [layout]:
  "csize Python3_11_PyThreadState = 168" "calign Python3_11_PyThreadState = 8"
  by (simp_all add: Python3_11_PyThreadState_def round_up_def layout)

definition Python3_12_PyErr_StackItem :: ctype where
  "Python3_12_PyErr_StackItem =
      CStruct [fld ''exc_value'' CPtr, fld ''previous_item'' CPtr]"

lemma layout_Python3_12_PyErr_StackItem [layout]:
  "csize Python3_12_PyErr_StackItem = 16" "calign Python3_12_PyErr_StackItem = 8"
  by (simp_all add: Python3_12_PyErr_StackItem_def round_up_def layout)

definition Python3_12_CFrame :: ctype where
  "Python3_12_CFrame =
      CStruct [fld ''current_frame'' CPtr, fld ''previous'' CPtr]"

lemma layout_Python3_12_CFrame [layout]:
  "csize Python3_12_CFrame = 16" "calign Python3_12_CFrame = 8"
  by (simp_all add: Python3_12_CFrame_def round_up_def layout)

definition Python3_12_py_trashcan :: ctype where
  "Python3_12_py_trashcan =
      CStruct [fld ''delete_nesting'' (CPrim 4), fld ''delete_later'' CPtr]"

lemma layout_Python3_12_py_trashcan [layout]:
  "csize Python3_12_py_trashcan = 16" "calign Python3_12_py_trashcan = 8"
  by (simp_all add: Python3_12_py_trashcan_def round_up_def layout)

definition Python3_12_PyThreadState :: ctype where
  "Python3_12_PyThreadState =
      CStruct [fld ''prev'' CPtr, fld ''next'' CPtr, fld ''interp'' CPtr,
      fld ''_status'' (CStruct [bits ''initialized'' 1 (CPrim 4), bits ''bound'' 1 (CPrim 4),
      bits ''unbound'' 1 (CPrim 4), bits ''bound_gilstate'' 1 (CPrim 4),
      bits ''active'' 1 (CPrim 4), bits ''finalizing'' 1 (CPrim 4), bits ''cleared'' 1 (CPrim 4),
      bits ''finalized'' 1 (CPrim 4), bits '''' 24 (CPrim 4)]),
      fld ''py_recursion_remaining'' (CPrim 4), fld ''py_recursion_limit'' (CPrim 4),
      fld ''c_recursion_remaining'' (CPrim 4), fld ''recursion_headroom'' (CPrim 4),
      fld ''tracing'' (CPrim 4), fld ''what_event'' (CPrim 4), fld ''cframe'' CPtr,
      fld ''c_profilefunc'' CPtr, fld ''c_tracefunc'' CPtr, fld ''c_profileobj'' CPtr,
      fld ''c_traceobj'' CPtr, fld ''current_exception'' CPtr, fld ''exc_info'' CPtr,
      fld ''dict'' CPtr, fld ''gilstate_counter'' (CPrim 4), fld ''async_exc'' CPtr,
      fld ''thread_id'' (CPrim 8), fld ''native_thread_id'' (CPrim 8),
      fld ''trash'' Python3_12_py_trashcan, fld ''on_delete'' CPtr, fld ''on_delete_data'' CPtr,
      fld ''coroutine_origin_tracking_depth'' (CPrim 4), fld ''async_gen_firstiter'' CPtr,
      fld ''async_gen_finalizer'' CPtr, fld ''context'' CPtr, fld ''context_ver'' (CPrim 8),
      fld ''id'' (CPrim 8), fld ''datastack_chunk'' CPtr, fld ''datastack_top'' CPtr,
      fld ''datastack_limit'' CPtr, fld ''exc_state'' Python3_12_PyErr_StackItem,
      fld ''root_cframe'' Python3_12_CFrame]"

lemma layout_Python3_12_PyThreadState [layout]:
  "csize Python3_12_PyThreadState = 288" "calign Python3_12_PyThreadState = 8"
  by (simp_all add: Python3_12_PyThreadState_def round_up_def layout)

definition Python3_13_PyErr_StackItem :: ctype where
  "Python3_13_PyErr_StackItem =
      CStruct [fld ''exc_value'' CPtr, fld ''previous_item'' CPtr]"

lemma layout_Python3_13_PyErr_StackItem [layout]:
  "csize Python3_13_PyErr_StackItem = 16" "calign Python3_13_PyErr_StackItem = 8"
  by (simp_all add: Python3_13_PyErr_StackItem_def round_up_def layout)

definition Python3_13_PyThreadState :: ctype where
  "Python3_13_PyThreadState =
      CStruct [fld ''prev'' CPtr, fld ''next'' CPtr, fld ''interp'' CPtr,
      fld ''eval_breaker'' (CPrim 8), fld ''_status'' (CStruct [bits ''initialized'' 1 (CPrim 4),
      bits ''bound'' 1 (CPrim 4), bits ''unbound'' 1 (CPrim 4), bits ''bound_gilstate'' 1 (CPrim 4),
      bits ''active'' 1 (CPrim 4), bits ''finalizing'' 1 (CPrim 4), bits ''cleared'' 1 (CPrim 4),
      bits ''finalized'' 1 (CPrim 4), bits '''' 24 (CPrim 4)]), fld ''_whence'' (CPrim 4),
      fld ''state'' (CPrim 4), fld ''py_recursion_remaining'' (CPrim 4),
      fld ''py_recursion_limit'' (CPrim 4), fld ''c_recursion_remaining'' (CPrim 4),
      fld ''recursion_headroom'' (CPrim 4), fld ''tracing'' (CPrim 4), fld ''what_event'' (CPrim 4),
      fld ''frame'' CPtr, fld ''c_profilefunc'' CPtr, fld ''c_tracefunc'' CPtr,
      fld ''c_profileobj'' CPtr, fld ''c_traceobj'' CPtr, fld ''current_exception'' CPtr,
      fld ''exc_info'' CPtr, fld ''dict'' CPtr, fld ''gilstate_counter'' (CPrim 4),
      fld ''async_exc'' CPtr, fld ''thread_id'' (CPrim 8), fld ''native_thread_id'' (CPrim 8),
      fld ''delete_later'' CPtr, fld ''critical_section'' (CPrim 8),
      fld ''coroutine_origin_tracking_depth'' (CPrim 4), fld ''async_gen_firstiter'' CPtr,
      fld ''async_gen_finalizer'' CPtr, fld ''context'' CPtr, fld ''context_ver'' (CPrim 8),
      fld ''id'' (CPrim 8), fld ''datastack_chunk'' CPtr, fld ''datastack_top'' CPtr,
      fld ''datastack_limit'' CPtr, fld ''exc_state'' Python3_13_PyErr_StackItem,
      fld ''previous_executor'' CPtr, fld ''dict_global_version'' (CPrim 8)]"

lemma layout_Python3_13_PyThreadState [layout]:
  "csize Python3_13_PyThreadState = 288" "calign Python3_13_PyThreadState = 8"
  by (simp_all add: Python3_13_PyThreadState_def round_up_def layout)

section \<open>\<open>cpython/runtime.h\<close>\<close>

definition C_Py_atomic_address :: ctype where
  "C_Py_atomic_address =
      CStruct [fld ''_value'' (CPrim 8)]"

lemma layout_C_Py_atomic_address [layout]:
  "csize C_Py_atomic_address = 8" "calign C_Py_atomic_address = 8"
  by (simp_all add: C_Py_atomic_address_def round_up_def layout)

definition C_Py_tss_t :: ctype where
  "C_Py_tss_t =
      CStruct [fld ''_is_initialized'' (CPrim 4), fld ''_key'' (CPrim 4)]"

lemma layout_C_Py_tss_t [layout]:
  "csize C_Py_tss_t = 8" "calign C_Py_tss_t = 4"
  by (simp_all add: C_Py_tss_t_def round_up_def layout)

definition Python3_7_PyRuntimeState_pyinterpreters :: ctype where
  "Python3_7_PyRuntimeState_pyinterpreters =
      CStruct [fld ''mutex'' CPtr, fld ''head'' CPtr, fld ''main'' CPtr, fld ''next_id'' (CPrim 8)]"

lemma layout_Python3_7_PyRuntimeState_pyinterpreters [layout]:
  "csize Python3_7_PyRuntimeState_pyinterpreters = 32" "calign Python3_7_PyRuntimeState_pyinterpreters = 8"
  by (simp_all add: Python3_7_PyRuntimeState_pyinterpreters_def round_up_def layout)

definition Python3_7_PyRuntimeState :: ctype where
  "Python3_7_PyRuntimeState =
      CStruct [fld ''initialized'' (CPrim 4), fld ''core_initialized'' (CPrim 4),
      fld ''finalizing'' CPtr, fld ''interpreters'' Python3_7_PyRuntimeState_pyinterpreters,
      fld ''exitfuncs'' (CArr 32 CPtr), fld ''nexitfuncs'' (CPrim 4),
      fld ''gc'' Python3_7_gc_runtime_state,
      fld ''gilstate'' (CStruct [fld ''tstate_current'' C_Py_atomic_address])]"

lemma layout_Python3_7_PyRuntimeState [layout]:
  "csize Python3_7_PyRuntimeState = 656" "calign Python3_7_PyRuntimeState = 16"
  by (simp_all add: Python3_7_PyRuntimeState_def round_up_def layout)

definition Python3_8_pending_calls :: ctype where
  "Python3_8_pending_calls =
      CStruct [fld ''finishing'' (CPrim 4), fld ''lock'' CPtr, fld ''calls_to_do'' C_Py_atomic_int,
      fld ''async_exc'' (CPrim 4), fld ''calls'' (CArr 32 (CStruct [fld ''func'' CPtr,
      fld ''arg'' CPtr])), fld ''first'' (CPrim 4), fld ''last'' (CPrim 4)]"

lemma layout_Python3_8_pending_calls [layout]:
  "csize Python3_8_pending_calls = 544" "calign Python3_8_pending_calls = 8"
  by (simp_all add: Python3_8_pending_calls_def round_up_def layout)

definition Python3_8_gil_runtime_state :: ctype where
  "Python3_8_gil_runtime_state =
      CStruct [fld ''interval'' (CPrim 8), fld ''last_holder'' C_Py_atomic_address,
      fld ''locked'' C_Py_atomic_int, fld ''switch_number'' (CPrim 8),
      fld ''cond'' C_pthread_cond_t, fld ''mutex'' C_pthread_mutex_t,
      fld ''switch_cond'' C_pthread_cond_t, fld ''switch_mutex'' C_pthread_mutex_t]"

lemma layout_Python3_8_gil_runtime_state [layout]:
  "csize Python3_8_gil_runtime_state = 208" "calign Python3_8_gil_runtime_state = 8"
  by (simp_all add: Python3_8_gil_runtime_state_def round_up_def layout)

definition Python3_8_gilstate_runtime_state :: ctype where
  "Python3_8_gilstate_runtime_state =
      CStruct [fld ''check_enabled'' (CPrim 4), fld ''tstate_current'' C_Py_atomic_address,
      fld ''getframe'' CPtr, fld ''autoInterpreterState'' CPtr, fld ''autoTSSkey'' C_Py_tss_t]"

lemma layout_Python3_8_gilstate_runtime_state [layout]:
  "csize Python3_8_gilstate_runtime_state = 40" "calign Python3_8_gilstate_runtime_state = 8"
  by (simp_all add: Python3_8_gilstate_runtime_state_def round_up_def layout)

definition Python3_8_ceval_runtime_state :: ctype where
  "Python3_8_ceval_runtime_state =
      CStruct [fld ''recursion_limit'' (CPrim 4), fld ''tracing_possible'' (CPrim 4),
      fld ''eval_breaker'' C_Py_atomic_int, fld ''gil_drop_request'' C_Py_atomic_int,
      fld ''pending'' Python3_8_pending_calls, fld ''signals_pending'' C_Py_atomic_int,
      fld ''gil'' Python3_8_gil_runtime_state]"

lemma layout_Python3_8_ceval_runtime_state [layout]:
  "csize Python3_8_ceval_runtime_state = 776" "calign Python3_8_ceval_runtime_state = 8"
  by (simp_all add: Python3_8_ceval_runtime_state_def round_up_def layout)

definition Python3_8_PyRuntimeState_pyinterpreters :: ctype where
  "Python3_8_PyRuntimeState_pyinterpreters =
      CStruct [fld ''mutex'' CPtr, fld ''head'' CPtr, fld ''main'' CPtr, fld ''next_id'' (CPrim 8)]"

lemma layout_Python3_8_PyRuntimeState_pyinterpreters [layout]:
  "csize Python3_8_PyRuntimeState_pyinterpreters = 32" "calign Python3_8_PyRuntimeState_pyinterpreters = 8"
  by (simp_all add: Python3_8_PyRuntimeState_pyinterpreters_def round_up_def layout)

definition Python3_8_PyRuntimeState_xidregistry :: ctype where
  "Python3_8_PyRuntimeState_xidregistry =
      CStruct [fld ''mutex'' CPtr, fld ''head'' CPtr]"

lemma layout_Python3_8_PyRuntimeState_xidregistry [layout]:
  "csize Python3_8_PyRuntimeState_xidregistry = 16" "calign Python3_8_PyRuntimeState_xidregistry = 8"
  by (simp_all add: Python3_8_PyRuntimeState_xidregistry_def round_up_def layout)

definition Python3_8_PyRuntimeState :: ctype where
  "Python3_8_PyRuntimeState =
      CStruct [fld ''preinitializing'' (CPrim 4), fld ''preinitialized'' (CPrim 4),
      fld ''core_initialized'' (CPrim 4), fld ''initialized'' (CPrim 4), fld ''finalizing'' CPtr,
      fld ''interpreters'' Python3_8_PyRuntimeState_pyinterpreters,
      fld ''xidregistry'' Python3_8_PyRuntimeState_xidregistry, fld ''main_thread'' (CPrim 8),
      fld ''exitfuncs'' (CArr 32 CPtr), fld ''nexitfuncs'' (CPrim 4),
      fld ''gc'' Python3_8_gc_runtime_state, fld ''ceval'' Python3_8_ceval_runtime_state,
      fld ''gilstate'' Python3_8_gilstate_runtime_state]"

lemma layout_Python3_8_PyRuntimeState [layout]:
  "csize Python3_8_PyRuntimeState = 1400" "calign Python3_8_PyRuntimeState = 8"
  by (simp_all add: Python3_8_PyRuntimeState_def round_up_def layout)

definition Python3_9_gilstate_runtime_state :: ctype where
  "Python3_9_gilstate_runtime_state =
      CStruct [fld ''check_enabled'' (CPrim 4), fld ''tstate_current'' C_Py_atomic_address,
      fld ''autoInterpreterState'' CPtr, fld ''autoTSSkey'' C_Py_tss_t]"

lemma layout_Python3_9_gilstate_runtime_state [layout]:
  "csize Python3_9_gilstate_runtime_state = 32" "calign Python3_9_gilstate_runtime_state = 8"
  by (simp_all add: Python3_9_gilstate_runtime_state_def round_up_def layout)

definition Python3_9_gil_runtime_state :: ctype where
  "Python3_9_gil_runtime_state =
      CStruct [fld ''interval'' (CPrim 8), fld ''last_holder'' C_Py_atomic_address,
      fld ''locked'' C_Py_atomic_int, fld ''switch_number'' (CPrim 8),
      fld ''cond'' C_pthread_cond_t, fld ''mutex'' C_pthread_mutex_t,
      fld ''switch_cond'' C_pthread_cond_t, fld ''switch_mutex'' C_pthread_mutex_t]"

lemma layout_Python3_9_gil_runtime_state [layout]:
  "csize Python3_9_gil_runtime_state = 208" "calign Python3_9_gil_runtime_state = 8"
  by (simp_all add: Python3_9_gil_runtime_state_def round_up_def layout)

definition Python3_9_ceval_runtime_state :: ctype where
  "Python3_9_ceval_runtime_state =
      CStruct [fld ''signals_pending'' C_Py_atomic_int, fld ''gil'' Python3_9_gil_runtime_state]"

lemma layout_Python3_9_ceval_runtime_state [layout]:
  "csize Python3_9_ceval_runtime_state = 216" "calign Python3_9_ceval_runtime_state = 8"
  by (simp_all add: Python3_9_ceval_runtime_state_def round_up_def layout)

definition Python3_9_PyRuntimeState_pyinterpreters :: ctype where
  "Python3_9_PyRuntimeState_pyinterpreters =
      CStruct [fld ''mutex'' CPtr, fld ''head'' CPtr, fld ''main'' CPtr, fld ''next_id'' (CPrim 8)]"

lemma layout_Python3_9_PyRuntimeState_pyinterpreters [layout]:
  "csize Python3_9_PyRuntimeState_pyinterpreters = 32" "calign Python3_9_PyRuntimeState_pyinterpreters = 8"
  by (simp_all add: Python3_9_PyRuntimeState_pyinterpreters_def round_up_def layout)

definition Python3_9_PyRuntimeState_xidregistry :: ctype where
  "Python3_9_PyRuntimeState_xidregistry =
      CStruct [fld ''mutex'' CPtr, fld ''head'' CPtr]"

lemma layout_Python3_9_PyRuntimeState_xidregistry [layout]:
  "csize Python3_9_PyRuntimeState_xidregistry = 16" "calign Python3_9_PyRuntimeState_xidregistry = 8"
  by (simp_all add: Python3_9_PyRuntimeState_xidregistry_def round_up_def layout)

definition Python3_9_PyRuntimeState :: ctype where
  "Python3_9_PyRuntimeState =
      CStruct [fld ''preinitializing'' (CPrim 4), fld ''preinitialized'' (CPrim 4),
      fld ''core_initialized'' (CPrim 4), fld ''initialized'' (CPrim 4), fld ''finalizing'' CPtr,
      fld ''interpreters'' Python3_9_PyRuntimeState_pyinterpreters,
      fld ''xidregistry'' Python3_9_PyRuntimeState_xidregistry, fld ''main_thread'' (CPrim 8),
      fld ''exitfuncs'' (CArr 32 CPtr), fld ''nexitfuncs'' (CPrim 4),
      fld ''ceval'' Python3_9_ceval_runtime_state,
      fld ''gilstate'' Python3_9_gilstate_runtime_state, fld ''gc'' (CPrim 4)]"

lemma layout_Python3_9_PyRuntimeState [layout]:
  "csize Python3_9_PyRuntimeState = 600" "calign Python3_9_PyRuntimeState = 8"
  by (simp_all add: Python3_9_PyRuntimeState_def round_up_def layout)

definition Python3_11_PyRuntimeState_pyinterpreters :: ctype where
  "Python3_11_PyRuntimeState_pyinterpreters =
      CStruct [fld ''mutex'' CPtr, fld ''head'' CPtr, fld ''main'' CPtr, fld ''next_id'' (CPrim 8)]"

lemma layout_Python3_11_PyRuntimeState_pyinterpreters [layout]:
  "csize Python3_11_PyRuntimeState_pyinterpreters = 32" "calign Python3_11_PyRuntimeState_pyinterpreters = 8"
  by (simp_all add: Python3_11_PyRuntimeState_pyinterpreters_def round_up_def layout)

definition Python3_11_PyRuntimeState_xidregistry :: ctype where
  "Python3_11_PyRuntimeState_xidregistry =
      CStruct [fld ''mutex'' CPtr, fld ''head'' CPtr]"

lemma layout_Python3_11_PyRuntimeState_xidregistry [layout]:
  "csize Python3_11_PyRuntimeState_xidregistry = 16" "calign Python3_11_PyRuntimeState_xidregistry = 8"
  by (simp_all add: Python3_11_PyRuntimeState_xidregistry_def round_up_def layout)

definition Python3_11_PyRuntimeState :: ctype where
  "Python3_11_PyRuntimeState =
      CStruct [fld ''_initialized'' (CPrim 4), fld ''preinitializing'' (CPrim 4),
      fld ''preinitialized'' (CPrim 4), fld ''core_initialized'' (CPrim 4),
      fld ''initialized'' (CPrim 4), fld ''finalizing'' CPtr,
      fld ''interpreters'' Python3_11_PyRuntimeState_pyinterpreters,
      fld ''xidregistry'' Python3_11_PyRuntimeState_xidregistry, fld ''main_thread'' (CPrim 8),
      fld ''exitfuncs'' (CArr 32 CPtr), fld ''nexitfuncs'' (CPrim 4),
      fld ''ceval'' Python3_9_ceval_runtime_state,
      fld ''gilstate'' Python3_9_gilstate_runtime_state, fld ''gc'' (CPrim 4)]"

lemma layout_Python3_11_PyRuntimeState [layout]:
  "csize Python3_11_PyRuntimeState = 608" "calign Python3_11_PyRuntimeState = 8"
  by (simp_all add: Python3_11_PyRuntimeState_def round_up_def layout)

definition Python3_12_PyRuntimeState_pyinterpreters :: ctype where
  "Python3_12_PyRuntimeState_pyinterpreters =
      CStruct [fld ''mutex'' CPtr, fld ''head'' CPtr, fld ''main'' CPtr, fld ''next_id'' (CPrim 8)]"

lemma layout_Python3_12_PyRuntimeState_pyinterpreters [layout]:
  "csize Python3_12_PyRuntimeState_pyinterpreters = 32" "calign Python3_12_PyRuntimeState_pyinterpreters = 8"
  by (simp_all add: Python3_12_PyRuntimeState_pyinterpreters_def round_up_def layout)

definition Python3_12_PyRuntimeState :: ctype where
  "Python3_12_PyRuntimeState =
      CStruct [fld ''_initialized'' (CPrim 4), fld ''preinitializing'' (CPrim 4),
      fld ''preinitialized'' (CPrim 4), fld ''core_initialized'' (CPrim 4),
      fld ''initialized'' (CPrim 4), fld ''finalizing'' CPtr,
      fld ''interpreters'' Python3_12_PyRuntimeState_pyinterpreters]"

lemma layout_Python3_12_PyRuntimeState [layout]:
  "csize Python3_12_PyRuntimeState = 64" "calign Python3_12_PyRuntimeState = 8"
  by (simp_all add: Python3_12_PyRuntimeState_def round_up_def layout)

definition Python3_13_Py_DebugOffsets_runtime_state :: ctype where
  "Python3_13_Py_DebugOffsets_runtime_state =
      CStruct [fld ''size'' (CPrim 8), fld ''finalizing'' (CPrim 8),
      fld ''interpreters_head'' (CPrim 8)]"

lemma layout_Python3_13_Py_DebugOffsets_runtime_state [layout]:
  "csize Python3_13_Py_DebugOffsets_runtime_state = 24" "calign Python3_13_Py_DebugOffsets_runtime_state = 8"
  by (simp_all add: Python3_13_Py_DebugOffsets_runtime_state_def round_up_def layout)

definition Python3_13_Py_DebugOffsets_interpreter_state :: ctype where
  "Python3_13_Py_DebugOffsets_interpreter_state =
      CStruct [fld ''size'' (CPrim 8), fld ''id'' (CPrim 8), fld ''next'' (CPrim 8),
      fld ''threads_head'' (CPrim 8), fld ''gc'' (CPrim 8), fld ''imports_modules'' (CPrim 8),
      fld ''sysdict'' (CPrim 8), fld ''builtins'' (CPrim 8), fld ''ceval_gil'' (CPrim 8),
      fld ''gil_runtime_state'' (CPrim 8), fld ''gil_runtime_state_enabled'' (CPrim 8),
      fld ''gil_runtime_state_locked'' (CPrim 8), fld ''gil_runtime_state_holder'' (CPrim 8)]"

lemma layout_Python3_13_Py_DebugOffsets_interpreter_state [layout]:
  "csize Python3_13_Py_DebugOffsets_interpreter_state = 104" "calign Python3_13_Py_DebugOffsets_interpreter_state = 8"
  by (simp_all add: Python3_13_Py_DebugOffsets_interpreter_state_def round_up_def layout)

definition Python3_13_Py_DebugOffsets_thread_state :: ctype where
  "Python3_13_Py_DebugOffsets_thread_state =
      CStruct [fld ''size'' (CPrim 8), fld ''prev'' (CPrim 8), fld ''next'' (CPrim 8),
      fld ''interp'' (CPrim 8), fld ''current_frame'' (CPrim 8), fld ''thread_id'' (CPrim 8),
      fld ''native_thread_id'' (CPrim 8), fld ''datastack_chunk'' (CPrim 8),
      fld ''status'' (CPrim 8)]"

lemma layout_Python3_13_Py_DebugOffsets_thread_state [layout]:
  "csize Python3_13_Py_DebugOffsets_thread_state = 72" "calign Python3_13_Py_DebugOffsets_thread_state = 8"
  by (simp_all add: Python3_13_Py_DebugOffsets_thread_state_def round_up_def layout)

definition Python3_13_Py_DebugOffsets_interpreter_frame :: ctype where
  "Python3_13_Py_DebugOffsets_interpreter_frame =
      CStruct [fld ''size'' (CPrim 8), fld ''previous'' (CPrim 8), fld ''executable'' (CPrim 8),
      fld ''instr_ptr'' (CPrim 8), fld ''localsplus'' (CPrim 8), fld ''owner'' (CPrim 8)]"

lemma layout_Python3_13_Py_DebugOffsets_interpreter_frame [layout]:
  "csize Python3_13_Py_DebugOffsets_interpreter_frame = 48" "calign Python3_13_Py_DebugOffsets_interpreter_frame = 8"
  by (simp_all add: Python3_13_Py_DebugOffsets_interpreter_frame_def round_up_def layout)

definition Python3_13_Py_DebugOffsets_code_object :: ctype where
  "Python3_13_Py_DebugOffsets_code_object =
      CStruct [fld ''size'' (CPrim 8), fld ''filename'' (CPrim 8), fld ''name'' (CPrim 8),
      fld ''qualname'' (CPrim 8), fld ''linetable'' (CPrim 8), fld ''firstlineno'' (CPrim 8),
      fld ''argcount'' (CPrim 8), fld ''localsplusnames'' (CPrim 8),
      fld ''localspluskinds'' (CPrim 8), fld ''co_code_adaptive'' (CPrim 8)]"

lemma layout_Python3_13_Py_DebugOffsets_code_object [layout]:
  "csize Python3_13_Py_DebugOffsets_code_object = 80" "calign Python3_13_Py_DebugOffsets_code_object = 8"
  by (simp_all add: Python3_13_Py_DebugOffsets_code_object_def round_up_def layout)

definition Python3_13_Py_DebugOffsets_pyobject :: ctype where
  "Python3_13_Py_DebugOffsets_pyobject =
      CStruct [fld ''size'' (CPrim 8), fld ''ob_type'' (CPrim 8)]"

lemma layout_Python3_13_Py_DebugOffsets_pyobject [layout]:
  "csize Python3_13_Py_DebugOffsets_pyobject = 16" "calign Python3_13_Py_DebugOffsets_pyobject = 8"
  by (simp_all add: Python3_13_Py_DebugOffsets_pyobject_def round_up_def layout)

definition Python3_13_Py_DebugOffsets_type_object :: ctype where
  "Python3_13_Py_DebugOffsets_type_object =
      CStruct [fld ''size'' (CPrim 8), fld ''tp_name'' (CPrim 8), fld ''tp_repr'' (CPrim 8),
      fld ''tp_flags'' (CPrim 8)]"

lemma layout_Python3_13_Py_DebugOffsets_type_object [layout]:
  "csize Python3_13_Py_DebugOffsets_type_object = 32" "calign Python3_13_Py_DebugOffsets_type_object = 8"
  by (simp_all add: Python3_13_Py_DebugOffsets_type_object_def round_up_def layout)

definition Python3_13_Py_DebugOffsets_tuple_object :: ctype where
  "Python3_13_Py_DebugOffsets_tuple_object =
      CStruct [fld ''size'' (CPrim 8), fld ''ob_item'' (CPrim 8), fld ''ob_size'' (CPrim 8)]"

lemma layout_Python3_13_Py_DebugOffsets_tuple_object [layout]:
  "csize Python3_13_Py_DebugOffsets_tuple_object = 24" "calign Python3_13_Py_DebugOffsets_tuple_object = 8"
  by (simp_all add: Python3_13_Py_DebugOffsets_tuple_object_def round_up_def layout)

definition Python3_13_Py_DebugOffsets_list_object :: ctype where
  "Python3_13_Py_DebugOffsets_list_object =
      CStruct [fld ''size'' (CPrim 8), fld ''ob_item'' (CPrim 8), fld ''ob_size'' (CPrim 8)]"

lemma layout_Python3_13_Py_DebugOffsets_list_object [layout]:
  "csize Python3_13_Py_DebugOffsets_list_object = 24" "calign Python3_13_Py_DebugOffsets_list_object = 8"
  by (simp_all add: Python3_13_Py_DebugOffsets_list_object_def round_up_def layout)

definition Python3_13_Py_DebugOffsets_dict_object :: ctype where
  "Python3_13_Py_DebugOffsets_dict_object =
      CStruct [fld ''size'' (CPrim 8), fld ''ma_keys'' (CPrim 8), fld ''ma_values'' (CPrim 8)]"

lemma layout_Python3_13_Py_DebugOffsets_dict_object [layout]:
  "csize Python3_13_Py_DebugOffsets_dict_object = 24" "calign Python3_13_Py_DebugOffsets_dict_object = 8"
  by (simp_all add: Python3_13_Py_DebugOffsets_dict_object_def round_up_def layout)

definition Python3_13_Py_DebugOffsets_float_object :: ctype where
  "Python3_13_Py_DebugOffsets_float_object =
      CStruct [fld ''size'' (CPrim 8), fld ''ob_fval'' (CPrim 8)]"

lemma layout_Python3_13_Py_DebugOffsets_float_object [layout]:
  "csize Python3_13_Py_DebugOffsets_float_object = 16" "calign Python3_13_Py_DebugOffsets_float_object = 8"
  by (simp_all add: Python3_13_Py_DebugOffsets_float_object_def round_up_def layout)

definition Python3_13_Py_DebugOffsets_long_object :: ctype where
  "Python3_13_Py_DebugOffsets_long_object =
      CStruct [fld ''size'' (CPrim 8), fld ''lv_tag'' (CPrim 8), fld ''ob_digit'' (CPrim 8)]"

lemma layout_Python3_13_Py_DebugOffsets_long_object [layout]:
  "csize Python3_13_Py_DebugOffsets_long_object = 24" "calign Python3_13_Py_DebugOffsets_long_object = 8"
  by (simp_all add: Python3_13_Py_DebugOffsets_long_object_def round_up_def layout)

definition Python3_13_Py_DebugOffsets_bytes_object :: ctype where
  "Python3_13_Py_DebugOffsets_bytes_object =
      CStruct [fld ''size'' (CPrim 8), fld ''ob_size'' (CPrim 8), fld ''ob_sval'' (CPrim 8)]"

lemma layout_Python3_13_Py_DebugOffsets_bytes_object [layout]:
  "csize Python3_13_Py_DebugOffsets_bytes_object = 24" "calign Python3_13_Py_DebugOffsets_bytes_object = 8"
  by (simp_all add: Python3_13_Py_DebugOffsets_bytes_object_def round_up_def layout)

definition Python3_13_Py_DebugOffsets_unicode_object :: ctype where
  "Python3_13_Py_DebugOffsets_unicode_object =
      CStruct [fld ''size'' (CPrim 8), fld ''state'' (CPrim 8), fld ''length'' (CPrim 8),
      fld ''asciiobject_size'' (CPrim 8)]"

lemma layout_Python3_13_Py_DebugOffsets_unicode_object [layout]:
  "csize Python3_13_Py_DebugOffsets_unicode_object = 32" "calign Python3_13_Py_DebugOffsets_unicode_object = 8"
  by (simp_all add: Python3_13_Py_DebugOffsets_unicode_object_def round_up_def layout)

definition Python3_13_Py_DebugOffsets_gc :: ctype where
  "Python3_13_Py_DebugOffsets_gc =
      CStruct [fld ''size'' (CPrim 8), fld ''collecting'' (CPrim 8)]"

lemma layout_Python3_13_Py_DebugOffsets_gc [layout]:
  "csize Python3_13_Py_DebugOffsets_gc = 16" "calign Python3_13_Py_DebugOffsets_gc = 8"
  by (simp_all add: Python3_13_Py_DebugOffsets_gc_def round_up_def layout)

definition Python3_13_Py_DebugOffsets :: ctype where
  "Python3_13_Py_DebugOffsets =
      CStruct [fld ''cookie'' (CArr 8 (CPrim 1)), fld ''version'' (CPrim 8),
      fld ''free_threaded'' (CPrim 8),
      fld ''runtime_state'' Python3_13_Py_DebugOffsets_runtime_state,
      fld ''interpreter_state'' Python3_13_Py_DebugOffsets_interpreter_state,
      fld ''thread_state'' Python3_13_Py_DebugOffsets_thread_state,
      fld ''interpreter_frame'' Python3_13_Py_DebugOffsets_interpreter_frame,
      fld ''code_object'' Python3_13_Py_DebugOffsets_code_object,
      fld ''pyobject'' Python3_13_Py_DebugOffsets_pyobject,
      fld ''type_object'' Python3_13_Py_DebugOffsets_type_object,
      fld ''tuple_object'' Python3_13_Py_DebugOffsets_tuple_object,
      fld ''list_object'' Python3_13_Py_DebugOffsets_list_object,
      fld ''dict_object'' Python3_13_Py_DebugOffsets_dict_object,
      fld ''float_object'' Python3_13_Py_DebugOffsets_float_object,
      fld ''long_object'' Python3_13_Py_DebugOffsets_long_object,
      fld ''bytes_object'' Python3_13_Py_DebugOffsets_bytes_object,
      fld ''unicode_object'' Python3_13_Py_DebugOffsets_unicode_object,
      fld ''gc'' Python3_13_Py_DebugOffsets_gc]"

lemma layout_Python3_13_Py_DebugOffsets [layout]:
  "csize Python3_13_Py_DebugOffsets = 584" "calign Python3_13_Py_DebugOffsets = 8"
  by (simp_all add: Python3_13_Py_DebugOffsets_def round_up_def layout)

definition Python3_13_PyRuntimeState_pyinterpreters :: ctype where
  "Python3_13_PyRuntimeState_pyinterpreters =
      CStruct [fld ''mutex'' Python3_13_PyMutex, fld ''head'' CPtr, fld ''main'' CPtr,
      fld ''next_id'' (CPrim 8)]"

lemma layout_Python3_13_PyRuntimeState_pyinterpreters [layout]:
  "csize Python3_13_PyRuntimeState_pyinterpreters = 32" "calign Python3_13_PyRuntimeState_pyinterpreters = 8"
  by (simp_all add: Python3_13_PyRuntimeState_pyinterpreters_def round_up_def layout)

definition Python3_13_PyRuntimeState :: ctype where
  "Python3_13_PyRuntimeState =
      CStruct [fld ''debug_offsets'' Python3_13_Py_DebugOffsets, fld ''_initialized'' (CPrim 4),
      fld ''preinitializing'' (CPrim 4), fld ''preinitialized'' (CPrim 4),
      fld ''core_initialized'' (CPrim 4), fld ''initialized'' (CPrim 4), fld ''finalizing'' CPtr,
      fld ''_finalizing_id'' (CPrim 8),
      fld ''interpreters'' Python3_13_PyRuntimeState_pyinterpreters]"

lemma layout_Python3_13_PyRuntimeState [layout]:
  "csize Python3_13_PyRuntimeState = 656" "calign Python3_13_PyRuntimeState = 8"
  by (simp_all add: Python3_13_PyRuntimeState_def round_up_def layout)

definition Python3_14_Py_DebugOffsets_runtime_state :: ctype where
  "Python3_14_Py_DebugOffsets_runtime_state =
      CStruct [fld ''size'' (CPrim 8), fld ''finalizing'' (CPrim 8),
      fld ''interpreters_head'' (CPrim 8)]"

lemma layout_Python3_14_Py_DebugOffsets_runtime_state [layout]:
  "csize Python3_14_Py_DebugOffsets_runtime_state = 24" "calign Python3_14_Py_DebugOffsets_runtime_state = 8"
  by (simp_all add: Python3_14_Py_DebugOffsets_runtime_state_def round_up_def layout)

definition Python3_14_Py_DebugOffsets_interpreter_state :: ctype where
  "Python3_14_Py_DebugOffsets_interpreter_state =
      CStruct [fld ''size'' (CPrim 8), fld ''id'' (CPrim 8), fld ''next'' (CPrim 8),
      fld ''threads_head'' (CPrim 8), fld ''threads_main'' (CPrim 8), fld ''gc'' (CPrim 8),
      fld ''imports_modules'' (CPrim 8), fld ''sysdict'' (CPrim 8), fld ''builtins'' (CPrim 8),
      fld ''ceval_gil'' (CPrim 8), fld ''gil_runtime_state'' (CPrim 8),
      fld ''gil_runtime_state_enabled'' (CPrim 8), fld ''gil_runtime_state_locked'' (CPrim 8),
      fld ''gil_runtime_state_holder'' (CPrim 8), fld ''code_object_generation'' (CPrim 8),
      fld ''tlbc_generation'' (CPrim 8)]"

lemma layout_Python3_14_Py_DebugOffsets_interpreter_state [layout]:
  "csize Python3_14_Py_DebugOffsets_interpreter_state = 128" "calign Python3_14_Py_DebugOffsets_interpreter_state = 8"
  by (simp_all add: Python3_14_Py_DebugOffsets_interpreter_state_def round_up_def layout)

definition Python3_14_Py_DebugOffsets_thread_state :: ctype where
  "Python3_14_Py_DebugOffsets_thread_state =
      CStruct [fld ''size'' (CPrim 8), fld ''prev'' (CPrim 8), fld ''next'' (CPrim 8),
      fld ''interp'' (CPrim 8), fld ''current_frame'' (CPrim 8), fld ''thread_id'' (CPrim 8),
      fld ''native_thread_id'' (CPrim 8), fld ''datastack_chunk'' (CPrim 8),
      fld ''status'' (CPrim 8)]"

lemma layout_Python3_14_Py_DebugOffsets_thread_state [layout]:
  "csize Python3_14_Py_DebugOffsets_thread_state = 72" "calign Python3_14_Py_DebugOffsets_thread_state = 8"
  by (simp_all add: Python3_14_Py_DebugOffsets_thread_state_def round_up_def layout)

definition Python3_14_Py_DebugOffsets_interpreter_frame :: ctype where
  "Python3_14_Py_DebugOffsets_interpreter_frame =
      CStruct [fld ''size'' (CPrim 8), fld ''previous'' (CPrim 8), fld ''executable'' (CPrim 8),
      fld ''instr_ptr'' (CPrim 8), fld ''localsplus'' (CPrim 8), fld ''owner'' (CPrim 8),
      fld ''stackpointer'' (CPrim 8), fld ''tlbc_index'' (CPrim 8)]"

lemma layout_Python3_14_Py_DebugOffsets_interpreter_frame [layout]:
  "csize Python3_14_Py_DebugOffsets_interpreter_frame = 64" "calign Python3_14_Py_DebugOffsets_interpreter_frame = 8"
  by (simp_all add: Python3_14_Py_DebugOffsets_interpreter_frame_def round_up_def layout)

definition Python3_14_Py_DebugOffsets_code_object :: ctype where
  "Python3_14_Py_DebugOffsets_code_object =
      CStruct [fld ''size'' (CPrim 8), fld ''filename'' (CPrim 8), fld ''name'' (CPrim 8),
      fld ''qualname'' (CPrim 8), fld ''linetable'' (CPrim 8), fld ''firstlineno'' (CPrim 8),
      fld ''argcount'' (CPrim 8), fld ''localsplusnames'' (CPrim 8),
      fld ''localspluskinds'' (CPrim 8), fld ''co_code_adaptive'' (CPrim 8),
      fld ''co_tlbc'' (CPrim 8)]"

lemma layout_Python3_14_Py_DebugOffsets_code_object [layout]:
  "csize Python3_14_Py_DebugOffsets_code_object = 88" "calign Python3_14_Py_DebugOffsets_code_object = 8"
  by (simp_all add: Python3_14_Py_DebugOffsets_code_object_def round_up_def layout)

definition Python3_14_Py_DebugOffsets_pyobject :: ctype where
  "Python3_14_Py_DebugOffsets_pyobject =
      CStruct [fld ''size'' (CPrim 8), fld ''ob_type'' (CPrim 8)]"

lemma layout_Python3_14_Py_DebugOffsets_pyobject [layout]:
  "csize Python3_14_Py_DebugOffsets_pyobject = 16" "calign Python3_14_Py_DebugOffsets_pyobject = 8"
  by (simp_all add: Python3_14_Py_DebugOffsets_pyobject_def round_up_def layout)

definition Python3_14_Py_DebugOffsets_type_object :: ctype where
  "Python3_14_Py_DebugOffsets_type_object =
      CStruct [fld ''size'' (CPrim 8), fld ''tp_name'' (CPrim 8), fld ''tp_repr'' (CPrim 8),
      fld ''tp_flags'' (CPrim 8)]"

lemma layout_Python3_14_Py_DebugOffsets_type_object [layout]:
  "csize Python3_14_Py_DebugOffsets_type_object = 32" "calign Python3_14_Py_DebugOffsets_type_object = 8"
  by (simp_all add: Python3_14_Py_DebugOffsets_type_object_def round_up_def layout)

definition Python3_14_Py_DebugOffsets_tuple_object :: ctype where
  "Python3_14_Py_DebugOffsets_tuple_object =
      CStruct [fld ''size'' (CPrim 8), fld ''ob_item'' (CPrim 8), fld ''ob_size'' (CPrim 8)]"

lemma layout_Python3_14_Py_DebugOffsets_tuple_object [layout]:
  "csize Python3_14_Py_DebugOffsets_tuple_object = 24" "calign Python3_14_Py_DebugOffsets_tuple_object = 8"
  by (simp_all add: Python3_14_Py_DebugOffsets_tuple_object_def round_up_def layout)

definition Python3_14_Py_DebugOffsets_list_object :: ctype where
  "Python3_14_Py_DebugOffsets_list_object =
      CStruct [fld ''size'' (CPrim 8), fld ''ob_item'' (CPrim 8), fld ''ob_size'' (CPrim 8)]"

lemma layout_Python3_14_Py_DebugOffsets_list_object [layout]:
  "csize Python3_14_Py_DebugOffsets_list_object = 24" "calign Python3_14_Py_DebugOffsets_list_object = 8"
  by (simp_all add: Python3_14_Py_DebugOffsets_list_object_def round_up_def layout)

definition Python3_14_Py_DebugOffsets_set_object :: ctype where
  "Python3_14_Py_DebugOffsets_set_object =
      CStruct [fld ''size'' (CPrim 8), fld ''used'' (CPrim 8), fld ''table'' (CPrim 8),
      fld ''mask'' (CPrim 8)]"

lemma layout_Python3_14_Py_DebugOffsets_set_object [layout]:
  "csize Python3_14_Py_DebugOffsets_set_object = 32" "calign Python3_14_Py_DebugOffsets_set_object = 8"
  by (simp_all add: Python3_14_Py_DebugOffsets_set_object_def round_up_def layout)

definition Python3_14_Py_DebugOffsets_dict_object :: ctype where
  "Python3_14_Py_DebugOffsets_dict_object =
      CStruct [fld ''size'' (CPrim 8), fld ''ma_keys'' (CPrim 8), fld ''ma_values'' (CPrim 8)]"

lemma layout_Python3_14_Py_DebugOffsets_dict_object [layout]:
  "csize Python3_14_Py_DebugOffsets_dict_object = 24" "calign Python3_14_Py_DebugOffsets_dict_object = 8"
  by (simp_all add: Python3_14_Py_DebugOffsets_dict_object_def round_up_def layout)

definition Python3_14_Py_DebugOffsets_float_object :: ctype where
  "Python3_14_Py_DebugOffsets_float_object =
      CStruct [fld ''size'' (CPrim 8), fld ''ob_fval'' (CPrim 8)]"

lemma layout_Python3_14_Py_DebugOffsets_float_object [layout]:
  "csize Python3_14_Py_DebugOffsets_float_object = 16" "calign Python3_14_Py_DebugOffsets_float_object = 8"
  by (simp_all add: Python3_14_Py_DebugOffsets_float_object_def round_up_def layout)

definition Python3_14_Py_DebugOffsets_long_object :: ctype where
  "Python3_14_Py_DebugOffsets_long_object =
      CStruct [fld ''size'' (CPrim 8), fld ''lv_tag'' (CPrim 8), fld ''ob_digit'' (CPrim 8)]"

lemma layout_Python3_14_Py_DebugOffsets_long_object [layout]:
  "csize Python3_14_Py_DebugOffsets_long_object = 24" "calign Python3_14_Py_DebugOffsets_long_object = 8"
  by (simp_all add: Python3_14_Py_DebugOffsets_long_object_def round_up_def layout)

definition Python3_14_Py_DebugOffsets_bytes_object :: ctype where
  "Python3_14_Py_DebugOffsets_bytes_object =
      CStruct [fld ''size'' (CPrim 8), fld ''ob_size'' (CPrim 8), fld ''ob_sval'' (CPrim 8)]"

lemma layout_Python3_14_Py_DebugOffsets_bytes_object [layout]:
  "csize Python3_14_Py_DebugOffsets_bytes_object = 24" "calign Python3_14_Py_DebugOffsets_bytes_object = 8"
  by (simp_all add: Python3_14_Py_DebugOffsets_bytes_object_def round_up_def layout)

definition Python3_14_Py_DebugOffsets_unicode_object :: ctype where
  "Python3_14_Py_DebugOffsets_unicode_object =
      CStruct [fld ''size'' (CPrim 8), fld ''state'' (CPrim 8), fld ''length'' (CPrim 8),
      fld ''asciiobject_size'' (CPrim 8)]"

lemma layout_Python3_14_Py_DebugOffsets_unicode_object [layout]:
  "csize Python3_14_Py_DebugOffsets_unicode_object = 32" "calign Python3_14_Py_DebugOffsets_unicode_object = 8"
  by (simp_all add: Python3_14_Py_DebugOffsets_unicode_object_def round_up_def layout)

definition Python3_14_Py_DebugOffsets_gc :: ctype where
  "Python3_14_Py_DebugOffsets_gc =
      CStruct [fld ''size'' (CPrim 8), fld ''collecting'' (CPrim 8)]"

lemma layout_Python3_14_Py_DebugOffsets_gc [layout]:
  "csize Python3_14_Py_DebugOffsets_gc = 16" "calign Python3_14_Py_DebugOffsets_gc = 8"
  by (simp_all add: Python3_14_Py_DebugOffsets_gc_def round_up_def layout)

definition Python3_14_Py_DebugOffsets_gen_object :: ctype where
  "Python3_14_Py_DebugOffsets_gen_object =
      CStruct [fld ''size'' (CPrim 8), fld ''gi_name'' (CPrim 8), fld ''gi_iframe'' (CPrim 8),
      fld ''gi_frame_state'' (CPrim 8)]"

lemma layout_Python3_14_Py_DebugOffsets_gen_object [layout]:
  "csize Python3_14_Py_DebugOffsets_gen_object = 32" "calign Python3_14_Py_DebugOffsets_gen_object = 8"
  by (simp_all add: Python3_14_Py_DebugOffsets_gen_object_def round_up_def layout)

definition Python3_14_Py_DebugOffsets_llist_node :: ctype where
  "Python3_14_Py_DebugOffsets_llist_node =
      CStruct [fld ''next'' (CPrim 8), fld ''prev'' (CPrim 8)]"

lemma layout_Python3_14_Py_DebugOffsets_llist_node [layout]:
  "csize Python3_14_Py_DebugOffsets_llist_node = 16" "calign Python3_14_Py_DebugOffsets_llist_node = 8"
  by (simp_all add: Python3_14_Py_DebugOffsets_llist_node_def round_up_def layout)

definition Python3_14_Py_DebugOffsets_debugger_support :: ctype where
  "Python3_14_Py_DebugOffsets_debugger_support =
      CStruct [fld ''eval_breaker'' (CPrim 8), fld ''remote_debugger_support'' (CPrim 8),
      fld ''remote_debugging_enabled'' (CPrim 8), fld ''debugger_pending_call'' (CPrim 8),
      fld ''debugger_script_path'' (CPrim 8), fld ''debugger_script_path_size'' (CPrim 8)]"

lemma layout_Python3_14_Py_DebugOffsets_debugger_support [layout]:
  "csize Python3_14_Py_DebugOffsets_debugger_support = 48" "calign Python3_14_Py_DebugOffsets_debugger_support = 8"
  by (simp_all add: Python3_14_Py_DebugOffsets_debugger_support_def round_up_def layout)

definition Python3_14_Py_DebugOffsets :: ctype where
  "Python3_14_Py_DebugOffsets =
      CStruct [fld ''cookie'' (CArr 8 (CPrim 1)), fld ''version'' (CPrim 8),
      fld ''free_threaded'' (CPrim 8),
      fld ''runtime_state'' Python3_14_Py_DebugOffsets_runtime_state,
      fld ''interpreter_state'' Python3_14_Py_DebugOffsets_interpreter_state,
      fld ''thread_state'' Python3_14_Py_DebugOffsets_thread_state,
      fld ''interpreter_frame'' Python3_14_Py_DebugOffsets_interpreter_frame,
      fld ''code_object'' Python3_14_Py_DebugOffsets_code_object,
      fld ''pyobject'' Python3_14_Py_DebugOffsets_pyobject,
      fld ''type_object'' Python3_14_Py_DebugOffsets_type_object,
      fld ''tuple_object'' Python3_14_Py_DebugOffsets_tuple_object,
      fld ''list_object'' Python3_14_Py_DebugOffsets_list_object,
      fld ''set_object'' Python3_14_Py_DebugOffsets_set_object,
      fld ''dict_object'' Python3_14_Py_DebugOffsets_dict_object,
      fld ''float_object'' Python3_14_Py_DebugOffsets_float_object,
      fld ''long_object'' Python3_14_Py_DebugOffsets_long_object,
      fld ''bytes_object'' Python3_14_Py_DebugOffsets_bytes_object,
      fld ''unicode_object'' Python3_14_Py_DebugOffsets_unicode_object,
      fld ''gc'' Python3_14_Py_DebugOffsets_gc,
      fld ''gen_object'' Python3_14_Py_DebugOffsets_gen_object,
      fld ''llist_node'' Python3_14_Py_DebugOffsets_llist_node,
      fld ''debugger_support'' Python3_14_Py_DebugOffsets_debugger_support]"

lemma layout_Python3_14_Py_DebugOffsets [layout]:
  "csize Python3_14_Py_DebugOffsets = 760" "calign Python3_14_Py_DebugOffsets = 8"
  by (simp_all add: Python3_14_Py_DebugOffsets_def round_up_def layout)

definition Python3_14_PyRuntimeState :: ctype where
  "Python3_14_PyRuntimeState =
      CStruct [fld ''debug_offsets'' Python3_14_Py_DebugOffsets]"

lemma layout_Python3_14_PyRuntimeState [layout]:
  "csize Python3_14_PyRuntimeState = 760" "calign Python3_14_PyRuntimeState = 8"
  by (simp_all add: Python3_14_PyRuntimeState_def round_up_def layout)

definition Python3_15_Py_DebugOffsets_runtime_state :: ctype where
  "Python3_15_Py_DebugOffsets_runtime_state =
      CStruct [fld ''size'' (CPrim 8), fld ''finalizing'' (CPrim 8),
      fld ''interpreters_head'' (CPrim 8)]"

lemma layout_Python3_15_Py_DebugOffsets_runtime_state [layout]:
  "csize Python3_15_Py_DebugOffsets_runtime_state = 24" "calign Python3_15_Py_DebugOffsets_runtime_state = 8"
  by (simp_all add: Python3_15_Py_DebugOffsets_runtime_state_def round_up_def layout)

definition Python3_15_Py_DebugOffsets_interpreter_state :: ctype where
  "Python3_15_Py_DebugOffsets_interpreter_state =
      CStruct [fld ''size'' (CPrim 8), fld ''id'' (CPrim 8), fld ''next'' (CPrim 8),
      fld ''threads_head'' (CPrim 8), fld ''threads_main'' (CPrim 8), fld ''gc'' (CPrim 8),
      fld ''imports_modules'' (CPrim 8), fld ''sysdict'' (CPrim 8), fld ''builtins'' (CPrim 8),
      fld ''ceval_gil'' (CPrim 8), fld ''gil_runtime_state'' (CPrim 8),
      fld ''gil_runtime_state_enabled'' (CPrim 8), fld ''gil_runtime_state_locked'' (CPrim 8),
      fld ''gil_runtime_state_holder'' (CPrim 8), fld ''code_object_generation'' (CPrim 8),
      fld ''tlbc_generation'' (CPrim 8)]"

lemma layout_Python3_15_Py_DebugOffsets_interpreter_state [layout]:
  "csize Python3_15_Py_DebugOffsets_interpreter_state = 128" "calign Python3_15_Py_DebugOffsets_interpreter_state = 8"
  by (simp_all add: Python3_15_Py_DebugOffsets_interpreter_state_def round_up_def layout)

definition Python3_15_Py_DebugOffsets_thread_state :: ctype where
  "Python3_15_Py_DebugOffsets_thread_state =
      CStruct [fld ''size'' (CPrim 8), fld ''prev'' (CPrim 8), fld ''next'' (CPrim 8),
      fld ''interp'' (CPrim 8), fld ''current_frame'' (CPrim 8), fld ''base_frame'' (CPrim 8),
      fld ''last_profiled_frame'' (CPrim 8), fld ''thread_id'' (CPrim 8),
      fld ''native_thread_id'' (CPrim 8), fld ''datastack_chunk'' (CPrim 8),
      fld ''status'' (CPrim 8), fld ''holds_gil'' (CPrim 8), fld ''gil_requested'' (CPrim 8),
      fld ''current_exception'' (CPrim 8), fld ''exc_state'' (CPrim 8)]"

lemma layout_Python3_15_Py_DebugOffsets_thread_state [layout]:
  "csize Python3_15_Py_DebugOffsets_thread_state = 120" "calign Python3_15_Py_DebugOffsets_thread_state = 8"
  by (simp_all add: Python3_15_Py_DebugOffsets_thread_state_def round_up_def layout)

definition Python3_15_Py_DebugOffsets_interpreter_frame :: ctype where
  "Python3_15_Py_DebugOffsets_interpreter_frame =
      CStruct [fld ''size'' (CPrim 8), fld ''previous'' (CPrim 8), fld ''executable'' (CPrim 8),
      fld ''instr_ptr'' (CPrim 8), fld ''localsplus'' (CPrim 8), fld ''owner'' (CPrim 8),
      fld ''stackpointer'' (CPrim 8), fld ''tlbc_index'' (CPrim 8)]"

lemma layout_Python3_15_Py_DebugOffsets_interpreter_frame [layout]:
  "csize Python3_15_Py_DebugOffsets_interpreter_frame = 64" "calign Python3_15_Py_DebugOffsets_interpreter_frame = 8"
  by (simp_all add: Python3_15_Py_DebugOffsets_interpreter_frame_def round_up_def layout)

definition Python3_15_Py_DebugOffsets_code_object :: ctype where
  "Python3_15_Py_DebugOffsets_code_object =
      CStruct [fld ''size'' (CPrim 8), fld ''filename'' (CPrim 8), fld ''name'' (CPrim 8),
      fld ''qualname'' (CPrim 8), fld ''linetable'' (CPrim 8), fld ''firstlineno'' (CPrim 8),
      fld ''argcount'' (CPrim 8), fld ''localsplusnames'' (CPrim 8),
      fld ''localspluskinds'' (CPrim 8), fld ''co_code_adaptive'' (CPrim 8),
      fld ''co_tlbc'' (CPrim 8)]"

lemma layout_Python3_15_Py_DebugOffsets_code_object [layout]:
  "csize Python3_15_Py_DebugOffsets_code_object = 88" "calign Python3_15_Py_DebugOffsets_code_object = 8"
  by (simp_all add: Python3_15_Py_DebugOffsets_code_object_def round_up_def layout)

definition Python3_15_Py_DebugOffsets_pyobject :: ctype where
  "Python3_15_Py_DebugOffsets_pyobject =
      CStruct [fld ''size'' (CPrim 8), fld ''ob_type'' (CPrim 8)]"

lemma layout_Python3_15_Py_DebugOffsets_pyobject [layout]:
  "csize Python3_15_Py_DebugOffsets_pyobject = 16" "calign Python3_15_Py_DebugOffsets_pyobject = 8"
  by (simp_all add: Python3_15_Py_DebugOffsets_pyobject_def round_up_def layout)

definition Python3_15_Py_DebugOffsets_type_object :: ctype where
  "Python3_15_Py_DebugOffsets_type_object =
      CStruct [fld ''size'' (CPrim 8), fld ''tp_name'' (CPrim 8), fld ''tp_repr'' (CPrim 8),
      fld ''tp_flags'' (CPrim 8), fld ''tp_basicsize'' (CPrim 8), fld ''tp_dictoffset'' (CPrim 8)]"

lemma layout_Python3_15_Py_DebugOffsets_type_object [layout]:
  "csize Python3_15_Py_DebugOffsets_type_object = 48" "calign Python3_15_Py_DebugOffsets_type_object = 8"
  by (simp_all add: Python3_15_Py_DebugOffsets_type_object_def round_up_def layout)

definition Python3_15_Py_DebugOffsets_heap_type_object :: ctype where
  "Python3_15_Py_DebugOffsets_heap_type_object =
      CStruct [fld ''size'' (CPrim 8), fld ''ht_cached_keys'' (CPrim 8)]"

lemma layout_Python3_15_Py_DebugOffsets_heap_type_object [layout]:
  "csize Python3_15_Py_DebugOffsets_heap_type_object = 16" "calign Python3_15_Py_DebugOffsets_heap_type_object = 8"
  by (simp_all add: Python3_15_Py_DebugOffsets_heap_type_object_def round_up_def layout)

definition Python3_15_Py_DebugOffsets_tuple_object :: ctype where
  "Python3_15_Py_DebugOffsets_tuple_object =
      CStruct [fld ''size'' (CPrim 8), fld ''ob_item'' (CPrim 8), fld ''ob_size'' (CPrim 8)]"

lemma layout_Python3_15_Py_DebugOffsets_tuple_object [layout]:
  "csize Python3_15_Py_DebugOffsets_tuple_object = 24" "calign Python3_15_Py_DebugOffsets_tuple_object = 8"
  by (simp_all add: Python3_15_Py_DebugOffsets_tuple_object_def round_up_def layout)

definition Python3_15_Py_DebugOffsets_list_object :: ctype where
  "Python3_15_Py_DebugOffsets_list_object =
      CStruct [fld ''size'' (CPrim 8), fld ''ob_item'' (CPrim 8), fld ''ob_size'' (CPrim 8)]"

lemma layout_Python3_15_Py_DebugOffsets_list_object [layout]:
  "csize Python3_15_Py_DebugOffsets_list_object = 24" "calign Python3_15_Py_DebugOffsets_list_object = 8"
  by (simp_all add: Python3_15_Py_DebugOffsets_list_object_def round_up_def layout)

definition Python3_15_Py_DebugOffsets_set_object :: ctype where
  "Python3_15_Py_DebugOffsets_set_object =
      CStruct [fld ''size'' (CPrim 8), fld ''used'' (CPrim 8), fld ''table'' (CPrim 8),
      fld ''mask'' (CPrim 8)]"

lemma layout_Python3_15_Py_DebugOffsets_set_object [layout]:
  "csize Python3_15_Py_DebugOffsets_set_object = 32" "calign Python3_15_Py_DebugOffsets_set_object = 8"
  by (simp_all add: Python3_15_Py_DebugOffsets_set_object_def round_up_def layout)

definition Python3_15_Py_DebugOffsets_dict_object :: ctype where
  "Python3_15_Py_DebugOffsets_dict_object =
      CStruct [fld ''size'' (CPrim 8), fld ''ma_keys'' (CPrim 8), fld ''ma_values'' (CPrim 8)]"

lemma layout_Python3_15_Py_DebugOffsets_dict_object [layout]:
  "csize Python3_15_Py_DebugOffsets_dict_object = 24" "calign Python3_15_Py_DebugOffsets_dict_object = 8"
  by (simp_all add: Python3_15_Py_DebugOffsets_dict_object_def round_up_def layout)

definition Python3_15_Py_DebugOffsets_float_object :: ctype where
  "Python3_15_Py_DebugOffsets_float_object =
      CStruct [fld ''size'' (CPrim 8), fld ''ob_fval'' (CPrim 8)]"

lemma layout_Python3_15_Py_DebugOffsets_float_object [layout]:
  "csize Python3_15_Py_DebugOffsets_float_object = 16" "calign Python3_15_Py_DebugOffsets_float_object = 8"
  by (simp_all add: Python3_15_Py_DebugOffsets_float_object_def round_up_def layout)

definition Python3_15_Py_DebugOffsets_long_object :: ctype where
  "Python3_15_Py_DebugOffsets_long_object =
      CStruct [fld ''size'' (CPrim 8), fld ''lv_tag'' (CPrim 8), fld ''ob_digit'' (CPrim 8)]"

lemma layout_Python3_15_Py_DebugOffsets_long_object [layout]:
  "csize Python3_15_Py_DebugOffsets_long_object = 24" "calign Python3_15_Py_DebugOffsets_long_object = 8"
  by (simp_all add: Python3_15_Py_DebugOffsets_long_object_def round_up_def layout)

definition Python3_15_Py_DebugOffsets_bytes_object :: ctype where
  "Python3_15_Py_DebugOffsets_bytes_object =
      CStruct [fld ''size'' (CPrim 8), fld ''ob_size'' (CPrim 8), fld ''ob_sval'' (CPrim 8)]"

lemma layout_Python3_15_Py_DebugOffsets_bytes_object [layout]:
  "csize Python3_15_Py_DebugOffsets_bytes_object = 24" "calign Python3_15_Py_DebugOffsets_bytes_object = 8"
  by (simp_all add: Python3_15_Py_DebugOffsets_bytes_object_def round_up_def layout)

definition Python3_15_Py_DebugOffsets_unicode_object :: ctype where
  "Python3_15_Py_DebugOffsets_unicode_object =
      CStruct [fld ''size'' (CPrim 8), fld ''state'' (CPrim 8), fld ''length'' (CPrim 8),
      fld ''asciiobject_size'' (CPrim 8), fld ''compactunicodeobject_size'' (CPrim 8)]"

lemma layout_Python3_15_Py_DebugOffsets_unicode_object [layout]:
  "csize Python3_15_Py_DebugOffsets_unicode_object = 40" "calign Python3_15_Py_DebugOffsets_unicode_object = 8"
  by (simp_all add: Python3_15_Py_DebugOffsets_unicode_object_def round_up_def layout)

definition Python3_15_Py_DebugOffsets_gc :: ctype where
  "Python3_15_Py_DebugOffsets_gc =
      CStruct [fld ''size'' (CPrim 8), fld ''collecting'' (CPrim 8), fld ''frame'' (CPrim 8),
      fld ''generation_stats_size'' (CPrim 8), fld ''generation_stats'' (CPrim 8)]"

lemma layout_Python3_15_Py_DebugOffsets_gc [layout]:
  "csize Python3_15_Py_DebugOffsets_gc = 40" "calign Python3_15_Py_DebugOffsets_gc = 8"
  by (simp_all add: Python3_15_Py_DebugOffsets_gc_def round_up_def layout)

definition Python3_15_Py_DebugOffsets_gen_object :: ctype where
  "Python3_15_Py_DebugOffsets_gen_object =
      CStruct [fld ''size'' (CPrim 8), fld ''gi_name'' (CPrim 8), fld ''gi_iframe'' (CPrim 8),
      fld ''gi_frame_state'' (CPrim 8)]"

lemma layout_Python3_15_Py_DebugOffsets_gen_object [layout]:
  "csize Python3_15_Py_DebugOffsets_gen_object = 32" "calign Python3_15_Py_DebugOffsets_gen_object = 8"
  by (simp_all add: Python3_15_Py_DebugOffsets_gen_object_def round_up_def layout)

definition Python3_15_Py_DebugOffsets_llist_node :: ctype where
  "Python3_15_Py_DebugOffsets_llist_node =
      CStruct [fld ''next'' (CPrim 8), fld ''prev'' (CPrim 8)]"

lemma layout_Python3_15_Py_DebugOffsets_llist_node [layout]:
  "csize Python3_15_Py_DebugOffsets_llist_node = 16" "calign Python3_15_Py_DebugOffsets_llist_node = 8"
  by (simp_all add: Python3_15_Py_DebugOffsets_llist_node_def round_up_def layout)

definition Python3_15_Py_DebugOffsets_debugger_support :: ctype where
  "Python3_15_Py_DebugOffsets_debugger_support =
      CStruct [fld ''eval_breaker'' (CPrim 8), fld ''remote_debugger_support'' (CPrim 8),
      fld ''remote_debugging_enabled'' (CPrim 8), fld ''debugger_pending_call'' (CPrim 8),
      fld ''debugger_script_path'' (CPrim 8), fld ''debugger_script_path_size'' (CPrim 8)]"

lemma layout_Python3_15_Py_DebugOffsets_debugger_support [layout]:
  "csize Python3_15_Py_DebugOffsets_debugger_support = 48" "calign Python3_15_Py_DebugOffsets_debugger_support = 8"
  by (simp_all add: Python3_15_Py_DebugOffsets_debugger_support_def round_up_def layout)

definition Python3_15_Py_DebugOffsets :: ctype where
  "Python3_15_Py_DebugOffsets =
      CStruct [fld ''cookie'' (CArr 8 (CPrim 1)), fld ''version'' (CPrim 8),
      fld ''free_threaded'' (CPrim 8),
      fld ''runtime_state'' Python3_15_Py_DebugOffsets_runtime_state,
      fld ''interpreter_state'' Python3_15_Py_DebugOffsets_interpreter_state,
      fld ''thread_state'' Python3_15_Py_DebugOffsets_thread_state,
      fld ''err_stackitem'' (CStruct [fld ''exc_value'' (CPrim 8)]),
      fld ''interpreter_frame'' Python3_15_Py_DebugOffsets_interpreter_frame,
      fld ''code_object'' Python3_15_Py_DebugOffsets_code_object,
      fld ''pyobject'' Python3_15_Py_DebugOffsets_pyobject,
      fld ''type_object'' Python3_15_Py_DebugOffsets_type_object,
      fld ''heap_type_object'' Python3_15_Py_DebugOffsets_heap_type_object,
      fld ''tuple_object'' Python3_15_Py_DebugOffsets_tuple_object,
      fld ''list_object'' Python3_15_Py_DebugOffsets_list_object,
      fld ''set_object'' Python3_15_Py_DebugOffsets_set_object,
      fld ''dict_object'' Python3_15_Py_DebugOffsets_dict_object,
      fld ''float_object'' Python3_15_Py_DebugOffsets_float_object,
      fld ''long_object'' Python3_15_Py_DebugOffsets_long_object,
      fld ''bytes_object'' Python3_15_Py_DebugOffsets_bytes_object,
      fld ''unicode_object'' Python3_15_Py_DebugOffsets_unicode_object,
      fld ''gc'' Python3_15_Py_DebugOffsets_gc,
      fld ''gen_object'' Python3_15_Py_DebugOffsets_gen_object,
      fld ''llist_node'' Python3_15_Py_DebugOffsets_llist_node,
      fld ''debugger_support'' Python3_15_Py_DebugOffsets_debugger_support]"

lemma layout_Python3_15_Py_DebugOffsets [layout]:
  "csize Python3_15_Py_DebugOffsets = 880" "calign Python3_15_Py_DebugOffsets = 8"
  by (simp_all add: Python3_15_Py_DebugOffsets_def round_up_def layout)

definition Python3_15_PyRuntimeState :: ctype where
  "Python3_15_PyRuntimeState =
      CStruct [fld ''debug_offsets'' Python3_15_Py_DebugOffsets]"

lemma layout_Python3_15_PyRuntimeState [layout]:
  "csize Python3_15_PyRuntimeState = 880" "calign Python3_15_PyRuntimeState = 8"
  by (simp_all add: Python3_15_PyRuntimeState_def round_up_def layout)

section \<open>\<open>cpython/pthread.h\<close>\<close>

definition C_128bits :: ctype where
  "C_128bits =
      CStruct [fld ''i'' (CArr 4 (CPrim 4))]"

lemma layout_C_128bits [layout]:
  "csize C_128bits = 16" "calign C_128bits = 4"
  by (simp_all add: C_128bits_def round_up_def layout)

definition C_tcbhead_t :: ctype where
  "C_tcbhead_t =
      CStruct [fld ''tcb'' CPtr, fld ''dtv'' CPtr, fld ''self'' CPtr,
      fld ''multiple_threads'' (CPrim 4), fld ''gscope_flag'' (CPrim 4), fld ''sysinfo'' (CPrim 8),
      fld ''stack_guard'' (CPrim 8), fld ''pointer_guard'' (CPrim 8),
      fld ''unused_vgetcpu_cache'' (CArr 2 (CPrim 8)), fld ''feature_1'' (CPrim 4),
      fld ''__glibc_unused1'' (CPrim 4), fld ''__private_tm'' (CArr 4 CPtr),
      fld ''__private_ss'' CPtr, fld ''ssp_base'' (CPrim 8),
      fld ''__glibc_unused2'' (CAligned 32 (CArr 8 (CArr 4 C_128bits))),
      fld ''__padding'' (CArr 8 CPtr)]"

lemma layout_C_tcbhead_t [layout]:
  "csize C_tcbhead_t = 704" "calign C_tcbhead_t = 32"
  by (simp_all add: C_tcbhead_t_def round_up_def layout)

definition C_pthread_structure_with_simple_header :: ctype where
  "C_pthread_structure_with_simple_header =
      CStruct [fld '''' (CUnion [fld ''header'' (CStruct [fld ''multiple_threads'' (CPrim 4),
      fld ''gscope_flag'' (CPrim 4)]), fld ''__padding'' (CArr 24 CPtr)]),
      fld ''list'' (CStruct [fld ''next'' CPtr, fld ''prev'' CPtr]), fld ''tid'' (CPrim 4)]"

lemma layout_C_pthread_structure_with_simple_header [layout]:
  "csize C_pthread_structure_with_simple_header = 216" "calign C_pthread_structure_with_simple_header = 8"
  by (simp_all add: C_pthread_structure_with_simple_header_def round_up_def layout)

definition C_pthread_structure_with_tcbhead :: ctype where
  "C_pthread_structure_with_tcbhead =
      CStruct [fld '''' (CUnion [fld ''header'' C_tcbhead_t, fld ''__padding'' (CArr 24 CPtr)]),
      fld ''list'' (CStruct [fld ''next'' CPtr, fld ''prev'' CPtr]), fld ''tid'' (CPrim 4)]"

lemma layout_C_pthread_structure_with_tcbhead [layout]:
  "csize C_pthread_structure_with_tcbhead = 736" "calign C_pthread_structure_with_tcbhead = 32"
  by (simp_all add: C_pthread_structure_with_tcbhead_def round_up_def layout)

section \<open>Member lookup\<close>

text \<open>How the type of a member of each declared structure is found.\<close>

lemma path_type_struct:
  "t = CStruct fs \<Longrightarrow>
     path_type t (n # ns) = Option.bind (member_type fs n) (\<lambda>t'. path_type t' ns)"
  by simp

declare path_type.simps(2) [simp del]

lemmas members =
  path_type_struct [OF refl]
  C_PyObject_def [THEN path_type_struct]
  C_PyVarObject_def [THEN path_type_struct]
  Python2_PyTypeObject_def [THEN path_type_struct]
  Python3_3_PyTypeObject_def [THEN path_type_struct]
  Python3_8_PyTypeObject_def [THEN path_type_struct]
  Python3_PyBytesObject_def [THEN path_type_struct]
  Python2_PyUnicodeObject_def [THEN path_type_struct]
  Python2_PyStringObject_def [THEN path_type_struct]
  Python3_PyUnicode_State_def [THEN path_type_struct]
  Python3_PyASCIIObject_def [THEN path_type_struct]
  Python3_PyCompactUnicodeObject_def [THEN path_type_struct]
  Python3_PyUnicodeObject_def [THEN path_type_struct]
  Python3_12_PyASCIIObject_def [THEN path_type_struct]
  Python3_12_PyCompactUnicodeObject_def [THEN path_type_struct]
  Python3_12_PyUnicodeObject_def [THEN path_type_struct]
  Python3_14t_PyUnicode_State_def [THEN path_type_struct]
  Python2_PyCodeObject_def [THEN path_type_struct]
  Python3_3_PyCodeObject_def [THEN path_type_struct]
  Python3_6_PyCodeObject_def [THEN path_type_struct]
  Python3_8_PyCodeObject_def [THEN path_type_struct]
  Python3_11_PyCodeObject_def [THEN path_type_struct]
  Python3_12_PyCodeObject_def [THEN path_type_struct]
  Python3_13_PyCodeObject_def [THEN path_type_struct]
  Python2_PyDictEntry_def [THEN path_type_struct]
  Python2_PyDictObject_def [THEN path_type_struct]
  Python3_PyDictKeyEntry_def [THEN path_type_struct]
  Python3_PyDictObject_def [THEN path_type_struct]
  Python3_PyDictValuesObject_def [THEN path_type_struct]
  Python3_3_PyDictKeysObject_def [THEN path_type_struct]
  Python3_11_PyDictUnicodeEntry_def [THEN path_type_struct]
  Python3_11_PyDictKeysObject_def [THEN path_type_struct]
  Python3_13_PyDictValuesObject_def [THEN path_type_struct]
  C_PyFloatObject_def [THEN path_type_struct]
  C_PyTryBlock_def [THEN path_type_struct]
  Python2_PyFrameObject_def [THEN path_type_struct]
  Python3_7_PyFrameObject_def [THEN path_type_struct]
  Python3_10_PyFrameObject_def [THEN path_type_struct]
  Python3_11_PyFrameObject_def [THEN path_type_struct]
  Python3_12_PyFrameObject_def [THEN path_type_struct]
  C_gc_generation_stats_def [THEN path_type_struct]
  Python3_7_gc_generation_def [THEN path_type_struct]
  Python3_7_gc_runtime_state_def [THEN path_type_struct]
  Python3_8_PyGC_Head_def [THEN path_type_struct]
  Python3_8_gc_generation_def [THEN path_type_struct]
  Python3_8_gc_runtime_state_def [THEN path_type_struct]
  C_PyIntObject_def [THEN path_type_struct]
  C_PyLongObject_def [THEN path_type_struct]
  C_PyListObject_def [THEN path_type_struct]
  C_PyTupleObject_def [THEN path_type_struct]
  C_Py_atomic_int_def [THEN path_type_struct]
  C_pending_calls_def [THEN path_type_struct]
  C_ceval_state_def [THEN path_type_struct]
  Python2_PyInterpreterState_def [THEN path_type_struct]
  Python3_5_PyInterpreterState_def [THEN path_type_struct]
  Python3_7_PyInterpreterState_def [THEN path_type_struct]
  Python3_8_PyInterpreterState_def [THEN path_type_struct]
  Python3_9_PyInterpreterState_def [THEN path_type_struct]
  Python3_11_ceval_state_def [THEN path_type_struct]
  Python3_11_PyInterpreterState_pythreads_def [THEN path_type_struct]
  Python3_11_PyInterpreterState_def [THEN path_type_struct]
  Python3_12_pending_calls_pending_call_def [THEN path_type_struct]
  Python3_12_pending_calls_def [THEN path_type_struct]
  Python3_12_ceval_state_def [THEN path_type_struct]
  Python3_12_import_state_def [THEN path_type_struct]
  Python3_12_PyInterpreterState_pythreads_def [THEN path_type_struct]
  Python3_12_PyInterpreterState_def [THEN path_type_struct]
  Python3_13_PyMutex_def [THEN path_type_struct]
  Python3_13_pending_call_def [THEN path_type_struct]
  Python3_13_pending_calls_def [THEN path_type_struct]
  Python3_13_ceval_state_def [THEN path_type_struct]
  Python3_13_import_state_def [THEN path_type_struct]
  Python3_13_PyInterpreterState_pythreads_def [THEN path_type_struct]
  Python3_13_PyInterpreterState_def [THEN path_type_struct]
  Python2_PyThreadState_def [THEN path_type_struct]
  Python3_4_PyThreadState_def [THEN path_type_struct]
  Python3_7_PyErr_StackItem_def [THEN path_type_struct]
  Python3_7_PyThreadState_def [THEN path_type_struct]
  Python3_11_PyErr_StackItem_def [THEN path_type_struct]
  Python3_11_CFrame_def [THEN path_type_struct]
  Python3_11_PyThreadState_def [THEN path_type_struct]
  Python3_12_PyErr_StackItem_def [THEN path_type_struct]
  Python3_12_CFrame_def [THEN path_type_struct]
  Python3_12_py_trashcan_def [THEN path_type_struct]
  Python3_12_PyThreadState_def [THEN path_type_struct]
  Python3_13_PyErr_StackItem_def [THEN path_type_struct]
  Python3_13_PyThreadState_def [THEN path_type_struct]
  C_Py_atomic_address_def [THEN path_type_struct]
  C_Py_tss_t_def [THEN path_type_struct]
  Python3_7_PyRuntimeState_pyinterpreters_def [THEN path_type_struct]
  Python3_7_PyRuntimeState_def [THEN path_type_struct]
  Python3_8_pending_calls_def [THEN path_type_struct]
  Python3_8_gil_runtime_state_def [THEN path_type_struct]
  Python3_8_gilstate_runtime_state_def [THEN path_type_struct]
  Python3_8_ceval_runtime_state_def [THEN path_type_struct]
  Python3_8_PyRuntimeState_pyinterpreters_def [THEN path_type_struct]
  Python3_8_PyRuntimeState_xidregistry_def [THEN path_type_struct]
  Python3_8_PyRuntimeState_def [THEN path_type_struct]
  Python3_9_gilstate_runtime_state_def [THEN path_type_struct]
  Python3_9_gil_runtime_state_def [THEN path_type_struct]
  Python3_9_ceval_runtime_state_def [THEN path_type_struct]
  Python3_9_PyRuntimeState_pyinterpreters_def [THEN path_type_struct]
  Python3_9_PyRuntimeState_xidregistry_def [THEN path_type_struct]
  Python3_9_PyRuntimeState_def [THEN path_type_struct]
  Python3_11_PyRuntimeState_pyinterpreters_def [THEN path_type_struct]
  Python3_11_PyRuntimeState_xidregistry_def [THEN path_type_struct]
  Python3_11_PyRuntimeState_def [THEN path_type_struct]
  Python3_12_PyRuntimeState_pyinterpreters_def [THEN path_type_struct]
  Python3_12_PyRuntimeState_def [THEN path_type_struct]
  Python3_13_Py_DebugOffsets_runtime_state_def [THEN path_type_struct]
  Python3_13_Py_DebugOffsets_interpreter_state_def [THEN path_type_struct]
  Python3_13_Py_DebugOffsets_thread_state_def [THEN path_type_struct]
  Python3_13_Py_DebugOffsets_interpreter_frame_def [THEN path_type_struct]
  Python3_13_Py_DebugOffsets_code_object_def [THEN path_type_struct]
  Python3_13_Py_DebugOffsets_pyobject_def [THEN path_type_struct]
  Python3_13_Py_DebugOffsets_type_object_def [THEN path_type_struct]
  Python3_13_Py_DebugOffsets_tuple_object_def [THEN path_type_struct]
  Python3_13_Py_DebugOffsets_list_object_def [THEN path_type_struct]
  Python3_13_Py_DebugOffsets_dict_object_def [THEN path_type_struct]
  Python3_13_Py_DebugOffsets_float_object_def [THEN path_type_struct]
  Python3_13_Py_DebugOffsets_long_object_def [THEN path_type_struct]
  Python3_13_Py_DebugOffsets_bytes_object_def [THEN path_type_struct]
  Python3_13_Py_DebugOffsets_unicode_object_def [THEN path_type_struct]
  Python3_13_Py_DebugOffsets_gc_def [THEN path_type_struct]
  Python3_13_Py_DebugOffsets_def [THEN path_type_struct]
  Python3_13_PyRuntimeState_pyinterpreters_def [THEN path_type_struct]
  Python3_13_PyRuntimeState_def [THEN path_type_struct]
  Python3_14_Py_DebugOffsets_runtime_state_def [THEN path_type_struct]
  Python3_14_Py_DebugOffsets_interpreter_state_def [THEN path_type_struct]
  Python3_14_Py_DebugOffsets_thread_state_def [THEN path_type_struct]
  Python3_14_Py_DebugOffsets_interpreter_frame_def [THEN path_type_struct]
  Python3_14_Py_DebugOffsets_code_object_def [THEN path_type_struct]
  Python3_14_Py_DebugOffsets_pyobject_def [THEN path_type_struct]
  Python3_14_Py_DebugOffsets_type_object_def [THEN path_type_struct]
  Python3_14_Py_DebugOffsets_tuple_object_def [THEN path_type_struct]
  Python3_14_Py_DebugOffsets_list_object_def [THEN path_type_struct]
  Python3_14_Py_DebugOffsets_set_object_def [THEN path_type_struct]
  Python3_14_Py_DebugOffsets_dict_object_def [THEN path_type_struct]
  Python3_14_Py_DebugOffsets_float_object_def [THEN path_type_struct]
  Python3_14_Py_DebugOffsets_long_object_def [THEN path_type_struct]
  Python3_14_Py_DebugOffsets_bytes_object_def [THEN path_type_struct]
  Python3_14_Py_DebugOffsets_unicode_object_def [THEN path_type_struct]
  Python3_14_Py_DebugOffsets_gc_def [THEN path_type_struct]
  Python3_14_Py_DebugOffsets_gen_object_def [THEN path_type_struct]
  Python3_14_Py_DebugOffsets_llist_node_def [THEN path_type_struct]
  Python3_14_Py_DebugOffsets_debugger_support_def [THEN path_type_struct]
  Python3_14_Py_DebugOffsets_def [THEN path_type_struct]
  Python3_14_PyRuntimeState_def [THEN path_type_struct]
  Python3_15_Py_DebugOffsets_runtime_state_def [THEN path_type_struct]
  Python3_15_Py_DebugOffsets_interpreter_state_def [THEN path_type_struct]
  Python3_15_Py_DebugOffsets_thread_state_def [THEN path_type_struct]
  Python3_15_Py_DebugOffsets_interpreter_frame_def [THEN path_type_struct]
  Python3_15_Py_DebugOffsets_code_object_def [THEN path_type_struct]
  Python3_15_Py_DebugOffsets_pyobject_def [THEN path_type_struct]
  Python3_15_Py_DebugOffsets_type_object_def [THEN path_type_struct]
  Python3_15_Py_DebugOffsets_heap_type_object_def [THEN path_type_struct]
  Python3_15_Py_DebugOffsets_tuple_object_def [THEN path_type_struct]
  Python3_15_Py_DebugOffsets_list_object_def [THEN path_type_struct]
  Python3_15_Py_DebugOffsets_set_object_def [THEN path_type_struct]
  Python3_15_Py_DebugOffsets_dict_object_def [THEN path_type_struct]
  Python3_15_Py_DebugOffsets_float_object_def [THEN path_type_struct]
  Python3_15_Py_DebugOffsets_long_object_def [THEN path_type_struct]
  Python3_15_Py_DebugOffsets_bytes_object_def [THEN path_type_struct]
  Python3_15_Py_DebugOffsets_unicode_object_def [THEN path_type_struct]
  Python3_15_Py_DebugOffsets_gc_def [THEN path_type_struct]
  Python3_15_Py_DebugOffsets_gen_object_def [THEN path_type_struct]
  Python3_15_Py_DebugOffsets_llist_node_def [THEN path_type_struct]
  Python3_15_Py_DebugOffsets_debugger_support_def [THEN path_type_struct]
  Python3_15_Py_DebugOffsets_def [THEN path_type_struct]
  Python3_15_PyRuntimeState_def [THEN path_type_struct]
  C_128bits_def [THEN path_type_struct]
  C_tcbhead_t_def [THEN path_type_struct]
  C_pthread_structure_with_simple_header_def [THEN path_type_struct]
  C_pthread_structure_with_tcbhead_def [THEN path_type_struct]

end
