(* ===== verification/Version_Tables.thy ===== *)
theory Version_Tables
  imports Offsets C_Layout
begin

text \<open>
  The tables of \<open>version.cpp\<close>: for every supported Python version, the sizes and offsets computed
  by the compiler from the structures of \<open>cpython/*.h\<close>, and the choice of the table for a version
  (\<open>getCPythonOffsets\<close>). A table entry that the source leaves out is value-initialised to 0.
\<close>

section \<open>Tables of one structure\<close>

definition sizeof_member :: "ctype \<Rightarrow> string list \<Rightarrow> 64 word" where
  "sizeof_member T path = (case cpath T path of Some (_, t) \<Rightarrow> sizeof t | None \<Rightarrow> undefined)"

definition mk_py_code :: "ctype \<Rightarrow> py_code_v" where
  "mk_py_code T =
     \<lparr>code_size = sizeof T,
      o_filename = offsetof T [''co_filename''],
      o_name = offsetof T [''co_name''],
      o_lnotab = offsetof T [''co_lnotab''],
      o_firstlineno = offsetof T [''co_firstlineno''],
      o_argcount = offsetof T [''co_argcount''],
      o_varnames = offsetof T [''co_varnames''],
      o_code_adaptive = 0\<rparr>"

definition mk_py_codev311 :: "ctype \<Rightarrow> py_code_v" where
  "mk_py_codev311 T =
     \<lparr>code_size = sizeof T,
      o_filename = offsetof T [''co_filename''],
      o_name = offsetof T [''co_name''],
      o_lnotab = offsetof T [''co_linetable''],
      o_firstlineno = offsetof T [''co_firstlineno''],
      o_argcount = offsetof T [''co_argcount''],
      o_varnames = offsetof T [''co_localsplusnames''],
      o_code_adaptive = offsetof T [''co_code_adaptive'']\<rparr>"

definition mk_py_frame :: "ctype \<Rightarrow> py_frame_v" where
  "mk_py_frame T =
     \<lparr>frame_size = sizeof T,
      o_back = offsetof T [''f_back''],
      o_code = offsetof T [''f_code''],
      o_lasti = offsetof T [''f_lasti''],
      o_prev_instr = 0,
      o_localsplus = offsetof T [''f_localsplus''],
      o_is_entry = 0,
      o_owner = 0\<rparr>"

definition mk_py_framev311 :: "ctype \<Rightarrow> py_frame_v" where
  "mk_py_framev311 T =
     \<lparr>frame_size = sizeof T,
      o_back = offsetof T [''previous''],
      o_code = offsetof T [''f_code''],
      o_lasti = 0,
      o_prev_instr = offsetof T [''prev_instr''],
      o_localsplus = offsetof T [''localsplus''],
      o_is_entry = offsetof T [''is_entry''],
      o_owner = 0\<rparr>"

definition mk_py_framev312 :: "ctype \<Rightarrow> py_frame_v" where
  "mk_py_framev312 T =
     \<lparr>frame_size = sizeof T,
      o_back = offsetof T [''previous''],
      o_code = offsetof T [''f_code''],
      o_lasti = 0,
      o_prev_instr = offsetof T [''prev_instr''],
      o_localsplus = offsetof T [''localsplus''],
      o_is_entry = 0,
      o_owner = offsetof T [''owner'']\<rparr>"

definition mk_py_framev314 :: "ctype \<Rightarrow> py_frame_v" where
  "mk_py_framev314 T =
     \<lparr>frame_size = sizeof T,
      o_back = offsetof T [''previous''],
      o_code = offsetof T [''f_executable''],
      o_lasti = 0,
      o_prev_instr = offsetof T [''instr_ptr''],
      o_localsplus = offsetof T [''localsplus''],
      o_is_entry = 0,
      o_owner = offsetof T [''owner'']\<rparr>"

definition mk_py_thead_h :: "ctype \<Rightarrow> py_thread_v" where
  "mk_py_thead_h T =
     \<lparr>thread_size = sizeof T,
      o_prev = offsetof T [''next''],
      thread_o_next = offsetof T [''next''],
      o_interp = offsetof T [''interp''],
      o_frame = offsetof T [''frame''],
      o_thread_id = offsetof T [''thread_id''],
      o_native_thread_id = 0\<rparr>"

definition mk_py_thread :: "ctype \<Rightarrow> py_thread_v" where
  "mk_py_thread T =
     \<lparr>thread_size = sizeof T,
      o_prev = offsetof T [''prev''],
      thread_o_next = offsetof T [''next''],
      o_interp = offsetof T [''interp''],
      o_frame = offsetof T [''frame''],
      o_thread_id = offsetof T [''thread_id''],
      o_native_thread_id = 0\<rparr>"

definition mk_py_threadv311 :: "ctype \<Rightarrow> py_thread_v" where
  "mk_py_threadv311 T =
     \<lparr>thread_size = sizeof T,
      o_prev = offsetof T [''prev''],
      thread_o_next = offsetof T [''next''],
      o_interp = offsetof T [''interp''],
      o_frame = offsetof T [''cframe''],
      o_thread_id = offsetof T [''thread_id''],
      o_native_thread_id = offsetof T [''native_thread_id'']\<rparr>"

definition mk_py_threadv313 :: "ctype \<Rightarrow> py_thread_v" where
  "mk_py_threadv313 T =
     \<lparr>thread_size = sizeof T,
      o_prev = offsetof T [''prev''],
      thread_o_next = offsetof T [''next''],
      o_interp = offsetof T [''interp''],
      o_frame = offsetof T [''frame''],
      o_thread_id = offsetof T [''thread_id''],
      o_native_thread_id = offsetof T [''native_thread_id'']\<rparr>"

definition mk_py_is :: "ctype \<Rightarrow> py_is_v" where
  "mk_py_is T =
     \<lparr>is_size = sizeof T,
      is_o_next = offsetof T [''next''],
      o_tstate_head = offsetof T [''tstate_head''],
      is_o_gc = offsetof T [''gc''],
      o_modules = offsetof T [''modules''],
      o_sysdict = offsetof T [''sysdict''],
      o_builtins = offsetof T [''builtins''],
      o_gil_runtime_state = 0,
      o_id = 0\<rparr>"

definition mk_py_isv37 :: "ctype \<Rightarrow> py_is_v" where
  "mk_py_isv37 T =
     \<lparr>is_size = sizeof T,
      is_o_next = offsetof T [''next''],
      o_tstate_head = offsetof T [''tstate_head''],
      is_o_gc = offsetof T [''gc''],
      o_modules = offsetof T [''modules''],
      o_sysdict = offsetof T [''sysdict''],
      o_builtins = offsetof T [''builtins''],
      o_gil_runtime_state = 0,
      o_id = offsetof T [''id'']\<rparr>"

definition mk_py_isv311 :: "ctype \<Rightarrow> py_is_v" where
  "mk_py_isv311 T =
     \<lparr>is_size = sizeof T,
      is_o_next = offsetof T [''next''],
      o_tstate_head = offsetof T [''threads'', ''head''],
      is_o_gc = offsetof T [''gc''],
      o_modules = offsetof T [''modules''],
      o_sysdict = offsetof T [''sysdict''],
      o_builtins = offsetof T [''builtins''],
      o_gil_runtime_state = 0,
      o_id = offsetof T [''id'']\<rparr>"

definition mk_py_isv312 :: "ctype \<Rightarrow> py_is_v" where
  "mk_py_isv312 T =
     \<lparr>is_size = sizeof T,
      is_o_next = offsetof T [''next''],
      o_tstate_head = offsetof T [''threads'', ''head''],
      is_o_gc = offsetof T [''gc''],
      o_modules = offsetof T [''imports'', ''modules''],
      o_sysdict = offsetof T [''sysdict''],
      o_builtins = offsetof T [''builtins''],
      o_gil_runtime_state = offsetof T [''ceval'', ''gil''],
      o_id = offsetof T [''id'']\<rparr>"

definition mk_py_gc :: "ctype \<Rightarrow> py_gc_v" where
  "mk_py_gc T =
     \<lparr>gc_size = sizeof T,
      o_collecting = offsetof T [''collecting'']\<rparr>"

definition mk_py_cframe :: "ctype \<Rightarrow> py_cframe_v" where
  "mk_py_cframe T =
     \<lparr>cframe_size = sizeof T,
      current_frame = offsetof T [''current_frame'']\<rparr>"

definition mk_py_gilruntimestate :: "ctype \<Rightarrow> py_gilruntimestate_v" where
  "mk_py_gilruntimestate T =
     \<lparr>gilruntimestate_size = sizeof T,
      o_locked = offsetof T [''locked''],
      o_last_holder = offsetof T [''last_holder'']\<rparr>"

definition mk_py_runtime :: "ctype \<Rightarrow> py_runtime_v" where
  "mk_py_runtime T =
     \<lparr>runtime_size = sizeof T,
      o_finalizing = offsetof T [''finalizing''],
      o_interp_head = offsetof T [''interpreters'', ''head''],
      runtime_o_gc = offsetof T [''gc''],
      o_tstate_current = offsetof T [''gilstate'', ''tstate_current'', ''_value''],
      debug_offsets =
       \<lparr>o_dbg_off_cookie = 0,
        o_dbg_off_py_version_hex = 0,
        o_dbg_off_free_threaded = 0,
        runtime_state =
         \<lparr>dbg_runtime_state_struct_size = 0,
          dbg_runtime_state_finalizing = 0,
          dbg_runtime_state_interpreters_head = 0\<rparr>,
        interpreter_state =
         \<lparr>dbg_interpreter_state_struct_size = 0,
          dbg_interpreter_state_id = 0,
          dbg_interpreter_state_next = 0,
          dbg_interpreter_state_threads_head = 0,
          dbg_interpreter_state_gc = 0,
          dbg_interpreter_state_imports_modules = 0,
          dbg_interpreter_state_sysdict = 0,
          dbg_interpreter_state_builtins = 0,
          dbg_interpreter_state_ceval_gil = 0,
          dbg_interpreter_state_gil_runtime_state = 0,
          dbg_interpreter_state_gil_runtime_state_enabled = 0,
          dbg_interpreter_state_gil_runtime_state_locked = 0,
          dbg_interpreter_state_gil_runtime_state_holder = 0\<rparr>,
        thread_state =
         \<lparr>dbg_thread_state_struct_size = 0,
          dbg_thread_state_prev = 0,
          dbg_thread_state_next = 0,
          dbg_thread_state_interp = 0,
          dbg_thread_state_current_frame = 0,
          dbg_thread_state_thread_id = 0,
          dbg_thread_state_native_thread_id = 0,
          dbg_thread_state_datastack_chunk = 0,
          dbg_thread_state_status = 0\<rparr>,
        interpreter_frame =
         \<lparr>dbg_interpreter_frame_struct_size = 0,
          dbg_interpreter_frame_previous = 0,
          dbg_interpreter_frame_executable = 0,
          dbg_interpreter_frame_instr_ptr = 0,
          dbg_interpreter_frame_localsplus = 0,
          dbg_interpreter_frame_owner = 0\<rparr>,
        code_object =
         \<lparr>dbg_code_object_struct_size = 0,
          dbg_code_object_filename = 0,
          dbg_code_object_name = 0,
          dbg_code_object_qualname = 0,
          dbg_code_object_linetable = 0,
          dbg_code_object_firstlineno = 0,
          dbg_code_object_argcount = 0,
          dbg_code_object_localsplusnames = 0,
          dbg_code_object_localspluskinds = 0,
          dbg_code_object_co_code_adaptive = 0\<rparr>,
        dbg_pyobject_struct_size = 0,
        dbg_pyobject_ob_type = 0,
        type_object =
         \<lparr>dbg_type_object_struct_size = 0,
          dbg_type_object_tp_name = 0,
          dbg_type_object_tp_repr = 0,
          dbg_type_object_tp_flags = 0\<rparr>,
        containers =
         \<lparr>dbg_tuple_object_struct_size = 0,
          dbg_tuple_object_ob_item = 0,
          dbg_tuple_object_ob_size = 0,
          dbg_list_object_struct_size = 0,
          dbg_list_object_ob_item = 0,
          dbg_list_object_ob_size = 0,
          dbg_dict_object_struct_size = 0,
          dbg_dict_object_ma_keys = 0,
          dbg_dict_object_ma_values = 0\<rparr>,
        scalars =
         \<lparr>dbg_float_object_struct_size = 0,
          dbg_float_object_ob_fval = 0,
          dbg_long_object_struct_size = 0,
          dbg_long_object_lv_tag = 0,
          dbg_long_object_ob_digit = 0,
          dbg_bytes_object_struct_size = 0,
          dbg_bytes_object_ob_size = 0,
          dbg_bytes_object_ob_sval = 0\<rparr>,
        unicode_gc =
         \<lparr>dbg_unicode_object_struct_size = 0,
          dbg_unicode_object_state = 0,
          dbg_unicode_object_length = 0,
          dbg_unicode_object_asciiobject_size = 0,
          dbg_gc_struct_size = 0,
          dbg_gc_collecting = 0\<rparr>\<rparr>\<rparr>"

definition mk_py_runtimev312 :: "ctype \<Rightarrow> py_runtime_v" where
  "mk_py_runtimev312 T =
     \<lparr>runtime_size = sizeof T,
      o_finalizing = offsetof T [''finalizing''],
      o_interp_head = offsetof T [''interpreters'', ''head''],
      runtime_o_gc = 0,
      o_tstate_current = 0,
      debug_offsets =
       \<lparr>o_dbg_off_cookie = 0,
        o_dbg_off_py_version_hex = 0,
        o_dbg_off_free_threaded = 0,
        runtime_state =
         \<lparr>dbg_runtime_state_struct_size = 0,
          dbg_runtime_state_finalizing = 0,
          dbg_runtime_state_interpreters_head = 0\<rparr>,
        interpreter_state =
         \<lparr>dbg_interpreter_state_struct_size = 0,
          dbg_interpreter_state_id = 0,
          dbg_interpreter_state_next = 0,
          dbg_interpreter_state_threads_head = 0,
          dbg_interpreter_state_gc = 0,
          dbg_interpreter_state_imports_modules = 0,
          dbg_interpreter_state_sysdict = 0,
          dbg_interpreter_state_builtins = 0,
          dbg_interpreter_state_ceval_gil = 0,
          dbg_interpreter_state_gil_runtime_state = 0,
          dbg_interpreter_state_gil_runtime_state_enabled = 0,
          dbg_interpreter_state_gil_runtime_state_locked = 0,
          dbg_interpreter_state_gil_runtime_state_holder = 0\<rparr>,
        thread_state =
         \<lparr>dbg_thread_state_struct_size = 0,
          dbg_thread_state_prev = 0,
          dbg_thread_state_next = 0,
          dbg_thread_state_interp = 0,
          dbg_thread_state_current_frame = 0,
          dbg_thread_state_thread_id = 0,
          dbg_thread_state_native_thread_id = 0,
          dbg_thread_state_datastack_chunk = 0,
          dbg_thread_state_status = 0\<rparr>,
        interpreter_frame =
         \<lparr>dbg_interpreter_frame_struct_size = 0,
          dbg_interpreter_frame_previous = 0,
          dbg_interpreter_frame_executable = 0,
          dbg_interpreter_frame_instr_ptr = 0,
          dbg_interpreter_frame_localsplus = 0,
          dbg_interpreter_frame_owner = 0\<rparr>,
        code_object =
         \<lparr>dbg_code_object_struct_size = 0,
          dbg_code_object_filename = 0,
          dbg_code_object_name = 0,
          dbg_code_object_qualname = 0,
          dbg_code_object_linetable = 0,
          dbg_code_object_firstlineno = 0,
          dbg_code_object_argcount = 0,
          dbg_code_object_localsplusnames = 0,
          dbg_code_object_localspluskinds = 0,
          dbg_code_object_co_code_adaptive = 0\<rparr>,
        dbg_pyobject_struct_size = 0,
        dbg_pyobject_ob_type = 0,
        type_object =
         \<lparr>dbg_type_object_struct_size = 0,
          dbg_type_object_tp_name = 0,
          dbg_type_object_tp_repr = 0,
          dbg_type_object_tp_flags = 0\<rparr>,
        containers =
         \<lparr>dbg_tuple_object_struct_size = 0,
          dbg_tuple_object_ob_item = 0,
          dbg_tuple_object_ob_size = 0,
          dbg_list_object_struct_size = 0,
          dbg_list_object_ob_item = 0,
          dbg_list_object_ob_size = 0,
          dbg_dict_object_struct_size = 0,
          dbg_dict_object_ma_keys = 0,
          dbg_dict_object_ma_values = 0\<rparr>,
        scalars =
         \<lparr>dbg_float_object_struct_size = 0,
          dbg_float_object_ob_fval = 0,
          dbg_long_object_struct_size = 0,
          dbg_long_object_lv_tag = 0,
          dbg_long_object_ob_digit = 0,
          dbg_bytes_object_struct_size = 0,
          dbg_bytes_object_ob_size = 0,
          dbg_bytes_object_ob_sval = 0\<rparr>,
        unicode_gc =
         \<lparr>dbg_unicode_object_struct_size = 0,
          dbg_unicode_object_state = 0,
          dbg_unicode_object_length = 0,
          dbg_unicode_object_asciiobject_size = 0,
          dbg_gc_struct_size = 0,
          dbg_gc_collecting = 0\<rparr>\<rparr>\<rparr>"

definition mk_py_runtimev313 :: "ctype \<Rightarrow> py_runtime_v" where
  "mk_py_runtimev313 T =
     \<lparr>runtime_size = sizeof T,
      o_finalizing = offsetof T [''finalizing''],
      o_interp_head = offsetof T [''interpreters'', ''head''],
      runtime_o_gc = 0,
      o_tstate_current = 0,
      debug_offsets =
       \<lparr>o_dbg_off_cookie = offsetof T [''debug_offsets'', ''cookie''],
        o_dbg_off_py_version_hex = offsetof T [''debug_offsets'', ''version''],
        o_dbg_off_free_threaded = offsetof T [''debug_offsets'', ''free_threaded''],
        runtime_state =
         \<lparr>dbg_runtime_state_struct_size = offsetof T [''debug_offsets'', ''runtime_state'', ''size''],
          dbg_runtime_state_finalizing = offsetof T [''debug_offsets'', ''runtime_state'', ''finalizing''],
          dbg_runtime_state_interpreters_head = offsetof T [''debug_offsets'', ''runtime_state'', ''interpreters_head'']\<rparr>,
        interpreter_state =
         \<lparr>dbg_interpreter_state_struct_size = offsetof T [''debug_offsets'', ''interpreter_state'', ''size''],
          dbg_interpreter_state_id = offsetof T [''debug_offsets'', ''interpreter_state'', ''id''],
          dbg_interpreter_state_next = offsetof T [''debug_offsets'', ''interpreter_state'', ''next''],
          dbg_interpreter_state_threads_head = offsetof T [''debug_offsets'', ''interpreter_state'', ''threads_head''],
          dbg_interpreter_state_gc = offsetof T [''debug_offsets'', ''interpreter_state'', ''gc''],
          dbg_interpreter_state_imports_modules = offsetof T [''debug_offsets'', ''interpreter_state'', ''imports_modules''],
          dbg_interpreter_state_sysdict = offsetof T [''debug_offsets'', ''interpreter_state'', ''sysdict''],
          dbg_interpreter_state_builtins = offsetof T [''debug_offsets'', ''interpreter_state'', ''builtins''],
          dbg_interpreter_state_ceval_gil = offsetof T [''debug_offsets'', ''interpreter_state'', ''ceval_gil''],
          dbg_interpreter_state_gil_runtime_state = offsetof T [''debug_offsets'', ''interpreter_state'', ''gil_runtime_state''],
          dbg_interpreter_state_gil_runtime_state_enabled = offsetof T [''debug_offsets'', ''interpreter_state'', ''gil_runtime_state_enabled''],
          dbg_interpreter_state_gil_runtime_state_locked = offsetof T [''debug_offsets'', ''interpreter_state'', ''gil_runtime_state_locked''],
          dbg_interpreter_state_gil_runtime_state_holder = offsetof T [''debug_offsets'', ''interpreter_state'', ''gil_runtime_state_holder'']\<rparr>,
        thread_state =
         \<lparr>dbg_thread_state_struct_size = offsetof T [''debug_offsets'', ''thread_state'', ''size''],
          dbg_thread_state_prev = offsetof T [''debug_offsets'', ''thread_state'', ''prev''],
          dbg_thread_state_next = offsetof T [''debug_offsets'', ''thread_state'', ''next''],
          dbg_thread_state_interp = offsetof T [''debug_offsets'', ''thread_state'', ''interp''],
          dbg_thread_state_current_frame = offsetof T [''debug_offsets'', ''thread_state'', ''current_frame''],
          dbg_thread_state_thread_id = offsetof T [''debug_offsets'', ''thread_state'', ''thread_id''],
          dbg_thread_state_native_thread_id = offsetof T [''debug_offsets'', ''thread_state'', ''native_thread_id''],
          dbg_thread_state_datastack_chunk = offsetof T [''debug_offsets'', ''thread_state'', ''datastack_chunk''],
          dbg_thread_state_status = offsetof T [''debug_offsets'', ''thread_state'', ''status'']\<rparr>,
        interpreter_frame =
         \<lparr>dbg_interpreter_frame_struct_size = offsetof T [''debug_offsets'', ''interpreter_frame'', ''size''],
          dbg_interpreter_frame_previous = offsetof T [''debug_offsets'', ''interpreter_frame'', ''previous''],
          dbg_interpreter_frame_executable = offsetof T [''debug_offsets'', ''interpreter_frame'', ''executable''],
          dbg_interpreter_frame_instr_ptr = offsetof T [''debug_offsets'', ''interpreter_frame'', ''instr_ptr''],
          dbg_interpreter_frame_localsplus = offsetof T [''debug_offsets'', ''interpreter_frame'', ''localsplus''],
          dbg_interpreter_frame_owner = offsetof T [''debug_offsets'', ''interpreter_frame'', ''owner'']\<rparr>,
        code_object =
         \<lparr>dbg_code_object_struct_size = offsetof T [''debug_offsets'', ''code_object'', ''size''],
          dbg_code_object_filename = offsetof T [''debug_offsets'', ''code_object'', ''filename''],
          dbg_code_object_name = offsetof T [''debug_offsets'', ''code_object'', ''name''],
          dbg_code_object_qualname = offsetof T [''debug_offsets'', ''code_object'', ''qualname''],
          dbg_code_object_linetable = offsetof T [''debug_offsets'', ''code_object'', ''linetable''],
          dbg_code_object_firstlineno = offsetof T [''debug_offsets'', ''code_object'', ''firstlineno''],
          dbg_code_object_argcount = offsetof T [''debug_offsets'', ''code_object'', ''argcount''],
          dbg_code_object_localsplusnames = offsetof T [''debug_offsets'', ''code_object'', ''localsplusnames''],
          dbg_code_object_localspluskinds = offsetof T [''debug_offsets'', ''code_object'', ''localspluskinds''],
          dbg_code_object_co_code_adaptive = offsetof T [''debug_offsets'', ''code_object'', ''co_code_adaptive'']\<rparr>,
        dbg_pyobject_struct_size = offsetof T [''debug_offsets'', ''pyobject'', ''size''],
        dbg_pyobject_ob_type = offsetof T [''debug_offsets'', ''pyobject'', ''ob_type''],
        type_object =
         \<lparr>dbg_type_object_struct_size = offsetof T [''debug_offsets'', ''type_object'', ''size''],
          dbg_type_object_tp_name = offsetof T [''debug_offsets'', ''type_object'', ''tp_name''],
          dbg_type_object_tp_repr = offsetof T [''debug_offsets'', ''type_object'', ''tp_repr''],
          dbg_type_object_tp_flags = offsetof T [''debug_offsets'', ''type_object'', ''tp_flags'']\<rparr>,
        containers =
         \<lparr>dbg_tuple_object_struct_size = offsetof T [''debug_offsets'', ''tuple_object'', ''size''],
          dbg_tuple_object_ob_item = offsetof T [''debug_offsets'', ''tuple_object'', ''ob_item''],
          dbg_tuple_object_ob_size = offsetof T [''debug_offsets'', ''tuple_object'', ''ob_size''],
          dbg_list_object_struct_size = offsetof T [''debug_offsets'', ''list_object'', ''size''],
          dbg_list_object_ob_item = offsetof T [''debug_offsets'', ''list_object'', ''ob_item''],
          dbg_list_object_ob_size = offsetof T [''debug_offsets'', ''list_object'', ''ob_size''],
          dbg_dict_object_struct_size = offsetof T [''debug_offsets'', ''dict_object'', ''size''],
          dbg_dict_object_ma_keys = offsetof T [''debug_offsets'', ''dict_object'', ''ma_keys''],
          dbg_dict_object_ma_values = offsetof T [''debug_offsets'', ''dict_object'', ''ma_values'']\<rparr>,
        scalars =
         \<lparr>dbg_float_object_struct_size = offsetof T [''debug_offsets'', ''float_object'', ''size''],
          dbg_float_object_ob_fval = offsetof T [''debug_offsets'', ''float_object'', ''ob_fval''],
          dbg_long_object_struct_size = offsetof T [''debug_offsets'', ''long_object'', ''size''],
          dbg_long_object_lv_tag = offsetof T [''debug_offsets'', ''long_object'', ''lv_tag''],
          dbg_long_object_ob_digit = offsetof T [''debug_offsets'', ''long_object'', ''ob_digit''],
          dbg_bytes_object_struct_size = offsetof T [''debug_offsets'', ''bytes_object'', ''size''],
          dbg_bytes_object_ob_size = offsetof T [''debug_offsets'', ''bytes_object'', ''ob_size''],
          dbg_bytes_object_ob_sval = offsetof T [''debug_offsets'', ''bytes_object'', ''ob_sval'']\<rparr>,
        unicode_gc =
         \<lparr>dbg_unicode_object_struct_size = offsetof T [''debug_offsets'', ''unicode_object'', ''size''],
          dbg_unicode_object_state = offsetof T [''debug_offsets'', ''unicode_object'', ''state''],
          dbg_unicode_object_length = offsetof T [''debug_offsets'', ''unicode_object'', ''length''],
          dbg_unicode_object_asciiobject_size = offsetof T [''debug_offsets'', ''unicode_object'', ''asciiobject_size''],
          dbg_gc_struct_size = offsetof T [''debug_offsets'', ''gc'', ''size''],
          dbg_gc_collecting = offsetof T [''debug_offsets'', ''gc'', ''collecting'']\<rparr>\<rparr>\<rparr>"

definition mk_py_runtimev314 :: "ctype \<Rightarrow> py_runtime_v" where
  "mk_py_runtimev314 T =
     \<lparr>runtime_size = sizeof T,
      o_finalizing = 0,
      o_interp_head = 0,
      runtime_o_gc = 0,
      o_tstate_current = 0,
      debug_offsets =
       \<lparr>o_dbg_off_cookie = offsetof T [''debug_offsets'', ''cookie''],
        o_dbg_off_py_version_hex = offsetof T [''debug_offsets'', ''version''],
        o_dbg_off_free_threaded = offsetof T [''debug_offsets'', ''free_threaded''],
        runtime_state =
         \<lparr>dbg_runtime_state_struct_size = offsetof T [''debug_offsets'', ''runtime_state'', ''size''],
          dbg_runtime_state_finalizing = offsetof T [''debug_offsets'', ''runtime_state'', ''finalizing''],
          dbg_runtime_state_interpreters_head = offsetof T [''debug_offsets'', ''runtime_state'', ''interpreters_head'']\<rparr>,
        interpreter_state =
         \<lparr>dbg_interpreter_state_struct_size = offsetof T [''debug_offsets'', ''interpreter_state'', ''size''],
          dbg_interpreter_state_id = offsetof T [''debug_offsets'', ''interpreter_state'', ''id''],
          dbg_interpreter_state_next = offsetof T [''debug_offsets'', ''interpreter_state'', ''next''],
          dbg_interpreter_state_threads_head = offsetof T [''debug_offsets'', ''interpreter_state'', ''threads_head''],
          dbg_interpreter_state_gc = offsetof T [''debug_offsets'', ''interpreter_state'', ''gc''],
          dbg_interpreter_state_imports_modules = offsetof T [''debug_offsets'', ''interpreter_state'', ''imports_modules''],
          dbg_interpreter_state_sysdict = offsetof T [''debug_offsets'', ''interpreter_state'', ''sysdict''],
          dbg_interpreter_state_builtins = offsetof T [''debug_offsets'', ''interpreter_state'', ''builtins''],
          dbg_interpreter_state_ceval_gil = offsetof T [''debug_offsets'', ''interpreter_state'', ''ceval_gil''],
          dbg_interpreter_state_gil_runtime_state = offsetof T [''debug_offsets'', ''interpreter_state'', ''gil_runtime_state''],
          dbg_interpreter_state_gil_runtime_state_enabled = offsetof T [''debug_offsets'', ''interpreter_state'', ''gil_runtime_state_enabled''],
          dbg_interpreter_state_gil_runtime_state_locked = offsetof T [''debug_offsets'', ''interpreter_state'', ''gil_runtime_state_locked''],
          dbg_interpreter_state_gil_runtime_state_holder = offsetof T [''debug_offsets'', ''interpreter_state'', ''gil_runtime_state_holder'']\<rparr>,
        thread_state =
         \<lparr>dbg_thread_state_struct_size = offsetof T [''debug_offsets'', ''thread_state'', ''size''],
          dbg_thread_state_prev = offsetof T [''debug_offsets'', ''thread_state'', ''prev''],
          dbg_thread_state_next = offsetof T [''debug_offsets'', ''thread_state'', ''next''],
          dbg_thread_state_interp = offsetof T [''debug_offsets'', ''thread_state'', ''interp''],
          dbg_thread_state_current_frame = offsetof T [''debug_offsets'', ''thread_state'', ''current_frame''],
          dbg_thread_state_thread_id = offsetof T [''debug_offsets'', ''thread_state'', ''thread_id''],
          dbg_thread_state_native_thread_id = offsetof T [''debug_offsets'', ''thread_state'', ''native_thread_id''],
          dbg_thread_state_datastack_chunk = offsetof T [''debug_offsets'', ''thread_state'', ''datastack_chunk''],
          dbg_thread_state_status = offsetof T [''debug_offsets'', ''thread_state'', ''status'']\<rparr>,
        interpreter_frame =
         \<lparr>dbg_interpreter_frame_struct_size = offsetof T [''debug_offsets'', ''interpreter_frame'', ''size''],
          dbg_interpreter_frame_previous = offsetof T [''debug_offsets'', ''interpreter_frame'', ''previous''],
          dbg_interpreter_frame_executable = offsetof T [''debug_offsets'', ''interpreter_frame'', ''executable''],
          dbg_interpreter_frame_instr_ptr = offsetof T [''debug_offsets'', ''interpreter_frame'', ''instr_ptr''],
          dbg_interpreter_frame_localsplus = offsetof T [''debug_offsets'', ''interpreter_frame'', ''localsplus''],
          dbg_interpreter_frame_owner = offsetof T [''debug_offsets'', ''interpreter_frame'', ''owner'']\<rparr>,
        code_object =
         \<lparr>dbg_code_object_struct_size = offsetof T [''debug_offsets'', ''code_object'', ''size''],
          dbg_code_object_filename = offsetof T [''debug_offsets'', ''code_object'', ''filename''],
          dbg_code_object_name = offsetof T [''debug_offsets'', ''code_object'', ''name''],
          dbg_code_object_qualname = offsetof T [''debug_offsets'', ''code_object'', ''qualname''],
          dbg_code_object_linetable = offsetof T [''debug_offsets'', ''code_object'', ''linetable''],
          dbg_code_object_firstlineno = offsetof T [''debug_offsets'', ''code_object'', ''firstlineno''],
          dbg_code_object_argcount = offsetof T [''debug_offsets'', ''code_object'', ''argcount''],
          dbg_code_object_localsplusnames = offsetof T [''debug_offsets'', ''code_object'', ''localsplusnames''],
          dbg_code_object_localspluskinds = offsetof T [''debug_offsets'', ''code_object'', ''localspluskinds''],
          dbg_code_object_co_code_adaptive = offsetof T [''debug_offsets'', ''code_object'', ''co_code_adaptive'']\<rparr>,
        dbg_pyobject_struct_size = offsetof T [''debug_offsets'', ''pyobject'', ''size''],
        dbg_pyobject_ob_type = offsetof T [''debug_offsets'', ''pyobject'', ''ob_type''],
        type_object =
         \<lparr>dbg_type_object_struct_size = offsetof T [''debug_offsets'', ''type_object'', ''size''],
          dbg_type_object_tp_name = offsetof T [''debug_offsets'', ''type_object'', ''tp_name''],
          dbg_type_object_tp_repr = offsetof T [''debug_offsets'', ''type_object'', ''tp_repr''],
          dbg_type_object_tp_flags = offsetof T [''debug_offsets'', ''type_object'', ''tp_flags'']\<rparr>,
        containers =
         \<lparr>dbg_tuple_object_struct_size = offsetof T [''debug_offsets'', ''tuple_object'', ''size''],
          dbg_tuple_object_ob_item = offsetof T [''debug_offsets'', ''tuple_object'', ''ob_item''],
          dbg_tuple_object_ob_size = offsetof T [''debug_offsets'', ''tuple_object'', ''ob_size''],
          dbg_list_object_struct_size = offsetof T [''debug_offsets'', ''list_object'', ''size''],
          dbg_list_object_ob_item = offsetof T [''debug_offsets'', ''list_object'', ''ob_item''],
          dbg_list_object_ob_size = offsetof T [''debug_offsets'', ''list_object'', ''ob_size''],
          dbg_dict_object_struct_size = offsetof T [''debug_offsets'', ''dict_object'', ''size''],
          dbg_dict_object_ma_keys = offsetof T [''debug_offsets'', ''dict_object'', ''ma_keys''],
          dbg_dict_object_ma_values = offsetof T [''debug_offsets'', ''dict_object'', ''ma_values'']\<rparr>,
        scalars =
         \<lparr>dbg_float_object_struct_size = offsetof T [''debug_offsets'', ''float_object'', ''size''],
          dbg_float_object_ob_fval = offsetof T [''debug_offsets'', ''float_object'', ''ob_fval''],
          dbg_long_object_struct_size = offsetof T [''debug_offsets'', ''long_object'', ''size''],
          dbg_long_object_lv_tag = offsetof T [''debug_offsets'', ''long_object'', ''lv_tag''],
          dbg_long_object_ob_digit = offsetof T [''debug_offsets'', ''long_object'', ''ob_digit''],
          dbg_bytes_object_struct_size = offsetof T [''debug_offsets'', ''bytes_object'', ''size''],
          dbg_bytes_object_ob_size = offsetof T [''debug_offsets'', ''bytes_object'', ''ob_size''],
          dbg_bytes_object_ob_sval = offsetof T [''debug_offsets'', ''bytes_object'', ''ob_sval'']\<rparr>,
        unicode_gc =
         \<lparr>dbg_unicode_object_struct_size = offsetof T [''debug_offsets'', ''unicode_object'', ''size''],
          dbg_unicode_object_state = offsetof T [''debug_offsets'', ''unicode_object'', ''state''],
          dbg_unicode_object_length = offsetof T [''debug_offsets'', ''unicode_object'', ''length''],
          dbg_unicode_object_asciiobject_size = offsetof T [''debug_offsets'', ''unicode_object'', ''asciiobject_size''],
          dbg_gc_struct_size = offsetof T [''debug_offsets'', ''gc'', ''size''],
          dbg_gc_collecting = offsetof T [''debug_offsets'', ''gc'', ''collecting'']\<rparr>\<rparr>\<rparr>"

definition mk_py_type :: "ctype \<Rightarrow> py_type_v" where
  "mk_py_type T =
     \<lparr>type_size = sizeof T,
      o_tp_name = offsetof T [''tp_name''],
      o_tp_repr = offsetof T [''tp_repr''],
      o_tp_flags = offsetof T [''tp_flags'']\<rparr>"

definition mk_py_object :: "ctype \<Rightarrow> py_object_v" where
  "mk_py_object T =
     \<lparr>object_size = sizeof T,
      o_ob_type = offsetof T [''ob_type'']\<rparr>"

definition mk_py_bytes :: "ctype \<Rightarrow> py_bytes_v" where
  "mk_py_bytes T =
     \<lparr>bytes_size = sizeof T,
      bytes_o_ob_size = offsetof T [''ob_base'', ''ob_size''],
      o_ob_sval = offsetof T [''ob_sval'']\<rparr>"

definition mk_py_unicode :: "ctype \<Rightarrow> py_unicode_v" where
  "mk_py_unicode T =
     \<lparr>unicode_size = sizeof T,
      o_state = offsetof T [''_base'', ''_base'', ''state''],
      o_length = offsetof T [''_base'', ''_base'', ''length''],
      o_ascii = offsetof T [''_base''] + sizeof_member T [''_base'', ''_base'']\<rparr>"

definition mk_py_tuple :: "ctype \<Rightarrow> py_tuple_v" where
  "mk_py_tuple T =
     \<lparr>tuple_size = sizeof T,
      tuple_o_ob_size = offsetof T [''ob_base'', ''ob_size''],
      tuple_o_ob_item = offsetof T [''ob_item'']\<rparr>"

definition mk_py_list :: "ctype \<Rightarrow> py_list_v" where
  "mk_py_list T =
     \<lparr>list_size = sizeof T,
      list_o_ob_size = offsetof T [''ob_base'', ''ob_size''],
      list_o_ob_item = offsetof T [''ob_item'']\<rparr>"

definition mk_py_dict :: "ctype \<Rightarrow> py_dict_v" where
  "mk_py_dict T =
     \<lparr>dict_size = sizeof T,
      o_ma_keys = offsetof T [''ma_keys''],
      o_ma_values = offsetof T [''ma_values'']\<rparr>"

definition mk_py_dictkeys :: "ctype \<Rightarrow> py_dictkeys_v" where
  "mk_py_dictkeys T =
     \<lparr>dictkeys_size = sizeof T,
      o_dk_size = offsetof T [''dk_size''],
      o_dk_kind = 0,
      o_dk_nentries = offsetof T [''dk_nentries''],
      o_dk_indices = offsetof T [''dk_indices'']\<rparr>"

definition mk_py_dictkeys_v311 :: "ctype \<Rightarrow> py_dictkeys_v" where
  "mk_py_dictkeys_v311 T =
     \<lparr>dictkeys_size = sizeof T,
      o_dk_size = offsetof T [''dk_log2_size''],
      o_dk_kind = offsetof T [''dk_kind''],
      o_dk_nentries = offsetof T [''dk_nentries''],
      o_dk_indices = offsetof T [''dk_indices'']\<rparr>"

definition mk_py_dictvalues :: "ctype \<Rightarrow> py_dictvalues_v" where
  "mk_py_dictvalues T =
     \<lparr>dictvalues_size = sizeof T,
      o_values = offsetof T [''values'']\<rparr>"

definition mk_py_float :: "ctype \<Rightarrow> py_float_v" where
  "mk_py_float T =
     \<lparr>float_size = sizeof T,
      o_ob_fval = offsetof T [''ob_fval'']\<rparr>"

definition mk_py_long :: "ctype \<Rightarrow> py_long_v" where
  "mk_py_long T =
     \<lparr>long_size = sizeof T,
      long_o_ob_size = offsetof T [''ob_base'', ''ob_size''],
      o_ob_digit = offsetof T [''ob_digit'']\<rparr>"

definition python_v2 :: python_v where
  "python_v2 =
     \<lparr>py_tuple = mk_py_tuple C_PyTupleObject,
      py_list = mk_py_list C_PyListObject,
      py_dict = zero_py_dict,
      py_dictkeys = zero_py_dictkeys,
      py_dictvalues = zero_py_dictvalues,
      py_float = mk_py_float C_PyFloatObject,
      py_long = mk_py_long C_PyLongObject,
      py_bytes = zero_py_bytes,
      py_unicode = zero_py_unicode,
      py_object = mk_py_object C_PyObject,
      py_type = mk_py_type Python2_PyTypeObject,
      py_code = mk_py_code Python2_PyCodeObject,
      py_frame = mk_py_frame Python2_PyFrameObject,
      py_thread = mk_py_thead_h Python2_PyThreadState,
      py_is = mk_py_is Python2_PyInterpreterState,
      py_runtime = zero_py_runtime,
      py_gc = zero_py_gc,
      py_cframe = zero_py_cframe,
      py_gilruntimestate = zero_py_gilruntimestate\<rparr>"

definition python_v3_3 :: python_v where
  "python_v3_3 =
     \<lparr>py_tuple = mk_py_tuple C_PyTupleObject,
      py_list = mk_py_list C_PyListObject,
      py_dict = mk_py_dict Python3_PyDictObject,
      py_dictkeys = mk_py_dictkeys Python3_3_PyDictKeysObject,
      py_dictvalues = mk_py_dictvalues Python3_PyDictValuesObject,
      py_float = mk_py_float C_PyFloatObject,
      py_long = mk_py_long C_PyLongObject,
      py_bytes = mk_py_bytes Python3_PyBytesObject,
      py_unicode = mk_py_unicode Python3_PyUnicodeObject,
      py_object = mk_py_object C_PyObject,
      py_type = mk_py_type Python3_3_PyTypeObject,
      py_code = mk_py_code Python3_3_PyCodeObject,
      py_frame = mk_py_frame Python2_PyFrameObject,
      py_thread = mk_py_thead_h Python2_PyThreadState,
      py_is = mk_py_is Python2_PyInterpreterState,
      py_runtime = zero_py_runtime,
      py_gc = zero_py_gc,
      py_cframe = zero_py_cframe,
      py_gilruntimestate = zero_py_gilruntimestate\<rparr>"

definition python_v3_4 :: python_v where
  "python_v3_4 =
     \<lparr>py_tuple = mk_py_tuple C_PyTupleObject,
      py_list = mk_py_list C_PyListObject,
      py_dict = mk_py_dict Python3_PyDictObject,
      py_dictkeys = mk_py_dictkeys Python3_3_PyDictKeysObject,
      py_dictvalues = mk_py_dictvalues Python3_PyDictValuesObject,
      py_float = mk_py_float C_PyFloatObject,
      py_long = mk_py_long C_PyLongObject,
      py_bytes = mk_py_bytes Python3_PyBytesObject,
      py_unicode = mk_py_unicode Python3_PyUnicodeObject,
      py_object = mk_py_object C_PyObject,
      py_type = mk_py_type Python3_3_PyTypeObject,
      py_code = mk_py_code Python3_3_PyCodeObject,
      py_frame = mk_py_frame Python2_PyFrameObject,
      py_thread = mk_py_thread Python3_4_PyThreadState,
      py_is = mk_py_is Python3_5_PyInterpreterState,
      py_runtime = zero_py_runtime,
      py_gc = zero_py_gc,
      py_cframe = zero_py_cframe,
      py_gilruntimestate = zero_py_gilruntimestate\<rparr>"

definition python_v3_6 :: python_v where
  "python_v3_6 =
     \<lparr>py_tuple = mk_py_tuple C_PyTupleObject,
      py_list = mk_py_list C_PyListObject,
      py_dict = mk_py_dict Python3_PyDictObject,
      py_dictkeys = mk_py_dictkeys Python3_3_PyDictKeysObject,
      py_dictvalues = mk_py_dictvalues Python3_PyDictValuesObject,
      py_float = mk_py_float C_PyFloatObject,
      py_long = mk_py_long C_PyLongObject,
      py_bytes = mk_py_bytes Python3_PyBytesObject,
      py_unicode = mk_py_unicode Python3_PyUnicodeObject,
      py_object = mk_py_object C_PyObject,
      py_type = mk_py_type Python3_3_PyTypeObject,
      py_code = mk_py_code Python3_6_PyCodeObject,
      py_frame = mk_py_frame Python2_PyFrameObject,
      py_thread = mk_py_thread Python3_4_PyThreadState,
      py_is = mk_py_is Python3_5_PyInterpreterState,
      py_runtime = zero_py_runtime,
      py_gc = zero_py_gc,
      py_cframe = zero_py_cframe,
      py_gilruntimestate = zero_py_gilruntimestate\<rparr>"

definition python_v3_7 :: python_v where
  "python_v3_7 =
     \<lparr>py_tuple = mk_py_tuple C_PyTupleObject,
      py_list = mk_py_list C_PyListObject,
      py_dict = mk_py_dict Python3_PyDictObject,
      py_dictkeys = mk_py_dictkeys Python3_3_PyDictKeysObject,
      py_dictvalues = mk_py_dictvalues Python3_PyDictValuesObject,
      py_float = mk_py_float C_PyFloatObject,
      py_long = mk_py_long C_PyLongObject,
      py_bytes = mk_py_bytes Python3_PyBytesObject,
      py_unicode = mk_py_unicode Python3_PyUnicodeObject,
      py_object = mk_py_object C_PyObject,
      py_type = mk_py_type Python3_3_PyTypeObject,
      py_code = mk_py_code Python3_6_PyCodeObject,
      py_frame = mk_py_frame Python3_7_PyFrameObject,
      py_thread = mk_py_thread Python3_7_PyThreadState,
      py_is = mk_py_isv37 Python3_7_PyInterpreterState,
      py_runtime = mk_py_runtime Python3_7_PyRuntimeState,
      py_gc = mk_py_gc Python3_7_gc_runtime_state,
      py_cframe = zero_py_cframe,
      py_gilruntimestate = zero_py_gilruntimestate\<rparr>"

definition python_v3_8 :: python_v where
  "python_v3_8 =
     \<lparr>py_tuple = mk_py_tuple C_PyTupleObject,
      py_list = mk_py_list C_PyListObject,
      py_dict = mk_py_dict Python3_PyDictObject,
      py_dictkeys = mk_py_dictkeys Python3_3_PyDictKeysObject,
      py_dictvalues = mk_py_dictvalues Python3_PyDictValuesObject,
      py_float = mk_py_float C_PyFloatObject,
      py_long = mk_py_long C_PyLongObject,
      py_bytes = mk_py_bytes Python3_PyBytesObject,
      py_unicode = mk_py_unicode Python3_PyUnicodeObject,
      py_object = mk_py_object C_PyObject,
      py_type = mk_py_type Python3_8_PyTypeObject,
      py_code = mk_py_code Python3_8_PyCodeObject,
      py_frame = mk_py_frame Python3_7_PyFrameObject,
      py_thread = mk_py_thread Python3_7_PyThreadState,
      py_is = mk_py_isv37 Python3_8_PyInterpreterState,
      py_runtime = mk_py_runtime Python3_8_PyRuntimeState,
      py_gc = mk_py_gc Python3_8_gc_runtime_state,
      py_cframe = zero_py_cframe,
      py_gilruntimestate = zero_py_gilruntimestate\<rparr>"

definition python_v3_9 :: python_v where
  "python_v3_9 =
     \<lparr>py_tuple = mk_py_tuple C_PyTupleObject,
      py_list = mk_py_list C_PyListObject,
      py_dict = mk_py_dict Python3_PyDictObject,
      py_dictkeys = mk_py_dictkeys Python3_3_PyDictKeysObject,
      py_dictvalues = mk_py_dictvalues Python3_PyDictValuesObject,
      py_float = mk_py_float C_PyFloatObject,
      py_long = mk_py_long C_PyLongObject,
      py_bytes = mk_py_bytes Python3_PyBytesObject,
      py_unicode = mk_py_unicode Python3_PyUnicodeObject,
      py_object = mk_py_object C_PyObject,
      py_type = mk_py_type Python3_8_PyTypeObject,
      py_code = mk_py_code Python3_8_PyCodeObject,
      py_frame = mk_py_frame Python3_7_PyFrameObject,
      py_thread = mk_py_thread Python3_7_PyThreadState,
      py_is = mk_py_isv37 Python3_9_PyInterpreterState,
      py_runtime = mk_py_runtime Python3_9_PyRuntimeState,
      py_gc = mk_py_gc Python3_8_gc_runtime_state,
      py_cframe = zero_py_cframe,
      py_gilruntimestate = zero_py_gilruntimestate\<rparr>"

definition python_v3_10 :: python_v where
  "python_v3_10 =
     \<lparr>py_tuple = mk_py_tuple C_PyTupleObject,
      py_list = mk_py_list C_PyListObject,
      py_dict = mk_py_dict Python3_PyDictObject,
      py_dictkeys = mk_py_dictkeys Python3_3_PyDictKeysObject,
      py_dictvalues = mk_py_dictvalues Python3_PyDictValuesObject,
      py_float = mk_py_float C_PyFloatObject,
      py_long = mk_py_long C_PyLongObject,
      py_bytes = mk_py_bytes Python3_PyBytesObject,
      py_unicode = mk_py_unicode Python3_PyUnicodeObject,
      py_object = mk_py_object C_PyObject,
      py_type = mk_py_type Python3_8_PyTypeObject,
      py_code = mk_py_code Python3_8_PyCodeObject,
      py_frame = mk_py_frame Python3_10_PyFrameObject,
      py_thread = mk_py_thread Python3_7_PyThreadState,
      py_is = mk_py_isv37 Python3_9_PyInterpreterState,
      py_runtime = mk_py_runtime Python3_9_PyRuntimeState,
      py_gc = mk_py_gc Python3_8_gc_runtime_state,
      py_cframe = zero_py_cframe,
      py_gilruntimestate = zero_py_gilruntimestate\<rparr>"

definition python_v3_11 :: python_v where
  "python_v3_11 =
     \<lparr>py_tuple = mk_py_tuple C_PyTupleObject,
      py_list = mk_py_list C_PyListObject,
      py_dict = mk_py_dict Python3_PyDictObject,
      py_dictkeys = mk_py_dictkeys_v311 Python3_11_PyDictKeysObject,
      py_dictvalues = mk_py_dictvalues Python3_PyDictValuesObject,
      py_float = mk_py_float C_PyFloatObject,
      py_long = mk_py_long C_PyLongObject,
      py_bytes = mk_py_bytes Python3_PyBytesObject,
      py_unicode = mk_py_unicode Python3_PyUnicodeObject,
      py_object = mk_py_object C_PyObject,
      py_type = mk_py_type Python3_8_PyTypeObject,
      py_code = mk_py_codev311 Python3_11_PyCodeObject,
      py_frame = mk_py_framev311 Python3_11_PyFrameObject,
      py_thread = mk_py_threadv311 Python3_11_PyThreadState,
      py_is = mk_py_isv311 Python3_11_PyInterpreterState,
      py_runtime = mk_py_runtime Python3_11_PyRuntimeState,
      py_gc = mk_py_gc Python3_8_gc_runtime_state,
      py_cframe = mk_py_cframe Python3_11_CFrame,
      py_gilruntimestate = zero_py_gilruntimestate\<rparr>"

definition python_v3_12 :: python_v where
  "python_v3_12 =
     \<lparr>py_tuple = mk_py_tuple C_PyTupleObject,
      py_list = mk_py_list C_PyListObject,
      py_dict = mk_py_dict Python3_PyDictObject,
      py_dictkeys = mk_py_dictkeys_v311 Python3_11_PyDictKeysObject,
      py_dictvalues = mk_py_dictvalues Python3_PyDictValuesObject,
      py_float = mk_py_float C_PyFloatObject,
      py_long = mk_py_long C_PyLongObject,
      py_bytes = mk_py_bytes Python3_PyBytesObject,
      py_unicode = mk_py_unicode Python3_12_PyUnicodeObject,
      py_object = mk_py_object C_PyObject,
      py_type = mk_py_type Python3_8_PyTypeObject,
      py_code = mk_py_codev311 Python3_12_PyCodeObject,
      py_frame = mk_py_framev312 Python3_12_PyFrameObject,
      py_thread = mk_py_threadv311 Python3_12_PyThreadState,
      py_is = mk_py_isv312 Python3_12_PyInterpreterState,
      py_runtime = mk_py_runtimev312 Python3_12_PyRuntimeState,
      py_gc = mk_py_gc Python3_8_gc_runtime_state,
      py_cframe = mk_py_cframe Python3_12_CFrame,
      py_gilruntimestate = mk_py_gilruntimestate Python3_9_gil_runtime_state\<rparr>"

definition python_v3_13 :: python_v where
  "python_v3_13 =
     \<lparr>py_tuple = mk_py_tuple C_PyTupleObject,
      py_list = mk_py_list C_PyListObject,
      py_dict = mk_py_dict Python3_PyDictObject,
      py_dictkeys = mk_py_dictkeys_v311 Python3_11_PyDictKeysObject,
      py_dictvalues = mk_py_dictvalues Python3_13_PyDictValuesObject,
      py_float = mk_py_float C_PyFloatObject,
      py_long = mk_py_long C_PyLongObject,
      py_bytes = mk_py_bytes Python3_PyBytesObject,
      py_unicode = mk_py_unicode Python3_12_PyUnicodeObject,
      py_object = mk_py_object C_PyObject,
      py_type = mk_py_type Python3_8_PyTypeObject,
      py_code = mk_py_codev311 Python3_13_PyCodeObject,
      py_frame = mk_py_framev312 Python3_12_PyFrameObject,
      py_thread = mk_py_threadv313 Python3_13_PyThreadState,
      py_is = mk_py_isv312 Python3_13_PyInterpreterState,
      py_runtime = mk_py_runtimev313 Python3_13_PyRuntimeState,
      py_gc = mk_py_gc Python3_8_gc_runtime_state,
      py_cframe = mk_py_cframe Python3_12_CFrame,
      py_gilruntimestate = mk_py_gilruntimestate Python3_9_gil_runtime_state\<rparr>"

definition python_v3_14 :: python_v where
  "python_v3_14 =
     \<lparr>py_tuple = zero_py_tuple,
      py_list = zero_py_list,
      py_dict = zero_py_dict,
      py_dictkeys = mk_py_dictkeys_v311 Python3_11_PyDictKeysObject,
      py_dictvalues = mk_py_dictvalues Python3_13_PyDictValuesObject,
      py_float = zero_py_float,
      py_long = zero_py_long,
      py_bytes = zero_py_bytes,
      py_unicode = zero_py_unicode,
      py_object = zero_py_object,
      py_type = zero_py_type,
      py_code = zero_py_code,
      py_frame = zero_py_frame,
      py_thread = zero_py_thread,
      py_is = zero_py_is,
      py_runtime = mk_py_runtimev314 Python3_14_PyRuntimeState,
      py_gc = zero_py_gc,
      py_cframe = mk_py_cframe Python3_12_CFrame,
      py_gilruntimestate = zero_py_gilruntimestate\<rparr>"

definition python_v3_15 :: python_v where
  "python_v3_15 =
     \<lparr>py_tuple = zero_py_tuple,
      py_list = zero_py_list,
      py_dict = zero_py_dict,
      py_dictkeys = mk_py_dictkeys_v311 Python3_11_PyDictKeysObject,
      py_dictvalues = mk_py_dictvalues Python3_13_PyDictValuesObject,
      py_float = zero_py_float,
      py_long = zero_py_long,
      py_bytes = zero_py_bytes,
      py_unicode = zero_py_unicode,
      py_object = zero_py_object,
      py_type = zero_py_type,
      py_code = zero_py_code,
      py_frame = zero_py_frame,
      py_thread = zero_py_thread,
      py_is = zero_py_is,
      py_runtime = mk_py_runtimev314 Python3_15_PyRuntimeState,
      py_gc = zero_py_gc,
      py_cframe = mk_py_cframe Python3_12_CFrame,
      py_gilruntimestate = zero_py_gilruntimestate\<rparr>"

section \<open>Choosing a table\<close>

text \<open>\<open>warnAboutUnsuportedVersion\<close> only logs.\<close>

definition getCPythonOffsets :: "int \<Rightarrow> int \<Rightarrow> python_v result" where
  "getCPythonOffsets major minor =
     (if major = 2 then Inr python_v2
      else if major = 3 then
        (if minor \<in> {0, 1, 2} then Inr python_v3_3
         else if minor = 3 then Inr python_v3_3
         else if minor = 4 \<or> minor = 5 then Inr python_v3_4
         else if minor = 6 then Inr python_v3_6
         else if minor = 7 then Inr python_v3_7
         else if minor = 8 then Inr python_v3_8
         else if minor = 9 then Inr python_v3_9
         else if minor = 10 then Inr python_v3_10
         else if minor = 11 then Inr python_v3_11
         else if minor = 12 then Inr python_v3_12
         else if minor = 13 then Inr python_v3_13
         else if minor = 14 then Inr python_v3_14
         else Inr python_v3_15)
      else Inl (RuntimeError ''Invalid python version''))"

section \<open>Every field that is read lies in its structure\<close>

text \<open>
  The fields that PyStack reads with \<open>getField\<close> from a target of a given version, as (size of the
  structure, offset, size of the field): the reads of \<open>process.cpp\<close>, \<open>interpreter.cpp\<close>,
  \<open>pythread.cpp\<close>, \<open>pyframe.cpp\<close>, \<open>pycode.cpp\<close> and \<open>pytypes.cpp\<close> with their version tests.
\<close>

definition since :: "int \<times> int \<Rightarrow> int \<times> int \<Rightarrow> 'a list \<Rightarrow> 'a list" where
  "since req ver xs =
     (if fst ver > fst req \<or> (fst ver = fst req \<and> snd ver \<ge> snd req) then xs else [])"

definition before :: "int \<times> int \<Rightarrow> int \<times> int \<Rightarrow> 'a list \<Rightarrow> 'a list" where
  "before req ver xs =
     (if fst ver > fst req \<or> (fst ver = fst req \<and> snd ver \<ge> snd req) then [] else xs)"

definition fields_of :: "'s \<Rightarrow> ('s \<Rightarrow> size_t) \<Rightarrow> 's member list \<Rightarrow> (size_t \<times> offset_t \<times> nat) list" where
  "fields_of s sz ms = map (\<lambda>(sel, w). (sz s, sel s, w)) ms"

definition interpreter_reads :: "int \<times> int \<Rightarrow> python_v \<Rightarrow> (size_t \<times> offset_t \<times> nat) list" where
  "interpreter_reads ver v =
     fields_of (py_is v) is_size
       ([(o_tstate_head, 8), (is_o_next, 8), (o_modules, 8), (o_sysdict, 8), (o_builtins, 8)] @
        since (3, 7) ver [(o_id, 8)] @ since (3, 12) ver [(o_gil_runtime_state, 8)]) @
     since (3, 12) ver (fields_of (py_gilruntimestate v) gilruntimestate_size
       [(o_locked, 4), (o_last_holder, 8)]) @
     since (3, 7) ver (fields_of (py_runtime v) runtime_size
       ([(o_interp_head, 8), (o_finalizing, 8)] @
        since (3, 8) ver (before (3, 12) ver [(o_tstate_current, 8)]))) @
     since (3, 7) ver (fields_of (py_gc v) gc_size [(o_collecting, 8)])"

definition thread_reads :: "int \<times> int \<Rightarrow> python_v \<Rightarrow> (size_t \<times> offset_t \<times> nat) list" where
  "thread_reads ver v =
     fields_of (py_thread v) thread_size
       ([(o_interp, 8), (thread_o_next, 8), (o_frame, 8), (o_thread_id, 8)] @
        since (3, 11) ver [(o_native_thread_id, 8)]) @
     since (3, 11) ver (before (3, 13) ver
       (fields_of (py_cframe v) cframe_size [(current_frame, 8)])) @
     fields_of (py_frame v) frame_size
       ([(o_back, 8), (o_code, 8)] @
        since (3, 11) ver [(o_prev_instr, 8)] @ before (3, 11) ver [(o_lasti, 4)] @
        since (3, 11) ver (before (3, 12) ver [(o_is_entry, 1)]) @ since (3, 12) ver [(o_owner, 1)]) @
     fields_of (py_code v) code_size
       [(o_firstlineno, 4), (o_lnotab, 8), (o_filename, 8), (o_name, 8), (o_argcount, 4),
        (o_varnames, 8)]"

definition object_reads :: "int \<times> int \<Rightarrow> python_v \<Rightarrow> (size_t \<times> offset_t \<times> nat) list" where
  "object_reads ver v =
     fields_of (py_object v) object_size [(o_ob_type, 8)] @
     fields_of (py_type v) type_size [(o_tp_name, 8), (o_tp_repr, 8), (o_tp_flags, 8)] @
     fields_of (py_tuple v) tuple_size [(tuple_o_ob_size, 8)] @
     fields_of (py_list v) list_size [(list_o_ob_size, 8), (list_o_ob_item, 8)] @
     fields_of (py_float v) float_size [(o_ob_fval, 8)] @
     fields_of (py_long v) long_size [(long_o_ob_size, 8)] @
     since (3, 0) ver
       (fields_of (py_bytes v) bytes_size [(bytes_o_ob_size, 8)] @
        fields_of (py_unicode v) unicode_size [(o_state, 4), (o_length, 8)] @
        fields_of (py_dict v) dict_size [(o_ma_keys, 8), (o_ma_values, 8)]) @
     since (3, 0) ver
       (fields_of (py_dictkeys v) dictkeys_size [(o_dk_nentries, 8), (o_dk_size, 8)]) @
     since (3, 11) ver (fields_of (py_dictkeys v) dictkeys_size [(o_dk_kind, 1)])"

definition reads_in_bounds :: "(size_t \<times> offset_t \<times> nat) list \<Rightarrow> bool" where
  "reads_in_bounds rs = list_all (\<lambda>(sz, off, w). field_in_bounds sz off w) rs"

text \<open>
  A field read through \<open>offsetof\<close> is in bounds when the member exists and is at least as large as
  what is read, which needs no computation of offsets.
\<close>

definition readable_member :: "ctype \<Rightarrow> string list \<Rightarrow> nat \<Rightarrow> bool" where
  "readable_member T path w \<longleftrightarrow>
     (case path_type T path of None \<Rightarrow> False | Some t \<Rightarrow> w \<le> csize t) \<and> csize T < 2 ^ 63"

lemma member_in_bounds:
  assumes "readable_member T path w"
  shows "field_in_bounds (sizeof T) (offsetof T path) w"
proof -
  obtain t off where t: "w \<le> csize t" "cpath T path = Some (off, t)"
    using assms path_type_cpath unfolding readable_member_def by (fastforce split: option.splits)
  have le: "off + csize t \<le> csize T" by (rule cpath_bounds [OF t(2)])
  have T: "csize T < 2 ^ 63" using assms by (simp add: readable_member_def)
  have "unat (sizeof T) = csize T" "unat (offsetof T path) = off"
    using t le T by (auto simp: sizeof_def offsetof_def unat_of_nat_size)
  moreover have "w < 2 ^ 63" using t le T by linarith
  ultimately show ?thesis using t le T by (simp add: field_in_bounds_unat)
qed

lemmas table_defs =
  mk_py_code_def mk_py_codev311_def
  mk_py_frame_def mk_py_framev311_def mk_py_framev312_def mk_py_thead_h_def mk_py_thread_def
  mk_py_threadv311_def mk_py_threadv313_def mk_py_is_def mk_py_isv37_def mk_py_isv311_def
  mk_py_isv312_def mk_py_gc_def mk_py_cframe_def mk_py_gilruntimestate_def mk_py_runtime_def
  mk_py_runtimev312_def mk_py_runtimev313_def mk_py_runtimev314_def mk_py_type_def
  mk_py_object_def mk_py_bytes_def mk_py_unicode_def mk_py_tuple_def mk_py_list_def
  mk_py_dict_def mk_py_dictkeys_def mk_py_dictkeys_v311_def mk_py_dictvalues_def
  mk_py_float_def mk_py_long_def

lemmas read_defs =
  reads_in_bounds_def interpreter_reads_def thread_reads_def object_reads_def fields_of_def
  since_def before_def

text \<open>All of \<open>_Py_DebugOffsets\<close> that the table describes: the states, then the objects.\<close>

definition debug_state_members :: "debug_offsets_v member list" where
  "debug_state_members =
     [(o_dbg_off_cookie, 8), (o_dbg_off_py_version_hex, 8), (o_dbg_off_free_threaded, 8),
      (dbg_runtime_state_struct_size \<circ> runtime_state, 8),
      (dbg_runtime_state_finalizing \<circ> runtime_state, 8),
      (dbg_runtime_state_interpreters_head \<circ> runtime_state, 8),
      (dbg_interpreter_state_struct_size \<circ> interpreter_state, 8),
      (dbg_interpreter_state_id \<circ> interpreter_state, 8),
      (dbg_interpreter_state_next \<circ> interpreter_state, 8),
      (dbg_interpreter_state_threads_head \<circ> interpreter_state, 8),
      (dbg_interpreter_state_gc \<circ> interpreter_state, 8),
      (dbg_interpreter_state_imports_modules \<circ> interpreter_state, 8),
      (dbg_interpreter_state_sysdict \<circ> interpreter_state, 8),
      (dbg_interpreter_state_builtins \<circ> interpreter_state, 8),
      (dbg_interpreter_state_ceval_gil \<circ> interpreter_state, 8),
      (dbg_interpreter_state_gil_runtime_state \<circ> interpreter_state, 8),
      (dbg_interpreter_state_gil_runtime_state_enabled \<circ> interpreter_state, 8),
      (dbg_interpreter_state_gil_runtime_state_locked \<circ> interpreter_state, 8),
      (dbg_interpreter_state_gil_runtime_state_holder \<circ> interpreter_state, 8),
      (dbg_thread_state_struct_size \<circ> thread_state, 8),
      (dbg_thread_state_prev \<circ> thread_state, 8),
      (dbg_thread_state_next \<circ> thread_state, 8),
      (dbg_thread_state_interp \<circ> thread_state, 8),
      (dbg_thread_state_current_frame \<circ> thread_state, 8),
      (dbg_thread_state_thread_id \<circ> thread_state, 8),
      (dbg_thread_state_native_thread_id \<circ> thread_state, 8),
      (dbg_thread_state_datastack_chunk \<circ> thread_state, 8),
      (dbg_thread_state_status \<circ> thread_state, 8),
      (dbg_interpreter_frame_struct_size \<circ> interpreter_frame, 8),
      (dbg_interpreter_frame_previous \<circ> interpreter_frame, 8),
      (dbg_interpreter_frame_executable \<circ> interpreter_frame, 8),
      (dbg_interpreter_frame_instr_ptr \<circ> interpreter_frame, 8),
      (dbg_interpreter_frame_localsplus \<circ> interpreter_frame, 8),
      (dbg_interpreter_frame_owner \<circ> interpreter_frame, 8),
      (dbg_code_object_struct_size \<circ> code_object, 8),
      (dbg_code_object_filename \<circ> code_object, 8),
      (dbg_code_object_name \<circ> code_object, 8),
      (dbg_code_object_qualname \<circ> code_object, 8),
      (dbg_code_object_linetable \<circ> code_object, 8),
      (dbg_code_object_firstlineno \<circ> code_object, 8),
      (dbg_code_object_argcount \<circ> code_object, 8),
      (dbg_code_object_localsplusnames \<circ> code_object, 8),
      (dbg_code_object_localspluskinds \<circ> code_object, 8),
      (dbg_code_object_co_code_adaptive \<circ> code_object, 8)]"

definition debug_object_members :: "debug_offsets_v member list" where
  "debug_object_members =
     [(dbg_pyobject_struct_size, 8), (dbg_pyobject_ob_type, 8),
      (dbg_type_object_struct_size \<circ> type_object, 8),
      (dbg_type_object_tp_name \<circ> type_object, 8),
      (dbg_type_object_tp_repr \<circ> type_object, 8),
      (dbg_type_object_tp_flags \<circ> type_object, 8),
      (dbg_tuple_object_struct_size \<circ> containers, 8),
      (dbg_tuple_object_ob_item \<circ> containers, 8),
      (dbg_tuple_object_ob_size \<circ> containers, 8),
      (dbg_list_object_struct_size \<circ> containers, 8),
      (dbg_list_object_ob_item \<circ> containers, 8),
      (dbg_list_object_ob_size \<circ> containers, 8),
      (dbg_dict_object_struct_size \<circ> containers, 8),
      (dbg_dict_object_ma_keys \<circ> containers, 8),
      (dbg_dict_object_ma_values \<circ> containers, 8),
      (dbg_float_object_struct_size \<circ> scalars, 8),
      (dbg_float_object_ob_fval \<circ> scalars, 8),
      (dbg_long_object_struct_size \<circ> scalars, 8), (dbg_long_object_lv_tag \<circ> scalars, 8),
      (dbg_long_object_ob_digit \<circ> scalars, 8),
      (dbg_bytes_object_struct_size \<circ> scalars, 8),
      (dbg_bytes_object_ob_size \<circ> scalars, 8), (dbg_bytes_object_ob_sval \<circ> scalars, 8),
      (dbg_unicode_object_struct_size \<circ> unicode_gc, 8),
      (dbg_unicode_object_state \<circ> unicode_gc, 8),
      (dbg_unicode_object_length \<circ> unicode_gc, 8),
      (dbg_unicode_object_asciiobject_size \<circ> unicode_gc, 8),
      (dbg_gc_struct_size \<circ> unicode_gc, 8), (dbg_gc_collecting \<circ> unicode_gc, 8)]"

definition debug_offset_reads :: "python_v \<Rightarrow> (size_t \<times> offset_t \<times> nat) list" where
  "debug_offset_reads v =
     fields_of (debug_offsets (py_runtime v)) (\<lambda>_. runtime_size (py_runtime v))
       (debug_state_members @ debug_object_members)"

definition all_reads :: "int \<times> int \<Rightarrow> python_v \<Rightarrow> (size_t \<times> offset_t \<times> nat) list" where
  "all_reads ver v = interpreter_reads ver v @ thread_reads ver v @ object_reads ver v"

lemma reads_in_bounds_append [simp]:
  "reads_in_bounds (xs @ ys) \<longleftrightarrow> reads_in_bounds xs \<and> reads_in_bounds ys"
  by (simp add: reads_in_bounds_def)

text \<open>The reads of a Python 2 target do not depend on its minor version.\<close>

lemma python2_reads: "all_reads (2, minor) v = all_reads (2, 7) v"
  by (simp add: all_reads_def interpreter_reads_def thread_reads_def object_reads_def since_def
      before_def)

lemma python3_early_reads:
  "minor \<in> {0, 1, 2, 3} \<Longrightarrow> all_reads (3, minor) v = all_reads (3, 3) v"
  by (auto simp: all_reads_def interpreter_reads_def thread_reads_def object_reads_def since_def
      before_def)

text \<open>
  Three reads are wider than the member they name: \<open>collecting\<close> is an \<open>int\<close> and the logarithms of
  \<open>dk_size\<close> are bytes, and both are read as 8 bytes.
\<close>

lemma wide_reads:
  "field_in_bounds (sizeof Python3_7_gc_runtime_state) (offsetof Python3_7_gc_runtime_state [''collecting'']) 8"
  "field_in_bounds (sizeof Python3_8_gc_runtime_state) (offsetof Python3_8_gc_runtime_state [''collecting'']) 8"
  "field_in_bounds (sizeof Python3_11_PyDictKeysObject) (offsetof Python3_11_PyDictKeysObject [''dk_log2_size'']) 8"
  by (simp_all add: sizeof_def offsetof_def field_in_bounds_unat round_up_def layout
      Python3_7_gc_runtime_state_def Python3_8_gc_runtime_state_def Python3_11_PyDictKeysObject_def)

lemma bounds_2_7: "reads_in_bounds (all_reads (2, 7) python_v2)"
  by (simp add: all_reads_def read_defs python_v2_def table_defs wide_reads member_in_bounds
      readable_member_def members layout)

lemma bounds_3_3: "reads_in_bounds (all_reads (3, 3) python_v3_3)"
  by (simp add: all_reads_def read_defs python_v3_3_def table_defs wide_reads member_in_bounds
      readable_member_def members layout)

lemma bounds_3_4: "reads_in_bounds (all_reads (3, 4) python_v3_4)"
  by (simp add: all_reads_def read_defs python_v3_4_def table_defs wide_reads member_in_bounds
      readable_member_def members layout)

lemma bounds_3_5: "reads_in_bounds (all_reads (3, 5) python_v3_4)"
  by (simp add: all_reads_def read_defs python_v3_4_def table_defs wide_reads member_in_bounds
      readable_member_def members layout)

lemma bounds_3_6: "reads_in_bounds (all_reads (3, 6) python_v3_6)"
  by (simp add: all_reads_def read_defs python_v3_6_def table_defs wide_reads member_in_bounds
      readable_member_def members layout)

lemma bounds_3_7: "reads_in_bounds (all_reads (3, 7) python_v3_7)"
  by (simp add: all_reads_def read_defs python_v3_7_def table_defs wide_reads member_in_bounds
      readable_member_def members layout)

lemma bounds_3_8: "reads_in_bounds (all_reads (3, 8) python_v3_8)"
  by (simp add: all_reads_def read_defs python_v3_8_def table_defs wide_reads member_in_bounds
      readable_member_def members layout)

lemma bounds_3_9: "reads_in_bounds (all_reads (3, 9) python_v3_9)"
  by (simp add: all_reads_def read_defs python_v3_9_def table_defs wide_reads member_in_bounds
      readable_member_def members layout)

lemma bounds_3_10: "reads_in_bounds (all_reads (3, 10) python_v3_10)"
  by (simp add: all_reads_def read_defs python_v3_10_def table_defs wide_reads member_in_bounds
      readable_member_def members layout)

lemma bounds_3_11: "reads_in_bounds (all_reads (3, 11) python_v3_11)"
  by (simp add: all_reads_def read_defs python_v3_11_def table_defs wide_reads member_in_bounds
      readable_member_def members layout)

lemma bounds_3_12: "reads_in_bounds (all_reads (3, 12) python_v3_12)"
  by (simp add: all_reads_def read_defs python_v3_12_def table_defs wide_reads member_in_bounds
      readable_member_def members layout)

lemma bounds_3_13: "reads_in_bounds (all_reads (3, 13) python_v3_13)"
  by (simp add: all_reads_def read_defs python_v3_13_def table_defs wide_reads member_in_bounds
      readable_member_def members layout)

lemmas debug_read_defs =
  debug_state_members_def debug_object_members_def fields_of_def reads_in_bounds_def table_defs

lemma debug_reads_split:
  "reads_in_bounds (debug_offset_reads v) \<longleftrightarrow>
     reads_in_bounds (fields_of (debug_offsets (py_runtime v)) (\<lambda>_. runtime_size (py_runtime v)) debug_state_members) \<and>
     reads_in_bounds (fields_of (debug_offsets (py_runtime v)) (\<lambda>_. runtime_size (py_runtime v)) debug_object_members)"
  by (simp add: debug_offset_reads_def fields_of_def)

lemma debug_state_bounds_3_13:
  "reads_in_bounds (fields_of (debug_offsets (py_runtime python_v3_13))
     (\<lambda>_. runtime_size (py_runtime python_v3_13)) debug_state_members)"
  by (simp add: debug_read_defs python_v3_13_def member_in_bounds readable_member_def members layout)

lemma debug_object_bounds_3_13:
  "reads_in_bounds (fields_of (debug_offsets (py_runtime python_v3_13))
     (\<lambda>_. runtime_size (py_runtime python_v3_13)) debug_object_members)"
  by (simp add: debug_read_defs python_v3_13_def member_in_bounds readable_member_def members layout)

lemma debug_state_bounds_3_14:
  "reads_in_bounds (fields_of (debug_offsets (py_runtime python_v3_14))
     (\<lambda>_. runtime_size (py_runtime python_v3_14)) debug_state_members)"
  by (simp add: debug_read_defs python_v3_14_def member_in_bounds readable_member_def members layout)

lemma debug_object_bounds_3_14:
  "reads_in_bounds (fields_of (debug_offsets (py_runtime python_v3_14))
     (\<lambda>_. runtime_size (py_runtime python_v3_14)) debug_object_members)"
  by (simp add: debug_read_defs python_v3_14_def member_in_bounds readable_member_def members layout)

lemma debug_state_bounds_3_15:
  "reads_in_bounds (fields_of (debug_offsets (py_runtime python_v3_15))
     (\<lambda>_. runtime_size (py_runtime python_v3_15)) debug_state_members)"
  by (simp add: debug_read_defs python_v3_15_def member_in_bounds readable_member_def members layout)

lemma debug_object_bounds_3_15:
  "reads_in_bounds (fields_of (debug_offsets (py_runtime python_v3_15))
     (\<lambda>_. runtime_size (py_runtime python_v3_15)) debug_object_members)"
  by (simp add: debug_read_defs python_v3_15_def member_in_bounds readable_member_def members layout)

lemma static_reads_in_bounds:
  assumes "getCPythonOffsets major minor = Inr v" and "0 \<le> minor"
    and "\<not> (major = 3 \<and> 14 \<le> minor)"
  shows "reads_in_bounds (all_reads (major, minor) v)"
proof (cases "major = 2")
  case True
  with assms show ?thesis
    using bounds_2_7 by (simp add: getCPythonOffsets_def python2_reads [of minor])
next
  case False
  with assms have major: "major = 3" by (auto simp: getCPythonOffsets_def split: if_splits)
  with assms have "0 \<le> minor" "minor < 14" by auto
  then have "minor \<in> {0, 1, 2, 3} \<or> minor = 4 \<or> minor = 5 \<or> minor = 6 \<or> minor = 7 \<or>
      minor = 8 \<or> minor = 9 \<or> minor = 10 \<or> minor = 11 \<or> minor = 12 \<or> minor = 13"
    unfolding insert_iff empty_iff by presburger
  then show ?thesis
  proof (elim disjE)
    assume early: "minor \<in> {0, 1, 2, 3}"
    then have "v = python_v3_3" using assms(1) major by (auto simp: getCPythonOffsets_def)
    with bounds_3_3 python3_early_reads [OF early] major show ?thesis by simp
  qed (use assms(1) major in \<open>simp_all add: getCPythonOffsets_def bounds_3_4 bounds_3_5 bounds_3_6
      bounds_3_7 bounds_3_8 bounds_3_9 bounds_3_10 bounds_3_11 bounds_3_12 bounds_3_13\<close>)
qed

section \<open>Properties of the tables\<close>

text \<open>
  Property C2. For every version below 3.14 that \<open>getCPythonOffsets\<close> accepts, the compiled-in
  table puts every field PyStack reads from that version inside the structure it copies, so that
  \<open>getField\<close> never calls \<open>abort()\<close> with the static tables.
\<close>

theorem static_tables_readable:
  assumes "getCPythonOffsets major minor = Inr v" and "0 \<le> minor"
    and "\<not> (major = 3 \<and> 14 \<le> minor)"
  shows "reads_in_bounds (all_reads (major, minor) v)"
  by (rule static_reads_in_bounds [OF assms])

theorem static_tables_readable_witness:
  "reads_in_bounds (all_reads (3, 11) python_v3_11)"
  by (rule static_tables_readable) (simp_all add: getCPythonOffsets_def)

text \<open>
  Property C12. From 3.13 on, every entry of \<open>_Py_DebugOffsets\<close> that PyStack reads lies inside the
  runtime structure it copies, for every table \<open>getCPythonOffsets\<close> can choose (including the one
  future minor versions fall back to).
\<close>

theorem debug_offset_tables_readable:
  assumes "getCPythonOffsets 3 minor = Inr v" and "13 \<le> minor"
  shows "reads_in_bounds (debug_offset_reads v)"
proof -
  have "v = python_v3_13 \<or> v = python_v3_14 \<or> v = python_v3_15"
    using assms by (auto simp: getCPythonOffsets_def split: if_splits)
  then show ?thesis
    unfolding debug_reads_split
    using debug_state_bounds_3_13 debug_object_bounds_3_13 debug_state_bounds_3_14
      debug_object_bounds_3_14 debug_state_bounds_3_15 debug_object_bounds_3_15 by blast
qed

theorem debug_offset_tables_readable_witness:
  "reads_in_bounds (debug_offset_reads python_v3_15)"
  by (rule debug_offset_tables_readable [of 16]) (simp_all add: getCPythonOffsets_def)

end
