(* ===== verification/Debug_Offsets.thy ===== *)
theory Debug_Offsets
  imports Structure_Reads Version_Tables
begin

text \<open>
  Finding and loading the offsets that CPython 3.13+ publishes in \<open>_Py_DebugOffsets\<close>
  (\<open>process.cpp\<close>): the search for the cookie in the writable mappings, the version it carries, the
  copy of every size and offset, their validation and the clamping of the sizes, and the choice of
  the Python version. The main theorem: every field checked by the validation can be read after the
  clamping.
\<close>

section \<open>Versions\<close>

record ParsedPyVersion =
  parsed_major :: int
  parsed_minor :: int
  parsed_patch :: int
  release_level :: string
  serial :: int

definition version_byte :: "64 word \<Rightarrow> nat \<Rightarrow> 64 word \<Rightarrow> int" where
  "version_byte version shift msk = uint (drop_bit shift version AND msk)"

text \<open>
  \<open>parsePyVersionHex\<close>; \<open>None\<close> is \<open>false\<close>. The initial value of \<open>level_str\<close> is not null, so the
  test \<open>level_str == nullptr\<close> never fires.
\<close>

definition parsePyVersionHex :: "64 word \<Rightarrow> ParsedPyVersion option" where
  "parsePyVersionHex version =
     (let major = version_byte version 24 0xFF;
          minor = version_byte version 16 0xFF;
          patch = version_byte version 8 0xFF;
          level = version_byte version 4 0x0F;
          count = version_byte version 0 0x0F;
          level_str = (if level = 0xA then ''a'' else if level = 0xB then ''b''
                       else if level = 0xC then ''rc'' else if level = 0xF then ''''
                       else ''(unknown release level)'')
      in if major < 2 \<or> major > 3 \<or> (level = 0xF \<and> count \<noteq> 0) then None
         else Some \<lparr>parsed_major = major, parsed_minor = minor, parsed_patch = patch,
                    release_level = level_str, serial = count\<rparr>)"

definition has_debug_offsets :: "64 word \<Rightarrow> bool" where
  "has_debug_offsets version =
     (case parsePyVersionHex version of
        None \<Rightarrow> False | Some p \<Rightarrow> parsed_major p = 3 \<and> parsed_minor p \<ge> 13)"

definition cookie_bytes :: bytes where
  "cookie_bytes = map (\<lambda>c. of_nat (of_char c)) ''xdebugpy''"

definition cookie :: "64 word" where
  "cookie = le_word cookie_bytes"

section \<open>Searching the mappings\<close>

text \<open>
  The scan of the copied mapping, 8 bytes at a time from offset \<open>off\<close>. \<open>raddr[1]\<close> is read as soon as
  \<open>raddr[0]\<close> is the cookie, even when it is past the end of the buffer, and the last step of a
  mapping whose size is no multiple of 8 reads past the end as well.
\<close>

function scan_for_cookie :: "bytes \<Rightarrow> nat \<Rightarrow> nat option result" where
  "scan_for_cookie buf off =
     (if off \<ge> length buf then Inr None
      else if off + 8 > length buf then Inl Undefined
      else if le_word (block off 8 buf) = cookie then
        (if off + 16 > length buf then Inl Undefined
         else if has_debug_offsets (le_word (block (off + 8) 8 buf)) then Inr (Some off)
         else scan_for_cookie buf (off + 8))
      else scan_for_cookie buf (off + 8))"
  by pat_completeness auto
termination
  by (relation "measure (\<lambda>(buf, off). length buf - off)") auto

declare scan_for_cookie.simps [simp del]

definition scanMemoryAreaForDebugOffsets :: "manager \<Rightarrow> virtual_map \<Rightarrow> addr result" where
  "scanMemoryAreaForDebugOffsets m vmap =
     rbind (vec_resize 1 (map_Size vmap)) (\<lambda>_.
     rbind (d_manager m (d_start vmap) (map_Size vmap)) (\<lambda>memory_buffer.
     rbind (scan_for_cookie memory_buffer 0) (\<lambda>found.
       case found of
         None \<Rightarrow> Inr 0
       | Some offset \<Rightarrow> Inr (of_nat offset + d_start vmap))))"

text \<open>\<open>findDebugOffsetsFromMaps\<close>: the writable mappings with a path, in order.\<close>

fun scan_maps_for_debug_offsets :: "manager \<Rightarrow> virtual_map list \<Rightarrow> addr result" where
  "scan_maps_for_debug_offsets m [] = Inr 0"
| "scan_maps_for_debug_offsets m (vmap # vmaps) =
     (if isWritable vmap \<and> d_path vmap \<noteq> '''' then
        rbind (try_catch (scanMemoryAreaForDebugOffsets m vmap) is_remote_copy_error (\<lambda>_. Inr 0))
          (\<lambda>result. if result \<noteq> 0 then Inr result else scan_maps_for_debug_offsets m vmaps)
      else scan_maps_for_debug_offsets m vmaps)"

definition findDebugOffsetsFromMaps :: "manager \<Rightarrow> addr result" where
  "findDebugOffsetsFromMaps m = scan_maps_for_debug_offsets m (d_memory_maps m)"

section \<open>Copying the offsets\<close>

text \<open>One \<open>uint64_t\<close> entry of \<open>_Py_DebugOffsets\<close>, by its member in the runtime's table.\<close>

definition dbg :: "manager \<Rightarrow> addr \<Rightarrow> (debug_offsets_v \<Rightarrow> offset_t) \<Rightarrow> 64 word result" where
  "dbg m addr sel = getWord m S_runtime addr (sel \<circ> debug_offsets, 8)"

definition copy_py_runtime :: "manager \<Rightarrow> addr \<Rightarrow> py_runtime_v result" where
  "copy_py_runtime m a =
     rbind (dbg m a (dbg_runtime_state_struct_size \<circ> runtime_state)) (\<lambda>sz.
     rbind (dbg m a (dbg_runtime_state_finalizing \<circ> runtime_state)) (\<lambda>finalizing.
     rbind (dbg m a (dbg_runtime_state_interpreters_head \<circ> runtime_state)) (\<lambda>interp_head.
       Inr (zero_py_runtime\<lparr>runtime_size := sz, o_finalizing := finalizing,
                            o_interp_head := interp_head\<rparr>))))"

definition copy_py_is :: "manager \<Rightarrow> addr \<Rightarrow> py_is_v result" where
  "copy_py_is m a =
     rbind (dbg m a (dbg_interpreter_state_struct_size \<circ> interpreter_state)) (\<lambda>sz.
     rbind (dbg m a (dbg_interpreter_state_next \<circ> interpreter_state)) (\<lambda>next.
     rbind (dbg m a (dbg_interpreter_state_threads_head \<circ> interpreter_state)) (\<lambda>threads_head.
     rbind (dbg m a (dbg_interpreter_state_gc \<circ> interpreter_state)) (\<lambda>gc.
     rbind (dbg m a (dbg_interpreter_state_imports_modules \<circ> interpreter_state)) (\<lambda>modules.
     rbind (dbg m a (dbg_interpreter_state_sysdict \<circ> interpreter_state)) (\<lambda>sysdict.
     rbind (dbg m a (dbg_interpreter_state_builtins \<circ> interpreter_state)) (\<lambda>builtins.
     rbind (dbg m a (dbg_interpreter_state_ceval_gil \<circ> interpreter_state)) (\<lambda>gil.
     rbind (dbg m a (dbg_interpreter_state_id \<circ> interpreter_state)) (\<lambda>id.
       Inr \<lparr>is_size = sz, is_o_next = next, o_tstate_head = threads_head, is_o_gc = gc,
            o_modules = modules, o_sysdict = sysdict, o_builtins = builtins,
            o_gil_runtime_state = gil, o_id = id\<rparr>)))))))))"

definition copy_py_thread :: "manager \<Rightarrow> addr \<Rightarrow> py_thread_v result" where
  "copy_py_thread m a =
     rbind (dbg m a (dbg_thread_state_struct_size \<circ> thread_state)) (\<lambda>sz.
     rbind (dbg m a (dbg_thread_state_prev \<circ> thread_state)) (\<lambda>prev.
     rbind (dbg m a (dbg_thread_state_next \<circ> thread_state)) (\<lambda>next.
     rbind (dbg m a (dbg_thread_state_interp \<circ> thread_state)) (\<lambda>interp.
     rbind (dbg m a (dbg_thread_state_current_frame \<circ> thread_state)) (\<lambda>frame.
     rbind (dbg m a (dbg_thread_state_thread_id \<circ> thread_state)) (\<lambda>thread_id.
     rbind (dbg m a (dbg_thread_state_native_thread_id \<circ> thread_state)) (\<lambda>native_thread_id.
       Inr \<lparr>thread_size = sz, o_prev = prev, thread_o_next = next, o_interp = interp,
            o_frame = frame, o_thread_id = thread_id, o_native_thread_id = native_thread_id\<rparr>)))))))"

definition copy_py_frame :: "manager \<Rightarrow> addr \<Rightarrow> py_frame_v result" where
  "copy_py_frame m a =
     rbind (dbg m a (dbg_interpreter_frame_struct_size \<circ> interpreter_frame)) (\<lambda>sz.
     rbind (dbg m a (dbg_interpreter_frame_previous \<circ> interpreter_frame)) (\<lambda>back.
     rbind (dbg m a (dbg_interpreter_frame_executable \<circ> interpreter_frame)) (\<lambda>code.
     rbind (dbg m a (dbg_interpreter_frame_instr_ptr \<circ> interpreter_frame)) (\<lambda>prev_instr.
     rbind (dbg m a (dbg_interpreter_frame_localsplus \<circ> interpreter_frame)) (\<lambda>localsplus.
     rbind (dbg m a (dbg_interpreter_frame_owner \<circ> interpreter_frame)) (\<lambda>owner.
       Inr (zero_py_frame\<lparr>frame_size := sz, o_back := back, o_code := code,
             o_prev_instr := prev_instr, o_localsplus := localsplus, o_owner := owner\<rparr>)))))))"

definition copy_py_code :: "manager \<Rightarrow> addr \<Rightarrow> py_code_v result" where
  "copy_py_code m a =
     rbind (dbg m a (dbg_code_object_struct_size \<circ> code_object)) (\<lambda>sz.
     rbind (dbg m a (dbg_code_object_filename \<circ> code_object)) (\<lambda>filename.
     rbind (dbg m a (dbg_code_object_name \<circ> code_object)) (\<lambda>name.
     rbind (dbg m a (dbg_code_object_linetable \<circ> code_object)) (\<lambda>lnotab.
     rbind (dbg m a (dbg_code_object_firstlineno \<circ> code_object)) (\<lambda>firstlineno.
     rbind (dbg m a (dbg_code_object_argcount \<circ> code_object)) (\<lambda>argcount.
     rbind (dbg m a (dbg_code_object_localsplusnames \<circ> code_object)) (\<lambda>varnames.
     rbind (dbg m a (dbg_code_object_co_code_adaptive \<circ> code_object)) (\<lambda>code_adaptive.
       Inr \<lparr>code_size = sz, o_filename = filename, o_name = name, o_lnotab = lnotab,
            o_firstlineno = firstlineno, o_argcount = argcount, o_varnames = varnames,
            o_code_adaptive = code_adaptive\<rparr>))))))))"

definition copy_py_object :: "manager \<Rightarrow> addr \<Rightarrow> py_object_v result" where
  "copy_py_object m a =
     rbind (dbg m a dbg_pyobject_struct_size) (\<lambda>sz.
     rbind (dbg m a dbg_pyobject_ob_type) (\<lambda>ob_type.
       Inr \<lparr>object_size = sz, o_ob_type = ob_type\<rparr>))"

definition copy_py_type :: "manager \<Rightarrow> addr \<Rightarrow> py_type_v result" where
  "copy_py_type m a =
     rbind (dbg m a (dbg_type_object_struct_size \<circ> type_object)) (\<lambda>sz.
     rbind (dbg m a (dbg_type_object_tp_name \<circ> type_object)) (\<lambda>tp_name.
     rbind (dbg m a (dbg_type_object_tp_repr \<circ> type_object)) (\<lambda>tp_repr.
     rbind (dbg m a (dbg_type_object_tp_flags \<circ> type_object)) (\<lambda>tp_flags.
       Inr \<lparr>type_size = sz, o_tp_name = tp_name, o_tp_repr = tp_repr, o_tp_flags = tp_flags\<rparr>))))"

definition copy_py_tuple :: "manager \<Rightarrow> addr \<Rightarrow> py_tuple_v result" where
  "copy_py_tuple m a =
     rbind (dbg m a (dbg_tuple_object_struct_size \<circ> containers)) (\<lambda>sz.
     rbind (dbg m a (dbg_tuple_object_ob_item \<circ> containers)) (\<lambda>ob_item.
     rbind (dbg m a (dbg_tuple_object_ob_size \<circ> containers)) (\<lambda>ob_size.
       Inr \<lparr>tuple_size = sz, tuple_o_ob_size = ob_size, tuple_o_ob_item = ob_item\<rparr>)))"

definition copy_py_list :: "manager \<Rightarrow> addr \<Rightarrow> py_list_v result" where
  "copy_py_list m a =
     rbind (dbg m a (dbg_list_object_struct_size \<circ> containers)) (\<lambda>sz.
     rbind (dbg m a (dbg_list_object_ob_item \<circ> containers)) (\<lambda>ob_item.
     rbind (dbg m a (dbg_list_object_ob_size \<circ> containers)) (\<lambda>ob_size.
       Inr \<lparr>list_size = sz, list_o_ob_size = ob_size, list_o_ob_item = ob_item\<rparr>)))"

definition copy_py_dict :: "manager \<Rightarrow> addr \<Rightarrow> py_dict_v result" where
  "copy_py_dict m a =
     rbind (dbg m a (dbg_dict_object_struct_size \<circ> containers)) (\<lambda>sz.
     rbind (dbg m a (dbg_dict_object_ma_keys \<circ> containers)) (\<lambda>ma_keys.
     rbind (dbg m a (dbg_dict_object_ma_values \<circ> containers)) (\<lambda>ma_values.
       Inr \<lparr>dict_size = sz, o_ma_keys = ma_keys, o_ma_values = ma_values\<rparr>)))"

definition copy_py_float :: "manager \<Rightarrow> addr \<Rightarrow> py_float_v result" where
  "copy_py_float m a =
     rbind (dbg m a (dbg_float_object_struct_size \<circ> scalars)) (\<lambda>sz.
     rbind (dbg m a (dbg_float_object_ob_fval \<circ> scalars)) (\<lambda>ob_fval.
       Inr \<lparr>float_size = sz, o_ob_fval = ob_fval\<rparr>))"

definition copy_py_long :: "manager \<Rightarrow> addr \<Rightarrow> py_long_v result" where
  "copy_py_long m a =
     rbind (dbg m a (dbg_long_object_struct_size \<circ> scalars)) (\<lambda>sz.
     rbind (dbg m a (dbg_long_object_lv_tag \<circ> scalars)) (\<lambda>lv_tag.
     rbind (dbg m a (dbg_long_object_ob_digit \<circ> scalars)) (\<lambda>ob_digit.
       Inr \<lparr>long_size = sz, long_o_ob_size = lv_tag, o_ob_digit = ob_digit\<rparr>)))"

definition copy_py_bytes :: "manager \<Rightarrow> addr \<Rightarrow> py_bytes_v result" where
  "copy_py_bytes m a =
     rbind (dbg m a (dbg_bytes_object_struct_size \<circ> scalars)) (\<lambda>sz.
     rbind (dbg m a (dbg_bytes_object_ob_size \<circ> scalars)) (\<lambda>ob_size.
     rbind (dbg m a (dbg_bytes_object_ob_sval \<circ> scalars)) (\<lambda>ob_sval.
       Inr \<lparr>bytes_size = sz, bytes_o_ob_size = ob_size, o_ob_sval = ob_sval\<rparr>)))"

definition copy_py_unicode :: "manager \<Rightarrow> addr \<Rightarrow> py_unicode_v result" where
  "copy_py_unicode m a =
     rbind (dbg m a (dbg_unicode_object_struct_size \<circ> unicode_gc)) (\<lambda>sz.
     rbind (dbg m a (dbg_unicode_object_state \<circ> unicode_gc)) (\<lambda>state.
     rbind (dbg m a (dbg_unicode_object_length \<circ> unicode_gc)) (\<lambda>len.
     rbind (dbg m a (dbg_unicode_object_asciiobject_size \<circ> unicode_gc)) (\<lambda>ascii.
       Inr \<lparr>unicode_size = sz, o_state = state, o_length = len, o_ascii = ascii\<rparr>))))"

definition copy_py_gc :: "manager \<Rightarrow> addr \<Rightarrow> py_gc_v result" where
  "copy_py_gc m a =
     rbind (dbg m a (dbg_gc_struct_size \<circ> unicode_gc)) (\<lambda>sz.
     rbind (dbg m a (dbg_gc_collecting \<circ> unicode_gc)) (\<lambda>collecting.
       Inr \<lparr>gc_size = sz, o_collecting = collecting\<rparr>))"

text \<open>
  The GIL state is published as absolute offsets in the interpreter state; the code makes them
  relative to its start and computes a size that covers both fields (all in wrapping arithmetic).
\<close>

definition copy_py_gilruntimestate :: "manager \<Rightarrow> addr \<Rightarrow> py_gilruntimestate_v result" where
  "copy_py_gilruntimestate m a =
     rbind (dbg m a (dbg_interpreter_state_gil_runtime_state \<circ> interpreter_state)) (\<lambda>start.
     rbind (dbg m a (dbg_interpreter_state_gil_runtime_state_locked \<circ> interpreter_state)) (\<lambda>locked.
     rbind (dbg m a (dbg_interpreter_state_gil_runtime_state_holder \<circ> interpreter_state)) (\<lambda>holder.
       let locked_offset = locked - start; holder_offset = holder - start in
       Inr \<lparr>gilruntimestate_size = max (locked_offset + 4) (holder_offset + 8),
            o_locked = locked_offset, o_last_holder = holder_offset\<rparr>)))"

text \<open>
  \<open>copyDebugOffsets\<close>. The tables of dictionary keys and values and of the C frame are the
  compiled-in ones, taken from \<open>d_py_v\<close>.
\<close>

definition copyDebugOffsets :: "manager \<Rightarrow> addr \<Rightarrow> python_v result" where
  "copyDebugOffsets m a =
     (case d_py_v m of
        None \<Rightarrow> Inl Undefined
      | Some static \<Rightarrow>
          rbind (copy_py_runtime m a) (\<lambda>runtime.
          rbind (copy_py_is m a) (\<lambda>is.
          rbind (copy_py_thread m a) (\<lambda>thread.
          rbind (copy_py_frame m a) (\<lambda>frame.
          rbind (copy_py_code m a) (\<lambda>code.
          rbind (copy_py_object m a) (\<lambda>object.
          rbind (copy_py_type m a) (\<lambda>type.
          rbind (copy_py_tuple m a) (\<lambda>tuple.
          rbind (copy_py_list m a) (\<lambda>list.
          rbind (copy_py_dict m a) (\<lambda>dict.
          rbind (copy_py_float m a) (\<lambda>float.
          rbind (copy_py_long m a) (\<lambda>long.
          rbind (copy_py_bytes m a) (\<lambda>bytes.
          rbind (copy_py_unicode m a) (\<lambda>unicode.
          rbind (copy_py_gc m a) (\<lambda>gc.
          rbind (copy_py_gilruntimestate m a) (\<lambda>gil.
            Inr \<lparr>py_tuple = tuple, py_list = list, py_dict = dict,
                 py_dictkeys = py_dictkeys static, py_dictvalues = py_dictvalues static,
                 py_float = float, py_long = long, py_bytes = bytes, py_unicode = unicode,
                 py_object = object, py_type = type, py_code = code, py_frame = frame,
                 py_thread = thread, py_is = is, py_runtime = runtime, py_gc = gc,
                 py_cframe = py_cframe static, py_gilruntimestate = gil\<rparr>)))))))))))))))))"

section \<open>Validation and clamping\<close>

text \<open>
  The fields of each structure that \<open>check_field_bounds\<close> and \<open>update_size\<close> are applied to, with
  the sizes of their types.
\<close>

definition runtime_members :: "py_runtime_v member list" where
  "runtime_members = [(o_finalizing, 8), (o_interp_head, 8)]"
definition is_members :: "py_is_v member list" where
  "is_members = [(is_o_next, 8), (o_tstate_head, 8), (is_o_gc, 1), (o_modules, 8), (o_sysdict, 8),
     (o_builtins, 8), (o_gil_runtime_state, 8)]"
definition thread_members :: "py_thread_v member list" where
  "thread_members = [(o_prev, 8), (thread_o_next, 8), (o_interp, 8), (o_frame, 8), (o_thread_id, 8),
     (o_native_thread_id, 8)]"
definition frame_members :: "py_frame_v member list" where
  "frame_members = [(o_back, 8), (o_code, 8), (o_prev_instr, 8), (o_localsplus, 8), (o_owner, 1)]"
definition code_members :: "py_code_v member list" where
  "code_members = [(o_filename, 8), (o_name, 8), (o_lnotab, 8), (o_firstlineno, 4), (o_argcount, 4),
     (o_varnames, 8), (o_code_adaptive, 1)]"
definition object_members :: "py_object_v member list" where
  "object_members = [(o_ob_type, 8)]"
definition type_members :: "py_type_v member list" where
  "type_members = [(o_tp_name, 8), (o_tp_repr, 8), (o_tp_flags, 8)]"
definition tuple_members :: "py_tuple_v member list" where
  "tuple_members = [(tuple_o_ob_size, 8), (tuple_o_ob_item, 8)]"
definition unicode_members :: "py_unicode_v member list" where
  "unicode_members = [(o_state, 4), (o_length, 8), (o_ascii, 8)]"
definition gc_members :: "py_gc_v member list" where
  "gc_members = [(o_collecting, 8)]"
definition list_members :: "py_list_v member list" where
  "list_members = [(list_o_ob_size, 8), (list_o_ob_item, 8)]"
definition dictkeys_members :: "py_dictkeys_v member list" where
  "dictkeys_members = [(o_dk_size, 8), (o_dk_kind, 1), (o_dk_nentries, 8), (o_dk_indices, 1)]"
definition dictvalues_members :: "py_dictvalues_v member list" where
  "dictvalues_members = [(o_values, 8)]"
definition dict_members :: "py_dict_v member list" where
  "dict_members = [(o_ma_keys, 8), (o_ma_values, 8)]"
definition float_members :: "py_float_v member list" where
  "float_members = [(o_ob_fval, 8)]"
definition long_members :: "py_long_v member list" where
  "long_members = [(long_o_ob_size, 8), (o_ob_digit, 4)]"
definition bytes_members :: "py_bytes_v member list" where
  "bytes_members = [(bytes_o_ob_size, 8), (o_ob_sval, 1)]"
definition cframe_members :: "py_cframe_v member list" where
  "cframe_members = [(current_frame, 8)]"

text \<open>\<open>check_size\<close>: the comparison with 1 MB is signed.\<close>

definition check_size :: "size_t \<Rightarrow> bool" where
  "check_size sz \<longleftrightarrow> \<not> sint sz > 1024 * 1024"

definition check_field_bounds :: "'s \<Rightarrow> ('s \<Rightarrow> size_t) \<Rightarrow> 's member \<Rightarrow> bool" where
  "check_field_bounds s sz field \<longleftrightarrow>
     \<not> (sint (sz s) < 0 \<or> sz s < fst field s \<or> sz s - fst field s < of_nat (snd field))"

definition check_fields :: "'s \<Rightarrow> ('s \<Rightarrow> size_t) \<Rightarrow> 's member list \<Rightarrow> bool" where
  "check_fields s sz flds = list_all (check_field_bounds s sz) flds"

definition validateDebugOffsets :: "python_v \<Rightarrow> bool" where
  "validateDebugOffsets v \<longleftrightarrow>
     check_size (runtime_size (py_runtime v)) \<and> check_fields (py_runtime v) runtime_size runtime_members \<and>
     check_size (is_size (py_is v)) \<and> check_fields (py_is v) is_size is_members \<and>
     check_size (thread_size (py_thread v)) \<and> check_fields (py_thread v) thread_size thread_members \<and>
     check_size (frame_size (py_frame v)) \<and> check_fields (py_frame v) frame_size frame_members \<and>
     check_size (code_size (py_code v)) \<and> check_fields (py_code v) code_size code_members \<and>
     check_size (object_size (py_object v)) \<and> check_fields (py_object v) object_size object_members \<and>
     check_size (type_size (py_type v)) \<and> check_fields (py_type v) type_size type_members \<and>
     check_size (tuple_size (py_tuple v)) \<and> check_fields (py_tuple v) tuple_size tuple_members \<and>
     check_size (unicode_size (py_unicode v)) \<and> check_fields (py_unicode v) unicode_size unicode_members \<and>
     check_size (gc_size (py_gc v)) \<and> check_fields (py_gc v) gc_size gc_members \<and>
     check_fields (py_list v) list_size list_members \<and>
     check_fields (py_dictkeys v) dictkeys_size dictkeys_members \<and>
     check_fields (py_dictvalues v) dictvalues_size dictvalues_members \<and>
     check_fields (py_dict v) dict_size dict_members \<and>
     check_fields (py_float v) float_size float_members \<and>
     check_fields (py_long v) long_size long_members \<and>
     check_fields (py_bytes v) bytes_size bytes_members \<and>
     check_fields (py_cframe v) cframe_size cframe_members"

text \<open>\<open>update_size\<close>, starting from size 0, for the fields of one structure.\<close>

definition clamped_size :: "'s \<Rightarrow> 's member list \<Rightarrow> size_t" where
  "clamped_size s flds = fold (\<lambda>field sz. max sz (fst field s + of_nat (snd field))) flds 0"

definition clampSizes :: "python_v \<Rightarrow> python_v" where
  "clampSizes v =
     \<lparr>py_tuple = (py_tuple v)\<lparr>tuple_size := clamped_size (py_tuple v) tuple_members\<rparr>,
      py_list = (py_list v)\<lparr>list_size := clamped_size (py_list v) list_members\<rparr>,
      py_dict = (py_dict v)\<lparr>dict_size := clamped_size (py_dict v) dict_members\<rparr>,
      py_dictkeys = (py_dictkeys v)\<lparr>dictkeys_size := clamped_size (py_dictkeys v) dictkeys_members\<rparr>,
      py_dictvalues =
        (py_dictvalues v)\<lparr>dictvalues_size := clamped_size (py_dictvalues v) dictvalues_members\<rparr>,
      py_float = (py_float v)\<lparr>float_size := clamped_size (py_float v) float_members\<rparr>,
      py_long = (py_long v)\<lparr>long_size := clamped_size (py_long v) long_members\<rparr>,
      py_bytes = (py_bytes v)\<lparr>bytes_size := clamped_size (py_bytes v) bytes_members\<rparr>,
      py_unicode = (py_unicode v)\<lparr>unicode_size := clamped_size (py_unicode v) unicode_members\<rparr>,
      py_object = (py_object v)\<lparr>object_size := clamped_size (py_object v) object_members\<rparr>,
      py_type = (py_type v)\<lparr>type_size := clamped_size (py_type v) type_members\<rparr>,
      py_code = (py_code v)\<lparr>code_size := clamped_size (py_code v) code_members\<rparr>,
      py_frame = (py_frame v)\<lparr>frame_size := clamped_size (py_frame v) frame_members\<rparr>,
      py_thread = (py_thread v)\<lparr>thread_size := clamped_size (py_thread v) thread_members\<rparr>,
      py_is = (py_is v)\<lparr>is_size := clamped_size (py_is v) is_members\<rparr>,
      py_runtime = (py_runtime v)\<lparr>runtime_size := clamped_size (py_runtime v) runtime_members\<rparr>,
      py_gc = (py_gc v)\<lparr>gc_size := clamped_size (py_gc v) gc_members\<rparr>,
      py_cframe = (py_cframe v)\<lparr>cframe_size := clamped_size (py_cframe v) cframe_members\<rparr>,
      py_gilruntimestate = py_gilruntimestate v\<rparr>"

section \<open>Loading\<close>

definition loadDebugOffsets :: "manager \<Rightarrow> addr \<Rightarrow> python_v option result" where
  "loadDebugOffsets m a =
     (if \<not> versionIsAtLeast m 3 13 then Inr None
      else
        rbind (getField m S_runtime a (o_dbg_off_cookie \<circ> debug_offsets, 8)) (\<lambda>c.
        if c \<noteq> cookie_bytes then Inr None
        else
          rbind (dbg m a o_dbg_off_py_version_hex) (\<lambda>version.
          if version_byte version 24 0xFF \<noteq> d_major m \<or> version_byte version 16 0xFF \<noteq> d_minor m
          then Inr None
          else
            rbind (copyDebugOffsets m a) (\<lambda>debug_offsets.
            if \<not> validateDebugOffsets debug_offsets then Inr None
            else Inr (Some (clampSizes debug_offsets))))))"

section \<open>Choosing the version\<close>

definition setPythonVersion :: "manager \<Rightarrow> int \<times> int \<Rightarrow> manager result" where
  "setPythonVersion m version =
     rbind (getCPythonOffsets (fst version) (snd version)) (\<lambda>v.
       Inr (m\<lparr>d_py_v := Some v, d_major := fst version, d_minor := snd version\<rparr>))"

text \<open>
  \<open>findPyRuntimeFromElfData\<close> reads the \<open>.PyRuntime\<close> section with libelf and libdwfl: its result is
  the parameter \<open>elf_runtime\<close>. \<open>warnIfOffsetsAreMismatched\<close> repeats reads that succeeded and logs.
  The \<open>try\<close> block is \<open>try_debug_offsets\<close>: \<open>Some m'\<close> is its \<open>return\<close> with the state of then,
  \<open>None\<close> falls through to the reset. A \<open>RemoteMemCopyError\<close> also leads to the reset.
\<close>

definition try_debug_offsets :: "manager \<Rightarrow> addr \<Rightarrow> manager option result" where
  "try_debug_offsets m pyruntime_addr =
     rbind (copyObjectFromProcess m pyruntime_addr 8) (\<lambda>c.
     if c \<noteq> cookie then Inr (Some m)
     else
       rbind (copyObjectFromProcess m (pyruntime_addr + 8) 8) (\<lambda>version.
       case parsePyVersionHex version of
         None \<Rightarrow> Inr None
       | Some parsed \<Rightarrow>
           if parsed_major parsed = 3 \<and> parsed_minor parsed \<ge> 13 then
             rbind (setPythonVersion m (parsed_major parsed, parsed_minor parsed)) (\<lambda>m1.
             rbind (dbg m1 pyruntime_addr o_dbg_off_free_threaded) (\<lambda>is_free_threaded.
             rbind (loadDebugOffsets m1 pyruntime_addr) (\<lambda>loaded.
             case loaded of
               None \<Rightarrow> Inr None
             | Some v \<Rightarrow>
                 Inr (Some (m1\<lparr>d_debug_offsets_addr := pyruntime_addr, d_debug_offsets := Some v,
                              d_is_free_threaded := is_free_threaded \<noteq> 0\<rparr>)))))
           else Inr None))"

definition reset_version :: "manager \<Rightarrow> manager" where
  "reset_version m =
     m\<lparr>d_major := 0, d_minor := 0, d_py_v := None, d_debug_offsets_addr := 0, d_debug_offsets := None\<rparr>"

definition setPythonVersionFromDebugOffsets :: "manager \<Rightarrow> addr \<Rightarrow> manager result" where
  "setPythonVersionFromDebugOffsets m elf_runtime =
     rbind (if d_find_symbol m ''_PyRuntime'' \<noteq> 0 then Inr (d_find_symbol m ''_PyRuntime'')
            else if elf_runtime \<noteq> 0 then Inr elf_runtime
            else findDebugOffsetsFromMaps m) (\<lambda>pyruntime_addr.
     if pyruntime_addr = 0 then Inr m
     else
       rbind (try_catch (try_debug_offsets m pyruntime_addr) is_remote_copy_error (\<lambda>_. Inr None))
         (\<lambda>outcome. Inr (case outcome of Some m' \<Rightarrow> m' | None \<Rightarrow> reset_version m)))"

text \<open>\<open>findPythonVersion\<close>; \<open>(-1, -1)\<close> when it is not known.\<close>

definition findPythonVersion :: "manager \<Rightarrow> (int \<times> int) result" where
  "findPythonVersion m =
     (if d_py_v m \<noteq> None then Inr (d_major m, d_minor m)
      else
        let version_symbol = d_find_symbol m ''Py_Version'' in
        if version_symbol = 0 then Inr (-1, -1)
        else
          case copyObjectFromProcess m version_symbol 8 of
            Inl e \<Rightarrow> if is_remote_copy_error e then Inr (-1, -1) else Inl e
          | Inr version \<Rightarrow>
              (let major = version_byte version 24 0xFF; minor = version_byte version 16 0xFF;
                   level = version_byte version 4 0x0F in
               Inr (if major = 0 \<and> minor = 0 then (-1, -1)
                    else if major \<noteq> 2 \<and> major \<noteq> 3 then (-1, -1)
                    else if level \<noteq> 0xA \<and> level \<noteq> 0xB \<and> level \<noteq> 0xC \<and> level \<noteq> 0xF then (-1, -1)
                    else (major, minor))))"

text \<open>
  \<open>initializeVersion\<close> of both process managers, with the fallback (\<open>getVersionForProcess\<close> or
  \<open>getVersionForCore\<close>) as a parameter.
\<close>

definition initializeVersion :: "manager \<Rightarrow> addr \<Rightarrow> (int \<times> int) result \<Rightarrow> manager result" where
  "initializeVersion m elf_runtime fallback =
     rbind (setPythonVersionFromDebugOffsets m elf_runtime) (\<lambda>m1.
     rbind (findPythonVersion m1) (\<lambda>found.
     rbind (if found = (-1, -1) then fallback else Inr found) (\<lambda>python_version.
     rbind (setPythonVersion m1 python_version) (\<lambda>m2.
       if d_debug_offsets m2 = None \<and> versionIsAtLeast m2 3 14 then
         Inl (RuntimeError (''The process runs Python '' @ to_string_int (d_major m2) @ ''.'' @
           to_string_int (d_minor m2) @
           '', but we've failed to locate its _Py_DebugOffsets structure in memory.''))
       else Inr m2))))"

section \<open>Clamped structures\<close>

text \<open>
  For one structure: when every field passes the check against the reported size, the clamped size is the largest
  field end, does not exceed the reported size, and every field can be read.
\<close>

definition field_end :: "'s \<Rightarrow> 's member \<Rightarrow> nat" where
  "field_end s field = unat (fst field s) + snd field"

lemma check_field_bounds_unat:
  assumes "snd field < 2 ^ 63"
  shows "check_field_bounds s sz field \<longleftrightarrow> unat (sz s) < 2 ^ 63 \<and> field_end s field \<le> unat (sz s)"
proof -
  have w: "unat (of_nat (snd field) :: 64 word) = snd field"
    using assms by (intro unat_of_nat_size) simp
  have diff: "unat (fst field s) \<le> unat (sz s) \<Longrightarrow>
      unat (sz s - fst field s) = unat (sz s) - unat (fst field s)"
    by (rule unat_minus_no_wrap)
  have sgn: "sint (sz s) < 0 \<longleftrightarrow> \<not> unat (sz s) < 2 ^ 63"
    using sint_nonneg_unat [of "sz s"] by linarith
  show ?thesis
  proof (cases "unat (sz s) < unat (fst field s)")
    case True
    then show ?thesis by (simp add: check_field_bounds_def word_less_unat field_end_def)
  next
    case False
    with diff have "unat (sz s - fst field s) = unat (sz s) - unat (fst field s)" by simp
    with False show ?thesis
      unfolding check_field_bounds_def word_less_unat field_end_def sgn w by auto
  qed
qed

lemma clamped_size_fold:
  assumes "\<forall>field \<in> set flds. field_end s field < 2 ^ 63" and "unat acc < 2 ^ 63"
  shows "unat (fold (\<lambda>field sz. max sz (fst field s + of_nat (snd field))) flds acc) =
           fold (\<lambda>field n. max n (field_end s field)) flds (unat acc)"
  using assms
proof (induction flds arbitrary: acc)
  case (Cons field flds)
  have e: "unat (fst field s + of_nat (snd field)) = field_end s field"
  proof -
    have "unat (of_nat (snd field) :: 64 word) = snd field"
      using Cons.prems(1) by (intro unat_of_nat_size) (auto simp: field_end_def)
    then show ?thesis
      using Cons.prems(1) by (subst unat_plus_no_wrap) (auto simp: field_end_def)
  qed
  have m: "unat (max acc (fst field s + of_nat (snd field))) = max (unat acc) (field_end s field)"
    by (simp add: max_def word_le_unat e)
  have "unat (max acc (fst field s + of_nat (snd field))) < 2 ^ 63"
    using Cons.prems by (simp add: m)
  with Cons.IH [of "max acc (fst field s + of_nat (snd field))"] Cons.prems(1) m show ?case by simp
qed simp

lemma fold_max_bounds:
  "fold (\<lambda>x n. max n (f x)) xs (k :: nat) \<le> b \<longleftrightarrow> k \<le> b \<and> (\<forall>x \<in> set xs. f x \<le> b)"
  by (induction xs arbitrary: k) auto

lemma clamped_size_checked:
  assumes checked: "check_fields s sz flds" and w: "\<forall>field \<in> set flds. snd field < 2 ^ 63"
    and ne: "flds \<noteq> []"
  shows "unat (clamped_size s flds) \<le> unat (sz s) \<and> unat (sz s) < 2 ^ 63 \<and>
         (\<forall>field \<in> set flds. field_in_bounds (clamped_size s flds) (fst field s) (snd field))"
proof -
  have ends: "\<forall>field \<in> set flds. field_end s field \<le> unat (sz s)" and sz: "unat (sz s) < 2 ^ 63"
    using checked w ne by (auto simp: check_fields_def list_all_iff check_field_bounds_unat neq_Nil_conv)
  then have small: "\<forall>field \<in> set flds. field_end s field < 2 ^ 63" by (meson le_less_trans)
  have eq: "unat (clamped_size s flds) = fold (\<lambda>field n. max n (field_end s field)) flds 0"
    using clamped_size_fold [OF small, of 0] by (simp add: clamped_size_def)
  then have le: "unat (clamped_size s flds) \<le> unat (sz s)"
    using ends by (simp add: fold_max_bounds)
  moreover have "field_in_bounds (clamped_size s flds) (fst field s) (snd field)" if f: "field \<in> set flds" for field
  proof -
    have "field_end s field \<le> unat (clamped_size s flds)"
      using f fold_max_bounds [of "field_end s" flds 0 "unat (clamped_size s flds)"] by (simp add: eq)
    with le sz w f show ?thesis by (simp add: field_in_bounds_unat field_end_def)
  qed
  ultimately show ?thesis using sz by blast
qed

text \<open>All the fields that the validation covers, in the clamped tables.\<close>

definition checked_reads :: "python_v \<Rightarrow> (size_t \<times> offset_t \<times> nat) list" where
  "checked_reads v =
     fields_of (py_runtime v) runtime_size runtime_members @ fields_of (py_is v) is_size is_members @
     fields_of (py_thread v) thread_size thread_members @ fields_of (py_frame v) frame_size frame_members @
     fields_of (py_code v) code_size code_members @ fields_of (py_object v) object_size object_members @
     fields_of (py_type v) type_size type_members @ fields_of (py_tuple v) tuple_size tuple_members @
     fields_of (py_unicode v) unicode_size unicode_members @ fields_of (py_gc v) gc_size gc_members @
     fields_of (py_list v) list_size list_members @
     fields_of (py_dictkeys v) dictkeys_size dictkeys_members @
     fields_of (py_dictvalues v) dictvalues_size dictvalues_members @
     fields_of (py_dict v) dict_size dict_members @ fields_of (py_float v) float_size float_members @
     fields_of (py_long v) long_size long_members @ fields_of (py_bytes v) bytes_size bytes_members @
     fields_of (py_cframe v) cframe_size cframe_members"

lemma fields_of_in_bounds:
  assumes "\<forall>field \<in> set flds. field_in_bounds (sz s) (fst field s) (snd field)"
  shows "reads_in_bounds (fields_of s sz flds)"
  using assms by (auto simp: reads_in_bounds_def fields_of_def list_all_iff)

lemmas members_defs =
  runtime_members_def is_members_def thread_members_def frame_members_def code_members_def
  object_members_def type_members_def tuple_members_def unicode_members_def gc_members_def
  list_members_def dictkeys_members_def dictvalues_members_def dict_members_def float_members_def
  long_members_def bytes_members_def cframe_members_def

lemma clamped_reads:
  assumes "check_fields s sz flds" and "\<forall>field \<in> set flds. snd field < 2 ^ 63" and "flds \<noteq> []"
    and "fields_of s' sz flds = map (\<lambda>field. (clamped_size s flds, fst field s, snd field)) flds"
  shows "reads_in_bounds (fields_of s' sz flds)"
  using clamped_size_checked [OF assms(1-3)] assms(4)
  by (auto simp: reads_in_bounds_def list_all_iff)

lemma clampSizes_in_bounds:
  assumes v: "validateDebugOffsets v"
  shows "reads_in_bounds (checked_reads (clampSizes v))"
proof -
  have c: "check_fields (py_runtime v) runtime_size runtime_members"
    "check_fields (py_is v) is_size is_members" "check_fields (py_thread v) thread_size thread_members"
    "check_fields (py_frame v) frame_size frame_members" "check_fields (py_code v) code_size code_members"
    "check_fields (py_object v) object_size object_members" "check_fields (py_type v) type_size type_members"
    "check_fields (py_tuple v) tuple_size tuple_members"
    "check_fields (py_unicode v) unicode_size unicode_members" "check_fields (py_gc v) gc_size gc_members"
    "check_fields (py_list v) list_size list_members"
    "check_fields (py_dictkeys v) dictkeys_size dictkeys_members"
    "check_fields (py_dictvalues v) dictvalues_size dictvalues_members"
    "check_fields (py_dict v) dict_size dict_members" "check_fields (py_float v) float_size float_members"
    "check_fields (py_long v) long_size long_members" "check_fields (py_bytes v) bytes_size bytes_members"
    "check_fields (py_cframe v) cframe_size cframe_members"
    using v by (simp_all add: validateDebugOffsets_def)
  show ?thesis
    unfolding checked_reads_def reads_in_bounds_append
    by (intro conjI; rule clamped_reads, rule c)
       (simp_all add: clampSizes_def members_defs fields_of_def)
qed

text \<open>The sizes of the tables, to compare the clamped ones with the reported ones.\<close>

definition table_sizes :: "python_v \<Rightarrow> size_t list" where
  "table_sizes v =
     [runtime_size (py_runtime v), is_size (py_is v), thread_size (py_thread v), frame_size (py_frame v),
      code_size (py_code v), object_size (py_object v), type_size (py_type v), tuple_size (py_tuple v),
      unicode_size (py_unicode v), gc_size (py_gc v), list_size (py_list v),
      dictkeys_size (py_dictkeys v), dictvalues_size (py_dictvalues v), dict_size (py_dict v),
      float_size (py_float v), long_size (py_long v), bytes_size (py_bytes v),
      cframe_size (py_cframe v)]"

lemma clamped_size_le:
  "check_fields s sz flds \<Longrightarrow> \<forall>field \<in> set flds. snd field < 2 ^ 63 \<Longrightarrow> flds \<noteq> [] \<Longrightarrow>
     clamped_size s flds \<le> sz s"
  using clamped_size_checked [of s sz flds] by (simp add: word_le_unat)

lemma clampSizes_shrinks:
  assumes "validateDebugOffsets v"
  shows "list_all2 (\<le>) (table_sizes (clampSizes v)) (table_sizes v)"
  using assms
  by (simp add: table_sizes_def clampSizes_def validateDebugOffsets_def)
     (intro conjI; rule clamped_size_le; simp add: members_defs)

lemma loadDebugOffsets_Some:
  assumes "loadDebugOffsets m a = Inr (Some v)"
  shows "\<exists>reported. copyDebugOffsets m a = Inr reported \<and> validateDebugOffsets reported \<and>
           v = clampSizes reported \<and> versionIsAtLeast m 3 13"
  using assms by (auto simp: loadDebugOffsets_def result_simps split: if_splits)

section \<open>What the checks leave out\<close>

text \<open>
  Of the fields PyStack reads from a target with debug offsets, three are not checked: the
  interpreter's id and the two fields of the GIL state.
\<close>

definition unchecked_reads :: "python_v \<Rightarrow> (size_t \<times> offset_t \<times> nat) list" where
  "unchecked_reads v =
     fields_of (py_is v) is_size [(o_id, 8)] @
     fields_of (py_gilruntimestate v) gilruntimestate_size [(o_locked, 4), (o_last_holder, 8)]"

lemma all_reads_checked:
  assumes "13 \<le> minor"
  shows "set (all_reads (3, minor) v) \<subseteq> set (unchecked_reads v) \<union> set (checked_reads v)"
  using assms
  by (simp add: all_reads_def interpreter_reads_def thread_reads_def object_reads_def since_def
      before_def unchecked_reads_def checked_reads_def fields_of_def members_defs)

definition needed_reads :: "int \<times> int \<Rightarrow> python_v \<Rightarrow> (size_t \<times> offset_t \<times> nat) list" where
  "needed_reads ver v = filter (\<lambda>r. r \<notin> set (unchecked_reads v)) (all_reads ver v)"

lemma needed_reads_checked:
  assumes "reads_in_bounds (checked_reads v)" and "13 \<le> minor"
  shows "reads_in_bounds (needed_reads (3, minor) v)"
  using assms all_reads_checked [of minor v]
  by (auto simp: reads_in_bounds_def needed_reads_def list_all_iff)

section \<open>Properties\<close>

text \<open>
  Property C21. Debug offsets that PyStack accepts are safe to use: after the clamping, every field
  the validation covers can be read without \<open>getField\<close> aborting, and no structure is copied with
  more bytes than the target reported for it.
\<close>

theorem loaded_offsets_readable:
  assumes "loadDebugOffsets m a = Inr (Some v)"
  shows "reads_in_bounds (checked_reads v) \<and>
         (\<exists>reported. copyDebugOffsets m a = Inr reported \<and>
                     list_all2 (\<le>) (table_sizes v) (table_sizes reported))"
  using loadDebugOffsets_Some [OF assms] clampSizes_in_bounds clampSizes_shrinks by blast

text \<open>
  A small target: at address 4096 the cookie, the version 3.13.0, one value for all offsets (8) and
  one for all sizes (100).
\<close>

definition example_debug_table :: debug_offsets_v where
  "example_debug_table =
     \<lparr>o_dbg_off_cookie = 0, o_dbg_off_py_version_hex = 8, o_dbg_off_free_threaded = 16,
      runtime_state =
       \<lparr>dbg_runtime_state_struct_size = 24, dbg_runtime_state_finalizing = 16,
        dbg_runtime_state_interpreters_head = 16\<rparr>,
      interpreter_state =
       \<lparr>dbg_interpreter_state_struct_size = 24, dbg_interpreter_state_id = 16,
        dbg_interpreter_state_next = 16, dbg_interpreter_state_threads_head = 16,
        dbg_interpreter_state_gc = 16, dbg_interpreter_state_imports_modules = 16,
        dbg_interpreter_state_sysdict = 16, dbg_interpreter_state_builtins = 16,
        dbg_interpreter_state_ceval_gil = 16, dbg_interpreter_state_gil_runtime_state = 16,
        dbg_interpreter_state_gil_runtime_state_enabled = 16,
        dbg_interpreter_state_gil_runtime_state_locked = 16,
        dbg_interpreter_state_gil_runtime_state_holder = 16\<rparr>,
      thread_state =
       \<lparr>dbg_thread_state_struct_size = 24, dbg_thread_state_prev = 16,
        dbg_thread_state_next = 16, dbg_thread_state_interp = 16,
        dbg_thread_state_current_frame = 16, dbg_thread_state_thread_id = 16,
        dbg_thread_state_native_thread_id = 16, dbg_thread_state_datastack_chunk = 16,
        dbg_thread_state_status = 16\<rparr>,
      interpreter_frame =
       \<lparr>dbg_interpreter_frame_struct_size = 24, dbg_interpreter_frame_previous = 16,
        dbg_interpreter_frame_executable = 16, dbg_interpreter_frame_instr_ptr = 16,
        dbg_interpreter_frame_localsplus = 16, dbg_interpreter_frame_owner = 16\<rparr>,
      code_object =
       \<lparr>dbg_code_object_struct_size = 24, dbg_code_object_filename = 16,
        dbg_code_object_name = 16, dbg_code_object_qualname = 16, dbg_code_object_linetable = 16,
        dbg_code_object_firstlineno = 16, dbg_code_object_argcount = 16,
        dbg_code_object_localsplusnames = 16, dbg_code_object_localspluskinds = 16,
        dbg_code_object_co_code_adaptive = 16\<rparr>,
      dbg_pyobject_struct_size = 24, dbg_pyobject_ob_type = 16, type_object =
       \<lparr>dbg_type_object_struct_size = 24, dbg_type_object_tp_name = 16,
        dbg_type_object_tp_repr = 16, dbg_type_object_tp_flags = 16\<rparr>,
      containers =
       \<lparr>dbg_tuple_object_struct_size = 24, dbg_tuple_object_ob_item = 16,
        dbg_tuple_object_ob_size = 16, dbg_list_object_struct_size = 24,
        dbg_list_object_ob_item = 16, dbg_list_object_ob_size = 16,
        dbg_dict_object_struct_size = 24, dbg_dict_object_ma_keys = 16,
        dbg_dict_object_ma_values = 16\<rparr>,
      scalars =
       \<lparr>dbg_float_object_struct_size = 24, dbg_float_object_ob_fval = 16,
        dbg_long_object_struct_size = 24, dbg_long_object_lv_tag = 16,
        dbg_long_object_ob_digit = 16, dbg_bytes_object_struct_size = 24,
        dbg_bytes_object_ob_size = 16, dbg_bytes_object_ob_sval = 16\<rparr>,
      unicode_gc =
       \<lparr>dbg_unicode_object_struct_size = 24, dbg_unicode_object_state = 16,
        dbg_unicode_object_length = 16, dbg_unicode_object_asciiobject_size = 16,
        dbg_gc_struct_size = 24, dbg_gc_collecting = 16\<rparr>\<rparr>"

definition example_static :: python_v where
  "example_static = zero_python_v\<lparr>
     py_runtime := zero_py_runtime\<lparr>runtime_size := 32, debug_offsets := example_debug_table\<rparr>,
     py_dictkeys := \<lparr>dictkeys_size = 40, o_dk_size = 8, o_dk_kind = 10, o_dk_nentries = 24,
                     o_dk_indices = 32\<rparr>,
     py_dictvalues := \<lparr>dictvalues_size = 16, o_values = 8\<rparr>,
     py_cframe := \<lparr>cframe_size = 16, current_frame = 0\<rparr>\<rparr>"

definition example_runtime_bytes :: bytes where
  "example_runtime_bytes =
     cookie_bytes @ [0xF0, 0, 13, 3, 0, 0, 0, 0] @ [8, 0, 0, 0, 0, 0, 0, 0] @ [100, 0, 0, 0, 0, 0, 0, 0]"

definition example_target :: "python_v option \<Rightarrow> manager" where
  "example_target tables =
     \<lparr>d_manager = (\<lambda>a n. if 4096 \<le> a \<and> unat (a - 4096) + unat n \<le> 32
                        then Inr (block (unat (a - 4096)) (unat n) example_runtime_bytes)
                        else Inl InvalidRemoteAddress),
      d_is_address_valid = (\<lambda>a m. containsAddr m a),
      d_find_symbol = (\<lambda>s. if s = ''_PyRuntime'' then 4096 else 0), d_memory_maps = [],
      manager_pid = 1, d_tids = [1], d_major = 3, d_minor = 13, d_py_v = tables,
      d_is_free_threaded = False, d_debug_offsets_addr = 0, d_debug_offsets = None\<rparr>"

lemma example_getField:
  assumes "sel (py_runtime example_static) = off" and "unat off + 8 \<le> 32"
  shows "getField (example_target (Some example_static)) S_runtime 4096 (sel, 8) =
           Inr (block (unat off) 8 example_runtime_bytes)"
proof -
  have len: "length example_runtime_bytes = 32"
    by (simp add: example_runtime_bytes_def cookie_bytes_def)
  have v: "offsets (example_target (Some example_static)) = Inr example_static"
    by (simp add: offsets_def example_target_def)
  have sz: "runtime_size (py_runtime example_static) = 32" by (simp add: example_static_def)
  have "copyFromRemote (example_target (Some example_static)) S_runtime 4096 =
          Inr (block 0 32 example_runtime_bytes)"
    by (rule copyFromRemote_copied [OF v]) (simp_all add: sz len example_target_def)
  then show ?thesis
    using assms len v by (simp add: getField_def sz field_in_bounds_unat block_block)
qed

lemma example_dbg:
  "sel example_debug_table = 16 \<Longrightarrow> dbg (example_target (Some example_static)) 4096 sel = Inr 8"
  "sel example_debug_table = 24 \<Longrightarrow> dbg (example_target (Some example_static)) 4096 sel = Inr 100"
  "sel example_debug_table = 8 \<Longrightarrow>
     dbg (example_target (Some example_static)) 4096 sel = Inr 0x030D00F0"
  using example_getField [of "sel \<circ> debug_offsets"]
  by (simp_all add: dbg_def getWord_def example_static_def comp_def)
     (simp_all add: example_runtime_bytes_def cookie_bytes_def block_def le_word_def)

lemma example_tables:
  "d_py_v (example_target tables) = tables" "d_major (example_target tables) = 3"
  "d_minor (example_target tables) = 13"
  "py_dictkeys example_static = \<lparr>dictkeys_size = 40, o_dk_size = 8, o_dk_kind = 10,
     o_dk_nentries = 24, o_dk_indices = 32\<rparr>"
  "py_dictvalues example_static = \<lparr>dictvalues_size = 16, o_values = 8\<rparr>"
  "py_cframe example_static = \<lparr>cframe_size = 16, current_frame = 0\<rparr>"
  by (simp_all add: example_target_def example_static_def)

lemmas example_copy =
  copy_py_runtime_def copy_py_is_def copy_py_thread_def copy_py_frame_def copy_py_code_def
  copy_py_object_def copy_py_type_def copy_py_tuple_def copy_py_list_def copy_py_dict_def
  copy_py_float_def copy_py_long_def copy_py_bytes_def copy_py_unicode_def copy_py_gc_def
  copy_py_gilruntimestate_def example_dbg example_debug_table_def

lemmas example_checks =
  validateDebugOffsets_def check_size_def check_fields_def check_field_bounds_unat field_end_def
  members_defs sint_eq_unat

lemma example_loads: "\<exists>v. loadDebugOffsets (example_target (Some example_static)) 4096 = Inr (Some v)"
proof -
  let ?m = "example_target (Some example_static)"
  have cookie: "getField ?m S_runtime 4096 (o_dbg_off_cookie \<circ> debug_offsets, 8) = Inr cookie_bytes"
    using example_getField [of "o_dbg_off_cookie \<circ> debug_offsets"]
    by (simp add: example_static_def example_debug_table_def)
       (simp add: example_runtime_bytes_def cookie_bytes_def block_def)
  have "\<exists>reported. copyDebugOffsets ?m 4096 = Inr reported \<and> validateDebugOffsets reported"
    by (simp add: copyDebugOffsets_def example_copy example_tables example_checks)
  then obtain reported where r: "copyDebugOffsets ?m 4096 = Inr reported" "validateDebugOffsets reported"
    by blast
  have "dbg ?m 4096 o_dbg_off_py_version_hex = Inr 0x030D00F0"
    by (rule example_dbg(3)) (simp add: example_debug_table_def)
  with cookie r have "loadDebugOffsets ?m 4096 = Inr (Some (clampSizes reported))"
    by (simp add: loadDebugOffsets_def versionIsAtLeast_def example_tables version_byte_def)
  then show ?thesis by blast
qed

theorem loaded_offsets_readable_witness:
  "\<exists>v. loadDebugOffsets (example_target (Some example_static)) 4096 = Inr (Some v) \<and>
       reads_in_bounds (checked_reads v)"
  using example_loads loaded_offsets_readable by blast

text \<open>
  The three fields outside the validation can be out of bounds although the offsets are
  accepted: reading the interpreter's id or the GIL state then calls \<open>abort()\<close>. The structures
  without a \<open>check_size\<close> (here lists) can also be larger than the 1 MB the comment promises.
\<close>

theorem validation_gaps:
  "\<exists>v. validateDebugOffsets v \<and>
       \<not> field_in_bounds (is_size (py_is (clampSizes v))) (o_id (py_is (clampSizes v))) 8 \<and>
       \<not> field_in_bounds (gilruntimestate_size (py_gilruntimestate (clampSizes v)))
            (o_last_holder (py_gilruntimestate (clampSizes v))) 8 \<and>
       1024 * 1024 < unat (list_size (py_list v))"
proof -
  define v where "v = zero_python_v
    \<lparr>py_tuple := \<lparr>tuple_size = 8, tuple_o_ob_size = 0, tuple_o_ob_item = 0\<rparr>,
     py_list := \<lparr>list_size = 2000000, list_o_ob_size = 0, list_o_ob_item = 0\<rparr>,
     py_dict := \<lparr>dict_size = 8, o_ma_keys = 0, o_ma_values = 0\<rparr>,
     py_dictkeys := zero_py_dictkeys\<lparr>dictkeys_size := 8\<rparr>,
     py_dictvalues := zero_py_dictvalues\<lparr>dictvalues_size := 8\<rparr>,
     py_float := zero_py_float\<lparr>float_size := 8\<rparr>, py_long := zero_py_long\<lparr>long_size := 8\<rparr>,
     py_bytes := zero_py_bytes\<lparr>bytes_size := 8\<rparr>, py_unicode := zero_py_unicode\<lparr>unicode_size := 8\<rparr>,
     py_object := zero_py_object\<lparr>object_size := 8\<rparr>, py_type := zero_py_type\<lparr>type_size := 8\<rparr>,
     py_code := zero_py_code\<lparr>code_size := 8\<rparr>, py_frame := zero_py_frame\<lparr>frame_size := 8\<rparr>,
     py_thread := zero_py_thread\<lparr>thread_size := 8\<rparr>,
     py_is := zero_py_is\<lparr>is_size := 8, o_id := 16\<rparr>,
     py_runtime := zero_py_runtime\<lparr>runtime_size := 8\<rparr>, py_gc := zero_py_gc\<lparr>gc_size := 8\<rparr>,
     py_cframe := zero_py_cframe\<lparr>cframe_size := 8\<rparr>,
     py_gilruntimestate := \<lparr>gilruntimestate_size = 4, o_locked = 0, o_last_holder = - 4\<rparr>\<rparr>"
  have "validateDebugOffsets v"
    by (simp add: v_def example_checks zero_py_dictkeys_def zero_py_dictvalues_def zero_py_float_def
        zero_py_long_def zero_py_bytes_def zero_py_unicode_def zero_py_object_def zero_py_type_def
        zero_py_code_def zero_py_frame_def zero_py_thread_def zero_py_is_def zero_py_runtime_def
        zero_py_gc_def zero_py_cframe_def)
  moreover have "\<not> field_in_bounds (is_size (py_is (clampSizes v))) (o_id (py_is (clampSizes v))) 8"
    by (simp add: v_def clampSizes_def clamped_size_def is_members_def zero_py_is_def
        field_in_bounds_unat)
  moreover have "\<not> field_in_bounds (gilruntimestate_size (py_gilruntimestate (clampSizes v)))
            (o_last_holder (py_gilruntimestate (clampSizes v))) 8"
    by (simp add: v_def clampSizes_def field_in_bounds_unat)
  moreover have "1024 * 1024 < unat (list_size (py_list v))" by (simp add: v_def)
  ultimately show ?thesis by blast
qed

section \<open>The version after initialisation\<close>

text \<open>
  What every manager state of the initialisation satisfies: debug offsets are only set together
  with a version of 3.13 or later, they are in bounds, and \<open>d_py_v\<close> is the table of the version.
\<close>

definition version_inv :: "manager \<Rightarrow> bool" where
  "version_inv m \<longleftrightarrow>
     (case d_debug_offsets m of
        None \<Rightarrow> True
      | Some v \<Rightarrow> d_major m = 3 \<and> 13 \<le> d_minor m \<and> reads_in_bounds (checked_reads v)) \<and>
     (case d_py_v m of
        None \<Rightarrow> d_debug_offsets m = None
      | Some v \<Rightarrow> getCPythonOffsets (d_major m) (d_minor m) = Inr v)"

text \<open>
  The version that the target publishes at an address: the word after the cookie. And the version that is
  used when it publishes none: that of the symbol \<open>Py_Version\<close>, or else that of the fallback.
\<close>

definition published_version :: "manager \<Rightarrow> addr \<Rightarrow> int \<times> int \<Rightarrow> bool" where
  "published_version m a ver \<longleftrightarrow>
     copyObjectFromProcess m a 8 = Inr cookie \<and>
     (\<exists>version parsed. copyObjectFromProcess m (a + 8) 8 = Inr version \<and>
        parsePyVersionHex version = Some parsed \<and> ver = (parsed_major parsed, parsed_minor parsed))"

definition detected_version :: "manager \<Rightarrow> (int \<times> int) result \<Rightarrow> (int \<times> int) result" where
  "detected_version m fallback =
     rbind (findPythonVersion m) (\<lambda>found. if found = (-1, -1) then fallback else Inr found)"

lemma try_debug_offsets_cases:
  assumes "try_debug_offsets m a = Inr (Some m')"
  shows "m' = m \<or> (\<exists>minor m1 v free. 13 \<le> minor \<and> published_version m a (3, minor) \<and>
           setPythonVersion m (3, minor) = Inr m1 \<and>
           loadDebugOffsets m1 a = Inr (Some v) \<and>
           m' = m1\<lparr>d_debug_offsets_addr := a, d_debug_offsets := Some v, d_is_free_threaded := free\<rparr>)"
proof -
  obtain c where c: "(copyObjectFromProcess m a 8 :: 64 word result) = Inr c"
    using assms by (auto simp: try_debug_offsets_def rbind_eq_Inr)
  show ?thesis
  proof (cases "c = cookie")
    case False
    with c assms show ?thesis by (simp add: try_debug_offsets_def)
  next
    case True
    with c assms obtain version where
      v: "(copyObjectFromProcess m (a + 8) 8 :: 64 word result) = Inr version"
      by (auto simp: try_debug_offsets_def rbind_eq_Inr)
    show ?thesis
    proof (cases "parsePyVersionHex version")
      case None
      with True c v assms show ?thesis by (simp add: try_debug_offsets_def)
    next
      case (Some parsed)
      have published: "published_version m a (parsed_major parsed, parsed_minor parsed)"
        unfolding published_version_def using c v Some True by blast
      from True c v Some assms obtain m1 free w where
        "parsed_major parsed = 3" "13 \<le> parsed_minor parsed"
        "setPythonVersion m (3, parsed_minor parsed) = Inr m1" "loadDebugOffsets m1 a = Inr (Some w)"
        "m' = m1\<lparr>d_debug_offsets_addr := a, d_debug_offsets := Some w, d_is_free_threaded := free\<rparr>"
        by (auto simp: try_debug_offsets_def rbind_eq_Inr split: if_splits option.splits)
      with published show ?thesis by metis
    qed
  qed
qed

lemma try_debug_offsets_inv:
  assumes inv: "version_inv m" and r: "try_debug_offsets m a = Inr (Some m')"
  shows "version_inv m'"
  using try_debug_offsets_cases [OF r]
proof (elim disjE exE conjE)
  assume "m' = m"
  with inv show ?thesis by simp
next
  fix minor m1 v free
  assume p: "13 \<le> minor" "setPythonVersion m (3, minor) = Inr m1"
    "loadDebugOffsets m1 a = Inr (Some v)"
    "m' = m1\<lparr>d_debug_offsets_addr := a, d_debug_offsets := Some v, d_is_free_threaded := free\<rparr>"
  obtain reported where "validateDebugOffsets reported" "v = clampSizes reported"
    using loadDebugOffsets_Some [OF p(3)] by blast
  then have "reads_in_bounds (checked_reads v)" using clampSizes_in_bounds by simp
  with p show ?thesis
    by (auto simp: version_inv_def setPythonVersion_def result_simps)
qed

lemma setPythonVersionFromDebugOffsets_inv:
  assumes "version_inv m" and "setPythonVersionFromDebugOffsets m elf = Inr m'"
  shows "version_inv m'"
proof -
  have "version_inv (reset_version m)" by (simp add: version_inv_def reset_version_def)
  with assms try_debug_offsets_inv [OF assms(1)] show ?thesis
    by (auto simp: setPythonVersionFromDebugOffsets_def result_simps split: if_splits option.splits)
qed

lemma setPythonVersion_inv:
  assumes "version_inv m" and "setPythonVersion m ver = Inr m'"
    and "d_debug_offsets m \<noteq> None \<Longrightarrow> ver = (d_major m, d_minor m)"
  shows "version_inv m' \<and> d_debug_offsets m' = d_debug_offsets m \<and> d_py_v m' \<noteq> None \<and>
         (d_major m', d_minor m') = ver"
  using assms by (auto simp: version_inv_def setPythonVersion_def result_simps split: option.splits)

lemma initializeVersion_inv:
  assumes inv: "version_inv m" and r: "initializeVersion m elf fallback = Inr m'"
  shows "version_inv m' \<and> d_py_v m' \<noteq> None \<and> (d_debug_offsets m' = None \<longrightarrow> \<not> versionIsAtLeast m' 3 14)"
proof -
  obtain m1 found ver where s: "setPythonVersionFromDebugOffsets m elf = Inr m1"
    "findPythonVersion m1 = Inr found" "(if found = (-1, -1) then fallback else Inr found) = Inr ver"
    "setPythonVersion m1 ver = Inr m'" "\<not> (d_debug_offsets m' = None \<and> versionIsAtLeast m' 3 14)"
    using r by (auto simp: initializeVersion_def result_simps split: if_splits)
  have inv1: "version_inv m1" by (rule setPythonVersionFromDebugOffsets_inv [OF inv s(1)])
  have "ver = (d_major m1, d_minor m1)" if d: "d_debug_offsets m1 \<noteq> None"
  proof -
    have "d_py_v m1 \<noteq> None" "d_major m1 = 3"
      using inv1 d by (auto simp: version_inv_def split: option.splits)
    with s(2,3) show ?thesis by (auto simp: findPythonVersion_def split: if_splits)
  qed
  with setPythonVersion_inv [OF inv1 s(4)] s(5) show ?thesis by blast
qed

lemma setPythonVersionFromDebugOffsets_cases:
  assumes "setPythonVersionFromDebugOffsets m elf = Inr m1"
  shows "m1 = m \<or> m1 = reset_version m \<or>
    (\<exists>a minor m2 v free. 13 \<le> minor \<and> published_version m a (3, minor) \<and>
       setPythonVersion m (3, minor) = Inr m2 \<and> loadDebugOffsets m2 a = Inr (Some v) \<and>
       m1 = m2\<lparr>d_debug_offsets_addr := a, d_debug_offsets := Some v, d_is_free_threaded := free\<rparr>)"
proof -
  have "m1 = m \<or> m1 = reset_version m \<or> (\<exists>a. try_debug_offsets m a = Inr (Some m1))"
    using assms
    by (auto simp: setPythonVersionFromDebugOffsets_def result_simps split: if_splits option.splits)
  then show ?thesis using try_debug_offsets_cases by blast
qed

lemma findPythonVersion_fresh:
  "d_py_v m = None \<Longrightarrow> findPythonVersion (reset_version m) = findPythonVersion m"
proof -
  have copy: "(copyObjectFromProcess (reset_version m) a n :: 64 word result) =
      copyObjectFromProcess m a n" for a n
    by (simp add: reset_version_def copyObjectFromProcess_def)
  have fields: "d_py_v (reset_version m) = None" "d_find_symbol (reset_version m) = d_find_symbol m"
    by (simp_all add: reset_version_def)
  assume "d_py_v m = None"
  with copy fields show ?thesis by (simp add: findPythonVersion_def Let_def)
qed

lemma initializeVersion_source:
  assumes fresh: "d_py_v m = None" "d_debug_offsets m = None"
    and r: "initializeVersion m elf fallback = Inr m'"
  shows "(\<exists>v. d_py_v m' = Some v \<and> getCPythonOffsets (d_major m') (d_minor m') = Inr v) \<and>
    (case d_debug_offsets m' of
       None \<Rightarrow> detected_version m fallback = Inr (d_major m', d_minor m')
     | Some v \<Rightarrow> published_version m (d_debug_offsets_addr m') (d_major m', d_minor m') \<and>
         d_major m' = 3 \<and> 13 \<le> d_minor m' \<and>
         (\<exists>m1. loadDebugOffsets m1 (d_debug_offsets_addr m') = Inr (Some v)))"
proof -
  obtain m1 found ver where s: "setPythonVersionFromDebugOffsets m elf = Inr m1"
    "findPythonVersion m1 = Inr found" "(if found = (-1, -1) then fallback else Inr found) = Inr ver"
    "setPythonVersion m1 ver = Inr m'"
    using r by (auto simp: initializeVersion_def result_simps split: if_splits)
  obtain v where v: "getCPythonOffsets (fst ver) (snd ver) = Inr v"
    "m' = m1\<lparr>d_py_v := Some v, d_major := fst ver, d_minor := snd ver\<rparr>"
    using s(4) by (auto simp: setPythonVersion_def result_simps)
  consider "m1 = m \<or> m1 = reset_version m"
    | a minor m2 w free where "13 \<le> minor" "published_version m a (3, minor)"
      "setPythonVersion m (3, minor) = Inr m2" "loadDebugOffsets m2 a = Inr (Some w)"
      "m1 = m2\<lparr>d_debug_offsets_addr := a, d_debug_offsets := Some w, d_is_free_threaded := free\<rparr>"
    using setPythonVersionFromDebugOffsets_cases [OF s(1)] by blast
  then show ?thesis
  proof cases
    case 1
    then have "d_debug_offsets m1 = None" "findPythonVersion m1 = findPythonVersion m"
      using fresh findPythonVersion_fresh by (auto simp: reset_version_def)
    with s(2,3) v show ?thesis by (simp add: detected_version_def)
  next
    case 2
    then have "findPythonVersion m1 = Inr (3, minor)"
      by (auto simp: setPythonVersion_def result_simps findPythonVersion_def)
    with s(2,3) have "ver = (3, minor)" by (auto split: if_splits)
    with v 2 show ?thesis by auto
  qed
qed

text \<open>
  Property C22. After a successful initialisation the manager has a version, its offset tables are those of
  this version, and what PyStack reads with them lies in the structures that are copied, so reading a
  field never aborts. Without debug offsets the version is the detected one, below 3.14, the tables are the
  compiled-in ones and every read is in bounds. With debug offsets the version is the one that the target
  publishes with them, 3.13 or later, the tables are the published ones, validated and clamped, and every
  read is in bounds but for the three fields without a check (\<open>validation_gaps\<close>).
\<close>

theorem initialized_reads_in_bounds:
  assumes fresh: "d_py_v m = None" "d_debug_offsets m = None"
    and r: "initializeVersion m elf fallback = Inr m'" and minor: "0 \<le> d_minor m'"
  shows "\<exists>v. offsets m' = Inr v \<and>
    (case d_debug_offsets m' of
       None \<Rightarrow>
         detected_version m fallback = Inr (d_major m', d_minor m') \<and> \<not> versionIsAtLeast m' 3 14 \<and>
         getCPythonOffsets (d_major m') (d_minor m') = Inr v \<and>
         reads_in_bounds (all_reads (d_major m', d_minor m') v)
     | Some w \<Rightarrow>
         published_version m (d_debug_offsets_addr m') (d_major m', d_minor m') \<and> versionIsAtLeast m' 3 13 \<and>
         (\<exists>reported. validateDebugOffsets reported \<and> w = clampSizes reported) \<and> v = w \<and>
         reads_in_bounds (needed_reads (d_major m', d_minor m') v))"
proof -
  have "version_inv m" using fresh by (simp add: version_inv_def)
  from initializeVersion_inv [OF this r]
  have inv: "version_inv m'" "d_debug_offsets m' = None \<Longrightarrow> \<not> versionIsAtLeast m' 3 14" by blast+
  from initializeVersion_source [OF fresh r] obtain v where
    v: "d_py_v m' = Some v" "getCPythonOffsets (d_major m') (d_minor m') = Inr v" by blast
  show ?thesis
  proof (cases "d_debug_offsets m'")
    case (Some w)
    with initializeVersion_source [OF fresh r] obtain m1 where
      source: "published_version m (d_debug_offsets_addr m') (d_major m', d_minor m')"
      "d_major m' = 3" "13 \<le> d_minor m'" "loadDebugOffsets m1 (d_debug_offsets_addr m') = Inr (Some w)" by auto
    have "reads_in_bounds (checked_reads w)" using inv(1) Some by (simp add: version_inv_def)
    with needed_reads_checked [of w "d_minor m'"] source loadDebugOffsets_Some [OF source(4)] Some
    show ?thesis by (auto simp: offsets_def versionIsAtLeast_def)
  next
    case None
    have "\<not> (d_major m' = 3 \<and> 14 \<le> d_minor m')"
      using inv(2) None by (auto simp: versionIsAtLeast_def)
    with static_reads_in_bounds [OF v(2) minor]
    have "reads_in_bounds (all_reads (d_major m', d_minor m') v)" by simp
    with initializeVersion_source [OF fresh r] None v inv(2) show ?thesis by (simp add: offsets_def)
  qed
qed

definition fresh_manager :: manager where
  "fresh_manager =
     \<lparr>d_manager = (\<lambda>_ _. Inl InvalidRemoteAddress), d_is_address_valid = (\<lambda>_ _. False),
      d_find_symbol = (\<lambda>_. 0), d_memory_maps = [], manager_pid = 1, d_tids = [], d_major = 0,
      d_minor = 0, d_py_v = None, d_is_free_threaded = False, d_debug_offsets_addr = 0,
      d_debug_offsets = None\<rparr>"

theorem initialized_reads_in_bounds_witness:
  "\<exists>m' v. initializeVersion fresh_manager 0 (Inr (3, 9)) = Inr m' \<and> (d_major m', d_minor m') = (3, 9) \<and>
          offsets m' = Inr v \<and> reads_in_bounds (all_reads (3, 9) v)"
proof -
  let ?m = "fresh_manager\<lparr>d_py_v := Some python_v3_9, d_major := 3, d_minor := 9\<rparr>"
  have r: "initializeVersion fresh_manager 0 (Inr (3, 9)) = Inr ?m"
    by (simp add: initializeVersion_def setPythonVersionFromDebugOffsets_def fresh_manager_def
        findDebugOffsetsFromMaps_def findPythonVersion_def setPythonVersion_def
        getCPythonOffsets_def versionIsAtLeast_def)
  have m: "d_py_v fresh_manager = None" "d_debug_offsets fresh_manager = None" "0 \<le> d_minor ?m"
    "d_debug_offsets ?m = None" "d_major ?m = 3" "d_minor ?m = 9"
    by (simp_all add: fresh_manager_def)
  from initialized_reads_in_bounds [OF m(1,2) r m(3)] obtain v where
    "offsets ?m = Inr v" "reads_in_bounds (all_reads (3, 9) v)" unfolding m(4-6) by auto
  with r m(5,6) show ?thesis by blast
qed

text \<open>The packing of a version number in CPython's \<open>PY_VERSION_HEX\<close>.\<close>

definition version_hex :: "nat \<Rightarrow> nat \<Rightarrow> nat \<Rightarrow> nat \<Rightarrow> nat \<Rightarrow> 64 word" where
  "version_hex major minor patch level count =
     of_nat (major * 2 ^ 24 + minor * 2 ^ 16 + patch * 2 ^ 8 + level * 2 ^ 4 + count)"

lemma version_byte_div:
  assumes "n < 2 ^ 64"
  shows "version_byte (of_nat n) shift (mask k) = int (n div 2 ^ shift mod 2 ^ k)"
proof -
  have "uint (drop_bit shift (of_nat n :: 64 word) AND mask k) =
      uint (take_bit k (drop_bit shift (of_nat n :: 64 word)))"
    by (simp add: take_bit_eq_mask)
  also have "\<dots> = int (n div 2 ^ shift mod 2 ^ k)"
  proof -
    have "take_bit 64 (int n) = int n" using assms by (simp add: take_bit_int_eq_self)
    then have "uint (take_bit k (drop_bit shift (of_nat n :: 64 word))) = take_bit k (drop_bit shift (int n))"
      by (simp only: unsigned_take_bit_eq unsigned_drop_bit_eq unsigned_of_nat of_nat_take_bit) simp
    then show ?thesis by (simp add: take_bit_eq_mod drop_bit_eq_div zdiv_int zmod_int)
  qed
  finally show ?thesis by (simp add: version_byte_def)
qed

lemma version_digits:
  fixes major minor patch level count :: nat
  assumes "minor < 256" and "patch < 256" and "level < 16" and "count < 16"
  defines "n \<equiv> major * 2 ^ 24 + minor * 2 ^ 16 + patch * 2 ^ 8 + level * 2 ^ 4 + count"
  shows "n div 2 ^ 24 = major" and "n div 2 ^ 16 mod 2 ^ 8 = minor" and "n div 2 ^ 8 mod 2 ^ 8 = patch"
    and "n div 2 ^ 4 mod 2 ^ 4 = level" and "n mod 2 ^ 4 = count"
proof -
  have n: "n = (((major * 256 + minor) * 256 + patch) * 16 + level) * 16 + count"
    by (simp add: n_def algebra_simps)
  have d4: "n div 16 = ((major * 256 + minor) * 256 + patch) * 16 + level"
    unfolding n by (rule digit_div_mod) (rule assms)
  have d8: "n div 16 div 16 = (major * 256 + minor) * 256 + patch"
    unfolding d4 by (rule digit_div_mod) (rule assms)
  have d16: "n div 16 div 16 div 256 = major * 256 + minor"
    unfolding d8 by (rule digit_div_mod) (rule assms)
  have d24: "n div 16 div 16 div 256 div 256 = major"
    unfolding d16 by (rule digit_div_mod) (rule assms)
  have e: "n div 2 ^ 4 = n div 16" "n div 2 ^ 8 = n div 16 div 16" "n div 2 ^ 16 = n div 16 div 16 div 256"
    "n div 2 ^ 24 = n div 16 div 16 div 256 div 256"
    by (simp_all add: div_mult2_eq [symmetric])
  have p: "(2::nat) ^ 8 = 256" "(2::nat) ^ 4 = 16" by simp_all
  show "n div 2 ^ 24 = major" using e(4) d24 by (rule trans)
  show "n div 2 ^ 16 mod 2 ^ 8 = minor" unfolding e(3) d16 unfolding p(1) by (rule digit_div_mod) (rule assms)
  show "n div 2 ^ 8 mod 2 ^ 8 = patch" unfolding e(2) d8 unfolding p(1) by (rule digit_div_mod) (rule assms)
  show "n div 2 ^ 4 mod 2 ^ 4 = level" unfolding e(1) d4 unfolding p(2) by (rule digit_div_mod) (rule assms)
  show "n mod 2 ^ 4 = count" unfolding n p(2) by (rule digit_div_mod) (rule assms)
qed

text \<open>
  \<open>parsePyVersionHex\<close> reads back every version that CPython packs: majors 2 and 3, any
  minor and patch below 256, the release levels alpha, beta, candidate and final (whose serial is 0).
\<close>

theorem parse_version_roundtrip:
  assumes "major \<in> {2, 3}" and "minor < 256" and "patch < 256" and "count < 16"
    and "(level, name) \<in> {(10, ''a''), (11, ''b''), (12, ''rc''), (15, '''')}" and "level = 15 \<longrightarrow> count = 0"
  shows "parsePyVersionHex (version_hex major minor patch level count) =
           Some \<lparr>parsed_major = int major, parsed_minor = int minor, parsed_patch = int patch,
                 release_level = name, serial = int count\<rparr>"
proof -
  let ?n = "major * 2 ^ 24 + minor * 2 ^ 16 + patch * 2 ^ 8 + level * 2 ^ 4 + count"
  have level: "level < 16" using assms(5) by auto
  have major: "major < 256" using assms(1) by auto
  have "?n < 2 ^ 32" using assms(2-4) level major by simp
  then have n: "?n < 2 ^ 64" by simp
  note digits = version_digits [OF assms(2,3) level assms(4), of major]
  have "?n div 2 ^ 24 mod 2 ^ 8 = major" "?n div 2 ^ 16 mod 2 ^ 8 = minor"
    "?n div 2 ^ 8 mod 2 ^ 8 = patch" "?n div 2 ^ 4 mod 2 ^ 4 = level" "?n div 2 ^ 0 mod 2 ^ 4 = count"
    using digits major by simp_all
  moreover have "(0xFF :: 64 word) = mask 8" "(0x0F :: 64 word) = mask 4" by (simp_all add: mask_eq_exp_minus_1)
  ultimately have "version_byte (of_nat ?n) 24 0xFF = int major" "version_byte (of_nat ?n) 16 0xFF = int minor"
    "version_byte (of_nat ?n) 8 0xFF = int patch" "version_byte (of_nat ?n) 4 0x0F = int level"
    "version_byte (of_nat ?n) 0 0x0F = int count"
    using version_byte_div [OF n] by (metis, metis, metis, metis, metis)
  note bytes = this
  show ?thesis
    unfolding parsePyVersionHex_def version_hex_def Let_def bytes
    using assms(1,5,6) by auto
qed

theorem parse_version_roundtrip_witness:
  "parsePyVersionHex (version_hex 3 13 2 12 1) =
     Some \<lparr>parsed_major = 3, parsed_minor = 13, parsed_patch = 2, release_level = ''rc'', serial = 1\<rparr>"
  using parse_version_roundtrip [of 3 13 2 1 12 "''rc''"] by simp

text \<open>
  \<open>parsePyVersionHex\<close> does not reject an unknown release level, because the variable it
  compares with null never is null: a word with release level 0 is accepted as Python 3.13, while
  \<open>findPythonVersion\<close> rejects the same word.
\<close>

theorem parse_accepts_unknown_level:
  "parsePyVersionHex (version_hex 3 13 0 0 0) \<noteq> None \<and>
   findPythonVersion (fresh_manager\<lparr>d_find_symbol := (\<lambda>_. 4096),
     d_manager := (\<lambda>_ n. Inr (le_encode (unat n) (unat (version_hex 3 13 0 0 0))))\<rparr>) = Inr (-1, -1)"
  by (simp add: parsePyVersionHex_def version_byte_def version_hex_def Let_def findPythonVersion_def
      fresh_manager_def copyObjectFromProcess_def le_word_def le_encode_def)

end
