(* ===== verification/Offset_Check.thy ===== *)
theory Offset_Check
  imports Debug_Offsets
begin

text \<open>
  \<open>AbstractProcessManager::warnIfOffsetsAreMismatched\<close> (\<open>process.cpp\<close>): the offsets that the target
  publishes are compared with the compiled-in ones, and every difference is logged. The model returns
  what is logged; the property says that these are the differences of the two tables, and that the
  check never interferes with the loading of the offsets that it follows.
\<close>

section \<open>Comparisons\<close>

text \<open>
  A comparison has the name of the size or offset, its entry of \<open>_Py_DebugOffsets\<close> and its place in the
  compiled-in tables. It is skipped when the runtime structure of the version has no such entry. A
  mismatch is the name with the compiled-in and the published number.
\<close>

datatype comparison =
    Compare_Size string "debug_offsets_v \<Rightarrow> offset_t" "python_v \<Rightarrow> 64 word"
  | Compare_Offset string "debug_offsets_v \<Rightarrow> offset_t" "python_v \<Rightarrow> 64 word"

type_synonym mismatch = "string \<times> 64 word \<times> 64 word"

fun differs :: "comparison \<Rightarrow> python_v \<Rightarrow> 64 word \<Rightarrow> mismatch list" where
  "differs (Compare_Size name sel compiled) v reported =
     (if compiled v > reported then [(name, compiled v, reported)] else [])"
| "differs (Compare_Offset name sel compiled) v reported =
     (if compiled v \<noteq> reported then [(name, compiled v, reported)] else [])"

fun entry_of :: "comparison \<Rightarrow> debug_offsets_v \<Rightarrow> offset_t" where
  "entry_of (Compare_Size name sel compiled) = sel"
| "entry_of (Compare_Offset name sel compiled) = sel"

fun place_of :: "comparison \<Rightarrow> python_v \<Rightarrow> 64 word" where
  "place_of (Compare_Size name sel compiled) = compiled"
| "place_of (Compare_Offset name sel compiled) = compiled"

definition compare_entry :: "manager \<Rightarrow> addr \<Rightarrow> comparison \<Rightarrow> mismatch list result" where
  "compare_entry m runtime_addr c =
     (case d_py_v m of
        None \<Rightarrow> Inl Undefined
      | Some static \<Rightarrow>
          if entry_of c (debug_offsets (py_runtime static)) = 0 then Inr []
          else
            rbind (offsets m) (\<lambda>v.
            rbind (dbg m runtime_addr (entry_of c)) (\<lambda>reported. Inr (differs c v reported))))"

definition runtime_comparisons :: "comparison list" where
  "runtime_comparisons =
     [Compare_Size ''py_runtime.size'' (dbg_runtime_state_struct_size \<circ> runtime_state)
        (runtime_size \<circ> py_runtime),
      Compare_Offset ''py_runtime.o_finalizing'' (dbg_runtime_state_finalizing \<circ> runtime_state)
        (o_finalizing \<circ> py_runtime),
      Compare_Offset ''py_runtime.o_interp_head'' (dbg_runtime_state_interpreters_head \<circ> runtime_state)
        (o_interp_head \<circ> py_runtime)]"

definition is_comparisons :: "comparison list" where
  "is_comparisons =
     [Compare_Size ''py_is.size'' (dbg_interpreter_state_struct_size \<circ> interpreter_state)
        (is_size \<circ> py_is),
      Compare_Offset ''py_is.o_next'' (dbg_interpreter_state_next \<circ> interpreter_state)
        (is_o_next \<circ> py_is),
      Compare_Offset ''py_is.o_tstate_head'' (dbg_interpreter_state_threads_head \<circ> interpreter_state)
        (o_tstate_head \<circ> py_is),
      Compare_Offset ''py_is.o_gc'' (dbg_interpreter_state_gc \<circ> interpreter_state)
        (is_o_gc \<circ> py_is),
      Compare_Offset ''py_is.o_modules'' (dbg_interpreter_state_imports_modules \<circ> interpreter_state)
        (o_modules \<circ> py_is),
      Compare_Offset ''py_is.o_sysdict'' (dbg_interpreter_state_sysdict \<circ> interpreter_state)
        (o_sysdict \<circ> py_is),
      Compare_Offset ''py_is.o_builtins'' (dbg_interpreter_state_builtins \<circ> interpreter_state)
        (o_builtins \<circ> py_is),
      Compare_Offset ''py_is.o_gil_runtime_state'' (dbg_interpreter_state_ceval_gil \<circ> interpreter_state)
        (o_gil_runtime_state \<circ> py_is)]"

definition thread_comparisons :: "comparison list" where
  "thread_comparisons =
     [Compare_Size ''py_thread.size'' (dbg_thread_state_struct_size \<circ> thread_state)
        (thread_size \<circ> py_thread),
      Compare_Offset ''py_thread.o_prev'' (dbg_thread_state_prev \<circ> thread_state)
        (o_prev \<circ> py_thread),
      Compare_Offset ''py_thread.o_next'' (dbg_thread_state_next \<circ> thread_state)
        (thread_o_next \<circ> py_thread),
      Compare_Offset ''py_thread.o_interp'' (dbg_thread_state_interp \<circ> thread_state)
        (o_interp \<circ> py_thread),
      Compare_Offset ''py_thread.o_frame'' (dbg_thread_state_current_frame \<circ> thread_state)
        (o_frame \<circ> py_thread),
      Compare_Offset ''py_thread.o_thread_id'' (dbg_thread_state_thread_id \<circ> thread_state)
        (o_thread_id \<circ> py_thread),
      Compare_Offset ''py_thread.o_native_thread_id'' (dbg_thread_state_native_thread_id \<circ> thread_state)
        (o_native_thread_id \<circ> py_thread)]"

definition frame_comparisons :: "comparison list" where
  "frame_comparisons =
     [Compare_Size ''py_frame.size'' (dbg_interpreter_frame_struct_size \<circ> interpreter_frame)
        (frame_size \<circ> py_frame),
      Compare_Offset ''py_frame.o_back'' (dbg_interpreter_frame_previous \<circ> interpreter_frame)
        (o_back \<circ> py_frame),
      Compare_Offset ''py_frame.o_code'' (dbg_interpreter_frame_executable \<circ> interpreter_frame)
        (o_code \<circ> py_frame),
      Compare_Offset ''py_frame.o_prev_instr'' (dbg_interpreter_frame_instr_ptr \<circ> interpreter_frame)
        (o_prev_instr \<circ> py_frame),
      Compare_Offset ''py_frame.o_localsplus'' (dbg_interpreter_frame_localsplus \<circ> interpreter_frame)
        (o_localsplus \<circ> py_frame),
      Compare_Offset ''py_frame.o_owner'' (dbg_interpreter_frame_owner \<circ> interpreter_frame)
        (o_owner \<circ> py_frame)]"

definition code_comparisons :: "comparison list" where
  "code_comparisons =
     [Compare_Size ''py_code.size'' (dbg_code_object_struct_size \<circ> code_object)
        (code_size \<circ> py_code),
      Compare_Offset ''py_code.o_filename'' (dbg_code_object_filename \<circ> code_object)
        (o_filename \<circ> py_code),
      Compare_Offset ''py_code.o_name'' (dbg_code_object_name \<circ> code_object) (o_name \<circ> py_code),
      Compare_Offset ''py_code.o_lnotab'' (dbg_code_object_linetable \<circ> code_object)
        (o_lnotab \<circ> py_code),
      Compare_Offset ''py_code.o_firstlineno'' (dbg_code_object_firstlineno \<circ> code_object)
        (o_firstlineno \<circ> py_code),
      Compare_Offset ''py_code.o_argcount'' (dbg_code_object_argcount \<circ> code_object)
        (o_argcount \<circ> py_code),
      Compare_Offset ''py_code.o_varnames'' (dbg_code_object_localsplusnames \<circ> code_object)
        (o_varnames \<circ> py_code),
      Compare_Offset ''py_code.o_code_adaptive'' (dbg_code_object_co_code_adaptive \<circ> code_object)
        (o_code_adaptive \<circ> py_code)]"

definition object_comparisons :: "comparison list" where
  "object_comparisons =
     [Compare_Size ''py_object.size'' (dbg_pyobject_struct_size) (object_size \<circ> py_object),
      Compare_Offset ''py_object.o_ob_type'' (dbg_pyobject_ob_type) (o_ob_type \<circ> py_object)]"

definition type_comparisons :: "comparison list" where
  "type_comparisons =
     [Compare_Size ''py_type.size'' (dbg_type_object_struct_size \<circ> type_object)
        (type_size \<circ> py_type),
      Compare_Offset ''py_type.o_tp_name'' (dbg_type_object_tp_name \<circ> type_object)
        (o_tp_name \<circ> py_type),
      Compare_Offset ''py_type.o_tp_repr'' (dbg_type_object_tp_repr \<circ> type_object)
        (o_tp_repr \<circ> py_type),
      Compare_Offset ''py_type.o_tp_flags'' (dbg_type_object_tp_flags \<circ> type_object)
        (o_tp_flags \<circ> py_type)]"

definition tuple_comparisons :: "comparison list" where
  "tuple_comparisons =
     [Compare_Size ''py_tuple.size'' (dbg_tuple_object_struct_size \<circ> containers)
        (tuple_size \<circ> py_tuple),
      Compare_Offset ''py_tuple.o_ob_item'' (dbg_tuple_object_ob_item \<circ> containers)
        (tuple_o_ob_item \<circ> py_tuple),
      Compare_Offset ''py_tuple.o_ob_size'' (dbg_tuple_object_ob_size \<circ> containers)
        (tuple_o_ob_size \<circ> py_tuple)]"

definition list_comparisons :: "comparison list" where
  "list_comparisons =
     [Compare_Size ''py_list.size'' (dbg_list_object_struct_size \<circ> containers)
        (list_size \<circ> py_list),
      Compare_Offset ''py_list.o_ob_item'' (dbg_list_object_ob_item \<circ> containers)
        (list_o_ob_item \<circ> py_list),
      Compare_Offset ''py_list.o_ob_size'' (dbg_list_object_ob_size \<circ> containers)
        (list_o_ob_size \<circ> py_list)]"

definition dict_comparisons :: "comparison list" where
  "dict_comparisons =
     [Compare_Size ''py_dict.size'' (dbg_dict_object_struct_size \<circ> containers)
        (dict_size \<circ> py_dict),
      Compare_Offset ''py_dict.o_ma_keys'' (dbg_dict_object_ma_keys \<circ> containers)
        (o_ma_keys \<circ> py_dict),
      Compare_Offset ''py_dict.o_ma_values'' (dbg_dict_object_ma_values \<circ> containers)
        (o_ma_values \<circ> py_dict)]"

definition float_comparisons :: "comparison list" where
  "float_comparisons =
     [Compare_Size ''py_float.size'' (dbg_float_object_struct_size \<circ> scalars)
        (float_size \<circ> py_float),
      Compare_Offset ''py_float.o_ob_fval'' (dbg_float_object_ob_fval \<circ> scalars)
        (o_ob_fval \<circ> py_float)]"

definition long_comparisons :: "comparison list" where
  "long_comparisons =
     [Compare_Size ''py_long.size'' (dbg_long_object_struct_size \<circ> scalars) (long_size \<circ> py_long),
      Compare_Offset ''py_long.o_ob_size'' (dbg_long_object_lv_tag \<circ> scalars)
        (long_o_ob_size \<circ> py_long),
      Compare_Offset ''py_long.o_ob_digit'' (dbg_long_object_ob_digit \<circ> scalars)
        (o_ob_digit \<circ> py_long)]"

definition bytes_comparisons :: "comparison list" where
  "bytes_comparisons =
     [Compare_Size ''py_bytes.size'' (dbg_bytes_object_struct_size \<circ> scalars)
        (bytes_size \<circ> py_bytes),
      Compare_Offset ''py_bytes.o_ob_size'' (dbg_bytes_object_ob_size \<circ> scalars)
        (bytes_o_ob_size \<circ> py_bytes),
      Compare_Offset ''py_bytes.o_ob_sval'' (dbg_bytes_object_ob_sval \<circ> scalars)
        (o_ob_sval \<circ> py_bytes)]"

definition unicode_comparisons :: "comparison list" where
  "unicode_comparisons =
     [Compare_Size ''py_unicode.size'' (dbg_unicode_object_struct_size \<circ> unicode_gc)
        (unicode_size \<circ> py_unicode),
      Compare_Offset ''py_unicode.o_state'' (dbg_unicode_object_state \<circ> unicode_gc)
        (o_state \<circ> py_unicode),
      Compare_Offset ''py_unicode.o_length'' (dbg_unicode_object_length \<circ> unicode_gc)
        (o_length \<circ> py_unicode),
      Compare_Offset ''py_unicode.o_ascii'' (dbg_unicode_object_asciiobject_size \<circ> unicode_gc)
        (o_ascii \<circ> py_unicode)]"

definition gc_comparisons :: "comparison list" where
  "gc_comparisons =
     [Compare_Size ''py_gc.size'' (dbg_gc_struct_size \<circ> unicode_gc) (gc_size \<circ> py_gc),
      Compare_Offset ''py_gc.o_collecting'' (dbg_gc_collecting \<circ> unicode_gc)
        (o_collecting \<circ> py_gc)]"

definition all_comparisons :: "comparison list" where
  "all_comparisons =
     runtime_comparisons @ is_comparisons @ thread_comparisons @ frame_comparisons @
     code_comparisons @ object_comparisons @ type_comparisons @ tuple_comparisons @
     list_comparisons @ dict_comparisons @ float_comparisons @ long_comparisons @
     bytes_comparisons @ unicode_comparisons @ gc_comparisons"

definition warnIfOffsetsAreMismatched :: "manager \<Rightarrow> addr \<Rightarrow> mismatch list result" where
  "warnIfOffsetsAreMismatched m runtime_addr =
     (if versionIsAtLeast m 3 14 then Inr []
      else
        rbind (getField m S_runtime runtime_addr (o_dbg_off_cookie \<circ> debug_offsets, 8)) (\<lambda>c.
          if c \<noteq> cookie_bytes then Inr []
          else rbind (rmap (compare_entry m runtime_addr) all_comparisons) (\<lambda>found. Inr (concat found))))"

section \<open>The tables are compared\<close>

text \<open>Each entry that is compared was copied into the same place of the table.\<close>

definition copied_as :: "manager \<Rightarrow> addr \<Rightarrow> python_v \<Rightarrow> comparison \<Rightarrow> bool" where
  "copied_as m a v c \<longleftrightarrow> dbg m a (entry_of c) = Inr (place_of c v)"

lemma copied_parts:
  assumes "copyDebugOffsets m a = Inr v"
  shows "copy_py_runtime m a = Inr (py_runtime v)"
    and "copy_py_is m a = Inr (py_is v)"
    and "copy_py_thread m a = Inr (py_thread v)"
    and "copy_py_frame m a = Inr (py_frame v)"
    and "copy_py_code m a = Inr (py_code v)"
    and "copy_py_object m a = Inr (py_object v)"
    and "copy_py_type m a = Inr (py_type v)"
    and "copy_py_tuple m a = Inr (py_tuple v)"
    and "copy_py_list m a = Inr (py_list v)"
    and "copy_py_dict m a = Inr (py_dict v)"
    and "copy_py_float m a = Inr (py_float v)"
    and "copy_py_long m a = Inr (py_long v)"
    and "copy_py_bytes m a = Inr (py_bytes v)"
    and "copy_py_unicode m a = Inr (py_unicode v)"
    and "copy_py_gc m a = Inr (py_gc v)"
  using assms by (auto simp: copyDebugOffsets_def result_simps split: option.splits)

lemma copied_runtime: "copy_py_runtime m a = Inr t \<Longrightarrow> list_all (copied_as m a (v\<lparr>py_runtime := t\<rparr>)) runtime_comparisons"
  by (auto simp: copy_py_runtime_def runtime_comparisons_def copied_as_def result_simps)

lemma copied_is: "copy_py_is m a = Inr t \<Longrightarrow> list_all (copied_as m a (v\<lparr>py_is := t\<rparr>)) is_comparisons"
  by (auto simp: copy_py_is_def is_comparisons_def copied_as_def result_simps)

lemma copied_thread: "copy_py_thread m a = Inr t \<Longrightarrow> list_all (copied_as m a (v\<lparr>py_thread := t\<rparr>)) thread_comparisons"
  by (auto simp: copy_py_thread_def thread_comparisons_def copied_as_def result_simps)

lemma copied_frame: "copy_py_frame m a = Inr t \<Longrightarrow> list_all (copied_as m a (v\<lparr>py_frame := t\<rparr>)) frame_comparisons"
  by (auto simp: copy_py_frame_def frame_comparisons_def copied_as_def result_simps)

lemma copied_code: "copy_py_code m a = Inr t \<Longrightarrow> list_all (copied_as m a (v\<lparr>py_code := t\<rparr>)) code_comparisons"
  by (auto simp: copy_py_code_def code_comparisons_def copied_as_def result_simps)

lemma copied_object: "copy_py_object m a = Inr t \<Longrightarrow> list_all (copied_as m a (v\<lparr>py_object := t\<rparr>)) object_comparisons"
  by (auto simp: copy_py_object_def object_comparisons_def copied_as_def result_simps)

lemma copied_type: "copy_py_type m a = Inr t \<Longrightarrow> list_all (copied_as m a (v\<lparr>py_type := t\<rparr>)) type_comparisons"
  by (auto simp: copy_py_type_def type_comparisons_def copied_as_def result_simps)

lemma copied_tuple: "copy_py_tuple m a = Inr t \<Longrightarrow> list_all (copied_as m a (v\<lparr>py_tuple := t\<rparr>)) tuple_comparisons"
  by (auto simp: copy_py_tuple_def tuple_comparisons_def copied_as_def result_simps)

lemma copied_list: "copy_py_list m a = Inr t \<Longrightarrow> list_all (copied_as m a (v\<lparr>py_list := t\<rparr>)) list_comparisons"
  by (auto simp: copy_py_list_def list_comparisons_def copied_as_def result_simps)

lemma copied_dict: "copy_py_dict m a = Inr t \<Longrightarrow> list_all (copied_as m a (v\<lparr>py_dict := t\<rparr>)) dict_comparisons"
  by (auto simp: copy_py_dict_def dict_comparisons_def copied_as_def result_simps)

lemma copied_float: "copy_py_float m a = Inr t \<Longrightarrow> list_all (copied_as m a (v\<lparr>py_float := t\<rparr>)) float_comparisons"
  by (auto simp: copy_py_float_def float_comparisons_def copied_as_def result_simps)

lemma copied_long: "copy_py_long m a = Inr t \<Longrightarrow> list_all (copied_as m a (v\<lparr>py_long := t\<rparr>)) long_comparisons"
  by (auto simp: copy_py_long_def long_comparisons_def copied_as_def result_simps)

lemma copied_bytes: "copy_py_bytes m a = Inr t \<Longrightarrow> list_all (copied_as m a (v\<lparr>py_bytes := t\<rparr>)) bytes_comparisons"
  by (auto simp: copy_py_bytes_def bytes_comparisons_def copied_as_def result_simps)

lemma copied_unicode: "copy_py_unicode m a = Inr t \<Longrightarrow> list_all (copied_as m a (v\<lparr>py_unicode := t\<rparr>)) unicode_comparisons"
  by (auto simp: copy_py_unicode_def unicode_comparisons_def copied_as_def result_simps)

lemma copied_gc: "copy_py_gc m a = Inr t \<Longrightarrow> list_all (copied_as m a (v\<lparr>py_gc := t\<rparr>)) gc_comparisons"
  by (auto simp: copy_py_gc_def gc_comparisons_def copied_as_def result_simps)

lemma update_same:
  "v\<lparr>py_runtime := py_runtime v\<rparr> = v"
  "v\<lparr>py_is := py_is v\<rparr> = v"
  "v\<lparr>py_thread := py_thread v\<rparr> = v"
  "v\<lparr>py_frame := py_frame v\<rparr> = v"
  "v\<lparr>py_code := py_code v\<rparr> = v"
  "v\<lparr>py_object := py_object v\<rparr> = v"
  "v\<lparr>py_type := py_type v\<rparr> = v"
  "v\<lparr>py_tuple := py_tuple v\<rparr> = v"
  "v\<lparr>py_list := py_list v\<rparr> = v"
  "v\<lparr>py_dict := py_dict v\<rparr> = v"
  "v\<lparr>py_float := py_float v\<rparr> = v"
  "v\<lparr>py_long := py_long v\<rparr> = v"
  "v\<lparr>py_bytes := py_bytes v\<rparr> = v"
  "v\<lparr>py_unicode := py_unicode v\<rparr> = v"
  "v\<lparr>py_gc := py_gc v\<rparr> = v"
  by simp_all

lemma copied_all:
  assumes "copyDebugOffsets m a = Inr v"
  shows "list_all (copied_as m a v) all_comparisons"
  using copied_runtime [OF copied_parts(1) [OF assms], of v]
    copied_is [OF copied_parts(2) [OF assms], of v]
    copied_thread [OF copied_parts(3) [OF assms], of v]
    copied_frame [OF copied_parts(4) [OF assms], of v]
    copied_code [OF copied_parts(5) [OF assms], of v]
    copied_object [OF copied_parts(6) [OF assms], of v]
    copied_type [OF copied_parts(7) [OF assms], of v]
    copied_tuple [OF copied_parts(8) [OF assms], of v]
    copied_list [OF copied_parts(9) [OF assms], of v]
    copied_dict [OF copied_parts(10) [OF assms], of v]
    copied_float [OF copied_parts(11) [OF assms], of v]
    copied_long [OF copied_parts(12) [OF assms], of v]
    copied_bytes [OF copied_parts(13) [OF assms], of v]
    copied_unicode [OF copied_parts(14) [OF assms], of v]
    copied_gc [OF copied_parts(15) [OF assms], of v]
  by (simp only: all_comparisons_def list_all_append update_same simp_thms)

definition differences :: "python_v \<Rightarrow> python_v \<Rightarrow> mismatch list" where
  "differences static v =
     concat (map (\<lambda>c. if entry_of c (debug_offsets (py_runtime static)) = 0 then []
                      else differs c static (place_of c v)) all_comparisons)"

lemma compare_entry_copied:
  assumes "d_py_v m = Some static" and "d_debug_offsets m = None" and "copied_as m a v c"
  shows "compare_entry m a c =
           Inr (if entry_of c (debug_offsets (py_runtime static)) = 0 then []
                else differs c static (place_of c v))"
  using assms by (simp add: compare_entry_def offsets_def copied_as_def)

lemma compare_entries_copied:
  assumes "d_py_v m = Some static" and "d_debug_offsets m = None" and "list_all (copied_as m a v) cs"
  shows "rmap (compare_entry m a) cs =
           Inr (map (\<lambda>c. if entry_of c (debug_offsets (py_runtime static)) = 0 then []
                         else differs c static (place_of c v)) cs)"
  using assms(3) by (induction cs) (simp_all add: compare_entry_copied [OF assms(1,2), where v = v])

lemma loadDebugOffsets_SomeE:
  assumes "loadDebugOffsets m a = Inr (Some v)"
  obtains reported where "copyDebugOffsets m a = Inr reported" and "v = clampSizes reported"
    and "getField m S_runtime a (o_dbg_off_cookie \<circ> debug_offsets, 8) = Inr cookie_bytes"
  using assms by (auto simp: loadDebugOffsets_def result_simps split: if_splits)



text \<open>Therefore the check can be left out of the loading of the offsets.\<close>

lemma check_does_not_interfere:
  assumes "loadDebugOffsets m a = Inr (Some v)" and "d_debug_offsets m = None"
  shows "\<exists>w. warnIfOffsetsAreMismatched m a = Inr w"
proof (rule loadDebugOffsets_SomeE [OF assms(1)])
  fix reported
  assume r: "copyDebugOffsets m a = Inr reported"
    and c: "getField m S_runtime a (o_dbg_off_cookie \<circ> debug_offsets, 8) = Inr cookie_bytes"
  obtain static where "d_py_v m = Some static"
    using r by (auto simp: copyDebugOffsets_def split: option.splits)
  with c compare_entries_copied [OF _ assms(2) copied_all [OF r]] show ?thesis
    by (simp add: warnIfOffsetsAreMismatched_def)
qed

end
