(* ===== verification/Lru_Cache.thy ===== *)
theory Lru_Cache
  imports Prelude
begin

text \<open>
  The byte cache of a live process's memory (\<open>LRUCache\<close> in \<open>mem.h\<close> and \<open>mem.cpp\<close>): its
  state, its operations, the invariant that ties the recency list, the hash map and the size
  counter together, the refinement of every operation to a list kept in recency order, and the
  interface \<open>chunk_cache\<close> that the memory manager relies on.
\<close>

section \<open>State and operations\<close>

text \<open>
  \<open>ListNode\<close> is the pair of a key and the size accounted for it; the front of
  \<open>d_cache_list\<close> is the most recently used entry. \<open>CacheValue\<close> holds the bytes and an
  iterator to the node; the code keeps at most one node per key, so the iterator of a key is
  modelled by the key itself (\<open>list_erase\<close>).
\<close>

record lru_cache =
  d_cache_list :: "(addr \<times> size_t) list"
  d_cache :: "addr \<rightharpoonup> bytes"
  d_cache_capacity :: size_t
  d_size :: size_t

definition lru_new :: "size_t \<Rightarrow> lru_cache" where
  "lru_new capacity =
     \<lparr>d_cache_list = [], d_cache = Map.empty, d_cache_capacity = capacity, d_size = 0\<rparr>"

definition can_fit :: "lru_cache \<Rightarrow> size_t \<Rightarrow> bool" where
  "can_fit c n \<longleftrightarrow> d_cache_capacity c \<ge> n"

definition lru_exists :: "lru_cache \<Rightarrow> addr \<Rightarrow> bool" where
  "lru_exists c key \<longleftrightarrow> d_cache c key \<noteq> None"

fun list_erase :: "addr \<Rightarrow> (addr \<times> size_t) list \<Rightarrow> (addr \<times> size_t) list" where
  "list_erase k [] = []"
| "list_erase k (n # ns) = (if fst n = k then ns else n # list_erase k ns)"

text \<open>
  The eviction loop of \<open>put\<close>. \<open>back()\<close> and \<open>pop_back()\<close> on an empty list are undefined
  behaviour, which the first branch records.
\<close>

function evict :: "size_t \<Rightarrow> lru_cache \<Rightarrow> lru_cache result" where
  "evict value_size c =
     (if d_size c + value_size > d_cache_capacity c
      then if d_cache_list c = [] then Inl Undefined
           else evict value_size
                  (c\<lparr>d_cache := (d_cache c)(fst (last (d_cache_list c)) := None),
                     d_size := d_size c - snd (last (d_cache_list c)),
                     d_cache_list := butlast (d_cache_list c)\<rparr>)
      else Inr c)"
  by pat_completeness auto
termination
  by (relation "measure (\<lambda>(n, c). length (d_cache_list c))") auto

declare evict.simps [simp del]

definition lru_put :: "lru_cache \<Rightarrow> addr \<Rightarrow> bytes \<Rightarrow> lru_cache result" where
  "lru_put c key val =
     (let value_size = of_nat (length val) in
      if \<not> can_fit c value_size then Inr c
      else
        let c1 = (case d_cache c key of
                    Some _ \<Rightarrow> c\<lparr>d_cache_list := list_erase key (d_cache_list c),
                               d_cache := (d_cache c)(key := None)\<rparr>
                  | None \<Rightarrow> c)
        in rbind (evict value_size c1) (\<lambda>c2.
             Inr (c2\<lparr>d_cache_list := (key, value_size) # d_cache_list c2,
                     d_cache := (d_cache c2)(key \<mapsto> val),
                     d_size := d_size c2 + value_size\<rparr>)))"

definition lru_get :: "lru_cache \<Rightarrow> addr \<Rightarrow> (bytes \<times> lru_cache) result" where
  "lru_get c key =
     (case d_cache c key of
        None \<Rightarrow> Inl RangeError
      | Some v \<Rightarrow>
          (let node = (key, the (map_of (d_cache_list c) key)) in
           Inr (v, c\<lparr>d_cache_list := node # list_erase key (d_cache_list c)\<rparr>)))"

section \<open>Invariant\<close>

text \<open>
  Keys are unique, the map holds exactly the listed keys, every node carries the length of its
  value, and \<open>d_size\<close> is the sum of the node sizes and within the capacity. The capacity is
  below \<open>2 ^ 63\<close>, so that \<open>d_size + value_size\<close> does not wrap (the code uses 50 MB).
\<close>

definition node_ok :: "(addr \<rightharpoonup> bytes) \<Rightarrow> addr \<times> size_t \<Rightarrow> bool" where
  "node_ok m n \<longleftrightarrow>
     (\<exists>v. m (fst n) = Some v \<and> length v = unat (snd n))"

definition nodes_size :: "(addr \<times> size_t) list \<Rightarrow> nat" where
  "nodes_size ns = sum_list (map (\<lambda>n. unat (snd n)) ns)"

definition lru_inv :: "lru_cache \<Rightarrow> bool" where
  "lru_inv c \<longleftrightarrow>
     distinct (map fst (d_cache_list c)) \<and>
     dom (d_cache c) = fst ` set (d_cache_list c) \<and>
     (\<forall>n \<in> set (d_cache_list c). node_ok (d_cache c) n) \<and>
     unat (d_size c) = nodes_size (d_cache_list c) \<and>
     unat (d_size c) \<le> unat (d_cache_capacity c) \<and>
     unat (d_cache_capacity c) < 2 ^ 63"

lemma nodes_size_simps [simp]:
  "nodes_size [] = 0"
  "nodes_size (n # ns) = unat (snd n) + nodes_size ns"
  "nodes_size (ns @ ms) = nodes_size ns + nodes_size ms"
  by (simp_all add: nodes_size_def)

lemma lru_inv_new: "unat capacity < 2 ^ 63 \<Longrightarrow> lru_inv (lru_new capacity)"
  by (simp add: lru_inv_def lru_new_def)

lemma list_erase_absent: "k \<notin> fst ` set ns \<Longrightarrow> list_erase k ns = ns"
  by (induction ns) auto

lemma list_erase_filter:
  "distinct (map fst ns) \<Longrightarrow> list_erase k ns = filter (\<lambda>n. fst n \<noteq> k) ns"
proof (induction ns)
  case (Cons n ns)
  then have "fst n = k \<Longrightarrow> filter (\<lambda>n. fst n \<noteq> k) ns = ns"
    by (intro filter_True) (auto dest: fst_in_image)
  with Cons show ?case by auto
qed simp

lemma set_list_erase:
  "distinct (map fst ns) \<Longrightarrow> set (list_erase k ns) = {n \<in> set ns. fst n \<noteq> k}"
  by (simp add: list_erase_filter)

lemma distinct_list_erase:
  "distinct (map fst ns) \<Longrightarrow> distinct (map fst (list_erase k ns))"
  by (simp add: list_erase_filter distinct_map_filter)

lemma nodes_size_list_erase:
  "distinct (map fst ns) \<Longrightarrow> (k, s) \<in> set ns \<Longrightarrow>
     nodes_size ns = unat s + nodes_size (list_erase k ns)"
proof (induction ns)
  case (Cons n ns)
  show ?case
  proof (cases "fst n = k")
    case True
    then have "(k, s) \<notin> set ns" using Cons.prems(1) by (auto dest: fst_in_image)
    with Cons.prems(2) have "n = (k, s)" by auto
    then show ?thesis by simp
  next
    case False
    with Cons show ?thesis by auto
  qed
qed simp

lemma filter_key:
  "distinct (map fst ns) \<Longrightarrow> (k, s) \<in> set ns \<Longrightarrow> filter (\<lambda>n. fst n = k) ns = [(k, s)]"
proof (induction ns)
  case (Cons n ns)
  show ?case
  proof (cases "fst n = k")
    case True
    then have "n = (k, s)" "filter (\<lambda>n. fst n = k) ns = []"
      using Cons.prems by (auto simp: filter_empty_conv dest: fst_in_image)
    then show ?thesis by simp
  next
    case False
    with Cons show ?thesis by auto
  qed
qed simp

lemma length_list_erase:
  "k \<in> fst ` set ns \<Longrightarrow> length ns = Suc (length (list_erase k ns))"
  by (induction ns) auto

section \<open>What the cache promises: a bounded list in recency order\<close>

text \<open>
  The abstraction forgets sizes and the hash map: the cached entries, most recently used first.
  \<open>keep_recent b xs\<close> is the longest prefix of \<open>xs\<close> whose values have at most \<open>b\<close> bytes.
\<close>

definition lru_abs :: "lru_cache \<Rightarrow> (addr \<times> bytes) list" where
  "lru_abs c = map (\<lambda>n. (fst n, the (d_cache c (fst n)))) (d_cache_list c)"

fun keep_recent :: "nat \<Rightarrow> (addr \<times> bytes) list \<Rightarrow> (addr \<times> bytes) list" where
  "keep_recent b [] = []"
| "keep_recent b (e # es) =
     (if length (snd e) \<le> b then e # keep_recent (b - length (snd e)) es else [])"

definition spec_put :: "nat \<Rightarrow> addr \<Rightarrow> bytes \<Rightarrow> (addr \<times> bytes) list \<Rightarrow> (addr \<times> bytes) list" where
  "spec_put cap k v es =
     (if length v \<le> cap then (k, v) # keep_recent (cap - length v) es else es)"

definition spec_touch :: "addr \<Rightarrow> (addr \<times> bytes) list \<Rightarrow> (addr \<times> bytes) list" where
  "spec_touch k es = filter (\<lambda>e. fst e = k) es @ filter (\<lambda>e. fst e \<noteq> k) es"

definition values_size :: "(addr \<times> bytes) list \<Rightarrow> nat" where
  "values_size es = sum_list (map (\<lambda>e. length (snd e)) es)"

lemma values_size_simps [simp]:
  "values_size [] = 0"
  "values_size (e # es) = length (snd e) + values_size es"
  "values_size (es @ fs) = values_size es + values_size fs"
  by (simp_all add: values_size_def)

lemma keep_recent_all: "values_size es \<le> b \<Longrightarrow> keep_recent b es = es"
  by (induction es arbitrary: b) auto

lemma keep_recent_butlast:
  "values_size es > b \<Longrightarrow> keep_recent b es = keep_recent b (butlast es)"
  by (induction es arbitrary: b) auto

lemma keep_recent_size: "values_size (keep_recent b es) \<le> b"
proof (induction es arbitrary: b)
  case (Cons e es)
  have "values_size (keep_recent (b - length (snd e)) es) \<le> b - length (snd e)"
    by (rule Cons.IH)
  then show ?case by auto
qed simp

lemma keep_recent_prefix: "\<exists>fs. es = keep_recent b es @ fs"
  by (induction es arbitrary: b) auto

lemma lru_inv_node:
  "lru_inv c \<Longrightarrow> n \<in> set (d_cache_list c) \<Longrightarrow> node_ok (d_cache c) n"
  by (auto simp: lru_inv_def)

lemma lru_inv_listed:
  "lru_inv c \<Longrightarrow> d_cache c k = Some v \<Longrightarrow> \<exists>s. (k, s) \<in> set (d_cache_list c) \<and> length v = unat s"
  by (force simp: lru_inv_def node_ok_def dom_def set_eq_iff image_iff)

lemma lru_inv_unlisted:
  "lru_inv c \<Longrightarrow> d_cache c k = None \<longleftrightarrow> k \<notin> fst ` set (d_cache_list c)"
  by (auto simp: lru_inv_def simp flip: domIff)

lemma values_size_lru_abs: "lru_inv c \<Longrightarrow> values_size (lru_abs c) = nodes_size (d_cache_list c)"
  unfolding values_size_def nodes_size_def lru_abs_def
  by (rule arg_cong [where f = sum_list]) (force dest: lru_inv_node simp: node_ok_def)

lemma lru_abs_lookup:
  assumes "lru_inv c"
  shows "map_of (lru_abs c) k = d_cache c k"
proof (cases "d_cache c k")
  case None
  with assms have "k \<notin> fst ` set (d_cache_list c)" by (simp add: lru_inv_unlisted)
  with None show ?thesis
    by (simp add: lru_abs_def map_of_eq_None_iff image_image)
next
  case (Some v)
  then obtain s where "(k, s) \<in> set (d_cache_list c)"
    using assms lru_inv_listed by blast
  then have "(k, v) \<in> set (lru_abs c)" using Some by (force simp: lru_abs_def)
  moreover have "distinct (map fst (lru_abs c))"
    using assms by (simp add: lru_inv_def lru_abs_def comp_def)
  ultimately show ?thesis using Some by simp
qed

section \<open>Eviction\<close>

definition pop_back :: "lru_cache \<Rightarrow> lru_cache" where
  "pop_back c = c\<lparr>d_cache := (d_cache c)(fst (last (d_cache_list c)) := None),
                  d_size := d_size c - snd (last (d_cache_list c)),
                  d_cache_list := butlast (d_cache_list c)\<rparr>"

lemma evict_unfold:
  "evict n c = (if d_size c + n > d_cache_capacity c
                then if d_cache_list c = [] then Inl Undefined else evict n (pop_back c)
                else Inr c)"
  by (subst evict.simps) (simp add: pop_back_def)

lemma pop_back_inv:
  assumes inv: "lru_inv c" and ne: "d_cache_list c \<noteq> []"
  shows "lru_inv (pop_back c)"
    and "lru_abs (pop_back c) = butlast (lru_abs c)"
proof -
  obtain ns k s where split: "d_cache_list c = ns @ [(k, s)]"
    using ne by (metis rev_exhaust surj_pair)
  have d: "distinct (map fst ns)" "k \<notin> fst ` set ns"
    using inv split by (auto simp: lru_inv_def)
  have size: "unat (d_size c) = nodes_size ns + unat s"
    using inv split by (simp add: lru_inv_def)
  then have size': "unat (d_size c - s) = nodes_size ns"
    by (simp add: unat_minus_no_wrap)
  have ok: "node_ok ((d_cache c)(k := None)) n" if "n \<in> set ns" for n
  proof -
    have "node_ok (d_cache c) n" using inv that split by (auto simp: lru_inv_def)
    moreover have "fst n \<noteq> k" using that d(2) by force
    ultimately show ?thesis by (simp add: node_ok_def)
  qed
  have dom: "dom ((d_cache c)(k := None)) = fst ` set ns"
    using inv split d(2) by (auto simp: lru_inv_def)
  show "lru_inv (pop_back c)"
    using inv d size size' ok dom split
    by (simp add: lru_inv_def pop_back_def)
  show "lru_abs (pop_back c) = butlast (lru_abs c)"
    using d(2) split by (auto simp: lru_abs_def pop_back_def)
qed

lemma lru_sum_no_wrap:
  assumes "lru_inv c" "unat n \<le> unat (d_cache_capacity c)"
  shows "unat (d_size c + n) = unat (d_size c) + unat n"
  using assms by (intro unat_plus_no_wrap) (auto simp: lru_inv_def)

lemma evict_ok:
  assumes "lru_inv c" "unat n \<le> unat (d_cache_capacity c)"
  shows "\<exists>c'. evict n c = Inr c' \<and> lru_inv c' \<and> d_cache_capacity c' = d_cache_capacity c \<and>
              unat (d_size c') + unat n \<le> unat (d_cache_capacity c) \<and>
              lru_abs c' = keep_recent (unat (d_cache_capacity c) - unat n) (lru_abs c)"
  using assms
proof (induction n c rule: evict.induct)
  case (1 n c)
  let ?b = "unat (d_cache_capacity c) - unat n"
  note sum = lru_sum_no_wrap [OF "1.prems"]
  have vs: "values_size (lru_abs c) = unat (d_size c)"
    using "1.prems"(1) by (simp add: values_size_lru_abs lru_inv_def)
  show ?case
  proof (cases "d_size c + n > d_cache_capacity c")
    case False
    then have "unat (d_size c) + unat n \<le> unat (d_cache_capacity c)"
      using sum by (simp add: word_order)
    with False "1.prems" vs show ?thesis
      by (simp add: evict_unfold keep_recent_all)
  next
    case True
    then have over: "?b < values_size (lru_abs c)"
      using sum vs "1.prems"(2) by (simp add: word_order)
    then have ne: "d_cache_list c \<noteq> []" by (auto simp: lru_abs_def)
    have cap: "d_cache_capacity (pop_back c) = d_cache_capacity c"
      by (simp add: pop_back_def)
    have "lru_inv (pop_back c)" "lru_abs (pop_back c) = butlast (lru_abs c)"
      using pop_back_inv [OF "1.prems"(1) ne] by simp_all
    with "1.IH" [OF True ne, folded pop_back_def] "1.prems"(2) keep_recent_butlast [OF over]
    show ?thesis using True ne by (simp add: evict_unfold [of n c] cap)
  qed
qed

section \<open>The operations keep the invariant and refine the specification\<close>

text \<open>
  \<open>vector_max\<close> bounds the size of any \<open>std::vector<char>\<close>, so that \<open>value.size()\<close> is the
  length of the value.
\<close>

definition vector_max :: nat where
  "vector_max = 2 ^ 63 - 1"

lemma unat_length: "length (v :: bytes) \<le> vector_max \<Longrightarrow> unat (of_nat (length v) :: size_t) = length v"
  by (rule unat_of_nat_size) (simp add: vector_max_def)

lemma can_fit_length:
  "length (v :: bytes) \<le> vector_max \<Longrightarrow> can_fit c (of_nat (length v)) \<longleftrightarrow> length v \<le> unat (d_cache_capacity c)"
  unfolding can_fit_def word_le_unat by (simp only: unat_length)

lemma lru_put_absent:
  assumes inv: "lru_inv c" and absent: "\<not> lru_exists c k" and len: "length v \<le> vector_max"
  shows "\<exists>c'. lru_put c k v = Inr c' \<and> lru_inv c' \<and>
              d_cache_capacity c' = d_cache_capacity c \<and>
              lru_abs c' = spec_put (unat (d_cache_capacity c)) k v (lru_abs c)"
proof (cases "length v \<le> unat (d_cache_capacity c)")
  case False
  with inv len show ?thesis
    by (simp add: lru_put_def can_fit_length spec_put_def)
next
  case True
  let ?n = "of_nat (length v) :: size_t"
  have n: "unat ?n = length v" by (rule unat_length [OF len])
  with True obtain c2 where c2: "evict ?n c = Inr c2" "lru_inv c2"
      "d_cache_capacity c2 = d_cache_capacity c"
      "unat (d_size c2) + length v \<le> unat (d_cache_capacity c)"
      "lru_abs c2 = keep_recent (unat (d_cache_capacity c) - length v) (lru_abs c)"
    using evict_ok [OF inv, of ?n] by auto
  have knew: "d_cache c2 k = None"
  proof -
    obtain fs where "lru_abs c = lru_abs c2 @ fs"
      using keep_recent_prefix [of "lru_abs c"] c2(5) by metis
    moreover have "map_of (lru_abs c) k = None"
      using absent inv by (simp add: lru_abs_lookup lru_exists_def)
    ultimately have "map_of (lru_abs c2) k = None" by (simp add: map_of_eq_None_iff image_Un)
    then show ?thesis using c2(2) by (simp add: lru_abs_lookup)
  qed
  let ?c' = "c2\<lparr>d_cache_list := (k, ?n) # d_cache_list c2,
                d_cache := (d_cache c2)(k \<mapsto> v), d_size := d_size c2 + ?n\<rparr>"
  have fresh: "k \<notin> fst ` set (d_cache_list c2)"
    using knew c2(2) by (simp add: lru_inv_unlisted)
  have sz: "unat (d_size c2 + ?n) = unat (d_size c2) + length v"
    using lru_sum_no_wrap [OF c2(2)] True c2(3) n by simp
  have "node_ok ((d_cache c2)(k \<mapsto> v)) m" if "m \<in> set (d_cache_list c2)" for m
  proof -
    have "fst m \<noteq> k" using that fresh by force
    then show ?thesis using lru_inv_node [OF c2(2) that] by (simp add: node_ok_def)
  qed
  then have "lru_inv ?c'"
    using c2 fresh sz n by (auto simp: lru_inv_def node_ok_def)
  moreover have "lru_abs ?c' = spec_put (unat (d_cache_capacity c)) k v (lru_abs c)"
  proof -
    have "lru_abs ?c' = (k, v) # lru_abs c2" using fresh by (auto simp: lru_abs_def)
    then show ?thesis using True c2(5) by (simp add: spec_put_def)
  qed
  moreover have "lru_put c k v = Inr ?c'"
    using absent True len c2(1) by (simp add: lru_put_def can_fit_length lru_exists_def Let_def)
  ultimately show ?thesis using c2(3) by auto
qed

lemma lru_get_present:
  assumes inv: "lru_inv c" and v: "d_cache c k = Some v"
  shows "\<exists>c'. lru_get c k = Inr (v, c') \<and> lru_inv c' \<and> d_cache c' = d_cache c \<and>
              d_cache_capacity c' = d_cache_capacity c \<and> lru_abs c' = spec_touch k (lru_abs c)"
proof -
  let ?l = "d_cache_list c"
  obtain s where s: "(k, s) \<in> set ?l" using lru_inv_listed [OF inv v] by blast
  have dist: "distinct (map fst ?l)" using inv by (simp add: lru_inv_def)
  have ms: "map_of ?l k = Some s" using s dist by simp
  let ?c' = "c\<lparr>d_cache_list := (k, s) # list_erase k ?l\<rparr>"
  have set': "set ((k, s) # list_erase k ?l) = set ?l"
  proof -
    have "fst n = k \<Longrightarrow> n \<in> set ?l \<Longrightarrow> n = (k, s)" for n
      using s dist by (metis eq_key_imp_eq_value prod.collapse)
    then show ?thesis using s by (auto simp: set_list_erase [OF dist])
  qed
  have "distinct (map fst ((k, s) # list_erase k ?l))"
    using distinct_list_erase [OF dist] by (auto simp: set_list_erase [OF dist])
  moreover have "nodes_size ((k, s) # list_erase k ?l) = nodes_size ?l"
    using nodes_size_list_erase [OF dist s] by simp
  ultimately have "lru_inv ?c'"
    using inv set' by (simp add: lru_inv_def)
  moreover have "lru_abs ?c' = spec_touch k (lru_abs c)"
  proof -
    have "filter (\<lambda>n. fst n = k) ?l = [(k, s)]" by (rule filter_key [OF dist s])
    then show ?thesis
      using v by (simp add: lru_abs_def spec_touch_def list_erase_filter [OF dist] filter_map comp_def)
  qed
  moreover have "lru_get c k = Inr (v, ?c')" using v ms by (simp add: lru_get_def)
  ultimately show ?thesis by auto
qed

section \<open>The interface the memory manager uses\<close>

text \<open>
  \<open>ProcessMemoryManager\<close> uses the cache through \<open>can_fit\<close>, \<open>exists\<close>, \<open>put\<close> and \<open>get\<close>
  and never puts a key that exists. The locale states what it needs of them; the client's
  reasoning (\<open>fill_then_get\<close>, \<open>hit_get\<close>) is done once, for any predicate \<open>P\<close> that relates a
  key to the bytes that may be cached under it.
\<close>

locale chunk_cache =
  fixes inv :: "'c \<Rightarrow> bool"
    and lookup :: "'c \<Rightarrow> addr \<Rightarrow> bytes option"
    and fits :: "'c \<Rightarrow> size_t \<Rightarrow> bool"
    and present :: "'c \<Rightarrow> addr \<Rightarrow> bool"
    and put :: "'c \<Rightarrow> addr \<Rightarrow> bytes \<Rightarrow> 'c result"
    and get :: "'c \<Rightarrow> addr \<Rightarrow> (bytes \<times> 'c) result"
  assumes present_lookup: "inv c \<Longrightarrow> present c k \<longleftrightarrow> lookup c k \<noteq> None"
    and put_absent: "inv c \<Longrightarrow> \<not> present c k \<Longrightarrow> length v \<le> vector_max \<Longrightarrow>
        fits c (of_nat (length v)) \<Longrightarrow>
        \<exists>c'. put c k v = Inr c' \<and> inv c' \<and> lookup c' k = Some v \<and>
             lookup c' \<subseteq>\<^sub>m (lookup c)(k \<mapsto> v) \<and> fits c' = fits c"
    and get_present: "inv c \<Longrightarrow> lookup c k = Some v \<Longrightarrow>
        \<exists>c'. get c k = Inr (v, c') \<and> inv c' \<and> lookup c' = lookup c \<and> fits c' = fits c"
begin

lemma hit_get:
  assumes "inv c" "present c k" "\<forall>k v. lookup c k = Some v \<longrightarrow> P k v"
  shows "\<exists>v c'. get c k = Inr (v, c') \<and> P k v \<and> inv c' \<and> fits c' = fits c \<and>
                (\<forall>k v. lookup c' k = Some v \<longrightarrow> P k v)"
  using assms get_present present_lookup by (metis not_None_eq)

lemma fill_then_get:
  assumes inv: "inv c" and new: "\<not> present c k" and len: "length v \<le> vector_max"
    and fit: "fits c (of_nat (length v))"
    and P: "P k v" "\<forall>k v. lookup c k = Some v \<longrightarrow> P k v"
  shows "\<exists>c1 c2. put c k v = Inr c1 \<and> get c1 k = Inr (v, c2) \<and> inv c2 \<and> fits c2 = fits c \<and>
                 (\<forall>k v. lookup c2 k = Some v \<longrightarrow> P k v)"
proof -
  obtain c1 where c1: "put c k v = Inr c1" "inv c1" "lookup c1 k = Some v"
      "lookup c1 \<subseteq>\<^sub>m (lookup c)(k \<mapsto> v)" "fits c1 = fits c"
    using put_absent [OF inv new len fit] by blast
  obtain c2 where c2: "get c1 k = Inr (v, c2)" "inv c2" "lookup c2 = lookup c1" "fits c2 = fits c1"
    using get_present [OF c1(2,3)] by blast
  have "P k' v'" if "lookup c1 k' = Some v'" for k' v'
  proof -
    have "((lookup c)(k \<mapsto> v)) k' = Some v'" using c1(4) that by (metis domI map_le_def)
    then show ?thesis using P by (auto split: if_splits)
  qed
  with c1 c2 show ?thesis by auto
qed

end

lemma lru_put_lookup:
  assumes "lru_inv c" "\<not> lru_exists c k" "length v \<le> vector_max" "can_fit c (of_nat (length v))"
  shows "\<exists>c'. lru_put c k v = Inr c' \<and> lru_inv c' \<and> d_cache c' k = Some v \<and>
              d_cache c' \<subseteq>\<^sub>m (d_cache c)(k \<mapsto> v) \<and> can_fit c' = can_fit c"
proof -
  obtain c' where c': "lru_put c k v = Inr c'" "lru_inv c'"
      "d_cache_capacity c' = d_cache_capacity c"
      "lru_abs c' = spec_put (unat (d_cache_capacity c)) k v (lru_abs c)"
    using lru_put_absent [OF assms(1-3)] by blast
  let ?rest = "keep_recent (unat (d_cache_capacity c) - length v) (lru_abs c)"
  have abs: "lru_abs c' = (k, v) # ?rest"
    using c'(4) assms(3,4) by (simp add: spec_put_def can_fit_length)
  obtain fs where fs: "lru_abs c = ?rest @ fs" using keep_recent_prefix by metis
  have le: "map_of ?rest \<subseteq>\<^sub>m map_of (lru_abs c)"
    by (subst (2) fs) (auto simp: map_le_def map_add_def split: option.splits)
  have look: "d_cache c' j = ((map_of ?rest)(k \<mapsto> v)) j" for j
    using lru_abs_lookup [OF c'(2), of j] abs by simp
  have "d_cache c' \<subseteq>\<^sub>m (d_cache c)(k \<mapsto> v)"
  proof -
    have "d_cache c' = (map_of ?rest)(k \<mapsto> v)" using look by (simp add: fun_eq_iff)
    moreover have "map_of (lru_abs c) = d_cache c"
      using lru_abs_lookup [OF assms(1)] by (simp add: fun_eq_iff)
    ultimately show ?thesis using le by (metis map_le_upd)
  qed
  with c' look show ?thesis by (auto simp: can_fit_def fun_eq_iff)
qed

lemma lru_get_lookup:
  assumes "lru_inv c" "d_cache c k = Some v"
  shows "\<exists>c'. lru_get c k = Inr (v, c') \<and> lru_inv c' \<and> d_cache c' = d_cache c \<and>
              can_fit c' = can_fit c"
proof -
  obtain c' where "lru_get c k = Inr (v, c')" "lru_inv c'" "d_cache c' = d_cache c"
      "d_cache_capacity c' = d_cache_capacity c"
    using lru_get_present [OF assms] by blast
  then show ?thesis by (simp add: can_fit_def fun_eq_iff)
qed

interpretation lru: chunk_cache lru_inv d_cache can_fit lru_exists lru_put lru_get
  by unfold_locales
     (simp_all add: lru_exists_def lru_put_lookup [unfolded lru_exists_def] lru_get_lookup)

section \<open>Properties of the cache\<close>

text \<open>
  Property C18. Putting a key that is not in the cache never fails, keeps the invariant, and does
  what a bounded recency list does: when the value fits in the capacity it becomes the most recent
  entry and exactly the least recent entries that no longer fit are evicted; otherwise nothing
  changes.
\<close>

theorem put_refines_recency_list:
  assumes "lru_inv c" and "\<not> lru_exists c k" and "length v \<le> vector_max"
  shows "\<exists>c'. lru_put c k v = Inr c' \<and> lru_inv c' \<and>
              lru_abs c' = (if length v \<le> unat (d_cache_capacity c)
                            then (k, v) # keep_recent (unat (d_cache_capacity c) - length v) (lru_abs c)
                            else lru_abs c)"
  using lru_put_absent [OF assms] by (auto simp: spec_put_def)

definition example_cache :: lru_cache where
  "example_cache =
     \<lparr>d_cache_list = [(1, 2), (2, 3)], d_cache = [1 \<mapsto> [10, 11], 2 \<mapsto> [20, 21, 22]],
      d_cache_capacity = 6, d_size = 5\<rparr>"

lemma example_cache_inv: "lru_inv example_cache"
  by (auto simp: lru_inv_def example_cache_def node_ok_def)

theorem put_refines_recency_list_witness:
  "\<exists>c'. lru_put example_cache 7 [5, 6, 7] = Inr c' \<and> lru_inv c' \<and>
        lru_abs c' = [(7, [5, 6, 7]), (1, [10, 11])]"
proof -
  have "\<not> lru_exists example_cache 7" "length [5, 6, 7 :: byte] \<le> vector_max"
    by (simp_all add: lru_exists_def example_cache_def vector_max_def)
  from put_refines_recency_list [OF example_cache_inv this]
  show ?thesis by (simp add: example_cache_def lru_abs_def)
qed

text \<open>
  Reading a cached key returns the value stored under it, keeps every entry and the
  invariant, and makes that entry the most recently used one without reordering the others; reading
  a key that is not cached raises \<open>std::range_error\<close>.
\<close>

theorem get_returns_and_touches:
  assumes "lru_inv c"
  shows "case d_cache c k of
           None \<Rightarrow> lru_get c k = Inl RangeError
         | Some v \<Rightarrow> \<exists>c'. lru_get c k = Inr (v, c') \<and> lru_inv c' \<and> d_cache c' = d_cache c \<and>
                         lru_abs c' = (k, v) # filter (\<lambda>e. fst e \<noteq> k) (lru_abs c)"
proof (cases "d_cache c k")
  case None
  then show ?thesis by (simp add: lru_get_def)
next
  case (Some v)
  have "distinct (map fst (lru_abs c))"
    using assms by (simp add: lru_inv_def lru_abs_def comp_def)
  moreover have "map_of (lru_abs c) k = Some v"
    using Some assms by (simp add: lru_abs_lookup)
  ultimately have "filter (\<lambda>e. fst e = k) (lru_abs c) = [(k, v)]"
    by (intro filter_key) (auto dest: map_of_SomeD)
  with lru_get_present [OF assms Some] Some show ?thesis by (auto simp: spec_touch_def)
qed

theorem get_returns_and_touches_witness:
  "\<exists>c'. lru_get example_cache 2 = Inr ([20, 21, 22], c') \<and>
        lru_abs c' = [(2, [20, 21, 22]), (1, [10, 11])]"
  using get_returns_and_touches [OF example_cache_inv, of 2]
  by (auto simp: example_cache_def lru_abs_def)

text \<open>
  \<open>put\<close> on a key that is already cached loses track of the size: the old entry is
  erased from the list and from the map, but its size stays in \<open>d_size\<close>. Replacing the only entry
  of a cache by a value that fits can therefore drive the eviction loop into \<open>back()\<close> of an empty
  list, which is undefined behaviour. (The memory manager only puts keys that are absent.)
\<close>

theorem put_existing_key_undefined:
  "\<exists>c. lru_inv c \<and> lru_exists c 1 \<and> can_fit c (of_nat (length [1, 2, 3, 4, 5, 6 :: byte])) \<and>
       lru_put c 1 [1, 2, 3, 4, 5, 6] = Inl Undefined"
proof (intro exI conjI)
  let ?c = "\<lparr>d_cache_list = [(1, 6)], d_cache = [1 \<mapsto> [0, 0, 0, 0, 0, 0]],
             d_cache_capacity = 10, d_size = 6\<rparr>"
  show "lru_inv ?c" by (auto simp: lru_inv_def node_ok_def)
  show "lru_exists ?c 1" by (simp add: lru_exists_def)
  show "can_fit ?c (of_nat (length [1, 2, 3, 4, 5, 6 :: byte]))" by (simp add: can_fit_def)
  show "lru_put ?c 1 [1, 2, 3, 4, 5, 6] = Inl Undefined"
    by (simp add: lru_put_def can_fit_def Let_def evict_unfold)
qed

end
