(* ===== verification/Memory_Manager.thy ===== *)
theory Memory_Manager
  imports Lru_Cache Virtual_Map Remote_Memory
begin

text \<open>
  Reading the memory of a live process (\<open>ProcessMemoryManager\<close> in \<open>mem.cpp\<close>): the system
  calls it makes as parameters, its state, every operation, and the proof that the cache is
  transparent, i.e. that a copy returns the process's bytes whatever was read before. The kernel's
  documented behaviour is the hypothesis \<open>serves\<close>.
\<close>

section \<open>The operating system\<close>

text \<open>
  What the manager asks of the kernel, for a kernel state \<open>'k\<close> that every call may change:
  \<open>process_vm_readv\<close> of one range (an errno or the bytes transferred), \<open>fopen\<close> of
  \<open>/proc/PID/mem\<close>, \<open>fseeko\<close> followed by \<open>ftello\<close> on it, \<open>fread\<close> at the current position,
  and whether \<open>_PYSTACK_NO_PROCESS_VM_READV\<close> is in the environment.
\<close>

record 'k os =
  process_vm_readv :: "'k \<Rightarrow> addr \<Rightarrow> nat \<Rightarrow> (nat + bytes) \<times> 'k"
  open_memfile :: "'k \<Rightarrow> (nat + unit) \<times> 'k"
  seek_memfile :: "'k \<Rightarrow> addr \<Rightarrow> addr \<times> 'k"
  fread_memfile :: "'k \<Rightarrow> addr \<Rightarrow> nat \<Rightarrow> bytes \<times> 'k"
  no_process_vm_readv :: bool

abbreviation EPERM :: nat where "EPERM \<equiv> 1"
abbreviation EACCES :: nat where "EACCES \<equiv> 13"
abbreviation EFAULT :: nat where "EFAULT \<equiv> 14"
abbreviation ENOSYS :: nat where "ENOSYS \<equiv> 38"

section \<open>State and operations\<close>

definition PERM_MESSAGE :: string where
  "PERM_MESSAGE = ''Operation not permitted''"

definition CACHE_CAPACITY :: size_t where
  "CACHE_CAPACITY = 50000000"

record 'k process_memory =
  d_pid :: nat
  d_vmaps :: "virtual_map list"
  d_lru_cache :: lru_cache
  d_memfile :: bool
  d_kernel :: 'k

definition process_memory_new :: "nat \<Rightarrow> virtual_map list \<Rightarrow> 'k \<Rightarrow> 'k process_memory" where
  "process_memory_new pid vmaps k =
     \<lparr>d_pid = pid, d_vmaps = vmaps, d_lru_cache = lru_new CACHE_CAPACITY, d_memfile = False,
      d_kernel = k\<rparr>"

definition readChunkThroughMemFile ::
  "'k os \<Rightarrow> 'k process_memory \<Rightarrow> addr \<Rightarrow> size_t \<Rightarrow> bytes result \<times> 'k process_memory" where
  "readChunkThroughMemFile os st addr len =
     (let (opened, st1) =
        (if d_memfile st then (Inr (), st)
         else case open_memfile os (d_kernel st) of
                (Inl errno, k) \<Rightarrow>
                  (if errno = EPERM \<or> errno = EACCES then Inl (RuntimeError PERM_MESSAGE)
                   else Inl (RuntimeError
                          (''Failed to open /proc/'' @ to_string (d_pid st) @ ''/mem'')),
                   st\<lparr>d_kernel := k\<rparr>)
              | (Inr _, k) \<Rightarrow> (Inr (), st\<lparr>d_memfile := True, d_kernel := k\<rparr>))
      in case opened of
           Inl e \<Rightarrow> (Inl e, st1)
         | Inr _ \<Rightarrow>
             (case seek_memfile os (d_kernel st1) addr of (pos, k2) \<Rightarrow>
                if addr \<noteq> pos then (Inl InvalidRemoteAddress, st1\<lparr>d_kernel := k2\<rparr>)
                else case fread_memfile os k2 pos (unat len) of (bs, k3) \<Rightarrow>
                       (if unat len \<noteq> length bs then Inl InvalidRemoteAddress else Inr bs,
                        st1\<lparr>d_kernel := k3\<rparr>)))"

text \<open>
  The do-while loop of \<open>readChunkDirect\<close>: \<open>got\<close> is what was written to \<open>dst\<close> so far (\<open>result\<close>
  is its length). The kernel writes at most \<open>iov_len\<close> bytes. The loop ends when a call fails or
  transfers all it was asked for; a kernel that keeps transferring 0 bytes makes it run forever,
  which is the value \<open>None\<close>.
\<close>

partial_function (option) readv_loop ::
  "'k os \<Rightarrow> 'k \<Rightarrow> addr \<Rightarrow> nat \<Rightarrow> bytes \<Rightarrow> ((nat + bytes) \<times> 'k) option" where
  "readv_loop os k addr len got =
     (case process_vm_readv os k (addr + of_nat (length got)) (len - length got) of
        (Inl errno, k') \<Rightarrow> Some (Inl errno, k')
      | (Inr bs, k') \<Rightarrow>
          (let read = take (len - length got) bs in
           if length read \<noteq> len - length got then readv_loop os k' addr len (got @ read)
           else Some (Inr (got @ read), k')))"

definition readChunkDirect ::
  "'k os \<Rightarrow> 'k process_memory \<Rightarrow> addr \<Rightarrow> size_t \<Rightarrow>
     (bytes result \<times> 'k process_memory) option" where
  "readChunkDirect os st addr len =
     (case readv_loop os (d_kernel st) addr (unat len) [] of
        None \<Rightarrow> None
      | Some (Inr bs, k) \<Rightarrow> Some (Inr bs, st\<lparr>d_kernel := k\<rparr>)
      | Some (Inl errno, k) \<Rightarrow>
          Some (let st' = st\<lparr>d_kernel := k\<rparr> in
                if errno = EFAULT then (Inl InvalidRemoteAddress, st')
                else if errno = EPERM then (Inl (RuntimeError PERM_MESSAGE), st')
                else if errno = ENOSYS then readChunkThroughMemFile os st' addr len
                else (Inl (SystemError errno), st')))"

definition readChunk ::
  "'k os \<Rightarrow> 'k process_memory \<Rightarrow> addr \<Rightarrow> size_t \<Rightarrow>
     (bytes result \<times> 'k process_memory) option" where
  "readChunk os st addr len =
     (if d_memfile st \<or> no_process_vm_readv os then Some (readChunkThroughMemFile os st addr len)
      else readChunkDirect os st addr len)"

text \<open>
  The end of \<open>copyMemoryFromProcess\<close>: \<open>memcpy\<close> from the cached chunk. Reading past the end of
  the chunk is undefined behaviour.
\<close>

definition copy_from_cache ::
  "'k process_memory \<Rightarrow> addr \<Rightarrow> size_t \<Rightarrow> size_t \<Rightarrow> bytes result \<times> 'k process_memory" where
  "copy_from_cache st key offset_addr len =
     (case lru_get (d_lru_cache st) key of
        Inl e \<Rightarrow> (Inl e, st)
      | Inr (chunk, c) \<Rightarrow>
          (if unat offset_addr + unat len \<le> length chunk
           then Inr (block (unat offset_addr) (unat len) chunk) else Inl Undefined,
           st\<lparr>d_lru_cache := c\<rparr>))"

definition copyMemoryFromProcess ::
  "'k os \<Rightarrow> 'k process_memory \<Rightarrow> addr \<Rightarrow> size_t \<Rightarrow>
     (bytes result \<times> 'k process_memory) option" where
  "copyMemoryFromProcess os st addr len =
     (case List.find (\<lambda>m. containsAddr m addr \<and> containsAddr m (addr + len - 1)) (d_vmaps st) of
        None \<Rightarrow> readChunk os st addr len
      | Some vmap \<Rightarrow>
          if \<not> can_fit (d_lru_cache st) (map_Size vmap) then readChunk os st addr len
          else
            let key = d_start vmap; offset_addr = addr - d_start vmap in
            if \<not> lru_exists (d_lru_cache st) key then
              (case readChunk os st (d_start vmap) (map_Size vmap) of
                 None \<Rightarrow> None
               | Some (Inl e, st1) \<Rightarrow>
                   if e = InvalidRemoteAddress then readChunk os st1 addr len
                   else Some (Inl e, st1)
               | Some (Inr buf, st1) \<Rightarrow>
                   (case lru_put (d_lru_cache st1) key buf of
                      Inl e \<Rightarrow> Some (Inl e, st1)
                    | Inr c \<Rightarrow>
                        Some (copy_from_cache (st1\<lparr>d_lru_cache := c\<rparr>) key offset_addr len)))
            else Some (copy_from_cache st key offset_addr len))"

definition isAddressValid :: "addr \<Rightarrow> virtual_map \<Rightarrow> bool" where
  "isAddressValid addr m \<longleftrightarrow> addr \<noteq> 0 \<and> d_start m \<le> addr \<and> addr < d_end m"

section \<open>The length of a copy\<close>

text \<open>Whatever the kernel answers, a successful copy has the requested length.\<close>

lemma readv_loop_length:
  assumes "readv_loop os k addr len got = Some r"
  shows "length got \<le> len \<longrightarrow> (\<forall>bs. fst r = Inr bs \<longrightarrow> length bs = len)"
  using assms
proof (rule readv_loop.raw_induct [where P = "\<lambda>os k addr len got r.
    length got \<le> len \<longrightarrow> (\<forall>bs. fst r = Inr bs \<longrightarrow> length bs = len)", rotated])
  fix loop :: "'a os \<Rightarrow> 'a \<Rightarrow> addr \<Rightarrow> nat \<Rightarrow> bytes \<Rightarrow> ((nat + bytes) \<times> 'a) option"
    and os :: "'a os" and k :: 'a and addr :: addr and len :: nat and got :: bytes and r
  assume IH: "\<And>os k addr len got r. loop os k addr len got = Some r \<Longrightarrow>
      length got \<le> len \<longrightarrow> (\<forall>bs. fst r = Inr bs \<longrightarrow> length bs = len)"
    and body: "(case process_vm_readv os k (addr + of_nat (length got)) (len - length got) of
        (Inl errno, k') \<Rightarrow> Some (Inl errno, k')
      | (Inr bs, k') \<Rightarrow>
          (let read = take (len - length got) bs in
           if length read \<noteq> len - length got then loop os k' addr len (got @ read)
           else Some (Inr (got @ read), k'))) = Some r"
  obtain x k' where call: "process_vm_readv os k (addr + of_nat (length got)) (len - length got) = (x, k')"
    by fastforce
  show "length got \<le> len \<longrightarrow> (\<forall>bs. fst r = Inr bs \<longrightarrow> length bs = len)"
  proof (cases x)
    case (Inl errno)
    with body call show ?thesis by auto
  next
    case (Inr cs)
    let ?read = "take (len - length got) cs"
    show ?thesis
    proof (cases "length ?read = len - length got")
      case True
      with body call Inr show ?thesis by (auto simp: Let_def)
    next
      case False
      with body call Inr have "loop os k' addr len (got @ ?read) = Some r"
        by (simp only: Let_def prod.case sum.case if_True not_False_eq_True)
      note again = IH [OF this]
      show ?thesis
      proof
        assume "length got \<le> len"
        then have "length (got @ ?read) \<le> len" by simp
        with again show "\<forall>bs. fst r = Inr bs \<longrightarrow> length bs = len" by (rule mp)
      qed
    qed
  qed
qed

lemma readChunkThroughMemFile_length:
  "readChunkThroughMemFile os st addr len = (Inr bs, st') \<Longrightarrow> length bs = unat len"
  by (auto simp: readChunkThroughMemFile_def Let_def split: if_splits sum.splits prod.splits)

lemma readChunk_length:
  assumes "readChunk os st addr len = Some (Inr bs, st')"
  shows "length bs = unat len"
  using assms
  by (auto dest: readv_loop_length simp: readChunk_def readChunkDirect_def Let_def readChunkThroughMemFile_length
      split: if_splits option.splits sum.splits prod.splits)

lemma copy_from_cache_length:
  "copy_from_cache st key off len = (Inr bs, st') \<Longrightarrow> length bs = unat len"
  by (auto simp: copy_from_cache_def split: sum.splits prod.splits if_splits)

lemma copyMemoryFromProcess_length:
  assumes "copyMemoryFromProcess os st addr len = Some (Inr bs, st')"
  shows "length bs = unat len"
  using assms
  by (auto simp: copyMemoryFromProcess_def Let_def readChunk_length copy_from_cache_length
      split: option.splits if_splits sum.splits prod.splits)

section \<open>What the kernel promises\<close>

text \<open>
  The documented behaviour of the system calls on a stopped process that the tracer may read:
  \<open>process_vm_readv\<close> is not compiled in (\<open>ENOSYS\<close>), or fails with \<open>EFAULT\<close> when the range
  is not readable, or transfers at least one byte and at most the range; the memory file
  can be opened, its position can be set, and \<open>fread\<close> is short exactly when a byte of the range is
  not readable. (Positions beyond \<open>off_t\<close>, which only the kernel's \<open>vsyscall\<close> page has and which
  \<open>fseeko\<close> rejects, are left out.)
\<close>

definition serves :: "'k os \<Rightarrow> image \<Rightarrow> bool" where
  "serves os img \<longleftrightarrow>
     (\<forall>k a n. case fst (process_vm_readv os k a n) of
                Inl errno \<Rightarrow> errno = ENOSYS \<or> errno = EFAULT \<and> image_read img a n = None
              | Inr bs \<Rightarrow> length bs \<le> n \<and> (bs = [] \<longrightarrow> n = 0) \<and>
                          image_read img a (length bs) = Some bs) \<and>
     (\<forall>k. fst (open_memfile os k) = Inr ()) \<and>
     (\<forall>k a. fst (seek_memfile os k a) = a) \<and>
     (\<forall>k a n. case image_read img a n of
                Some bs \<Rightarrow> fst (fread_memfile os k a n) = bs
              | None \<Rightarrow> length (fst (fread_memfile os k a n)) < n)"

section \<open>Uncached reads return the process's bytes\<close>

lemma readv_loop_serves:
  assumes "serves os img" and "length got \<le> len"
    and "image_read img addr (length got) = Some got"
  shows "\<exists>r k'. readv_loop os k addr len got = Some (r, k') \<and>
           (case r of Inl errno \<Rightarrow> errno = ENOSYS \<or> errno = EFAULT \<and> image_read img addr len = None
                    | Inr bs \<Rightarrow> image_read img addr len = Some bs)"
  using assms(2,3)
proof (induction "len - length got" arbitrary: got k rule: less_induct)
  case less
  let ?a = "addr + of_nat (length got)" and ?n = "len - length got"
  obtain r k' where call: "process_vm_readv os k ?a ?n = (r, k')" by fastforce
  have all: "image_read img addr len = map_option ((@) got) (image_read img ?a ?n)"
    using image_read_append [OF less.prems(2), of ?n] less.prems(1) by simp
  have ok: "case fst (process_vm_readv os k ?a ?n) of
              Inl errno \<Rightarrow> errno = ENOSYS \<or> errno = EFAULT \<and> image_read img ?a ?n = None
            | Inr bs \<Rightarrow> length bs \<le> ?n \<and> (bs = [] \<longrightarrow> ?n = 0) \<and> image_read img ?a (length bs) = Some bs"
    using assms(1) unfolding serves_def by blast
  show ?case
  proof (cases r)
    case (Inl errno)
    with ok call all show ?thesis by (subst readv_loop.simps) auto
  next
    case (Inr bs)
    with ok call have bs: "length bs \<le> ?n" "bs = [] \<longrightarrow> ?n = 0" "image_read img ?a (length bs) = Some bs"
      by auto
    show ?thesis
    proof (cases "length bs = ?n")
      case True
      with bs call all Inr show ?thesis by (subst readv_loop.simps) (auto simp: Let_def)
    next
      case False
      have "image_read img addr (length (got @ bs)) = Some (got @ bs)"
        using image_read_append [OF less.prems(2), of "length bs"] bs(3) by simp
      moreover have "len - length (got @ bs) < ?n"
        using bs False by (cases bs) auto
      moreover have "length (got @ bs) \<le> len" using bs(1) less.prems(1) by simp
      ultimately obtain r'' k'' where "readv_loop os k' addr len (got @ bs) = Some (r'', k'')"
          "case r'' of Inl errno \<Rightarrow> errno = ENOSYS \<or> errno = EFAULT \<and> image_read img addr len = None
                     | Inr bs \<Rightarrow> image_read img addr len = Some bs"
        using less.hyps [of "got @ bs" k'] by blast
      then show ?thesis
        using call Inr False bs(1) by (subst readv_loop.simps) (auto simp: Let_def min_def)
    qed
  qed
qed

lemma readChunkThroughMemFile_serves:
  assumes "serves os img"
  shows "\<exists>st'. readChunkThroughMemFile os st addr len = (image_result img addr (unat len), st') \<and>
               d_lru_cache st' = d_lru_cache st \<and> d_vmaps st' = d_vmaps st"
proof -
  obtain k2 where k2: "(if d_memfile st then (Inr (), st)
         else case open_memfile os (d_kernel st) of
                (Inl errno, k) \<Rightarrow>
                  (if errno = EPERM \<or> errno = EACCES then Inl (RuntimeError PERM_MESSAGE)
                   else Inl (RuntimeError
                          (''Failed to open /proc/'' @ to_string (d_pid st) @ ''/mem'')),
                   st\<lparr>d_kernel := k\<rparr>)
              | (Inr _, k) \<Rightarrow> (Inr (), st\<lparr>d_memfile := True, d_kernel := k\<rparr>)) =
        (Inr (), st\<lparr>d_memfile := True, d_kernel := k2\<rparr>)"
  proof (cases "d_memfile st")
    case True
    then have "st = st\<lparr>d_memfile := True, d_kernel := d_kernel st\<rparr>" by simp
    with True that [of "d_kernel st"] show ?thesis by simp
  next
    case False
    have "fst (open_memfile os (d_kernel st)) = Inr ()" using assms by (simp add: serves_def)
    with False that show ?thesis by (cases "open_memfile os (d_kernel st)") auto
  qed
  obtain k3 where k3: "seek_memfile os k2 addr = (addr, k3)"
    using assms unfolding serves_def by (metis prod.collapse)
  obtain bs k4 where k4: "fread_memfile os k3 addr (unat len) = (bs, k4)" by fastforce
  have "case image_read img addr (unat len) of
          Some bs' \<Rightarrow> fst (fread_memfile os k3 addr (unat len)) = bs'
        | None \<Rightarrow> length (fst (fread_memfile os k3 addr (unat len))) < unat len"
    using assms unfolding serves_def by blast
  with k4 have "case image_read img addr (unat len) of Some bs' \<Rightarrow> bs = bs' | None \<Rightarrow> length bs < unat len"
    by (simp split: option.splits)
  moreover have "image_read img addr (unat len) = Some bs \<Longrightarrow> length bs = unat len"
    by (rule image_read_length)
  ultimately show ?thesis using k2 k3 k4
    unfolding readChunkThroughMemFile_def k2
    by (auto simp: Let_def image_result_def split: option.splits)
qed

lemma readChunk_serves:
  assumes "serves os img"
  shows "\<exists>st'. readChunk os st addr len = Some (image_result img addr (unat len), st') \<and>
               d_lru_cache st' = d_lru_cache st \<and> d_vmaps st' = d_vmaps st"
proof (cases "d_memfile st \<or> no_process_vm_readv os")
  case True
  with readChunkThroughMemFile_serves [OF assms] show ?thesis by (auto simp: readChunk_def)
next
  case False
  have "image_read img addr (length []) = Some []" by (simp add: image_read_def)
  with readv_loop_serves [OF assms, of "[]" "unat len" addr "d_kernel st"]
  obtain r k where r: "readv_loop os (d_kernel st) addr (unat len) [] = Some (r, k)"
      "case r of Inl errno \<Rightarrow> errno = ENOSYS \<or> errno = EFAULT \<and> image_read img addr (unat len) = None
               | Inr bs \<Rightarrow> image_read img addr (unat len) = Some bs"
    by auto
  show ?thesis
  proof (cases "r = Inl ENOSYS")
    case True
    with False r readChunkThroughMemFile_serves [OF assms, of "st\<lparr>d_kernel := k\<rparr>" addr len]
    show ?thesis by (auto simp: readChunk_def readChunkDirect_def Let_def)
  next
    case no: False
    with False r show ?thesis
      by (auto simp: readChunk_def readChunkDirect_def Let_def image_result_def split: sum.splits)
  qed
qed

section \<open>The cache is transparent\<close>

text \<open>
  Coherence: every cached chunk is the content of the mapping that starts at its key. Two
  mappings that start at the same address must be the same range.
\<close>

definition chunk_ok :: "image \<Rightarrow> virtual_map list \<Rightarrow> addr \<Rightarrow> bytes \<Rightarrow> bool" where
  "chunk_ok img vmaps key chunk \<longleftrightarrow>
     (\<forall>m \<in> set vmaps. d_start m = key \<longrightarrow> length chunk = unat (map_Size m)) \<and>
     image_read img key (length chunk) = Some chunk"

definition coherent :: "image \<Rightarrow> 'k process_memory \<Rightarrow> bool" where
  "coherent img st \<longleftrightarrow>
     lru_inv (d_lru_cache st) \<and> d_cache_capacity (d_lru_cache st) = CACHE_CAPACITY \<and>
     (\<forall>k v. d_cache (d_lru_cache st) k = Some v \<longrightarrow> chunk_ok img (d_vmaps st) k v)"

definition consistent_maps :: "virtual_map list \<Rightarrow> bool" where
  "consistent_maps vmaps \<longleftrightarrow>
     (\<forall>m \<in> set vmaps. \<forall>m' \<in> set vmaps. d_start m = d_start m' \<longrightarrow> d_end m = d_end m')"

lemma coherent_new: "coherent img (process_memory_new pid vmaps k)"
  by (simp add: coherent_def process_memory_new_def lru_inv_new CACHE_CAPACITY_def)
     (simp add: lru_new_def)

lemma coherent_same_cache:
  "coherent img st \<Longrightarrow> d_lru_cache st' = d_lru_cache st \<Longrightarrow> d_vmaps st' = d_vmaps st \<Longrightarrow>
     coherent img st'"
  by (simp add: coherent_def)

lemma can_fit_capacity: "can_fit c' = can_fit c \<Longrightarrow> d_cache_capacity c' = d_cache_capacity c"
  by (auto simp: can_fit_def fun_eq_iff dest: antisym)

text \<open>What \<open>memcpy\<close> copies out of a coherent chunk.\<close>

lemma chunk_slice:
  assumes ok: "chunk_ok img vmaps (d_start m) chunk" and m: "m \<in> set vmaps"
    and first: "containsAddr m addr" and last: "containsAddr m (addr + len - 1)"
    and ne: "len \<noteq> 0" and no_wrap: "unat addr + unat len \<le> 2 ^ 64"
  shows "unat (addr - d_start m) + unat len \<le> length chunk"
    and "image_read img addr (unat len) = Some (block (unat (addr - d_start m)) (unat len) chunk)"
proof -
  have len: "length chunk = unat (map_Size m)"
    and img: "image_read img (d_start m) (length chunk) = Some chunk"
    using ok m by (auto simp: chunk_ok_def)
  show le: "unat (addr - d_start m) + unat len \<le> length chunk"
    using containsAddr_block [OF first last ne no_wrap] len by simp
  have "addr = d_start m + of_nat (unat (addr - d_start m))" by simp
  with image_read_block [OF img le]
  show "image_read img addr (unat len) = Some (block (unat (addr - d_start m)) (unat len) chunk)"
    by simp
qed

lemma copy_from_cache_coherent:
  assumes coh: "coherent img st" and hit: "lru_exists (d_lru_cache st) (d_start m)"
    and m: "m \<in> set (d_vmaps st)"
    and range: "containsAddr m addr" "containsAddr m (addr + len - 1)" "len \<noteq> 0"
      "unat addr + unat len \<le> 2 ^ 64"
  shows "\<exists>st'. copy_from_cache st (d_start m) (addr - d_start m) len =
                 (image_result img addr (unat len), st') \<and>
               coherent img st' \<and> d_vmaps st' = d_vmaps st"
proof -
  have "lru_inv (d_lru_cache st)" "\<forall>k v. d_cache (d_lru_cache st) k = Some v \<longrightarrow> chunk_ok img (d_vmaps st) k v"
    using coh by (simp_all add: coherent_def)
  from lru.hit_get [OF this(1) hit this(2)]
  obtain v c' where get: "lru_get (d_lru_cache st) (d_start m) = Inr (v, c')"
    and ok: "chunk_ok img (d_vmaps st) (d_start m) v" and c': "lru_inv c'"
      "can_fit c' = can_fit (d_lru_cache st)"
      "\<forall>k v. d_cache c' k = Some v \<longrightarrow> chunk_ok img (d_vmaps st) k v" by blast
  have "coherent img (st\<lparr>d_lru_cache := c'\<rparr>)"
    using coh c' can_fit_capacity [OF c'(2)] by (simp add: coherent_def)
  with get chunk_slice [OF ok m range] show ?thesis
    by (simp add: copy_from_cache_def image_result_def)
qed

lemma map_Size_le_vector_max:
  assumes "coherent img st" and "can_fit (d_lru_cache st) (map_Size m)"
  shows "unat (map_Size m) \<le> vector_max"
  using assms by (simp add: coherent_def can_fit_def CACHE_CAPACITY_def word_order vector_max_def)

lemma coherent_fill:
  assumes coh: "coherent img st" and maps: "consistent_maps (d_vmaps st)"
    and m: "m \<in> set (d_vmaps st)" and fit: "can_fit (d_lru_cache st) (map_Size m)"
    and new: "\<not> lru_exists (d_lru_cache st) (d_start m)"
    and img: "image_read img (d_start m) (unat (map_Size m)) = Some buf"
  shows "\<exists>c. lru_put (d_lru_cache st) (d_start m) buf = Inr c \<and>
             coherent img (st\<lparr>d_lru_cache := c\<rparr>) \<and> lru_exists c (d_start m)"
proof -
  have len: "length buf = unat (map_Size m)" using img by (rule image_read_length)
  have ok: "chunk_ok img (d_vmaps st) (d_start m) buf"
    unfolding chunk_ok_def
  proof (intro conjI ballI impI)
    fix m' assume "m' \<in> set (d_vmaps st)" "d_start m' = d_start m"
    moreover from this have "d_end m' = d_end m" using maps m unfolding consistent_maps_def by metis
    ultimately show "length buf = unat (map_Size m')" using len by (simp add: map_Size_def)
  qed (use img len in simp)
  have inv: "lru_inv (d_lru_cache st)" using coh by (simp add: coherent_def)
  have short: "length buf \<le> vector_max" using map_Size_le_vector_max [OF coh fit] len by simp
  have fit': "can_fit (d_lru_cache st) (of_nat (length buf))" using fit len by simp
  obtain c where c: "lru_put (d_lru_cache st) (d_start m) buf = Inr c" "lru_inv c"
      "d_cache c (d_start m) = Some buf"
      "d_cache c \<subseteq>\<^sub>m (d_cache (d_lru_cache st))(d_start m \<mapsto> buf)" "can_fit c = can_fit (d_lru_cache st)"
    using lru.put_absent [OF inv new short fit'] by blast
  have "chunk_ok img (d_vmaps st) k v" if "d_cache c k = Some v" for k v
  proof -
    have "((d_cache (d_lru_cache st))(d_start m \<mapsto> buf)) k = Some v"
      using c(4) that by (metis domI map_le_def)
    then show ?thesis using ok coh by (auto simp: coherent_def split: if_splits)
  qed
  with c coh can_fit_capacity [OF c(5)] show ?thesis
    by (auto simp: coherent_def lru_exists_def)
qed

text \<open>
  The cache is transparent: on a stopped process, from any coherent state (such as
  the initial one), a copy returns, its result is exactly the process's bytes at the requested range
  or \<open>InvalidRemoteAddress\<close> when one of them is not readable, and the state stays coherent. So
  neither the cache, nor the eviction, nor the fallbacks to \<open>/proc/PID/mem\<close> and to the uncached
  read can be observed.
\<close>

theorem copy_returns_process_memory:
  assumes serves: "serves os img" and coh: "coherent img st"
    and maps: "consistent_maps (d_vmaps st)"
    and ne: "len \<noteq> 0" and no_wrap: "unat addr + unat len \<le> 2 ^ 64"
  shows "\<exists>st'. copyMemoryFromProcess os st addr len =
                 Some (image_result img addr (unat len), st') \<and>
               coherent img st' \<and> d_vmaps st' = d_vmaps st"
proof -
  have direct: "\<exists>st2. readChunk os st1 addr len = Some (image_result img addr (unat len), st2) \<and>
                  coherent img st2 \<and> d_vmaps st2 = d_vmaps st"
    if "coherent img st1" "d_vmaps st1 = d_vmaps st" for st1
    using readChunk_serves [OF serves, of st1 addr len] that coherent_same_cache by metis
  show ?thesis
  proof (cases "List.find (\<lambda>m. containsAddr m addr \<and> containsAddr m (addr + len - 1)) (d_vmaps st)")
    case None
    with direct [OF coh] show ?thesis by (simp add: copyMemoryFromProcess_def)
  next
    case found: (Some m)
    then have m: "m \<in> set (d_vmaps st)" and range: "containsAddr m addr" "containsAddr m (addr + len - 1)"
      by (auto dest: find_SomeD)
    show ?thesis
    proof (cases "can_fit (d_lru_cache st) (map_Size m)")
      case False
      with found direct [OF coh] show ?thesis by (simp add: copyMemoryFromProcess_def)
    next
      case fit: True
      show ?thesis
      proof (cases "lru_exists (d_lru_cache st) (d_start m)")
        case True
        with copy_from_cache_coherent [OF coh this m range ne no_wrap] found fit
        show ?thesis by (auto simp: copyMemoryFromProcess_def Let_def)
      next
        case new: False
        obtain st1 where st1: "readChunk os st (d_start m) (map_Size m) =
              Some (image_result img (d_start m) (unat (map_Size m)), st1)"
            "d_lru_cache st1 = d_lru_cache st" "d_vmaps st1 = d_vmaps st"
          using readChunk_serves [OF serves] by blast
        then have coh1: "coherent img st1" using coh coherent_same_cache by metis
        show ?thesis
        proof (cases "image_read img (d_start m) (unat (map_Size m))")
          case None
          with found fit new st1 direct [OF coh1] show ?thesis
            by (auto simp: copyMemoryFromProcess_def Let_def image_result_def)
        next
          case (Some buf)
          then obtain c where c: "lru_put (d_lru_cache st1) (d_start m) buf = Inr c"
              "coherent img (st1\<lparr>d_lru_cache := c\<rparr>)" "lru_exists c (d_start m)"
            using coherent_fill [OF coh1, of m buf] maps m fit new st1 by auto
          then have "\<exists>st'. copy_from_cache (st1\<lparr>d_lru_cache := c\<rparr>) (d_start m) (addr - d_start m) len =
                 (image_result img addr (unat len), st') \<and> coherent img st' \<and> d_vmaps st' = d_vmaps st"
            using copy_from_cache_coherent [OF c(2), of m addr len] m st1(3) range ne no_wrap by auto
          with found fit new st1 c(1) Some show ?thesis
            by (auto simp: copyMemoryFromProcess_def Let_def image_result_def)
        qed
      qed
    qed
  qed
qed

text \<open>A sequence of copies, each from the state the previous one left; \<open>None\<close> if one never returns.\<close>

fun copies :: "'k os \<Rightarrow> 'k process_memory \<Rightarrow> (addr \<times> size_t) list \<Rightarrow>
    (bytes result list \<times> 'k process_memory) option" where
  "copies os st [] = Some ([], st)"
| "copies os st ((addr, len) # reqs) =
     (case copyMemoryFromProcess os st addr len of None \<Rightarrow> None
      | Some (r, st1) \<Rightarrow>
          (case copies os st1 reqs of None \<Rightarrow> None | Some (rs, st2) \<Rightarrow> Some (r # rs, st2)))"

lemma copies_coherent:
  assumes "serves os img" and "coherent img st" and "consistent_maps (d_vmaps st)"
    and "\<forall>(addr, len) \<in> set reqs. len \<noteq> 0 \<and> unat addr + unat len \<le> 2 ^ 64"
  shows "\<exists>st'. copies os st reqs =
           Some (map (\<lambda>(addr, len). image_result img addr (unat len)) reqs, st') \<and> coherent img st'"
  using assms(2-)
proof (induction reqs arbitrary: st)
  case (Cons req reqs)
  obtain addr len where req: "req = (addr, len)" by (cases req)
  obtain st1 where st1: "copyMemoryFromProcess os st addr len = Some (image_result img addr (unat len), st1)"
      "coherent img st1" "d_vmaps st1 = d_vmaps st"
    using copy_returns_process_memory [OF assms(1), of st len addr] Cons.prems req by auto
  with Cons.IH [of st1] Cons.prems req show ?case by auto
qed simp

text \<open>
  Property C1. A manager for a stopped process returns exactly the bytes of the process, whatever is read
  in whatever order: every copy of a sequence returns, its result is the content of the requested range or
  \<open>InvalidRemoteAddress\<close> when a byte of it is not readable, and neither the cache nor its eviction nor the
  fallbacks to \<open>/proc/PID/mem\<close> and to the uncached read can be observed.
\<close>

theorem copies_return_process_memory:
  assumes "serves os img" and "consistent_maps maps"
    and "\<forall>(addr, len) \<in> set reqs. len \<noteq> 0 \<and> unat addr + unat len \<le> 2 ^ 64"
  shows "map_option fst (copies os (process_memory_new pid maps k) reqs) =
           Some (map (\<lambda>(addr, len). image_result img addr (unat len)) reqs)"
proof -
  have "d_vmaps (process_memory_new pid maps k) = maps" by (simp add: process_memory_new_def)
  with copies_coherent [OF assms(1) coherent_new, of pid maps k reqs] assms show ?thesis by auto
qed

text \<open>A kernel that serves an image through \<open>process_vm_readv\<close>, and a small process image.\<close>

definition os_of_image :: "image \<Rightarrow> unit os" where
  "os_of_image img =
     \<lparr>process_vm_readv = (\<lambda>k a n. (case image_read img a n of None \<Rightarrow> Inl EFAULT | Some bs \<Rightarrow> Inr bs, k)),
      open_memfile = (\<lambda>k. (Inr (), k)), seek_memfile = (\<lambda>k a. (a, k)),
      fread_memfile = (\<lambda>k a n. (case image_read img a n of None \<Rightarrow> [] | Some bs \<Rightarrow> bs, k)),
      no_process_vm_readv = False\<rparr>"

lemma os_of_image_serves: "serves (os_of_image img) img"
proof -
  have zero: "image_read img a 0 = Some []" for a by (simp add: image_read_def)
  have "image_read img a n = None \<Longrightarrow> 0 < n" for a n using zero by (cases n) auto
  then show ?thesis
    by (auto simp: serves_def os_of_image_def split: option.splits) (auto dest: image_read_length)
qed

definition example_image :: image where
  "example_image a = (if 4096 \<le> a \<and> a < 4100 then Some (ucast a + 1) else None)"

definition example_map :: virtual_map where
  "example_map = virtual_map_new 4096 4100 0 ''r--p'' 0 ''00:00'' 0 ''''"

theorem copies_return_process_memory_witness:
  "map_option fst (copies (os_of_image example_image) (process_memory_new 7 [example_map] ())
       [(4097, 2), (4096, 1), (4099, 2), (4097, 2)]) =
     Some [Inr [2, 3], Inr [1], Inl InvalidRemoteAddress, Inr [2, 3]]"
proof -
  let ?reqs = "[(4097, 2), (4096, 1), (4099, 2), (4097, 2)] :: (addr \<times> size_t) list"
  have maps: "consistent_maps [example_map]" by (simp add: consistent_maps_def)
  have "\<forall>(addr, len) \<in> set ?reqs. len \<noteq> 0 \<and> unat addr + unat len \<le> 2 ^ 64" by simp
  note served = copies_return_process_memory [OF os_of_image_serves maps this, of example_image 7 "()"]
  have "map (\<lambda>(addr, len). image_result example_image addr (unat len)) ?reqs =
      [Inr [2, 3], Inr [1], Inl InvalidRemoteAddress, Inr [2, 3]]"
    by (simp add: image_result_def image_read_def example_image_def upt_rec)
  with served show ?thesis by (simp only:)
qed

section \<open>The live manager as a remote memory\<close>

text \<open>
  The manager seen by the rest of the code: the result of a copy from a given state. A read that
  never returns has no result; the remote-memory contract holds whatever the kernel does.
\<close>

definition live_copy :: "'k os \<Rightarrow> 'k process_memory \<Rightarrow> copier" where
  "live_copy os st addr len =
     (case copyMemoryFromProcess os st addr len of None \<Rightarrow> Inl Undefined | Some (r, _) \<Rightarrow> r)"

interpretation live: remote_memory "live_copy os st" for os st
  by unfold_locales
     (auto simp: live_copy_def copyMemoryFromProcess_length split: option.splits)

end
