(* ===== verification/Regexps.thy ===== *)
theory Regexps
  imports Prelude
begin

text \<open>
  Regular expressions as \<open>std::regex\<close> matches them (the ECMAScript grammar): an expression yields its
  matches of a prefix in the order in which a backtracking matcher tries them, each with what it
  captures and what is left. \<open>regex_match\<close> takes the first match of the whole text, \<open>regex_search\<close>
  the first match at the leftmost position. Also the conversions of captured digits.
\<close>

section \<open>Expressions\<close>

type_synonym 'a rx = "string \<Rightarrow> ('a \<times> string) list"

definition rx_return :: "'a \<Rightarrow> 'a rx" where
  "rx_return x s = [(x, s)]"

definition rx_then :: "'a rx \<Rightarrow> ('a \<Rightarrow> 'b rx) \<Rightarrow> 'b rx" where
  "rx_then p f s = concat (map (\<lambda>(x, rest). f x rest) (p s))"

definition rx_alt :: "'a rx \<Rightarrow> 'a rx \<Rightarrow> 'a rx" where
  "rx_alt p q s = p s @ q s"

text \<open>A greedy optional group captures nothing when it is skipped.\<close>

definition rx_opt :: "string rx \<Rightarrow> string rx" where
  "rx_opt p = rx_alt p (rx_return '''')"

definition rx_lit :: "string \<Rightarrow> string rx" where
  "rx_lit l s = (if take (length l) s = l then [(l, drop (length l) s)] else [])"

text \<open>Greedy repetition of a character class, at least \<open>lo\<close> and at most \<open>hi\<close> times.\<close>

definition rx_class :: "(char \<Rightarrow> bool) \<Rightarrow> nat \<Rightarrow> nat option \<Rightarrow> string rx" where
  "rx_class P lo hi s =
     (let run = length (takeWhile P s);
          most = (case hi of None \<Rightarrow> run | Some h \<Rightarrow> min h run) in
      map (\<lambda>k. (take k s, drop k s)) (rev [lo..<Suc most]))"

definition regex_match :: "'a rx \<Rightarrow> string \<Rightarrow> 'a option" where
  "regex_match p s = map_option fst (List.find (\<lambda>(_, rest). rest = []) (p s))"

fun regex_search :: "'a rx \<Rightarrow> string \<Rightarrow> 'a option" where
  "regex_search p s =
     (case p s of
        (x, _) # _ \<Rightarrow> Some x
      | [] \<Rightarrow> (case s of [] \<Rightarrow> None | _ # t \<Rightarrow> regex_search p t))"

declare regex_search.simps [simp del]

section \<open>Character classes\<close>

definition is_digit :: "char \<Rightarrow> bool" where
  "is_digit c \<longleftrightarrow> 48 \<le> (of_char c :: nat) \<and> (of_char c :: nat) \<le> 57"

definition is_hex :: "char \<Rightarrow> bool" where
  "is_hex c \<longleftrightarrow> is_digit c \<or> 97 \<le> (of_char c :: nat) \<and> (of_char c :: nat) \<le> 102"

text \<open>\<open>\s\<close>: space, tab, newline, vertical tab, form feed and carriage return.\<close>

definition is_blank :: "char \<Rightarrow> bool" where
  "is_blank c \<longleftrightarrow> (of_char c :: nat) = 32 \<or> 9 \<le> (of_char c :: nat) \<and> (of_char c :: nat) \<le> 13"

text \<open>\<open>.\<close> matches every character but the line terminators.\<close>

definition is_any :: "char \<Rightarrow> bool" where
  "is_any c \<longleftrightarrow> c \<noteq> CHR 0x0A \<and> c \<noteq> CHR 0x0D"

section \<open>Numbers\<close>

text \<open>
  \<open>std::stoul\<close> and \<open>std::stoull\<close> of captured digits, and \<open>std::stoi\<close>, raise \<open>std::out_of_range\<close> when the
  number does not fit.
\<close>

definition digit_value :: "char \<Rightarrow> nat" where
  "digit_value c = (if is_digit c then of_char c - 48 else of_char c - 87)"

definition number_value :: "nat \<Rightarrow> string \<Rightarrow> nat" where
  "number_value base s = foldl (\<lambda>v c. v * base + digit_value c) 0 s"

definition stoull :: "nat \<Rightarrow> string \<Rightarrow> 64 word result" where
  "stoull base s = (if number_value base s < 2 ^ 64 then Inr (of_nat (number_value base s)) else Inl OutOfRange)"

definition stoi_digits :: "string \<Rightarrow> int result" where
  "stoi_digits s = (if number_value 10 s < 2 ^ 31 then Inr (int (number_value 10 s)) else Inl OutOfRange)"

text \<open>
  \<open>std::stoi\<close> of any text: blanks and a sign may precede the digits, anything may follow them; without
  digits \<open>std::invalid_argument\<close> is raised.
\<close>

definition stoi :: "string \<Rightarrow> int result" where
  "stoi s =
     (let t = dropWhile is_blank s;
          neg = (t \<noteq> [] \<and> hd t = CHR ''-'');
          u = (if t \<noteq> [] \<and> hd t \<in> {CHR ''-'', CHR ''+''} then tl t else t);
          digits = takeWhile is_digit u;
          v = (if neg then - int (number_value 10 digits) else int (number_value 10 digits)) in
      if digits = [] then Inl InvalidArgument
      else if - (2 ^ 31) \<le> v \<and> v < 2 ^ 31 then Inr v else Inl OutOfRange)"

section \<open>The first match\<close>

text \<open>
  \<open>begins p s x rest\<close>: the first thing a backtracking matcher tries succeeds. Greedy expressions are
  composed of such first matches.
\<close>

definition begins :: "'a rx \<Rightarrow> string \<Rightarrow> 'a \<Rightarrow> string \<Rightarrow> bool" where
  "begins p s x rest \<longleftrightarrow> (\<exists>more. p s = (x, rest) # more)"

lemma begins_return: "begins (rx_return x) s x s"
  by (simp add: begins_def rx_return_def)

lemma begins_then: "begins p s x t \<Longrightarrow> begins (f x) t y r \<Longrightarrow> begins (rx_then p f) s y r"
  by (auto simp: begins_def rx_then_def)

lemma begins_alt: "begins p s x r \<Longrightarrow> begins (rx_alt p q) s x r"
  by (auto simp: begins_def rx_alt_def)

lemma begins_opt: "begins p s x r \<Longrightarrow> begins (rx_opt p) s x r"
  unfolding rx_opt_def by (rule begins_alt)

lemma begins_lit: "begins (rx_lit l) (l @ r) l r"
  by (simp add: begins_def rx_lit_def)

lemma takeWhile_run: "\<forall>c \<in> set xs. P c \<Longrightarrow> r = [] \<or> \<not> P (hd r) \<Longrightarrow> takeWhile P (xs @ r) = xs"
  by (induction xs) (auto simp: takeWhile_eq_Nil_iff)

lemma begins_class:
  assumes "\<forall>c \<in> set xs. P c" "r = [] \<or> \<not> P (hd r)" "lo \<le> length xs"
  shows "begins (rx_class P lo None) (xs @ r) xs r"
proof -
  have "takeWhile P (xs @ r) = xs" using assms by (intro takeWhile_run)
  then show ?thesis using assms(3) unfolding begins_def rx_class_def by (simp only: Let_def) simp
qed

lemma begins_class_exact:
  assumes "\<forall>c \<in> set xs. P c" "length xs = n"
  shows "begins (rx_class P n (Some n)) (xs @ r) xs r"
proof -
  have "takeWhile P (xs @ r) = xs @ takeWhile P r" using assms(1) by (simp add: takeWhile_append2)
  with assms(2) show ?thesis by (simp add: begins_def rx_class_def)
qed

lemma regex_match_begins: "begins p s x [] \<Longrightarrow> regex_match p s = Some x"
  by (auto simp: begins_def regex_match_def)

lemma regex_search_begins: "begins p s x r \<Longrightarrow> regex_search p s = Some x"
  by (subst regex_search.simps) (auto simp: begins_def)

section \<open>Numerals\<close>

lemma number_value_snoc: "number_value base (s @ [c]) = number_value base s * base + digit_value c"
  by (simp add: number_value_def)

lemma number_value_zeros: "number_value base (replicate k CHR ''0'' @ s) = number_value base s"
  by (induction k) (simp_all add: number_value_def digit_value_def is_digit_def)

lemma digit_char: "n < 10 \<Longrightarrow> is_digit (char_of (48 + n)) \<and> digit_value (char_of (48 + n)) = n"
  by (simp add: is_digit_def digit_value_def)

lemma to_string_value: "number_value 10 (to_string n) = n"
proof (induction n rule: to_string.induct)
  case (1 n)
  show ?case
  proof (cases "n < 10")
    case True
    then show ?thesis using digit_char [of n]
      by (subst to_string.simps) (simp add: number_value_def)
  next
    case False
    with 1 have "number_value 10 (to_string (n div 10)) = n div 10" by simp
    with False digit_char [of "n mod 10"] show ?thesis
      by (subst to_string.simps) (simp add: number_value_snoc)
  qed
qed

lemma to_string_digits: "c \<in> set (to_string n) \<Longrightarrow> is_digit c"
proof (induction n rule: to_string.induct)
  case (1 n)
  then show ?case
    using digit_char [of n] digit_char [of "n mod 10"]
    by (subst (asm) to_string.simps) (auto split: if_splits)
qed

lemma to_string_nonempty [simp]: "to_string n \<noteq> []"
  by (subst to_string.simps) simp

definition hex_digits :: string where "hex_digits = ''0123456789abcdef''"

lemma hex_char: "n < 16 \<Longrightarrow> is_hex (hex_digits ! n) \<and> digit_value (hex_digits ! n) = n"
proof -
  assume "n < 16"
  moreover have "list_all (\<lambda>k. is_hex (hex_digits ! k) \<and> digit_value (hex_digits ! k) = k) [0..<16]"
    by (simp add: upt_conv_Cons hex_digits_def is_hex_def is_digit_def digit_value_def)
  ultimately show ?thesis by (simp add: list_all_iff)
qed

lemma to_hex_value: "number_value 16 (to_hex n) = n"
proof (induction n rule: to_hex.induct)
  case (1 n)
  show ?case
  proof (cases "n < 16")
    case True
    then show ?thesis using hex_char [of n]
      by (subst to_hex.simps) (simp add: number_value_def hex_digits_def)
  next
    case False
    with 1 have "number_value 16 (to_hex (n div 16)) = n div 16" by simp
    with False hex_char [of "n mod 16"] show ?thesis
      by (subst to_hex.simps) (simp add: number_value_snoc hex_digits_def)
  qed
qed

lemma to_hex_digits: "c \<in> set (to_hex n) \<Longrightarrow> is_hex c"
proof (induction n rule: to_hex.induct)
  case (1 n)
  then show ?case
    using hex_char [of n] hex_char [of "n mod 16"]
    by (subst (asm) to_hex.simps) (auto simp: hex_digits_def split: if_splits)
qed

lemma to_hex_nonempty [simp]: "to_hex n \<noteq> []"
  by (subst to_hex.simps) simp

lemma stoull_number: "number_value base s = n \<Longrightarrow> n < 2 ^ 64 \<Longrightarrow> stoull base s = Inr (of_nat n)"
  by (simp add: stoull_def)

end
