(* ===== verification/Process_Tracer.thy ===== *)
theory Process_Tracer
  imports Memory_Manager Regexps
begin

text \<open>
  Stopping the threads of a process (\<open>ProcessTracer\<close> in \<open>process.cpp\<close>): the threads are listed and
  attached to until a listing brings no new one. The answers of the kernel are parameters; what it keeps
  of them, the threads that are being traced, is part of the state, so that the properties can say which
  threads stay stopped.
\<close>

section \<open>State and operations\<close>

text \<open>
  The answers in pass \<open>k\<close> of the loop: the files of the task directory (\<open>None\<close> when it cannot be read),
  and the errors of \<open>ptrace\<close> and \<open>waitpid\<close> for a thread (0 for none).
\<close>

record ptrace_env =
  task_files :: "nat \<Rightarrow> string list option"
  attach_error :: "nat \<Rightarrow> int \<Rightarrow> nat"
  wait_error :: "nat \<Rightarrow> int \<Rightarrow> nat"

record tracer =
  tracer_tids :: "int list"
  error_by_tid :: "int \<rightharpoonup> nat"
  traced :: "int set"

definition task_path :: "int \<Rightarrow> string" where
  "task_path pid = ''/proc/'' @ to_string_int pid @ ''/task''"

definition reader_files :: "string list \<Rightarrow> string list" where
  "reader_files entries = filter (\<lambda>f. f \<noteq> ''.'' \<and> f \<noteq> ''..'') entries"

definition getProcessTids :: "int \<Rightarrow> string list option \<Rightarrow> int list result" where
  "getProcessTids pid entries =
     (case entries of
        None \<Rightarrow> Inl (RuntimeError (''Could not read the contents of '' @ task_path pid))
      | Some fs \<Rightarrow> rmap stoi (reader_files fs))"

text \<open>
  \<open>detachFromProcess\<close> does not look at the results of \<open>PTRACE_DETACH\<close>. The call succeeds for a thread
  that is stopped and fails for one that is gone; the model takes it that no thread of the set is traced
  afterwards.
\<close>

definition detachFromProcess :: "tracer \<Rightarrow> tracer" where
  "detachFromProcess tr = tr\<lparr>traced := traced tr - set (tracer_tids tr)\<rparr>"

abbreviation ECHILD :: nat where "ECHILD \<equiv> 10"

text \<open>
  One pass over the listed threads, with whether a new thread was found. The errors come with the state
  in which they are raised.
\<close>

definition attach_thread :: "ptrace_env \<Rightarrow> int \<Rightarrow> nat \<Rightarrow> tracer \<Rightarrow> int \<Rightarrow> tracer" where
  "attach_thread env pid k tr t =
     (if attach_error env k t \<noteq> 0 then tr\<lparr>error_by_tid := (error_by_tid tr)(t \<mapsto> attach_error env k t)\<rparr>
      else
        let tr' = tr\<lparr>tracer_tids := tracer_tids tr @ [t], traced := insert t (traced tr)\<rparr> in
        if wait_error env k t \<noteq> 0 \<and> (t = pid \<or> wait_error env k t \<noteq> ECHILD) then detachFromProcess tr'
        else tr')"

fun attach_tids ::
  "ptrace_env \<Rightarrow> int \<Rightarrow> nat \<Rightarrow> tracer \<Rightarrow> bool \<Rightarrow> int list \<Rightarrow> (error \<times> tracer) + (bool \<times> tracer)" where
  "attach_tids env pid k tr found [] = Inr (found, tr)"
| "attach_tids env pid k tr found (t # ts) =
     (if t \<in> set (tracer_tids tr) then attach_tids env pid k tr found ts
      else
        case error_by_tid tr t of
          Some errno \<Rightarrow>
            Inl (if errno = EPERM then RuntimeError PERM_MESSAGE else SystemError errno, detachFromProcess tr)
        | None \<Rightarrow> attach_tids env pid k (attach_thread env pid k tr t) True ts)"

text \<open>The constructor. \<open>None\<close>: new threads appear in every pass.\<close>

partial_function (option) tracer_loop ::
  "ptrace_env \<Rightarrow> int \<Rightarrow> nat \<Rightarrow> tracer \<Rightarrow> ((error \<times> tracer) + tracer) option" where
  "tracer_loop env pid k tr =
     (case getProcessTids pid (task_files env k) of
        Inl e \<Rightarrow> Some (Inl (e, tr))
      | Inr tids \<Rightarrow>
          (case attach_tids env pid k tr False tids of
             Inl (e, tr') \<Rightarrow> Some (Inl (e, tr'))
           | Inr (found_new_tid, tr') \<Rightarrow>
               if found_new_tid then tracer_loop env pid (Suc k) tr' else Some (Inr tr')))"

definition no_threads :: tracer where
  "no_threads = \<lparr>tracer_tids = [], error_by_tid = Map.empty, traced = {}\<rparr>"

definition tracer_new :: "ptrace_env \<Rightarrow> int \<Rightarrow> ((error \<times> tracer) + tracer) option" where
  "tracer_new env pid = tracer_loop env pid 0 no_threads"

definition getTids :: "tracer \<Rightarrow> int list" where
  "getTids tr = tracer_tids tr"

text \<open>The destructor.\<close>

definition tracer_destroy :: "tracer \<Rightarrow> tracer" where
  "tracer_destroy tr = detachFromProcess tr"

section \<open>The passes as steps\<close>

inductive tracer_pass :: "ptrace_env \<Rightarrow> int \<Rightarrow> nat \<times> tracer \<Rightarrow> nat \<times> tracer \<Rightarrow> bool" for env pid where
  pass: "getProcessTids pid (task_files env k) = Inr tids \<Longrightarrow> attach_tids env pid k tr False tids = Inr (True, tr') \<Longrightarrow>
     tracer_pass env pid (k, tr) (Suc k, tr')"

inductive_cases tracer_passE: "tracer_pass env pid (k, tr) s"

inductive tracer_reached :: "ptrace_env \<Rightarrow> int \<Rightarrow> nat \<Rightarrow> tracer \<Rightarrow> bool" for env pid where
  start: "tracer_reached env pid 0 no_threads"
| step: "tracer_reached env pid k tr \<Longrightarrow> tracer_pass env pid (k, tr) (k', tr') \<Longrightarrow> tracer_reached env pid k' tr'"

text \<open>
  The invariant: only threads in the set of the tracer are traced, each is in it once, and none of them
  could not be attached to.
\<close>

definition tracer_inv :: "tracer \<Rightarrow> bool" where
  "tracer_inv tr \<longleftrightarrow> traced tr \<subseteq> set (tracer_tids tr) \<and> distinct (tracer_tids tr) \<and>
     set (tracer_tids tr) \<inter> dom (error_by_tid tr) = {}"

lemma tracer_inv_detach: "tracer_inv tr \<Longrightarrow> tracer_inv (detachFromProcess tr) \<and> traced (detachFromProcess tr) = {}"
  by (auto simp: tracer_inv_def detachFromProcess_def)

lemma tracer_inv_attach:
  assumes "tracer_inv tr" "t \<notin> set (tracer_tids tr)" "error_by_tid tr t = None"
  shows "tracer_inv (attach_thread env pid k tr t)"
proof -
  have "tracer_inv (tr\<lparr>tracer_tids := tracer_tids tr @ [t], traced := insert t (traced tr)\<rparr>)"
    using assms by (auto simp: tracer_inv_def)
  with tracer_inv_detach [OF this] assms show ?thesis
    by (auto simp: attach_thread_def Let_def) (auto simp: tracer_inv_def)
qed

lemma attach_thread_known:
  "set (tracer_tids tr) \<union> dom (error_by_tid tr) \<union> {t} =
     set (tracer_tids (attach_thread env pid k tr t)) \<union> dom (error_by_tid (attach_thread env pid k tr t))"
  by (auto simp: attach_thread_def Let_def detachFromProcess_def)

text \<open>What a pass does: the invariant is kept, and every listed thread is known after it.\<close>

lemma attach_tids_Inr:
  assumes "attach_tids env pid k tr found ts = Inr (found', tr')" and "tracer_inv tr"
  shows "tracer_inv tr' \<and>
    set (tracer_tids tr') \<union> dom (error_by_tid tr') = set (tracer_tids tr) \<union> dom (error_by_tid tr) \<union> set ts \<and>
    (\<not> found' \<longrightarrow> \<not> found \<and> tr' = tr \<and> set ts \<subseteq> set (tracer_tids tr)) \<and>
    (found' \<and> \<not> found \<longrightarrow> \<not> set ts \<subseteq> set (tracer_tids tr) \<union> dom (error_by_tid tr))"
  using assms
proof (induction ts arbitrary: tr found)
  case (Cons t ts)
  show ?case
  proof (cases "t \<in> set (tracer_tids tr)")
    case True
    with Cons.prems Cons.IH [of tr found] show ?thesis by auto
  next
    case False
    with Cons.prems have none: "error_by_tid tr t = None" by (auto split: option.splits)
    let ?tr = "attach_thread env pid k tr t"
    have "attach_tids env pid k ?tr True ts = Inr (found', tr')" using Cons.prems False none by simp
    from Cons.IH [OF this tracer_inv_attach [OF Cons.prems(2) False none]]
    have inv: "tracer_inv tr'" and found: found'
      and known: "set (tracer_tids tr') \<union> dom (error_by_tid tr') =
        set (tracer_tids ?tr) \<union> dom (error_by_tid ?tr) \<union> set ts" by blast+
    have "t \<notin> dom (error_by_tid tr)" using none by auto
    with inv found False attach_thread_known [of tr t env pid k] show ?thesis unfolding known by auto
  qed
qed simp

lemma attach_tids_Inl:
  "attach_tids env pid k tr found ts = Inl (e, tr') \<Longrightarrow> tracer_inv tr \<Longrightarrow>
     traced tr' = {} \<and> (e = RuntimeError PERM_MESSAGE \<or> (\<exists>errno. e = SystemError errno))"
proof (induction ts arbitrary: tr found)
  case (Cons t ts)
  then show ?case
    by (auto simp: tracer_inv_attach tracer_inv_detach split: if_splits option.splits)
qed simp

lemma tracer_reached_inv: "tracer_reached env pid k tr \<Longrightarrow> tracer_inv tr"
proof (induction rule: tracer_reached.induct)
  case start
  then show ?case by (simp add: tracer_inv_def no_threads_def)
next
  case (step k tr k' tr')
  from step(2) show ?case by (rule tracer_passE) (use step(3) attach_tids_Inr in auto)
qed


section \<open>How the constructor ends\<close>

definition tracer_outcome :: "ptrace_env \<Rightarrow> int \<Rightarrow> (error \<times> tracer) + tracer \<Rightarrow> bool" where
  "tracer_outcome env pid res \<longleftrightarrow>
     (case res of
        Inr tr \<Rightarrow> \<exists>k tids. tracer_reached env pid k tr \<and> getProcessTids pid (task_files env k) = Inr tids \<and>
          set tids \<subseteq> set (tracer_tids tr)
      | Inl (e, tr) \<Rightarrow> traced tr = {} \<or>
          (\<exists>k. tracer_reached env pid k tr \<and> getProcessTids pid (task_files env k) = Inl e))"

lemma tracer_loop_outcome:
  assumes "tracer_loop env pid k tr = Some res" and "tracer_reached env pid k tr"
  shows "tracer_outcome env pid res"
proof -
  have "tracer_reached env pid k tr \<longrightarrow> tracer_outcome env pid res"
  proof (rule tracer_loop.raw_induct [OF _ assms(1),
        where P = "\<lambda>env pid k tr res. tracer_reached env pid k tr \<longrightarrow> tracer_outcome env pid res"], goal_cases)
    case (1 loop env pid k tr res)
    show ?case
    proof
      assume reached: "tracer_reached env pid k tr"
      show "tracer_outcome env pid res"
      proof (cases "getProcessTids pid (task_files env k)")
        case (Inl e)
        with 1(2) reached show ?thesis by (auto simp: tracer_outcome_def)
      next
        case listed: (Inr tids)
        show ?thesis
        proof (cases "attach_tids env pid k tr False tids")
          case (Inl p)
          obtain e tr' where p: "p = (e, tr')" by (cases p)
          from attach_tids_Inl [OF Inl [unfolded p] tracer_reached_inv [OF reached]]
          have "traced tr' = {}" by blast
          with 1(2) listed Inl p show ?thesis by (auto simp: tracer_outcome_def)
        next
          case (Inr p)
          obtain found tr' where p: "p = (found, tr')" by (cases p)
          show ?thesis
          proof (cases found)
            case True
            with 1(2) listed Inr p have "loop env pid (Suc k) tr' = Some res" by simp
            moreover have pass: "attach_tids env pid k tr False tids = Inr (True, tr')" using Inr p True by simp
            moreover have "tracer_reached env pid (Suc k) tr'"
              by (rule tracer_reached.step [OF reached tracer_pass.pass [OF listed pass]])
            ultimately show ?thesis using 1(1) by blast
          next
            case False
            from attach_tids_Inr [OF Inr [unfolded p] tracer_reached_inv [OF reached]] False
            have "tr' = tr" "set tids \<subseteq> set (tracer_tids tr)" by blast+
            with 1(2) listed Inr p False have "res = Inr tr" by simp
            with reached listed \<open>set tids \<subseteq> set (tracer_tids tr)\<close> show ?thesis
              unfolding tracer_outcome_def by (simp only: sum.case) blast
          qed
        qed
      qed
    qed
  qed
  with assms(2) show ?thesis by blast
qed

text \<open>While every stopped thread can be waited for, the traced threads are those of the tracer.\<close>

definition waits_succeed :: "ptrace_env \<Rightarrow> int \<Rightarrow> bool" where
  "waits_succeed env pid \<longleftrightarrow> (\<forall>k t. wait_error env k t = 0 \<or> t \<noteq> pid \<and> wait_error env k t = ECHILD)"

lemma attach_tids_traced:
  assumes "waits_succeed env pid"
  shows "attach_tids env pid k tr found ts = Inr (found', tr') \<Longrightarrow> traced tr = set (tracer_tids tr) \<Longrightarrow>
     traced tr' = set (tracer_tids tr')"
proof (induction ts arbitrary: tr found)
  case (Cons t ts)
  have "\<not> (wait_error env k t \<noteq> 0 \<and> (t = pid \<or> wait_error env k t \<noteq> ECHILD))"
    using assms unfolding waits_succeed_def by metis
  then have "traced (attach_thread env pid k tr t) = set (tracer_tids (attach_thread env pid k tr t))"
    using Cons.prems(2) by (simp only: attach_thread_def Let_def if_False split: if_split) simp
  with Cons show ?case by (auto split: if_splits option.splits)
qed simp

lemma tracer_reached_traced:
  "tracer_reached env pid k tr \<Longrightarrow> waits_succeed env pid \<Longrightarrow> traced tr = set (tracer_tids tr)"
proof (induction rule: tracer_reached.induct)
  case start
  then show ?case by (simp add: no_threads_def)
next
  case (step k tr k' tr')
  from step(2) show ?case by (rule tracer_passE) (use step attach_tids_traced in auto)
qed


section \<open>Stopping ends\<close>

text \<open>Every pass but the last makes a further thread known, attached to or not.\<close>

lemma tracer_loop_ends:
  assumes "finite U" and listed: "\<forall>k tids. getProcessTids pid (task_files env k) = Inr tids \<longrightarrow> set tids \<subseteq> U"
    and "tracer_inv tr"
  shows "\<exists>res. tracer_loop env pid k tr = Some res"
  using assms(3)
proof (induction "card (U - (set (tracer_tids tr) \<union> dom (error_by_tid tr)))" arbitrary: k tr rule: less_induct)
  case less
  show ?case
  proof (cases "getProcessTids pid (task_files env k)")
    case (Inl e)
    then show ?thesis by (subst tracer_loop.simps) simp
  next
    case tids: (Inr tids)
    show ?thesis
    proof (cases "attach_tids env pid k tr False tids")
      case (Inl p)
      then show ?thesis using tids by (subst tracer_loop.simps) (cases p, simp)
    next
      case (Inr p)
      obtain found tr' where p: "p = (found, tr')" by (cases p)
      note after = attach_tids_Inr [OF Inr [unfolded p] less.prems]
      show ?thesis
      proof (cases found)
        case False
        then show ?thesis using tids Inr p by (subst tracer_loop.simps) simp
      next
        case True
        let ?known = "\<lambda>tr. set (tracer_tids tr) \<union> dom (error_by_tid tr)"
        obtain t where "t \<in> set tids" "t \<notin> ?known tr" using after True by blast
        moreover have "set tids \<subseteq> U" using listed tids by blast
        moreover have "?known tr' = ?known tr \<union> set tids" using after by blast
        ultimately have "U - ?known tr' \<subset> U - ?known tr" by blast
        then have "card (U - ?known tr') < card (U - ?known tr)" using assms(1) by (simp add: psubset_card_mono)
        with less.hyps [of tr' "Suc k"] after obtain res where "tracer_loop env pid (Suc k) tr' = Some res" by blast
        then show ?thesis using tids Inr p True by (subst tracer_loop.simps) simp
      qed
    qed
  qed
qed

text \<open>
  Property C33. Stopping a process ends when only finitely many threads ever appear in it, whatever the
  kernel answers.
\<close>

theorem stopping_ends:
  assumes "finite U" and "\<forall>k tids. getProcessTids pid (task_files env k) = Inr tids \<longrightarrow> set tids \<subseteq> U"
  shows "\<exists>res. tracer_new env pid = Some res"
  unfolding tracer_new_def
  by (rule tracer_loop_ends [OF assms]) (simp add: tracer_inv_def no_threads_def)


section \<open>Examples\<close>

text \<open>
  A process with the threads 7 and 8, of which the second appears while the first is being stopped.
  What the third listing says and how waiting ends are parameters.
\<close>

definition example_process :: "string list option \<Rightarrow> nat \<Rightarrow> ptrace_env" where
  "example_process third wait =
     \<lparr>task_files = (\<lambda>k. if k = 0 then Some [''.'', ''..'', ''7''] else if k = 1 then Some [''7'', ''8''] else third),
      attach_error = (\<lambda>_ _. 0), wait_error = (\<lambda>_ _. wait)\<rparr>"

lemma example_tids:
  "getProcessTids 7 (Some [''.'', ''..'', ''7'']) = Inr [7]"
  "getProcessTids 7 (Some [''7'', ''8'']) = Inr [7, 8]"
  "getProcessTids 7 None = Inl (RuntimeError ''Could not read the contents of /proc/7/task'')"
  by (simp_all add: getProcessTids_def reader_files_def stoi_def is_digit_def is_blank_def number_value_def
      digit_value_def task_path_def to_string_int_def to_string.simps Let_def char_of_def bit_numeral_rec bit_Suc_0_iff)

lemmas example_process_eval =
  example_process_def example_tids tracer_new_def no_threads_def attach_thread_def detachFromProcess_def Let_def

definition both_threads :: tracer where
  "both_threads = \<lparr>tracer_tids = [7, 8], error_by_tid = Map.empty, traced = {7, 8}\<rparr>"

lemma example_stopped: "tracer_new (example_process (Some [''7'', ''8'']) 0) 7 = Some (Inr both_threads)"
  by (simp add: example_process_eval tracer_loop.simps both_threads_def insert_commute)


theorem stopping_ends_witness:
  "\<exists>res. tracer_new (example_process (Some [''7'', ''8'']) 3) 7 = Some res"
  by (rule stopping_ends [of "{7, 8}"]) (simp_all add: example_process_def example_tids)

text \<open>
  A listing that fails, for instance because the process has just ended, leaves the threads that were
  stopped so far stopped: the constructor has no handler for it, and without an object there is no
  destructor.
\<close>

theorem failed_listing_keeps_threads_stopped:
  "\<exists>e tr. tracer_new (example_process None 0) 7 = Some (Inl (e, tr)) \<and> traced tr = {7, 8}"
  by (simp add: example_process_eval tracer_loop.simps insert_commute)

text \<open>
  When waiting for a thread fails, all threads are released, but the constructor goes on and reports
  them as stopped.
\<close>

theorem failed_wait_releases_threads:
  "\<exists>tr. tracer_new (example_process (Some [''7'', ''8'']) 3) 7 = Some (Inr tr) \<and>
     getTids tr = [7, 8] \<and> traced tr = {}"
  by (simp add: example_process_eval tracer_loop.simps getTids_def)

end
