(* ===== verification/Core_Memory.thy ===== *)
theory Core_Memory
  imports Virtual_Map Remote_Memory
begin

text \<open>
  Reading memory out of a core file (\<open>CorefileRemoteMemoryManager\<close> in \<open>mem.cpp\<close>): the lookup of
  an address among the dumped segments, the fallback to the ELF file of the shared library that
  was mapped there (with its cache of load segments), and the copies. ELF parsing (libelf) and the
  file system are parameters.
\<close>

section \<open>The file system and libelf\<close>

text \<open>
  \<open>program_headers\<close> is what \<open>fopen\<close>, \<open>elf_begin\<close>, \<open>elf_getphdrnum\<close> and \<open>gelf_getphdr\<close> say of
  a file: \<open>None\<close> when it cannot be opened or is not ELF, otherwise one entry per program header,
  \<open>None\<close> for one that cannot be read. \<open>file_content\<close> is what an \<open>ifstream\<close> reads.
\<close>

record program_header =
  p_type :: "32 word"
  p_vaddr :: addr
  p_offset :: size_t
  p_filesz :: size_t

abbreviation PT_LOAD :: "32 word" where "PT_LOAD \<equiv> 1"

record files =
  program_headers :: "string \<Rightarrow> program_header option list option"
  file_content :: "string \<Rightarrow> bytes option"

text \<open>What the constructor's \<open>open\<close>, \<open>fstat\<close>, \<open>mmap\<close> and \<open>close\<close> of the core file return.\<close>

record core_open =
  open_ok :: bool
  fstat_size :: "nat option"
  mmap_data :: "bytes option"
  close_ok :: bool

section \<open>State and operations\<close>

record simple_virtual_map =
  sm_start :: addr
  sm_end :: addr
  sm_filename :: string
  sm_buildid :: string

record elf_load_segment =
  seg_vaddr :: addr
  seg_offset :: size_t
  seg_size :: size_t

record core_memory =
  d_elf_load_segments_cache :: "string \<rightharpoonup> elf_load_segment list"
  core_vmaps :: "virtual_map list"
  d_shared_libs :: "simple_virtual_map list"
  d_corefile_data :: bytes

definition d_corefile_size :: "core_memory \<Rightarrow> nat" where
  "d_corefile_size st = length (d_corefile_data st)"

text \<open>\<open>readCorefile\<close>; \<open>None\<close> is \<open>StatusCode::ERROR\<close>. A failing \<open>madvise\<close> is only logged.\<close>

definition readCorefile :: "core_open \<Rightarrow> bytes option" where
  "readCorefile io =
     (case fstat_size io of
        None \<Rightarrow> None
      | Some st_size \<Rightarrow>
          if st_size = 0 then None
          else case mmap_data io of None \<Rightarrow> None | Some data \<Rightarrow> Some (take st_size data))"

definition core_memory_new ::
  "core_open \<Rightarrow> simple_virtual_map list \<Rightarrow> virtual_map list \<Rightarrow> core_memory result" where
  "core_memory_new io shared_libs vmaps =
     (if \<not> open_ok io then Inl RemoteMemCopyError
      else
        let ret = readCorefile io in
        if \<not> close_ok io then Inl RemoteMemCopyError
        else case ret of
               None \<Rightarrow> Inl RemoteMemCopyError
             | Some data \<Rightarrow>
                 Inr \<lparr>d_elf_load_segments_cache = Map.empty, core_vmaps = vmaps,
                      d_shared_libs = shared_libs, d_corefile_data = data\<rparr>)"

text \<open>
  The segment test of \<open>getMemoryLocationFromCore\<close>: the address is in the part of the segment
  that was dumped (\<open>FileSize\<close> bytes from \<open>Start\<close>, with the wrapping addition of the code).
\<close>

definition dumped :: "addr \<Rightarrow> virtual_map \<Rightarrow> bool" where
  "dumped addr m \<longleftrightarrow>
     (let fileEnd = d_start m + d_filesize m in
      (d_start m \<le> addr \<and> addr < fileEnd) \<and> (d_filesize m \<noteq> 0 \<and> d_offset m \<noteq> 0))"

definition getMemoryLocationFromCore :: "core_memory \<Rightarrow> addr \<Rightarrow> size_t option" where
  "getMemoryLocationFromCore st addr =
     (case List.find (dumped addr) (core_vmaps st) of
        None \<Rightarrow> None
      | Some m \<Rightarrow> (let base = d_offset m - d_start m in Some (base + addr)))"

text \<open>\<open>initLoadSegments\<close>: \<open>None\<close> is an error and leaves the cache alone.\<close>

definition load_segments :: "program_header option list \<Rightarrow> elf_load_segment list" where
  "load_segments phdrs =
     map (\<lambda>h. \<lparr>seg_vaddr = p_vaddr h, seg_offset = p_offset h, seg_size = p_filesz h\<rparr>)
       (filter (\<lambda>h. p_type h = PT_LOAD) (List.map_filter id phdrs))"

definition initLoadSegments :: "files \<Rightarrow> core_memory \<Rightarrow> string \<Rightarrow> core_memory option" where
  "initLoadSegments fs st filename =
     (case program_headers fs filename of
        None \<Rightarrow> None
      | Some phdrs \<Rightarrow>
          (let segments = load_segments phdrs in
           if segments \<noteq> [] then
             Some (st\<lparr>d_elf_load_segments_cache :=
                        (d_elf_load_segments_cache st)(filename \<mapsto> segments)\<rparr>)
           else None))"

text \<open>
  The relocation and the search among the cached segments. \<open>second[0]\<close> of an empty vector would
  be undefined behaviour.
\<close>

definition locate_in_segments ::
  "simple_virtual_map \<Rightarrow> elf_load_segment list \<Rightarrow> addr \<Rightarrow> size_t option result" where
  "locate_in_segments lib segments addr =
     (if segments = [] then Inl Undefined
      else
        let elf_load_addr = seg_vaddr (segments ! 0);
            symbol_vaddr = addr - sm_start lib + elf_load_addr
        in case List.find (\<lambda>s. symbol_vaddr \<ge> seg_vaddr s \<and>
                               symbol_vaddr < seg_vaddr s + seg_size s) segments of
             None \<Rightarrow> Inr None
           | Some s \<Rightarrow> Inr (Some ((symbol_vaddr - seg_vaddr s) + seg_offset s)))"

text \<open>The result is the file and the offset, or \<open>None\<close> for \<open>StatusCode::ERROR\<close>.\<close>

definition getMemoryLocationFromElf ::
  "files \<Rightarrow> core_memory \<Rightarrow> addr \<Rightarrow> (string \<times> size_t) option result \<times> core_memory" where
  "getMemoryLocationFromElf fs st addr =
     (case List.find (\<lambda>m. sm_start m \<le> addr \<and> addr < sm_end m) (d_shared_libs st) of
        None \<Rightarrow> (Inr None, st)
      | Some lib \<Rightarrow>
          (let filename = sm_filename lib in
           case (case d_elf_load_segments_cache st filename of
                   Some _ \<Rightarrow> Some st
                 | None \<Rightarrow> initLoadSegments fs st filename) of
             None \<Rightarrow> (Inr None, st)
           | Some st1 \<Rightarrow>
               (case d_elf_load_segments_cache st1 filename of
                  None \<Rightarrow> (Inl Undefined, st1)
                | Some segments \<Rightarrow>
                    (rbind (locate_in_segments lib segments addr)
                       (\<lambda>loc. Inr (map_option (\<lambda>off. (filename, off)) loc)), st1))))"

text \<open>
  \<open>copyMemoryFromProcess\<close>. \<open>is.read\<close> on a file shorter than \<open>offset + size\<close> stores the bytes
  there are and leaves the rest of the destination (\<open>dst\<close>) as it was; the code does not look at
  the stream's state afterwards.
\<close>

definition stream_read :: "bytes \<Rightarrow> size_t \<Rightarrow> size_t \<Rightarrow> bytes \<Rightarrow> bytes" where
  "stream_read content off len dst =
     (let got = block (unat off) (unat len) content in got @ drop (length got) dst)"

definition core_copyMemoryFromProcess ::
  "files \<Rightarrow> core_memory \<Rightarrow> addr \<Rightarrow> size_t \<Rightarrow> bytes \<Rightarrow> bytes result \<times> core_memory" where
  "core_copyMemoryFromProcess fs st addr len dst =
     (case getMemoryLocationFromCore st addr of
        Some offset_in_file \<Rightarrow>
          (if unat len > d_corefile_size st \<or>
              unat offset_in_file > d_corefile_size st - unat len
           then Inl InvalidRemoteAddress
           else Inr (block (unat offset_in_file) (unat len) (d_corefile_data st)), st)
      | None \<Rightarrow>
          (case getMemoryLocationFromElf fs st addr of
             (Inl e, st1) \<Rightarrow> (Inl e, st1)
           | (Inr None, st1) \<Rightarrow> (Inl InvalidRemoteAddress, st1)
           | (Inr (Some (filename, off)), st1) \<Rightarrow>
               (case file_content fs filename of
                  None \<Rightarrow> (Inl InvalidRemoteAddress, st1)
                | Some content \<Rightarrow> (Inr (stream_read content off len dst), st1))))"

definition core_isAddressValid :: "addr \<Rightarrow> virtual_map \<Rightarrow> bool" where
  "core_isAddressValid addr m \<longleftrightarrow>
     addr \<noteq> 0 \<and> d_start m \<le> addr \<and> addr < d_start m + map_Size m"

lemma core_isAddressValid_contains:
  "core_isAddressValid addr m \<longleftrightarrow> addr \<noteq> 0 \<and> containsAddr m addr"
  by (auto simp: core_isAddressValid_def containsAddr_def map_Size_def)

section \<open>Invariant: cached segment lists are the file's and not empty\<close>

definition segments_of :: "files \<Rightarrow> string \<Rightarrow> elf_load_segment list \<Rightarrow> bool" where
  "segments_of fs f segments \<longleftrightarrow>
     segments \<noteq> [] \<and> map_option load_segments (program_headers fs f) = Some segments"

definition segments_inv :: "files \<Rightarrow> core_memory \<Rightarrow> bool" where
  "segments_inv fs st \<longleftrightarrow>
     (\<forall>f segments. d_elf_load_segments_cache st f = Some segments \<longrightarrow> segments_of fs f segments)"

definition same_maps :: "core_memory \<Rightarrow> core_memory \<Rightarrow> bool" where
  "same_maps st st' \<longleftrightarrow>
     core_vmaps st' = core_vmaps st \<and> d_shared_libs st' = d_shared_libs st \<and>
     d_corefile_data st' = d_corefile_data st"

lemma same_maps_refl [simp]: "same_maps st st" by (simp add: same_maps_def)

lemma segments_inv_new:
  "core_memory_new io libs vmaps = Inr st \<Longrightarrow> segments_inv fs st"
  by (auto simp: core_memory_new_def segments_inv_def Let_def split: if_splits option.splits)

lemma initLoadSegments_inv:
  assumes "segments_inv fs st" and "initLoadSegments fs st f = Some st'"
  shows "segments_inv fs st' \<and> same_maps st st' \<and> d_elf_load_segments_cache st' f \<noteq> None"
proof -
  obtain segments where "segments_of fs f segments"
      "st' = st\<lparr>d_elf_load_segments_cache := (d_elf_load_segments_cache st)(f \<mapsto> segments)\<rparr>"
    using assms(2)
    by (auto simp: initLoadSegments_def segments_of_def Let_def split: option.splits if_splits)
  with assms(1) show ?thesis by (auto simp: segments_inv_def same_maps_def)
qed

text \<open>
  What the lookup through the shared libraries means without the cache: the offset in the library's
  file of the segment that holds the relocated address.
\<close>

definition elf_location :: "files \<Rightarrow> simple_virtual_map list \<Rightarrow> addr \<Rightarrow> (string \<times> size_t) option" where
  "elf_location fs libs addr =
     (case List.find (\<lambda>m. sm_start m \<le> addr \<and> addr < sm_end m) libs of
        None \<Rightarrow> None
      | Some lib \<Rightarrow>
          (case program_headers fs (sm_filename lib) of
             None \<Rightarrow> None
           | Some phdrs \<Rightarrow>
               (case locate_in_segments lib (load_segments phdrs) addr of
                  Inr (Some off) \<Rightarrow> Some (sm_filename lib, off)
                | _ \<Rightarrow> None)))"

lemma getMemoryLocationFromElf_cached:
  assumes inv: "segments_inv fs st"
  shows "\<exists>st'. getMemoryLocationFromElf fs st addr = (Inr (elf_location fs (d_shared_libs st) addr), st') \<and>
               segments_inv fs st' \<and> same_maps st st'"
proof (cases "List.find (\<lambda>m. sm_start m \<le> addr \<and> addr < sm_end m) (d_shared_libs st)")
  case None
  with inv show ?thesis by (simp add: getMemoryLocationFromElf_def elf_location_def)
next
  case lib: (Some lib)
  let ?f = "sm_filename lib"
  have hit: "getMemoryLocationFromElf fs st addr = (Inr (elf_location fs (d_shared_libs st) addr), st1)"
    if st1: "(case d_elf_load_segments_cache st ?f of Some _ \<Rightarrow> Some st | None \<Rightarrow> initLoadSegments fs st ?f) = Some st1"
      and inv1: "segments_inv fs st1" and c: "d_elf_load_segments_cache st1 ?f = Some segments" for st1 segments
  proof -
    obtain phdrs where "segments \<noteq> []" "program_headers fs ?f = Some phdrs" "segments = load_segments phdrs"
      using inv1 c by (auto simp: segments_inv_def segments_of_def)
    then show ?thesis
      using lib st1 c unfolding getMemoryLocationFromElf_def elf_location_def Let_def
      by (auto simp: locate_in_segments_def Let_def split: option.splits)
  qed
  show ?thesis
  proof (cases "d_elf_load_segments_cache st ?f")
    case (Some segments)
    with hit [of st segments] inv show ?thesis by auto
  next
    case new: None
    show ?thesis
    proof (cases "initLoadSegments fs st ?f")
      case None
      then have "elf_location fs (d_shared_libs st) addr = None"
        using lib by (auto simp: initLoadSegments_def elf_location_def locate_in_segments_def Let_def
            split: option.splits if_splits)
      with None new lib inv show ?thesis by (simp add: getMemoryLocationFromElf_def Let_def)
    next
      case (Some st1)
      from initLoadSegments_inv [OF inv this] obtain segments where
        "segments_inv fs st1" "same_maps st st1" "d_elf_load_segments_cache st1 ?f = Some segments" by auto
      with hit [of st1 segments] Some new show ?thesis by auto
    qed
  qed
qed

section \<open>The image a core file records\<close>

text \<open>
  Byte by byte, the memory that the dumped segments record. In a well-formed core the dumped parts
  do not wrap around the address space, lie in the file and do not overlap.
\<close>

definition core_image :: "core_memory \<Rightarrow> image" where
  "core_image st a =
     (case getMemoryLocationFromCore st a of
        None \<Rightarrow> None
      | Some off \<Rightarrow> if unat off < d_corefile_size st then Some (d_corefile_data st ! unat off) else None)"

definition core_layout_ok :: "core_memory \<Rightarrow> bool" where
  "core_layout_ok st \<longleftrightarrow>
     d_corefile_size st < 2 ^ 64 \<and>
     (\<forall>m \<in> set (core_vmaps st). d_filesize m \<noteq> 0 \<and> d_offset m \<noteq> 0 \<longrightarrow>
        unat (d_start m) + unat (d_filesize m) < 2 ^ 64 \<and>
        unat (d_offset m) + unat (d_filesize m) \<le> d_corefile_size st) \<and>
     (\<forall>m \<in> set (core_vmaps st). \<forall>m' \<in> set (core_vmaps st). \<forall>a.
        dumped a m \<and> dumped a m' \<longrightarrow> m = m')"

lemma dumped_unat:
  assumes "unat (d_start m) + unat (d_filesize m) < 2 ^ 64"
  shows "dumped a m \<longleftrightarrow> d_offset m \<noteq> 0 \<and> unat (d_start m) \<le> unat a \<and>
           unat a < unat (d_start m) + unat (d_filesize m)"
  using assms
  by (auto simp: dumped_def Let_def word_order unat_plus_no_wrap)

lemma layout_bounds:
  assumes "core_layout_ok st" and "m \<in> set (core_vmaps st)" and "d_filesize m \<noteq> 0" and "d_offset m \<noteq> 0"
  shows "unat (d_start m) + unat (d_filesize m) < 2 ^ 64"
    and "unat (d_offset m) + unat (d_filesize m) \<le> d_corefile_size st"
    and "unat (d_offset m) + unat (d_filesize m) < 2 ^ 64"
  using assms by (auto simp: core_layout_ok_def intro: le_less_trans)

lemma find_dumped:
  assumes ok: "core_layout_ok st" and m: "m \<in> set (core_vmaps st)" "dumped a m"
  shows "List.find (dumped a) (core_vmaps st) = Some m"
proof (cases "List.find (dumped a) (core_vmaps st)")
  case None
  with m show ?thesis by (auto dest: find_NoneD)
next
  case (Some m')
  with find_SomeD [OF this] ok m show ?thesis unfolding core_layout_ok_def by blast
qed

lemma location_in_segment:
  assumes ok: "core_layout_ok st" and m: "m \<in> set (core_vmaps st)" "dumped a m"
  shows "\<exists>off. getMemoryLocationFromCore st a = Some off \<and>
           unat off = unat (d_offset m) + (unat a - unat (d_start m))"
proof -
  have no_wrap: "unat (d_start m) + unat (d_filesize m) < 2 ^ 64"
      "unat (d_offset m) + unat (d_filesize m) < 2 ^ 64"
    using layout_bounds [OF ok m(1)] m(2) by (auto simp: dumped_def Let_def)
  then have a: "unat (d_start m) \<le> unat a" "unat a < unat (d_start m) + unat (d_filesize m)"
    using m(2) dumped_unat by auto
  then have diff: "unat (a - d_start m) = unat a - unat (d_start m)" by (simp add: unat_minus_no_wrap)
  have "d_offset m - d_start m + a = d_offset m + (a - d_start m)" by (simp add: algebra_simps)
  moreover have "unat (d_offset m + (a - d_start m)) = unat (d_offset m) + (unat a - unat (d_start m))"
    using a no_wrap(2) diff by (subst unat_plus_no_wrap) auto
  ultimately have "unat (d_offset m - d_start m + a) = unat (d_offset m) + (unat a - unat (d_start m))"
    by metis
  then show ?thesis
    using find_dumped [OF ok m] by (simp add: getMemoryLocationFromCore_def Let_def)
qed

lemma core_image_block:
  assumes ok: "core_layout_ok st" and m: "m \<in> set (core_vmaps st)" and off: "d_offset m \<noteq> 0"
    and a: "unat (d_start m) \<le> unat a" "unat a + n \<le> unat (d_start m) + unat (d_filesize m)"
  shows "image_read (core_image st) a n =
           Some (block (unat (d_offset m) + (unat a - unat (d_start m))) n (d_corefile_data st))"
proof (cases "n = 0")
  case True
  then show ?thesis by (simp add: image_read_def block_def)
next
  case False
  then have filesize: "d_filesize m \<noteq> 0" using a by auto
  have no_wrap: "unat (d_start m) + unat (d_filesize m) < 2 ^ 64"
    and in_file: "unat (d_offset m) + unat (d_filesize m) \<le> d_corefile_size st"
    using layout_bounds [OF ok m filesize off] by blast+
  let ?o = "unat (d_offset m) + (unat a - unat (d_start m))"
  have byte: "core_image st (a + of_nat i) = Some (d_corefile_data st ! (?o + i))" if "i < n" for i
  proof -
    have i: "unat (of_nat i :: addr) = i"
      using that a no_wrap by (intro unat_of_nat_size) linarith
    have ai: "unat (a + of_nat i) = unat a + i"
      using that a no_wrap i by (subst unat_plus_no_wrap) auto
    then have "dumped (a + of_nat i) m" using that a off dumped_unat [OF no_wrap] by auto
    from location_in_segment [OF ok m this] obtain w where
      w: "getMemoryLocationFromCore st (a + of_nat i) = Some w" "unat w = ?o + i"
      using ai a by auto
    have "?o + i < d_corefile_size st" using that a in_file by linarith
    with w show ?thesis by (simp add: core_image_def)
  qed
  have "?o + n \<le> length (d_corefile_data st)"
    using a in_file by (simp add: d_corefile_size_def)
  with byte show ?thesis by (simp add: image_read_Some block_def)
qed

section \<open>Properties of core reads\<close>

lemma core_copy_dumped:
  assumes ok: "core_layout_ok st" and m: "m \<in> set (core_vmaps st)" and off: "d_offset m \<noteq> 0"
    and a: "unat (d_start m) \<le> unat addr"
      "unat addr + unat len \<le> unat (d_start m) + unat (d_filesize m)" "len \<noteq> 0"
  shows "core_copyMemoryFromProcess fs st addr len dst =
           (Inr (block (unat (d_offset m) + (unat addr - unat (d_start m))) (unat len) (d_corefile_data st)), st)"
proof -
  have "0 < unat len" using a(3) by (simp add: unat_gt_0)
  moreover from this have filesize: "d_filesize m \<noteq> 0" using a by auto
  ultimately have "dumped addr m"
    using a off dumped_unat [OF layout_bounds(1) [OF ok m filesize off]] by auto
  from location_in_segment [OF ok m this] obtain w where
    w: "getMemoryLocationFromCore st addr = Some w"
       "unat w = unat (d_offset m) + (unat addr - unat (d_start m))" by blast
  have "unat (d_offset m) + unat (d_filesize m) \<le> d_corefile_size st"
    by (rule layout_bounds(2) [OF ok m filesize off])
  then have "unat w + unat len \<le> d_corefile_size st" using w(2) a by linarith
  with w show ?thesis by (simp add: core_copyMemoryFromProcess_def)
qed

text \<open>
  Property C19. In a well-formed core file, a copy that stays inside the dumped part of a segment
  returns exactly the bytes recorded there: the process image of the core, which is the block of
  the file at the segment's offset plus the distance of the address from the segment's start.
\<close>

theorem core_copy_returns_dumped_memory:
  assumes ok: "core_layout_ok st" and m: "m \<in> set (core_vmaps st)" and off: "d_offset m \<noteq> 0"
    and a: "unat (d_start m) \<le> unat addr"
      "unat addr + unat len \<le> unat (d_start m) + unat (d_filesize m)" "len \<noteq> 0"
  shows "core_copyMemoryFromProcess fs st addr len dst =
           (image_result (core_image st) addr (unat len), st) \<and>
         image_read (core_image st) addr (unat len) =
           Some (block (unat (d_offset m) + (unat addr - unat (d_start m))) (unat len)
                  (d_corefile_data st))"
  using core_copy_dumped [OF ok m off a] core_image_block [OF ok m off a(1,2)]
  by (simp add: image_result_def)

definition example_core :: core_memory where
  "example_core =
     \<lparr>d_elf_load_segments_cache = Map.empty,
      core_vmaps = [virtual_map_new 4096 4100 4 ''rw-'' 2 '''' 0 ''a'',
                    virtual_map_new 8192 8200 3 ''r--'' 6 '''' 0 ''b''],
      d_shared_libs = [], d_corefile_data = [127, 69, 10, 11, 12, 13, 20, 21, 22]\<rparr>"

lemma example_core_layout: "core_layout_ok example_core"
  by (auto simp: core_layout_ok_def example_core_def virtual_map_new_def d_corefile_size_def
      dumped_def word_order)

definition example_files :: files where
  "example_files =
     \<lparr>program_headers = [''lib'' \<mapsto> [Some \<lparr>p_type = PT_LOAD, p_vaddr = 0, p_offset = 1, p_filesz = 8\<rparr>]],
      file_content = [''lib'' \<mapsto> [1, 2, 3]]\<rparr>"

theorem core_copy_returns_dumped_memory_witness:
  "core_copyMemoryFromProcess example_files example_core 4097 2 [] = (Inr [11, 12], example_core)"
proof -
  let ?m = "virtual_map_new 4096 4100 4 ''rw-'' 2 '''' 0 ''a''"
  have m: "?m \<in> set (core_vmaps example_core)" "d_offset ?m \<noteq> 0"
      "unat (d_start ?m) \<le> unat (4097 :: addr)"
      "unat (4097 :: addr) + unat (2 :: size_t) \<le> unat (d_start ?m) + unat (d_filesize ?m)"
    by (simp_all add: example_core_def virtual_map_new_def)
  from core_copy_returns_dumped_memory [OF example_core_layout m, of example_files "[]"] show ?thesis
    by (simp add: image_result_def example_core_def virtual_map_new_def block_def)
qed

text \<open>
  The bounds check of a core read is against the size of the whole file, not of the
  segment: a copy that starts in a dumped segment and runs past its end succeeds and returns the
  bytes the file happens to hold next, although the core does not record that memory.
\<close>

theorem core_copy_runs_past_segment:
  "core_layout_ok example_core \<and>
   image_read (core_image example_core) 4098 5 = None \<and>
   core_copyMemoryFromProcess fs example_core 4098 5 dst =
     (Inr [12, 13, 20, 21, 22], example_core)"
  using example_core_layout
  by (simp add: image_read_def core_image_def core_copyMemoryFromProcess_def
      getMemoryLocationFromCore_def example_core_def dumped_def virtual_map_new_def
      d_corefile_size_def block_def upt_rec)

text \<open>
  For an address that no segment of the core holds, the outcome is the one computed from the library's
  program headers, whether or not its load segments are in the cache.
\<close>

lemma core_copy_through_elf:
  assumes inv: "segments_inv fs st" and core: "getMemoryLocationFromCore st addr = None"
  shows "\<exists>st'. core_copyMemoryFromProcess fs st addr len dst =
           ((case elf_location fs (d_shared_libs st) addr of
               None \<Rightarrow> Inl InvalidRemoteAddress
             | Some (filename, off) \<Rightarrow>
                 (case file_content fs filename of
                    None \<Rightarrow> Inl InvalidRemoteAddress
                  | Some content \<Rightarrow> Inr (stream_read content off len dst))), st') \<and>
           segments_inv fs st' \<and> same_maps st st'"
proof -
  obtain st' where "getMemoryLocationFromElf fs st addr = (Inr (elf_location fs (d_shared_libs st) addr), st')"
      "segments_inv fs st'" "same_maps st st'"
    using getMemoryLocationFromElf_cached [OF inv] by blast
  with core show ?thesis
    by (auto simp: core_copyMemoryFromProcess_def split: option.splits)
qed

text \<open>
  What the ELF format says of the program headers of a library: the loadable segments come in the order of
  their addresses, do not overlap and do not wrap around. \<open>holds h v n\<close>: the file holds the \<open>n\<close> bytes from
  the address \<open>v\<close> on in the segment \<open>h\<close>.
\<close>

definition loads :: "program_header option list \<Rightarrow> program_header set" where
  "loads phdrs = {h. Some h \<in> set phdrs \<and> p_type h = PT_LOAD}"

definition loads_before :: "program_header option \<Rightarrow> program_header option \<Rightarrow> bool" where
  "loads_before x y \<longleftrightarrow>
     (\<forall>h h'. x = Some h \<and> y = Some h' \<and> p_type h = PT_LOAD \<and> p_type h' = PT_LOAD \<longrightarrow>
        unat (p_vaddr h) + unat (p_filesz h) \<le> unat (p_vaddr h'))"

definition well_formed_elf :: "program_header option list \<Rightarrow> bool" where
  "well_formed_elf phdrs \<longleftrightarrow>
     sorted_wrt loads_before phdrs \<and> (\<forall>h \<in> loads phdrs. unat (p_vaddr h) + unat (p_filesz h) < 2 ^ 64)"

definition holds :: "program_header \<Rightarrow> addr \<Rightarrow> nat \<Rightarrow> bool" where
  "holds h v n \<longleftrightarrow> unat (p_vaddr h) \<le> unat v \<and> unat v + n \<le> unat (p_vaddr h) + unat (p_filesz h)"

definition load_list :: "program_header option list \<Rightarrow> program_header list" where
  "load_list phdrs = filter (\<lambda>h. p_type h = PT_LOAD) (List.map_filter id phdrs)"

lemma set_load_list: "set (load_list phdrs) = loads phdrs"
  by (force simp: load_list_def loads_def List.map_filter_def)

lemma load_list_sorted:
  "sorted_wrt loads_before phdrs \<Longrightarrow>
     sorted_wrt (\<lambda>h h'. unat (p_vaddr h) + unat (p_filesz h) \<le> unat (p_vaddr h')) (load_list phdrs)"
proof (induction phdrs)
  case (Cons x phdrs)
  have later: "unat (p_vaddr h) + unat (p_filesz h) \<le> unat (p_vaddr h')"
    if "x = Some h" "p_type h = PT_LOAD" "h' \<in> set (load_list phdrs)" for h h'
    using Cons.prems that unfolding set_load_list loads_def by (auto simp: loads_before_def)
  show ?case
  proof (cases x)
    case None
    with Cons show ?thesis by (simp add: load_list_def map_filter_simps)
  next
    case (Some h)
    have "load_list (x # phdrs) = (if p_type h = PT_LOAD then h # load_list phdrs else load_list phdrs)"
      using Some by (simp add: load_list_def map_filter_simps)
    with Cons later [OF Some] show ?thesis by simp
  qed
qed (simp add: load_list_def map_filter_simps)

lemma load_list_first:
  assumes "well_formed_elf phdrs" and "b \<in> loads phdrs" and "\<forall>h \<in> loads phdrs. p_vaddr b \<le> p_vaddr h"
  shows "load_list phdrs \<noteq> [] \<and> p_vaddr (load_list phdrs ! 0) = p_vaddr b"
proof -
  let ?l = "load_list phdrs"
  have sorted: "sorted_wrt (\<lambda>h h'. unat (p_vaddr h) + unat (p_filesz h) \<le> unat (p_vaddr h')) ?l"
    using assms(1) load_list_sorted by (simp add: well_formed_elf_def)
  have b: "b \<in> set ?l" using assms(2) by (simp add: set_load_list)
  then obtain h rest where l: "?l = h # rest" by (cases ?l) auto
  have "p_vaddr h \<le> p_vaddr b" using sorted b unfolding l by (auto simp: word_le_nat_alt)
  moreover have "p_vaddr b \<le> p_vaddr h" using assms(3) l by (metis list.set_intros(1) set_load_list)
  ultimately show ?thesis by (simp add: l)
qed

lemma find_load_segment:
  fixes v :: addr
  assumes ok: "well_formed_elf phdrs"
  defines "P \<equiv> \<lambda>s. v \<ge> seg_vaddr s \<and> v < seg_vaddr s + seg_size s"
  shows "h \<in> loads phdrs \<Longrightarrow> holds h v 1 \<Longrightarrow>
      List.find P (load_segments phdrs) =
        Some \<lparr>seg_vaddr = p_vaddr h, seg_offset = p_offset h, seg_size = p_filesz h\<rparr>"
    and "\<forall>h \<in> loads phdrs. \<not> holds h v 1 \<Longrightarrow> List.find P (load_segments phdrs) = None"
proof -
  let ?seg = "\<lambda>h. \<lparr>seg_vaddr = p_vaddr h, seg_offset = p_offset h, seg_size = p_filesz h\<rparr>"
  have segments: "load_segments phdrs = map ?seg (load_list phdrs)"
    by (simp add: load_segments_def load_list_def)
  have P: "P (?seg h) \<longleftrightarrow> holds h v 1" if "h \<in> loads phdrs" for h
  proof -
    have "unat (p_vaddr h) + unat (p_filesz h) < 2 ^ 64" using ok that by (simp add: well_formed_elf_def)
    then show ?thesis by (auto simp: P_def holds_def word_le_nat_alt word_less_nat_alt unat_plus_no_wrap)
  qed
  have unique: "h = h'" if h: "h \<in> loads phdrs" "holds h v 1" "h' \<in> loads phdrs" "holds h' v 1" for h h'
  proof -
    have sorted: "sorted_wrt (\<lambda>h h'. unat (p_vaddr h) + unat (p_filesz h) \<le> unat (p_vaddr h')) (load_list phdrs)"
      using ok load_list_sorted by (simp add: well_formed_elf_def)
    from h(1,3) obtain i j where "i < length (load_list phdrs)" "load_list phdrs ! i = h"
      "j < length (load_list phdrs)" "load_list phdrs ! j = h'"
      by (metis in_set_conv_nth set_load_list)
    with sorted_wrt_nth_less [OF sorted, of i j] sorted_wrt_nth_less [OF sorted, of j i] h(2,4)
    show ?thesis by (cases i j rule: linorder_cases) (auto simp: holds_def)
  qed
  show "List.find P (load_segments phdrs) = Some (?seg h)" if h: "h \<in> loads phdrs" "holds h v 1"
  proof (cases "List.find P (load_segments phdrs)")
    case None
    with h P [OF h(1)] show ?thesis by (auto simp: segments find_None_iff set_load_list)
  next
    case (Some s)
    from find_SomeD [OF this] obtain h' where h': "h' \<in> loads phdrs" "s = ?seg h'" "P (?seg h')"
      by (auto simp: segments set_load_list)
    have "h = h'" by (rule unique [OF h h'(1) P [OF h'(1), THEN iffD1, OF h'(3)]])
    with Some h'(2) show ?thesis by simp
  qed
  show "List.find P (load_segments phdrs) = None" if "\<forall>h \<in> loads phdrs. \<not> holds h v 1"
    using that P by (auto simp: segments find_None_iff set_load_list)
qed

lemma find_unique: "x \<in> set xs \<Longrightarrow> P x \<Longrightarrow> \<forall>y \<in> set xs. P y \<longrightarrow> y = x \<Longrightarrow> List.find P xs = Some x"
  by (cases "List.find P xs") (blast dest: find_SomeD find_NoneD)+

lemma elf_location_of_library:
  assumes lib: "lib \<in> set libs" "sm_start lib \<le> addr" "addr < sm_end lib"
      "\<forall>l \<in> set libs. sm_start l \<le> addr \<and> addr < sm_end l \<longrightarrow> l = lib"
    and elf: "program_headers fs (sm_filename lib) = Some phdrs" "well_formed_elf phdrs"
    and base: "b \<in> loads phdrs" "\<forall>h \<in> loads phdrs. p_vaddr b \<le> p_vaddr h"
  defines "v \<equiv> p_vaddr b + (addr - sm_start lib)"
  shows "h \<in> loads phdrs \<Longrightarrow> holds h v 1 \<Longrightarrow>
      elf_location fs libs addr = Some (sm_filename lib, v - p_vaddr h + p_offset h)"
    and "\<forall>h \<in> loads phdrs. \<not> holds h v 1 \<Longrightarrow> elf_location fs libs addr = None"
proof -
  have found: "List.find (\<lambda>m. sm_start m \<le> addr \<and> addr < sm_end m) libs = Some lib"
    by (rule find_unique [OF lib(1)]) (use lib in blast)+
  have first: "load_segments phdrs \<noteq> []" "seg_vaddr (load_segments phdrs ! 0) = p_vaddr b"
    using load_list_first [OF elf(2) base] by (auto simp: load_segments_def load_list_def)
  have v: "addr - sm_start lib + p_vaddr b = v" by (simp add: v_def)
  note search = find_load_segment [OF elf(2), where v = v]
  show "elf_location fs libs addr = Some (sm_filename lib, v - p_vaddr h + p_offset h)"
    if "h \<in> loads phdrs" "holds h v 1"
    using found elf(1) first search(1) [OF that]
    by (simp add: elf_location_def locate_in_segments_def Let_def v)
  show "elf_location fs libs addr = None" if "\<forall>h \<in> loads phdrs. \<not> holds h v 1"
    using found elf(1) first search(2) [OF that]
    by (simp add: elf_location_def locate_in_segments_def Let_def v)
qed

text \<open>
  Property C20. An address that no segment of the core holds and at which a library was mapped is read from
  the file of the library. Relative to the lowest loadable segment the address has a virtual address in the
  library; if the file holds the requested bytes there, the copy returns exactly them, and if no loadable
  segment has the address, it raises \<open>InvalidRemoteAddress\<close>. Either way the result does not depend on what
  is in the cache of load segments, which stays that of the files.
\<close>

theorem core_copy_from_library:
  assumes inv: "segments_inv fs st" and core: "getMemoryLocationFromCore st addr = None"
    and lib: "lib \<in> set (d_shared_libs st)" "sm_start lib \<le> addr" "addr < sm_end lib"
      "\<forall>l \<in> set (d_shared_libs st). sm_start l \<le> addr \<and> addr < sm_end l \<longrightarrow> l = lib"
    and elf: "program_headers fs (sm_filename lib) = Some phdrs" "well_formed_elf phdrs"
    and base: "b \<in> loads phdrs" "\<forall>h \<in> loads phdrs. p_vaddr b \<le> p_vaddr h"
    and content: "file_content fs (sm_filename lib) = Some content" "length content < 2 ^ 64"
      "\<forall>h \<in> loads phdrs. unat (p_offset h) + unat (p_filesz h) \<le> length content"
    and dst: "length dst = unat len" "len \<noteq> 0"
  defines "v \<equiv> p_vaddr b + (addr - sm_start lib)"
  shows "\<exists>st'. segments_inv fs st' \<and> same_maps st st' \<and>
           (\<forall>h \<in> loads phdrs. holds h v (unat len) \<longrightarrow>
              core_copyMemoryFromProcess fs st addr len dst =
                (Inr (block (unat (p_offset h) + (unat v - unat (p_vaddr h))) (unat len) content), st')) \<and>
           ((\<forall>h \<in> loads phdrs. \<not> holds h v 1) \<longrightarrow>
              core_copyMemoryFromProcess fs st addr len dst = (Inl InvalidRemoteAddress, st'))"
proof -
  note location = elf_location_of_library [OF lib elf base, folded v_def]
  obtain st' where st': "segments_inv fs st'" "same_maps st st'"
    and copy: "core_copyMemoryFromProcess fs st addr len dst =
           ((case elf_location fs (d_shared_libs st) addr of
               None \<Rightarrow> Inl InvalidRemoteAddress
             | Some (filename, off) \<Rightarrow>
                 (case file_content fs filename of
                    None \<Rightarrow> Inl InvalidRemoteAddress
                  | Some content \<Rightarrow> Inr (stream_read content off len dst))), st')"
    using core_copy_through_elf [OF inv core] by blast
  have "core_copyMemoryFromProcess fs st addr len dst =
      (Inr (block (unat (p_offset h) + (unat v - unat (p_vaddr h))) (unat len) content), st')"
    if h: "h \<in> loads phdrs" "holds h v (unat len)" for h
  proof -
    have len: "0 < unat len" using dst(2) by (simp add: unat_gt_0)
    then have "holds h v 1" using h(2) by (simp add: holds_def)
    note loc = location(1) [OF h(1) this]
    have fits: "unat (p_offset h) + (unat v - unat (p_vaddr h)) + unat len \<le> length content"
      using h(2) bspec [OF content(3) h(1)] unfolding holds_def by linarith
    have "unat (v - p_vaddr h) = unat v - unat (p_vaddr h)"
      using h(2) by (intro unat_minus_no_wrap) (simp add: holds_def)
    moreover from this have "unat (v - p_vaddr h + p_offset h) = unat (v - p_vaddr h) + unat (p_offset h)"
      using fits content(2) by (intro unat_plus_no_wrap) simp
    ultimately have off: "unat (v - p_vaddr h + p_offset h) = unat (p_offset h) + (unat v - unat (p_vaddr h))"
      by simp
    have "stream_read content (v - p_vaddr h + p_offset h) len dst =
        block (unat (p_offset h) + (unat v - unat (p_vaddr h))) (unat len) content"
      using fits dst(1) by (simp add: stream_read_def off Let_def length_block)
    with copy loc content(1) show ?thesis by simp
  qed
  moreover have "core_copyMemoryFromProcess fs st addr len dst = (Inl InvalidRemoteAddress, st')"
    if "\<forall>h \<in> loads phdrs. \<not> holds h v 1"
    using copy location(2) [OF that] by simp
  ultimately show ?thesis using st' by blast
qed

definition example_library_files :: files where
  "example_library_files =
     \<lparr>program_headers = [''lib'' \<mapsto>
        [Some \<lparr>p_type = 6, p_vaddr = 64, p_offset = 64, p_filesz = 8\<rparr>, None,
         Some \<lparr>p_type = PT_LOAD, p_vaddr = 4096, p_offset = 0, p_filesz = 2\<rparr>,
         Some \<lparr>p_type = PT_LOAD, p_vaddr = 4100, p_offset = 2, p_filesz = 3\<rparr>]],
      file_content = [''lib'' \<mapsto> [1, 2, 3, 4, 5]]\<rparr>"

definition example_core_lib :: core_memory where
  "example_core_lib = example_core\<lparr>d_shared_libs :=
     [\<lparr>sm_start = 16384, sm_end = 16400, sm_filename = ''lib'', sm_buildid = ''''\<rparr>]\<rparr>"

lemma example_core_lib_facts:
  "segments_inv example_files example_core_lib"
  "getMemoryLocationFromCore example_core_lib 16385 = None"
  "elf_location example_files (d_shared_libs example_core_lib) 16385 = Some (''lib'', 2)"
  by (simp_all add: segments_inv_def example_core_lib_def example_core_def example_files_def
      getMemoryLocationFromCore_def dumped_def virtual_map_new_def elf_location_def
      load_segments_def locate_in_segments_def map_filter_simps)

theorem core_copy_from_library_witness:
  "\<exists>st'. core_copyMemoryFromProcess example_library_files example_core_lib 16389 2 [0, 0] = (Inr [4, 5], st')"
proof -
  let ?lib = "\<lparr>sm_start = 16384, sm_end = 16400, sm_filename = ''lib'', sm_buildid = ''''\<rparr>"
  let ?b = "\<lparr>p_type = PT_LOAD, p_vaddr = 4096, p_offset = 0, p_filesz = 2\<rparr> :: program_header"
  let ?h = "\<lparr>p_type = PT_LOAD, p_vaddr = 4100, p_offset = 2, p_filesz = 3\<rparr> :: program_header"
  let ?phdrs = "[Some \<lparr>p_type = 6, p_vaddr = 64, p_offset = 64, p_filesz = 8\<rparr>, None, Some ?b, Some ?h]"
  have loads: "loads ?phdrs = {?b, ?h}" by (auto simp: loads_def)
  have elf: "program_headers example_library_files (sm_filename ?lib) = Some ?phdrs" "well_formed_elf ?phdrs"
    unfolding well_formed_elf_def loads
    by (simp_all add: example_library_files_def loads_before_def)
  have state: "segments_inv example_library_files example_core_lib"
    "getMemoryLocationFromCore example_core_lib 16389 = None"
    "?lib \<in> set (d_shared_libs example_core_lib)" "sm_start ?lib \<le> 16389" "16389 < sm_end ?lib"
    "\<forall>l \<in> set (d_shared_libs example_core_lib). sm_start l \<le> 16389 \<and> 16389 < sm_end l \<longrightarrow> l = ?lib"
    by (simp_all add: segments_inv_def example_core_lib_def example_core_def getMemoryLocationFromCore_def
        dumped_def virtual_map_new_def)
  have base: "?b \<in> loads ?phdrs" "\<forall>h \<in> loads ?phdrs. p_vaddr ?b \<le> p_vaddr h"
    unfolding loads by simp_all
  have content: "file_content example_library_files (sm_filename ?lib) = Some [1, 2, 3, 4, 5]"
    "length [1, 2, 3, 4, 5 :: byte] < 2 ^ 64"
    "\<forall>h \<in> loads ?phdrs. unat (p_offset h) + unat (p_filesz h) \<le> length [1, 2, 3, 4, 5 :: byte]"
    unfolding loads by (simp_all add: example_library_files_def)
  have "length [0, 0 :: byte] = unat (2 :: size_t)" "(2 :: size_t) \<noteq> 0" by simp_all
  from core_copy_from_library [OF state elf base content this] obtain st' where
    "\<forall>h \<in> loads ?phdrs. holds h (p_vaddr ?b + (16389 - sm_start ?lib)) (unat (2 :: size_t)) \<longrightarrow>
       core_copyMemoryFromProcess example_library_files example_core_lib 16389 2 [0, 0] =
         (Inr (block (unat (p_offset h) + (unat (p_vaddr ?b + (16389 - sm_start ?lib)) - unat (p_vaddr h)))
            (unat (2 :: size_t)) [1, 2, 3, 4, 5]), st')" by blast
  then show ?thesis unfolding loads by (intro exI [of _ st']) (simp add: holds_def block_def)
qed

text \<open>
  A read from a library file that is shorter than the request (a truncated or replaced
  file) is reported as complete: the tail of the destination keeps its previous content.
\<close>

theorem core_copy_short_library_read:
  "fst (core_copyMemoryFromProcess example_files example_core_lib 16385 4 [7, 7, 7, 7]) =
     Inr [3, 7, 7, 7]"
proof -
  obtain st' where "getMemoryLocationFromElf example_files example_core_lib 16385 =
      (Inr (elf_location example_files (d_shared_libs example_core_lib) 16385), st')"
    using getMemoryLocationFromElf_cached [OF example_core_lib_facts(1)] by blast
  then show ?thesis
    by (simp add: core_copyMemoryFromProcess_def example_core_lib_facts(2,3))
       (simp add: example_files_def stream_read_def block_def)
qed

section \<open>The core-file manager as a remote memory\<close>

text \<open>The callers above the memory layer pass zero-filled buffers of the requested size.\<close>

definition core_copy :: "files \<Rightarrow> core_memory \<Rightarrow> copier" where
  "core_copy fs st addr n =
     fst (core_copyMemoryFromProcess fs st addr n (replicate (unat n) 0))"

lemma stream_read_length:
  "length dst = unat n \<Longrightarrow> length (stream_read content off n dst) = unat n"
  by (simp add: stream_read_def length_block Let_def)

interpretation core: remote_memory "core_copy fs st" for fs st
  by unfold_locales
     (auto simp: core_copy_def core_copyMemoryFromProcess_def stream_read_length
       d_corefile_size_def length_block split: option.splits if_splits sum.splits prod.splits)

end
