(* ===== verification/Elf_Common.thy ===== *)
theory Elf_Common
  imports Core_Memory
begin

text \<open>
  ELF files and core files as \<open>elf_common.cpp\<close> looks at them: permissions, sections, the load points
  of modules, the search for the libraries of a core file and the notes of its note segment. What
  libelf, libdw and the file system return are parameters.
\<close>

section \<open>The file system\<close>

text \<open>
  The status of a path (\<open>fs::exists\<close> and the like raise a \<open>filesystem_error\<close> when it cannot be
  determined), the entries of a directory in the order in which they are iterated, and
  \<open>fs::canonical\<close>, which raises one when the path does not exist.
\<close>

datatype file_type = Not_Found | Directory | Regular | Other_File

record file_system =
  file_status :: "string \<Rightarrow> file_type result"
  directory_entries :: "string \<Rightarrow> string list result"
  canonical :: "string \<Rightarrow> string result"

definition fs_exists :: "file_system \<Rightarrow> string \<Rightarrow> bool result" where
  "fs_exists fs path = rbind (file_status fs path) (\<lambda>t. Inr (t \<noteq> Not_Found))"

text \<open>\<open>path::filename\<close>: what follows the last slash.\<close>

definition filename_of :: "string \<Rightarrow> string" where
  "filename_of path = rev (takeWhile (\<lambda>c. c \<noteq> CHR ''/'') (rev path))"

text \<open>Repeated \<open>std::getline\<close> with a delimiter. Nothing follows a delimiter at the end.\<close>

function getline_split :: "char \<Rightarrow> string \<Rightarrow> string list" where
  "getline_split c s =
     (if s = [] then []
      else takeWhile (\<lambda>x. x \<noteq> c) s # getline_split c (drop (Suc (length (takeWhile (\<lambda>x. x \<noteq> c) s))) s))"
  by pat_completeness auto
termination by (relation "measure (\<lambda>(c, s). length s)") auto

declare getline_split.simps [simp del]

section \<open>Headers and sections\<close>

record elf_phdr = program_header +
  p_flags :: "32 word"
  p_memsz :: size_t
  p_align :: size_t

record GElf_Shdr =
  sh_name :: "string option"
  sh_type :: "32 word"
  sh_flags :: "64 word"
  sh_addr :: addr
  sh_offset :: size_t
  sh_size :: size_t

text \<open>
  An ELF file as libelf presents it: its program headers and sections (\<open>None\<close> when their number
  cannot be determined, single entries when they cannot be read), whether the section string table is
  known, and the build id.
\<close>

record elf_file =
  elf_phdrs :: "elf_phdr option list option"
  elf_shdrs :: "GElf_Shdr option list option"
  elf_shstrndx_ok :: bool
  elf_build_id :: bytes

abbreviation PF_X :: "64 word" where "PF_X \<equiv> 1"
abbreviation PF_W :: "64 word" where "PF_W \<equiv> 2"
abbreviation PF_R :: "64 word" where "PF_R \<equiv> 4"

definition parse_permissions :: "64 word \<Rightarrow> string" where
  "parse_permissions flags =
     (if flags AND PF_R \<noteq> 0 then ''r'' else '''') @
     (if flags AND PF_W \<noteq> 0 then ''w'' else '''') @
     (if flags AND PF_X \<noteq> 0 then ''x'' else '''')"

record SectionInfo =
  section_name :: string
  section_flags :: string
  section_addr :: addr
  corrected_addr :: addr
  section_offset :: size_t
  section_size :: size_t

text \<open>
  The load point is the first loadable segment, rounded down to its alignment. An alignment of 0, which
  the ELF format allows, is a division by zero.
\<close>

fun load_point_of :: "elf_phdr option list \<Rightarrow> addr result" where
  "load_point_of [] = Inr 0"
| "load_point_of (None # phdrs) = load_point_of phdrs"
| "load_point_of (Some phdr # phdrs) =
     (if p_type phdr \<noteq> PT_LOAD then load_point_of phdrs
      else if p_align phdr = 0 then Inl Undefined
      else Inr (p_vaddr phdr - p_vaddr phdr mod p_align phdr))"

definition section_named :: "string \<Rightarrow> GElf_Shdr option \<Rightarrow> bool" where
  "section_named name scn =
     (case scn of
        None \<Rightarrow> False
      | Some shdr \<Rightarrow> (case sh_name shdr of Some s \<Rightarrow> s | None \<Rightarrow> ''<corrupt>'') = name)"

definition getSectionInfo :: "(string \<Rightarrow> elf_file option) \<Rightarrow> string \<Rightarrow> string \<Rightarrow> SectionInfo option result" where
  "getSectionInfo open_elf filename name =
     (case open_elf filename of
        None \<Rightarrow> Inr None
      | Some elf \<Rightarrow>
          (case elf_phdrs elf of
             None \<Rightarrow> Inr None
           | Some phdrs \<Rightarrow>
               rbind (load_point_of phdrs) (\<lambda>load_point.
                 case elf_shdrs elf of
                   None \<Rightarrow> Inr None
                 | Some shdrs \<Rightarrow>
                     if \<not> elf_shstrndx_ok elf then Inr None
                     else
                       Inr (map_option (\<lambda>scn. let shdr = the scn in
                              \<lparr>section_name = name, section_flags = parse_permissions (sh_flags shdr),
                               section_addr = sh_addr shdr, corrected_addr = sh_addr shdr - load_point,
                               section_offset = sh_offset shdr, section_size = sh_size shdr\<rparr>)
                              (List.find (section_named name) shdrs)))))"

section \<open>Modules\<close>

text \<open>
  A module of libdw: its name, its main and debug file and its range. The name used is that of the main
  file, else that of the debug file, else its own; converting a null name to a string is undefined.
\<close>

record dwfl_module =
  mod_name :: "string option"
  mainfile :: "string option"
  debugfile :: "string option"
  mod_start :: addr
  mod_end :: addr
  mod_build_id :: bytes

definition module_file :: "dwfl_module \<Rightarrow> string option" where
  "module_file m =
     (case mainfile m of Some f \<Rightarrow> Some f
      | None \<Rightarrow> (case debugfile m of Some f \<Rightarrow> Some f | None \<Rightarrow> mod_name m))"

text \<open>\<open>getLoadPointOfModule\<close> with its callback, which stops at the first module of the name.\<close>

fun getLoadPointOfModule :: "dwfl_module list \<Rightarrow> string \<Rightarrow> addr result" where
  "getLoadPointOfModule [] name = Inr 0"
| "getLoadPointOfModule (m # ms) name =
     (case module_file m of
        None \<Rightarrow> Inl Undefined
      | Some f \<Rightarrow> if f = name then Inr (mod_start m) else getLoadPointOfModule ms name)"

text \<open>\<open>buildIdPtrToString\<close>: two hexadecimal digits for each byte.\<close>

definition hex_byte :: "byte \<Rightarrow> string" where
  "hex_byte b = (if unat b < 16 then ''0'' @ to_hex (unat b) else to_hex (unat b))"

definition buildIdPtrToString :: "bytes \<Rightarrow> string" where
  "buildIdPtrToString build_id = concat (map hex_byte build_id)"

definition getBuildId :: "file_system \<Rightarrow> (string \<Rightarrow> elf_file option) \<Rightarrow> string \<Rightarrow> string result" where
  "getBuildId fs open_elf filename =
     rbind (fs_exists fs filename) (\<lambda>ex.
       if \<not> ex then Inr ''''
       else
         case open_elf filename of
           None \<Rightarrow> Inr ''''
         | Some elf \<Rightarrow>
             if elf_build_id elf = [] then Inr '''' else Inr (buildIdPtrToString (elf_build_id elf)))"


section \<open>The libraries of a core file\<close>

text \<open>
  The members of \<open>CoreFileAnalyzer\<close> that decide which files are used. \<open>locateLibrary\<close> looks for a
  file of the same name in the directories of the search path and keeps the name otherwise.
\<close>

record core_analyzer =
  d_executable :: "string option"
  d_lib_search_path :: "string option"

fun find_entry :: "file_system \<Rightarrow> string \<Rightarrow> string list \<Rightarrow> string option result" where
  "find_entry fs name [] = Inr None"
| "find_entry fs name (entry # entries) =
     (if filename_of entry \<noteq> name then find_entry fs name entries
      else rbind (file_status fs entry) (\<lambda>t.
             if t = Regular then Inr (Some entry) else find_entry fs name entries))"

fun search_directories :: "file_system \<Rightarrow> string \<Rightarrow> string list \<Rightarrow> string option result" where
  "search_directories fs name [] = Inr None"
| "search_directories fs name (dir # dirs) =
     rbind (file_status fs dir) (\<lambda>t.
       if t \<noteq> Directory then search_directories fs name dirs
       else
         rbind (directory_entries fs dir) (\<lambda>entries.
         rbind (find_entry fs name entries) (\<lambda>found.
           case found of
             Some entry \<Rightarrow> Inr (Some entry)
           | None \<Rightarrow> search_directories fs name dirs)))"

definition locateLibrary :: "file_system \<Rightarrow> core_analyzer \<Rightarrow> string \<Rightarrow> string result" where
  "locateLibrary fs an lib =
     (case d_lib_search_path an of
        None \<Rightarrow> Inr lib
      | Some path \<Rightarrow>
          rbind (search_directories fs (filename_of lib) (getline_split CHR '':'' path)) (\<lambda>found.
            Inr (case found of Some entry \<Rightarrow> entry | None \<Rightarrow> lib)))"

text \<open>
  \<open>resolveLibraries\<close>: the modules whose file is missing, those that are reported again from another
  file and those that are retained. The answers of libdw are a parameter: whether it accepts that a module is
  retained, the end of the filtering, a file for a module, and the end of reporting.
\<close>

record remapped_module =
  rm_name :: string
  rm_path :: string
  rm_addr :: addr

record dwfl_report =
  report_module :: "dwfl_module \<Rightarrow> bool"
  filter_end :: bool
  report_elf :: "remapped_module \<Rightarrow> bool"
  report_end :: bool

record resolved =
  d_missing_modules :: "string list"
  remapped_modules :: "remapped_module list"
  retained_modules :: "dwfl_module list"

definition module_path :: "dwfl_module \<Rightarrow> string option" where
  "module_path m = (case mainfile m of Some f \<Rightarrow> Some f | None \<Rightarrow> mod_name m)"

definition resolve_module ::
  "file_system \<Rightarrow> core_analyzer \<Rightarrow> resolved \<Rightarrow> dwfl_module \<Rightarrow> (bool \<times> resolved) result" where
  "resolve_module fs an st m =
     (case module_path m of
        None \<Rightarrow> Inl Undefined
      | Some path \<Rightarrow>
          rbind (if d_executable an = None \<or> d_lib_search_path an = None then Inr path
                 else locateLibrary fs an path) (\<lambda>located_path.
          rbind (fs_exists fs located_path) (\<lambda>located_path_exists.
          let st = (if located_path_exists then st
                    else st\<lparr>d_missing_modules := d_missing_modules st @ [located_path]\<rparr>) in
          Inr (if located_path_exists \<and> located_path \<noteq> path
               then (True, st\<lparr>remapped_modules := remapped_modules st @
                     [\<lparr>rm_name = filename_of located_path, rm_path = located_path, rm_addr = mod_start m\<rparr>]\<rparr>)
               else (False, st)))))"

text \<open>\<open>removeModuleIf\<close> on the modules: one that is not removed is reported again.\<close>

fun resolve_modules ::
  "dwfl_report \<Rightarrow> file_system \<Rightarrow> core_analyzer \<Rightarrow> resolved \<Rightarrow> dwfl_module list \<Rightarrow> resolved result" where
  "resolve_modules rep fs an st [] = (if filter_end rep then Inr st else Inl ElfAnalyzerError)"
| "resolve_modules rep fs an st (m # ms) =
     rbind (resolve_module fs an st m) (\<lambda>(remove, st').
       if remove then resolve_modules rep fs an st' ms
       else if \<not> report_module rep m then Inl ElfAnalyzerError
       else resolve_modules rep fs an (st'\<lparr>retained_modules := retained_modules st' @ [m]\<rparr>) ms)"

definition resolveLibraries ::
  "dwfl_report \<Rightarrow> file_system \<Rightarrow> core_analyzer \<Rightarrow> dwfl_module list \<Rightarrow> resolved result" where
  "resolveLibraries rep fs an ms =
     rbind (resolve_modules rep fs an \<lparr>d_missing_modules = [], remapped_modules = [], retained_modules = []\<rparr> ms)
       (\<lambda>st. if list_all (report_elf rep) (remapped_modules st) \<and> report_end rep then Inr st
             else Inl ElfAnalyzerError)"

section \<open>Notes\<close>

text \<open>
  A core file as libelf presents it. \<open>gelf_getnote\<close> reads the note at an offset and returns the
  offset of the next, which libelf guarantees to be greater, and where name and description are;
  \<open>elf_getdata_rawchunk\<close> returns bytes of the file; \<open>gelf_getauxv\<close> an entry of an auxiliary vector.
\<close>

record GElf_Nhdr =
  n_namesz :: nat
  n_descsz :: nat
  n_type :: "32 word"

record core_elf =
  core_is_core :: bool
  core_phdrs :: "elf_phdr option list option"
  core_sections :: "(GElf_Shdr \<times> bytes) option list option"
  getnote :: "bytes \<Rightarrow> nat \<Rightarrow> (nat \<times> GElf_Nhdr \<times> nat \<times> nat) option"
  rawchunk :: "size_t \<Rightarrow> nat \<Rightarrow> bytes option"
  getauxv :: "bytes \<Rightarrow> nat \<Rightarrow> (nat \<times> 64 word) option"

abbreviation PT_NOTE :: "32 word" where "PT_NOTE \<equiv> 4"

record NoteData =
  note_data :: bytes
  descriptor_size :: nat

definition core_name :: bytes where "core_name = [67, 79, 82, 69]"

definition is_note_of_desired_type :: "bytes \<Rightarrow> nat \<Rightarrow> 32 word \<Rightarrow> GElf_Nhdr \<Rightarrow> bool" where
  "is_note_of_desired_type data name_offset ty nhdr \<longleftrightarrow>
     n_type nhdr = ty \<and>
     (n_namesz nhdr = 4 \<or> n_namesz nhdr = 5 \<and> block (name_offset + 4) 1 data = [0]) \<and>
     block name_offset 4 data = core_name"

text \<open>
  The loop over the notes of a segment. It ends when libelf reports no further note; \<open>None\<close> when the
  offsets never reach the end.
\<close>

partial_function (option) note_loop ::
  "core_elf \<Rightarrow> 32 word \<Rightarrow> size_t \<Rightarrow> bytes \<Rightarrow> NoteData list \<Rightarrow> nat \<Rightarrow> NoteData list option" where
  "note_loop elf ty segment_offset data notes note_offset =
     (if note_offset \<ge> length data then Some notes
      else
        case getnote elf data note_offset of
          None \<Rightarrow> Some notes
        | Some (next_offset, nhdr, name_offset, desc_offset) \<Rightarrow>
            let found = (if \<not> is_note_of_desired_type data name_offset ty nhdr then []
                         else
                           case rawchunk elf (segment_offset + of_nat desc_offset) (n_descsz nhdr) of
                             None \<Rightarrow> []
                           | Some bs \<Rightarrow> [\<lparr>note_data = bs, descriptor_size = n_descsz nhdr\<rparr>]) in
            note_loop elf ty segment_offset data (notes @ found) next_offset)"

definition getDataFromNoteSection ::
  "core_elf \<Rightarrow> 32 word \<Rightarrow> elf_phdr \<Rightarrow> bytes \<Rightarrow> NoteData list result" where
  "getDataFromNoteSection elf ty phdr data =
     (case note_loop elf ty (p_offset phdr) data [] 0 of None \<Rightarrow> Inl Diverges | Some notes \<Rightarrow> Inr notes)"

text \<open>Only the first note segment that can be read is looked at.\<close>

fun note_segments :: "core_elf \<Rightarrow> 32 word \<Rightarrow> elf_phdr option list \<Rightarrow> NoteData list result" where
  "note_segments elf ty [] = Inr []"
| "note_segments elf ty (None # phdrs) = note_segments elf ty phdrs"
| "note_segments elf ty (Some phdr # phdrs) =
     (if p_type phdr \<noteq> PT_NOTE then note_segments elf ty phdrs
      else
        case rawchunk elf (p_offset phdr) (unat (p_filesz phdr)) of
          None \<Rightarrow> note_segments elf ty phdrs
        | Some data \<Rightarrow> getDataFromNoteSection elf ty phdr data)"

definition getNoteData :: "core_elf \<Rightarrow> 32 word \<Rightarrow> NoteData list result" where
  "getNoteData elf ty =
     (case core_phdrs elf of None \<Rightarrow> Inr [] | Some phdrs \<Rightarrow> note_segments elf ty phdrs)"


section \<open>Facts\<close>

text \<open>The name of a file has no slash, and a name without slashes is its own file name.\<close>

lemma filename_of_no_slash: "CHR ''/'' \<notin> set (filename_of path)"
  by (auto simp: filename_of_def dest: set_takeWhileD)

lemma takeWhile_no_slash:
  "CHR ''/'' \<notin> set name \<Longrightarrow> takeWhile (\<lambda>c. c \<noteq> CHR ''/'') (rev name @ rest) =
     rev name @ takeWhile (\<lambda>c. c \<noteq> CHR ''/'') rest"
  by (intro takeWhile_append2) auto

lemma filename_of_name: "CHR ''/'' \<notin> set name \<Longrightarrow> filename_of (dir @ CHR ''/'' # name) = name"
  by (simp add: filename_of_def takeWhile_no_slash)

lemma filename_of_plain: "CHR ''/'' \<notin> set name \<Longrightarrow> filename_of name = name"
  unfolding filename_of_def by (metis takeWhile_no_slash append_Nil2 takeWhile.simps(1) rev_rev_ident)

lemma find_entry_Some:
  "find_entry fs name entries = Inr (Some e) \<Longrightarrow>
     e \<in> set entries \<and> filename_of e = name \<and> file_status fs e = Inr Regular"
  by (induction entries) (auto simp: result_simps split: if_splits)

text \<open>
  A located library is the library itself or a regular file of the same name in a directory of the
  search path.
\<close>

definition found_in :: "file_system \<Rightarrow> string list \<Rightarrow> string \<Rightarrow> string \<Rightarrow> bool" where
  "found_in fs dirs name e \<longleftrightarrow>
     (\<exists>dir \<in> set dirs. \<exists>entries. file_status fs dir = Inr Directory \<and>
        directory_entries fs dir = Inr entries \<and> e \<in> set entries) \<and>
     filename_of e = name \<and> file_status fs e = Inr Regular"

lemma search_directories_Some:
  "search_directories fs name dirs = Inr (Some e) \<Longrightarrow> found_in fs dirs name e"
proof (induction dirs)
  case (Cons dir dirs)
  from Cons.prems consider (later) "search_directories fs name dirs = Inr (Some e)"
    | (here) entries where "file_status fs dir = Inr Directory" "directory_entries fs dir = Inr entries"
        "find_entry fs name entries = Inr (Some e)"
    by (auto simp: result_simps split: if_splits option.splits)
  then show ?case
  proof cases
    case later
    then show ?thesis using Cons.IH by (auto simp: found_in_def)
  next
    case here
    then show ?thesis using find_entry_Some [OF here(3)] by (auto simp: found_in_def)
  qed
qed simp

lemma locateLibrary_found:
  "locateLibrary fs an lib = Inr e \<Longrightarrow>
     e = lib \<or> (\<exists>path. d_lib_search_path an = Some path \<and>
                 found_in fs (getline_split CHR '':'' path) (filename_of lib) e)"
  by (auto simp: locateLibrary_def result_simps dest!: search_directories_Some split: option.splits)

lemma locateLibrary_filename: "locateLibrary fs an lib = Inr e \<Longrightarrow> filename_of e = filename_of lib"
  by (auto dest!: locateLibrary_found simp: found_in_def)

text \<open>What becomes of each module, and what is recorded of it.\<close>

definition module_location :: "file_system \<Rightarrow> core_analyzer \<Rightarrow> dwfl_module \<Rightarrow> string result" where
  "module_location fs an m =
     (case module_path m of
        None \<Rightarrow> Inl Undefined
      | Some path \<Rightarrow>
          if d_executable an = None \<or> d_lib_search_path an = None then Inr path
          else locateLibrary fs an path)"

definition missing_module :: "file_system \<Rightarrow> core_analyzer \<Rightarrow> dwfl_module \<Rightarrow> bool" where
  "missing_module fs an m \<longleftrightarrow> (\<exists>f. module_location fs an m = Inr f \<and> fs_exists fs f = Inr False)"

definition remapped_from :: "file_system \<Rightarrow> core_analyzer \<Rightarrow> dwfl_module \<Rightarrow> string \<Rightarrow> bool" where
  "remapped_from fs an m f \<longleftrightarrow>
     module_location fs an m = Inr f \<and> fs_exists fs f = Inr True \<and> module_path m \<noteq> Some f"

definition location_of :: "file_system \<Rightarrow> core_analyzer \<Rightarrow> dwfl_module \<Rightarrow> string" where
  "location_of fs an m = (case module_location fs an m of Inr f \<Rightarrow> f | Inl _ \<Rightarrow> '''')"

definition remapped_as :: "file_system \<Rightarrow> core_analyzer \<Rightarrow> dwfl_module \<Rightarrow> remapped_module" where
  "remapped_as fs an m =
     \<lparr>rm_name = filename_of (location_of fs an m), rm_path = location_of fs an m, rm_addr = mod_start m\<rparr>"

lemma resolve_module_Inr:
  assumes "resolve_module fs an st m = Inr (remove, st')"
  shows "(remove \<longleftrightarrow> (\<exists>f. remapped_from fs an m f)) \<and>
         st' = \<lparr>d_missing_modules = d_missing_modules st @
                  (if missing_module fs an m then [location_of fs an m] else []),
                remapped_modules = remapped_modules st @
                  (if \<exists>f. remapped_from fs an m f then [remapped_as fs an m] else []),
                retained_modules = retained_modules st\<rparr>"
proof -
  from assms obtain path where path: "module_path m = Some path"
    by (auto simp: resolve_module_def split: option.splits)
  with assms obtain f ex where f: "module_location fs an m = Inr f" "fs_exists fs f = Inr ex"
    unfolding resolve_module_def module_location_def by (auto simp: result_simps)
  have "(\<exists>g. remapped_from fs an m g) \<longleftrightarrow> ex \<and> f \<noteq> path" "missing_module fs an m \<longleftrightarrow> \<not> ex"
    "location_of fs an m = f"
    using f path by (auto simp: remapped_from_def missing_module_def location_of_def)
  moreover have "(remove, st') = (let st = (if ex then st else st\<lparr>d_missing_modules := d_missing_modules st @ [f]\<rparr>) in
      if ex \<and> f \<noteq> path then (True, st\<lparr>remapped_modules := remapped_modules st @
        [\<lparr>rm_name = filename_of f, rm_path = f, rm_addr = mod_start m\<rparr>]\<rparr>)
      else (False, st))"
    using assms f path unfolding resolve_module_def module_location_def Let_def by (auto simp: result_simps)
  ultimately show ?thesis by (cases st) (auto simp: Let_def remapped_as_def)
qed

lemma resolve_modules_Inr:
  "resolve_modules rep fs an st ms = Inr st' \<Longrightarrow>
     d_missing_modules st' = d_missing_modules st @
       map (location_of fs an) (filter (missing_module fs an) ms) \<and>
     remapped_modules st' = remapped_modules st @
       map (remapped_as fs an) (filter (\<lambda>m. \<exists>f. remapped_from fs an m f) ms) \<and>
     retained_modules st' = retained_modules st @
       filter (\<lambda>m. \<not> (\<exists>f. remapped_from fs an m f)) ms"
proof (induction ms arbitrary: st)
  case (Cons m ms)
  from Cons.prems obtain remove st1 where st1: "resolve_module fs an st m = Inr (remove, st1)"
    "resolve_modules rep fs an
       (if remove then st1 else st1\<lparr>retained_modules := retained_modules st1 @ [m]\<rparr>) ms = Inr st'"
    by (auto simp: result_simps split: if_splits)
  from Cons.IH [OF st1(2)] resolve_module_Inr [OF st1(1)] show ?case by simp
qed (simp split: if_splits)

text \<open>
  Property C37. Resolving the libraries of a core file loses no module: each is retained, or reported
  again at its start address from an existing file of the same name that was found in the search path;
  the missing modules are exactly those whose file does not exist.
\<close>

theorem resolved_libraries_complete:
  assumes "resolveLibraries rep fs an ms = Inr st"
  shows "retained_modules st = filter (\<lambda>m. \<not> (\<exists>f. remapped_from fs an m f)) ms \<and>
    remapped_modules st = map (remapped_as fs an) (filter (\<lambda>m. \<exists>f. remapped_from fs an m f) ms) \<and>
    d_missing_modules st = map (location_of fs an) (filter (missing_module fs an) ms) \<and>
    (\<forall>m f. remapped_from fs an m f \<longrightarrow>
       (\<exists>path dirs. module_path m = Some path \<and> d_lib_search_path an = Some dirs \<and>
          found_in fs (getline_split CHR '':'' dirs) (filename_of path) f))"
proof -
  have "resolve_modules rep fs an \<lparr>d_missing_modules = [], remapped_modules = [], retained_modules = []\<rparr> ms = Inr st"
    using assms by (auto simp: resolveLibraries_def result_simps split: if_splits)
  moreover have "\<exists>path dirs. module_path m = Some path \<and> d_lib_search_path an = Some dirs \<and>
      found_in fs (getline_split CHR '':'' dirs) (filename_of path) f" if "remapped_from fs an m f" for m f
    using that by (auto simp: remapped_from_def module_location_def split: option.splits if_splits
        dest!: locateLibrary_found)
  ultimately show ?thesis by (auto dest!: resolve_modules_Inr)
qed


text \<open>
  A core with the modules \<open>/x/a.so\<close> and \<open>/x/b.so\<close>, neither of which exists; the first is found in the
  directory \<open>/l\<close> of the search path.
\<close>

definition example_fs :: file_system where
  "example_fs =
     \<lparr>file_status = (\<lambda>p. Inr (if p = ''/l'' then Directory else if p = ''/l/a.so'' then Regular else Not_Found)),
      directory_entries = (\<lambda>d. Inr [''/l/c.so'', ''/l/a.so'']),
      canonical = (\<lambda>p. Inr p)\<rparr>"

definition example_module :: "string \<Rightarrow> addr \<Rightarrow> dwfl_module" where
  "example_module path a =
     \<lparr>mod_name = None, mainfile = Some path, debugfile = None, mod_start = a, mod_end = a + 16,
      mod_build_id = []\<rparr>"

definition example_analyzer :: core_analyzer where
  "example_analyzer = \<lparr>d_executable = Some ''/x/python'', d_lib_search_path = Some ''/k:/l''\<rparr>"

lemma example_resolved:
  "resolveLibraries \<lparr>report_module = \<lambda>_. True, filter_end = True, report_elf = \<lambda>_. True, report_end = True\<rparr>
     example_fs example_analyzer
     [example_module ''/x/a.so'' 4096, example_module ''/x/b.so'' 8192] =
   Inr \<lparr>d_missing_modules = [''/x/b.so''],
        remapped_modules = [\<lparr>rm_name = ''a.so'', rm_path = ''/l/a.so'', rm_addr = 4096\<rparr>],
        retained_modules = [example_module ''/x/b.so'' 8192]\<rparr>"
  by (simp add: resolveLibraries_def resolve_module_def module_path_def example_module_def
      example_analyzer_def example_fs_def locateLibrary_def filename_of_def fs_exists_def
      getline_split.simps)

theorem resolved_libraries_complete_witness:
  "\<exists>f. found_in example_fs (getline_split CHR '':'' ''/k:/l'') ''a.so'' f"
proof -
  have "\<exists>f. remapped_from example_fs example_analyzer (example_module ''/x/a.so'' 4096) f"
    by (simp add: remapped_from_def module_location_def module_path_def example_module_def
        example_analyzer_def example_fs_def locateLibrary_def filename_of_def fs_exists_def
        getline_split.simps)
  with resolved_libraries_complete [OF example_resolved]
  obtain f path dirs where "module_path (example_module ''/x/a.so'' 4096) = Some path"
    "d_lib_search_path example_analyzer = Some dirs"
    "found_in example_fs (getline_split CHR '':'' dirs) (filename_of path) f" by blast
  then show ?thesis
    by (auto simp: module_path_def example_module_def example_analyzer_def filename_of_def)
qed

section \<open>Notes and sections\<close>

text \<open>With the progress that libelf guarantees, the loop over the notes ends, with notes of the type.\<close>

lemma note_loop_ends:
  assumes "\<forall>off nxt x. getnote elf data off = Some (nxt, x) \<longrightarrow> off < nxt"
  shows "\<exists>found. note_loop elf ty segment_offset data acc off = Some (acc @ found)"
proof (induction "length data - off" arbitrary: off acc rule: less_induct)
  case less
  show ?case
  proof (cases "off < length data \<and> getnote elf data off \<noteq> None")
    case False
    then have "off \<ge> length data \<or> getnote elf data off = None" by auto
    then show ?thesis by (subst note_loop.simps) auto
  next
    case True
    then obtain nxt nhdr n_off d_off where entry: "getnote elf data off = Some (nxt, nhdr, n_off, d_off)" by auto
    with assms True have "length data - nxt < length data - off" by (meson diff_less_mono2 order.strict_trans2)
    from less [OF this] have rest:
      "\<exists>found. note_loop elf ty segment_offset data (acc @ xs) nxt = Some (acc @ found)" for xs
      by (metis append.assoc)
    from entry True show ?thesis by (subst note_loop.simps) (simp add: Let_def rest)
  qed
qed

text \<open>
  The flags of a section are not those of a segment: for a writable and allocated section (\<open>SHF_WRITE\<close> is
  1, \<open>SHF_ALLOC\<close> 2) the permissions are those of a writable and executable segment.
\<close>

lemma section_flags_misread: "parse_permissions 3 = ''wx''"
  by (simp add: parse_permissions_def)

lemma getSectionInfo_section:
  assumes "getSectionInfo open_elf filename name = Inr (Some info)"
  obtains elf phdrs shdrs shdr load_point where
    "open_elf filename = Some elf" "elf_phdrs elf = Some phdrs" "elf_shdrs elf = Some shdrs"
    "load_point_of phdrs = Inr load_point" "Some shdr \<in> set shdrs" "section_named name (Some shdr)"
    "corrected_addr info = sh_addr shdr - load_point" "section_size info = sh_size shdr"
proof -
  from assms obtain elf phdrs shdrs load_point scn where
    e: "open_elf filename = Some elf" "elf_phdrs elf = Some phdrs" "elf_shdrs elf = Some shdrs"
    "load_point_of phdrs = Inr load_point"
    and scn: "List.find (section_named name) shdrs = Some scn"
      "corrected_addr info = sh_addr (the scn) - load_point" "section_size info = sh_size (the scn)"
    by (auto simp: getSectionInfo_def result_simps Let_def split: option.splits if_splits)
  from find_SomeD [OF scn(1)] obtain shdr where "scn = Some shdr" "Some shdr \<in> set shdrs"
    "section_named name (Some shdr)" by (cases scn) (auto simp: section_named_def)
  with e scn that show thesis by auto
qed

end
