(* ===== verification/Core_File.thy ===== *)
theory Core_File
  imports Elf_Common
begin

text \<open>
  What \<open>CoreFileExtractor\<close> (\<open>corefile.cpp\<close>) takes from a core file: its mappings with the files they
  came from, the mapped files of the \<open>NT_FILE\<close> note, the signal of the crash, the process information
  and the executable. Core files are those of a 64-bit process.
\<close>

section \<open>Mappings\<close>

record CoreVirtualMap =
  cv_start :: addr
  cv_end :: addr
  cv_filesize :: size_t
  cv_flags :: string
  cv_offset :: size_t
  cv_device :: string
  cv_inode :: size_t
  cv_path :: string
  cv_buildid :: string

record core_extractor =
  d_module_info :: "simple_virtual_map list"
  d_core_maps :: "CoreVirtualMap list"

text \<open>\<open>module_callback\<close> and the relocation of the file names.\<close>

definition simple_map_of :: "dwfl_module \<Rightarrow> simple_virtual_map result" where
  "simple_map_of m =
     (case module_file m of
        None \<Rightarrow> Inl Undefined
      | Some modname \<Rightarrow>
          Inr \<lparr>sm_start = mod_start m, sm_end = mod_end m, sm_filename = modname,
               sm_buildid = (if mod_build_id m = [] then '''' else buildIdPtrToString (mod_build_id m))\<rparr>)"

definition relocated_map :: "file_system \<Rightarrow> core_analyzer \<Rightarrow> simple_virtual_map \<Rightarrow> simple_virtual_map result" where
  "relocated_map fs an sm =
     rbind (locateLibrary fs an (sm_filename sm)) (\<lambda>f. Inr (sm\<lparr>sm_filename := f\<rparr>))"

definition module_covering :: "simple_virtual_map list \<Rightarrow> addr \<Rightarrow> addr \<Rightarrow> simple_virtual_map option" where
  "module_covering ms start fin = List.find (\<lambda>m. start \<ge> sm_start m \<and> fin \<le> sm_end m) ms"

definition segment_map ::
  "file_system \<Rightarrow> (string \<Rightarrow> elf_file option) \<Rightarrow> simple_virtual_map list \<Rightarrow> elf_phdr \<Rightarrow> CoreVirtualMap result" where
  "segment_map fs open_elf ms phdr =
     (let start = p_vaddr phdr; fin = p_vaddr phdr + p_memsz phdr;
          filename = (case module_covering ms start fin of None \<Rightarrow> '''' | Some m \<Rightarrow> sm_filename m) in
      rbind (getBuildId fs open_elf filename) (\<lambda>build_id.
        Inr \<lparr>cv_start = start, cv_end = fin, cv_filesize = p_filesz phdr,
             cv_flags = parse_permissions (ucast (p_flags phdr)), cv_offset = p_offset phdr,
             cv_device = '''', cv_inode = 0, cv_path = filename, cv_buildid = build_id\<rparr>))"

text \<open>The modules of a core (\<open>None\<close> when libdw cannot list them) become mappings of its segments.\<close>

definition populateMaps ::
  "file_system \<Rightarrow> (string \<Rightarrow> elf_file option) \<Rightarrow> core_analyzer \<Rightarrow> core_elf \<Rightarrow> dwfl_module list option \<Rightarrow>
   core_extractor result" where
  "populateMaps fs open_elf an elf modules =
     (if \<not> core_is_core elf then Inl CoreAnalyzerError
      else
        case modules of
          None \<Rightarrow> Inl CoreAnalyzerError
        | Some mods \<Rightarrow>
            rbind (rmap simple_map_of mods) (\<lambda>sms.
            rbind (rmap (relocated_map fs an) sms) (\<lambda>module_info.
              case core_phdrs elf of
                None \<Rightarrow> Inl CoreAnalyzerError
              | Some phdrs \<Rightarrow>
                  rbind (rmap (segment_map fs open_elf module_info)
                           (filter (\<lambda>h. p_type h = PT_LOAD) (List.map_filter id phdrs))) (\<lambda>maps.
                    Inr \<lparr>d_module_info = module_info, d_core_maps = maps\<rparr>))))"

section \<open>Process and crash information\<close>

abbreviation NT_PRSTATUS :: "32 word" where "NT_PRSTATUS \<equiv> 1"
abbreviation NT_PRPSINFO :: "32 word" where "NT_PRPSINFO \<equiv> 3"
abbreviation NT_AUXV :: "32 word" where "NT_AUXV \<equiv> 6"
abbreviation NT_SIGINFO :: "32 word" where "NT_SIGINFO \<equiv> 0x53494749"
abbreviation NT_FILE :: "32 word" where "NT_FILE \<equiv> 0x46494c45"
abbreviation AT_EXECFN :: nat where "AT_EXECFN \<equiv> 31"

record CoreCrashInfo =
  si_signo :: "32 word"
  si_errno :: "32 word"
  si_code :: "32 word"
  sender_pid :: "32 word"
  sender_uid :: "32 word"
  failed_addr :: addr

definition no_crash :: CoreCrashInfo where
  "no_crash = \<lparr>si_signo = 0, si_errno = 0, si_code = 0, sender_pid = 0, sender_uid = 0, failed_addr = 0\<rparr>"

record CorePsInfo =
  ps_state :: byte
  ps_sname :: byte
  ps_zomb :: byte
  ps_nice :: byte
  ps_flag :: "64 word"
  ps_uid :: "32 word"
  ps_gid :: "32 word"
  ps_pid :: "32 word"
  ps_ppid :: "32 word"
  ps_pgrp :: "32 word"
  ps_sid :: "32 word"
  ps_fname :: bytes
  ps_psargs :: bytes

text \<open>
  \<open>sizeof(CorePsInfo)\<close> is 136, \<open>sizeof(siginfo_t)\<close> 128; \<open>sizeof(prstatus_t)\<close> depends on the
  processor. The character arrays are terminated by force.
\<close>

definition read_int :: "nat \<Rightarrow> bytes \<Rightarrow> 32 word" where
  "read_int off data = le_word (block off 4 data)"

definition parseCorePsinfo :: "NoteData \<Rightarrow> CorePsInfo option" where
  "parseCorePsinfo note =
     (let d = note_data note in
      if length d \<noteq> 136 then None
      else Some
        \<lparr>ps_state = d ! 0, ps_sname = d ! 1, ps_zomb = d ! 2, ps_nice = d ! 3,
         ps_flag = le_word (block 8 8 d), ps_uid = read_int 16 d, ps_gid = read_int 20 d,
         ps_pid = read_int 24 d, ps_ppid = read_int 28 d, ps_pgrp = read_int 32 d, ps_sid = read_int 36 d,
         ps_fname = (block 40 16 d)[15 := 0], ps_psargs = (block 56 80 d)[79 := 0]\<rparr>)"

text \<open>\<open>struct elf_siginfo\<close> has the code before the error number.\<close>

definition parseCorePrstatus :: "nat \<Rightarrow> NoteData \<Rightarrow> CoreCrashInfo option" where
  "parseCorePrstatus prstatus_size note =
     (let d = note_data note in
      if length d \<noteq> prstatus_size then None
      else Some (no_crash\<lparr>si_signo := read_int 0 d, si_errno := read_int 8 d, si_code := read_int 4 d\<rparr>))"

abbreviation SIGILL :: "32 word" where "SIGILL \<equiv> 4"
abbreviation SIGBUS :: "32 word" where "SIGBUS \<equiv> 7"
abbreviation SIGFPE :: "32 word" where "SIGFPE \<equiv> 8"
abbreviation SIGSEGV :: "32 word" where "SIGSEGV \<equiv> 11"
abbreviation SI_USER :: "32 word" where "SI_USER \<equiv> 0"

definition parseCoreSiginfo :: "NoteData \<Rightarrow> CoreCrashInfo option" where
  "parseCoreSiginfo note =
     (let d = note_data note in
      if length d \<noteq> 128 then None
      else
        let info = no_crash\<lparr>si_signo := read_int 0 d, si_errno := read_int 4 d, si_code := read_int 8 d\<rparr> in
        Some (if 0 < sint (si_code info) then
                if si_signo info \<in> {SIGILL, SIGFPE, SIGSEGV, SIGBUS}
                then info\<lparr>failed_addr := le_word (block 16 8 d)\<rparr> else info
              else if si_code info = SI_USER
              then info\<lparr>sender_pid := read_int 16 d, sender_uid := read_int 20 d\<rparr> else info))"

text \<open>The first note that parses is used.\<close>

definition first_parsed :: "(NoteData \<Rightarrow> 'a option) \<Rightarrow> NoteData list \<Rightarrow> 'a option" where
  "first_parsed parse notes =
     (case List.find (\<lambda>n. parse n \<noteq> None) notes of None \<Rightarrow> None | Some n \<Rightarrow> parse n)"

definition extractFailureInfo :: "nat \<Rightarrow> core_elf \<Rightarrow> CoreCrashInfo result" where
  "extractFailureInfo prstatus_size elf =
     rbind (getNoteData elf NT_SIGINFO) (\<lambda>siginfos.
       case first_parsed parseCoreSiginfo siginfos of
         Some info \<Rightarrow> Inr info
       | None \<Rightarrow>
           rbind (getNoteData elf NT_PRSTATUS) (\<lambda>prstatuses.
             Inr (case first_parsed (parseCorePrstatus prstatus_size) prstatuses of
                    Some info \<Rightarrow> info | None \<Rightarrow> no_crash)))"

definition no_psinfo :: CorePsInfo where
  "no_psinfo = \<lparr>ps_state = 0, ps_sname = 0, ps_zomb = 0, ps_nice = 0, ps_flag = 0, ps_uid = 0, ps_gid = 0,
     ps_pid = 0, ps_ppid = 0, ps_pgrp = 0, ps_sid = 0, ps_fname = replicate 16 0, ps_psargs = replicate 80 0\<rparr>"

definition extractPSInfo :: "core_elf \<Rightarrow> CorePsInfo result" where
  "extractPSInfo elf =
     rbind (getNoteData elf NT_PRPSINFO) (\<lambda>notes.
       Inr (case first_parsed parseCorePsinfo notes of Some info \<Rightarrow> info | None \<Rightarrow> no_psinfo))"

section \<open>Mapped files\<close>

text \<open>
  \<open>parseCoreFileNote\<close>: the number of entries and the page size, three words for each entry, then the
  names of the files. A name is read before it is known to end in the note. \<open>None\<close> is an error.
\<close>

definition read_word :: "nat \<Rightarrow> bytes \<Rightarrow> 64 word" where
  "read_word off data = le_word (block off 8 data)"

definition file_map :: "addr \<Rightarrow> addr \<Rightarrow> size_t \<Rightarrow> bytes \<Rightarrow> CoreVirtualMap" where
  "file_map mstart mend offset name =
     \<lparr>cv_start = mstart, cv_end = mend, cv_filesize = 0, cv_flags = '''', cv_offset = offset,
      cv_device = '''', cv_inode = 0, cv_path = string_of_bytes name, cv_buildid = ''''\<rparr>"

fun file_entries :: "bytes \<Rightarrow> 64 word \<Rightarrow> nat \<Rightarrow> nat \<Rightarrow> nat \<Rightarrow> CoreVirtualMap list result" where
  "file_entries data page_size ptr filename_ptr 0 = Inr []"
| "file_entries data page_size ptr filename_ptr (Suc n) =
     (let name = takeWhile (\<lambda>b. b \<noteq> 0) (drop filename_ptr data);
          next_ptr = filename_ptr + length name in
      if next_ptr \<ge> length data then Inl Undefined
      else
        rbind (file_entries data page_size (ptr + 24) (next_ptr + 1) n) (\<lambda>maps.
          Inr (file_map (read_word ptr data) (read_word (ptr + 8) data)
                 (read_word (ptr + 16) data * page_size) name # maps)))"

definition parseCoreFileNote :: "NoteData \<Rightarrow> CoreVirtualMap list option result" where
  "parseCoreFileNote note =
     (let data = note_data note in
      if length data < 16 then Inl Undefined
      else
        let count = unat (read_word 0 data); page_size = read_word 8 data in
        if count > (length data - 16) div 24 then Inr None
        else rbind (file_entries data page_size 16 (16 + count * 24) count) (\<lambda>maps. Inr (Some maps)))"

fun first_file_note :: "NoteData list \<Rightarrow> CoreVirtualMap list result" where
  "first_file_note [] = Inr []"
| "first_file_note (note # notes) =
     rbind (parseCoreFileNote note) (\<lambda>maps.
       case maps of Some ms \<Rightarrow> Inr ms | None \<Rightarrow> first_file_note notes)"

definition extractMappedFiles :: "core_elf \<Rightarrow> CoreVirtualMap list result" where
  "extractMappedFiles elf = rbind (getNoteData elf NT_FILE) first_file_note"


section \<open>The executable\<close>

text \<open>
  \<open>parseCoreExecfn\<close> goes through an auxiliary vector; entries that libelf cannot decode are skipped.
  For a note section the descriptor size is the third member of the initialiser, where the code puts
  the offset of the section.
\<close>

definition parseCoreExecfn :: "core_elf \<Rightarrow> NoteData \<Rightarrow> addr option" where
  "parseCoreExecfn elf note =
     (let execfn = (\<lambda>i. case getauxv elf (note_data note) i of
                         Some (ty, val) \<Rightarrow> if ty = AT_EXECFN then Some val else None
                       | None \<Rightarrow> None) in
      case List.find (\<lambda>i. execfn i \<noteq> None) [0..<descriptor_size note div 16] of
        None \<Rightarrow> None
      | Some i \<Rightarrow> execfn i)"

abbreviation SHT_NOTE :: "32 word" where "SHT_NOTE \<equiv> 7"

fun first_execfn :: "core_elf \<Rightarrow> NoteData list \<Rightarrow> addr option" where
  "first_execfn elf [] = None"
| "first_execfn elf (note # notes) =
     (case parseCoreExecfn elf note of Some a \<Rightarrow> Some a | None \<Rightarrow> first_execfn elf notes)"

definition section_notes :: "(GElf_Shdr \<times> bytes) option list \<Rightarrow> NoteData list" where
  "section_notes sections =
     map (\<lambda>(shdr, data). \<lparr>note_data = data, descriptor_size = unat (sh_offset shdr)\<rparr>)
       (filter (\<lambda>(shdr, data). sh_type shdr = SHT_NOTE) (List.map_filter id sections))"

definition findExecFn :: "core_elf \<Rightarrow> addr result" where
  "findExecFn elf =
     (case core_sections elf of
        None \<Rightarrow> Inr 0
      | Some sections \<Rightarrow>
          (case first_execfn elf (section_notes sections) of
             Some a \<Rightarrow> Inr a
           | None \<Rightarrow>
               rbind (getNoteData elf NT_AUXV) (\<lambda>notes.
                 Inr (case first_execfn elf notes of Some a \<Rightarrow> a | None \<Rightarrow> 0))))"

definition in_core_map :: "addr \<Rightarrow> CoreVirtualMap \<Rightarrow> bool" where
  "in_core_map addr m \<longleftrightarrow> cv_start m \<le> addr \<and> addr \<le> cv_end m"

definition extractExecutable :: "core_elf \<Rightarrow> CoreVirtualMap list \<Rightarrow> bytes option \<Rightarrow> string result" where
  "extractExecutable elf maps core_content =
     rbind (findExecFn elf) (\<lambda>addr.
       if addr = 0 then Inl ElfAnalyzerError
       else
         case List.find (in_core_map addr) maps of
           None \<Rightarrow> Inl ElfAnalyzerError
         | Some m \<Rightarrow>
             let location = addr - cv_start m + cv_offset m in
             (case core_content of
                None \<Rightarrow> Inl ElfAnalyzerError
              | Some content \<Rightarrow>
                  Inr (string_of_bytes (takeWhile (\<lambda>b. b \<noteq> 0) (drop (unat location) content)))))"

section \<open>The mapped files are read back\<close>

text \<open>The layout of an \<open>NT_FILE\<close> note: what the kernel writes for the mapped files of a process.\<close>

record mapped_file =
  mf_start :: addr
  mf_end :: addr
  mf_page :: "64 word"
  mf_name :: bytes

definition word_bytes :: "64 word \<Rightarrow> bytes" where
  "word_bytes w = le_encode 8 (unat w)"

definition entry_bytes :: "mapped_file \<Rightarrow> bytes" where
  "entry_bytes f = word_bytes (mf_start f) @ word_bytes (mf_end f) @ word_bytes (mf_page f)"

definition name_bytes :: "mapped_file \<Rightarrow> bytes" where
  "name_bytes f = mf_name f @ [0]"

definition file_note :: "64 word \<Rightarrow> mapped_file list \<Rightarrow> bytes" where
  "file_note page_size fs =
     word_bytes (of_nat (length fs)) @ word_bytes page_size @
     concat (map entry_bytes fs) @ concat (map name_bytes fs)"

definition mapped_file_map :: "64 word \<Rightarrow> mapped_file \<Rightarrow> CoreVirtualMap" where
  "mapped_file_map page_size f = file_map (mf_start f) (mf_end f) (mf_page f * page_size) (mf_name f)"

lemma length_word_bytes [simp]: "length (word_bytes w) = 8"
  by (simp add: word_bytes_def)

lemma length_entry_bytes [simp]: "length (entry_bytes f) = 24"
  by (simp add: entry_bytes_def)

lemma length_entries [simp]: "length (concat (map entry_bytes fs)) = 24 * length fs"
  by (induction fs) auto

lemma read_word_here:
  assumes "drop off data = word_bytes w @ rest"
  shows "read_word off data = w"
proof -
  have "block off 8 data = word_bytes w" using assms by (simp add: block_def)
  then show ?thesis by (simp add: read_word_def word_bytes_def le_word_encode_8)
qed

lemma read_entry:
  assumes "drop off data = entry_bytes f @ rest"
  shows "read_word off data = mf_start f" "read_word (off + 8) data = mf_end f"
    "read_word (off + 16) data = mf_page f" "drop (off + 24) data = rest"
proof -
  have parts: "drop off data = word_bytes (mf_start f) @ word_bytes (mf_end f) @ word_bytes (mf_page f) @ rest"
    using assms by (simp add: entry_bytes_def)
  have at: "drop (off + k) data = drop k (drop off data)" for k by (simp add: add.commute)
  show "read_word off data = mf_start f" using parts by (rule read_word_here)
  have "drop (off + 8) data = word_bytes (mf_end f) @ word_bytes (mf_page f) @ rest"
    unfolding at parts by simp
  then show "read_word (off + 8) data = mf_end f" by (rule read_word_here)
  have "drop (off + 16) data = word_bytes (mf_page f) @ rest" unfolding at parts by simp
  then show "read_word (off + 16) data = mf_page f" by (rule read_word_here)
  show "drop (off + 24) data = rest" unfolding at parts by simp
qed

lemma file_entries_encoded:
  assumes "drop ptr data = concat (map entry_bytes fs) @ x" and "drop fptr data = concat (map name_bytes fs) @ y"
    and "\<forall>f \<in> set fs. 0 \<notin> set (mf_name f)"
  shows "file_entries data page_size ptr fptr (length fs) = Inr (map (mapped_file_map page_size) fs)"
  using assms
proof (induction fs arbitrary: ptr fptr)
  case (Cons f fs)
  from Cons.prems(1) have e: "drop ptr data = entry_bytes f @ concat (map entry_bytes fs) @ x" by simp
  from Cons.prems(2) have n: "drop fptr data = mf_name f @ 0 # concat (map name_bytes fs) @ y"
    by (simp add: name_bytes_def [of f])
  have "takeWhile (\<lambda>b. b \<noteq> 0) (drop fptr data) = mf_name f"
    using Cons.prems(3) unfolding n by (subst takeWhile_append2) auto
  moreover have "drop (fptr + length (mf_name f) + 1) data = drop (length (mf_name f) + 1) (drop fptr data)"
    by (simp add: add.commute)
  then have "drop (fptr + length (mf_name f) + 1) data = concat (map name_bytes fs) @ y"
    unfolding n by simp
  moreover have "fptr + length (mf_name f) < length data"
  proof -
    have "length (drop fptr data) > length (mf_name f)" unfolding n by simp
    then show ?thesis by simp
  qed
  ultimately show ?case
    using Cons.IH [OF read_entry(4) [OF e]] Cons.prems(3) read_entry [OF e]
    by (simp add: Let_def mapped_file_map_def)
qed simp


text \<open>
  Property C36. What the kernel writes into the note about the mapped files of a process is read back:
  the mappings in order, each with its range, its file and its offset in bytes.
\<close>

theorem mapped_files_read_back:
  assumes "note_data note = file_note page_size fs" and "length fs < 2 ^ 64"
    and "\<forall>f \<in> set fs. 0 \<notin> set (mf_name f)"
  shows "parseCoreFileNote note = Inr (Some (map (mapped_file_map page_size) fs))"
proof -
  let ?data = "note_data note" and ?n = "length fs"
  have data: "?data = word_bytes (of_nat ?n) @ word_bytes page_size @
      concat (map entry_bytes fs) @ concat (map name_bytes fs)"
    using assms(1) by (simp add: file_note_def)
  have len: "length ?data = 16 + 24 * ?n + length (concat (map name_bytes fs))" unfolding data by simp
  have "read_word 0 ?data = of_nat ?n" unfolding data by (rule read_word_here) simp
  then have count: "unat (read_word 0 ?data) = ?n" using assms(2) by (simp add: unat_of_nat_size)
  have page: "read_word 8 ?data = page_size" unfolding data by (rule read_word_here) simp
  have "file_entries ?data page_size 16 (16 + ?n * 24) ?n = Inr (map (mapped_file_map page_size) fs)"
    by (rule file_entries_encoded [where y = "[]", OF _ _ assms(3)]) (simp_all add: data)
  then show ?thesis using len count page
    by (simp add: parseCoreFileNote_def Let_def)
qed

theorem mapped_files_read_back_witness:
  "parseCoreFileNote
     \<lparr>note_data = file_note 4096 [\<lparr>mf_start = 4096, mf_end = 8192, mf_page = 3, mf_name = [47, 97]\<rparr>],
      descriptor_size = 0\<rparr> =
   Inr (Some [file_map 4096 8192 12288 [47, 97]])"
  by (subst mapped_files_read_back [where page_size = 4096 and
        fs = "[\<lparr>mf_start = 4096, mf_end = 8192, mf_page = 3, mf_name = [47, 97]\<rparr>]"])
    (simp_all add: mapped_file_map_def)

text \<open>A note whose name does not end in it is read past its end.\<close>

theorem unterminated_name_overrun:
  assumes "note_data note = butlast (file_note page_size [f])" and "0 \<notin> set (mf_name f)"
  shows "parseCoreFileNote note = Inl Undefined"
proof -
  let ?data = "note_data note"
  have data: "?data = word_bytes 1 @ word_bytes page_size @ entry_bytes f @ mf_name f"
    using assms by (simp add: file_note_def name_bytes_def butlast_append)
  have len: "length ?data = 40 + length (mf_name f)" unfolding data by simp
  have "read_word 0 ?data = 1" unfolding data by (rule read_word_here) simp
  moreover have "takeWhile (\<lambda>b. b \<noteq> 0) (drop 40 ?data) = mf_name f"
    using assms(2) by (auto simp: data takeWhile_eq_all_conv)
  ultimately show ?thesis using len by (simp add: parseCoreFileNote_def Let_def)
qed

end
