(* ===== verification/Maps_Parser.thy ===== *)
theory Maps_Parser
  imports Core_File Regexps "HOL-Library.Multiset"
begin

text \<open>
  The mappings of a process (\<open>maps_parser.cpp\<close>): the lines of \<open>/proc/pid/maps\<close>, the mappings of a core
  file together with the mapped files that were not dumped, and which mappings are those of the
  interpreter, its library, its heap and its BSS section.
\<close>

section \<open>The lines of a maps file\<close>

definition MAPS_REGEXP :: "string list rx" where
  "MAPS_REGEXP =
     rx_then (rx_class is_hex 1 None) (\<lambda>start.
     rx_then (rx_lit ''-'') (\<lambda>_.
     rx_then (rx_class is_hex 1 None) (\<lambda>fin.
     rx_then (rx_class is_blank 1 None) (\<lambda>_.
     rx_then (rx_class is_any 4 (Some 4)) (\<lambda>permissions.
     rx_then (rx_class is_blank 1 None) (\<lambda>_.
     rx_then (rx_class is_hex 1 None) (\<lambda>offset.
     rx_then (rx_class is_blank 1 None) (\<lambda>_.
     rx_then (rx_class is_hex 1 None) (\<lambda>dev_major.
     rx_then (rx_lit '':'') (\<lambda>_.
     rx_then (rx_class is_hex 1 None) (\<lambda>dev_minor.
     rx_then (rx_class is_blank 1 None) (\<lambda>_.
     rx_then (rx_class is_digit 1 None) (\<lambda>inode.
     rx_then (rx_class is_blank 0 None) (\<lambda>_.
     rx_then (rx_opt (rx_class is_any 0 None)) (\<lambda>pathname.
       rx_return [start, fin, permissions, offset, dev_major @ '':'' @ dev_minor, inode, pathname])))))))))))))))"

text \<open>A line that is not recognised is skipped; a number that is too large is an exception.\<close>

definition parse_maps_line :: "string \<Rightarrow> virtual_map option result" where
  "parse_maps_line line =
     (case regex_match MAPS_REGEXP line of
        Some [start, fin, permissions, offset, device, inode, pathname] \<Rightarrow>
          rbind (stoull 16 start) (\<lambda>a.
          rbind (stoull 16 fin) (\<lambda>b.
          rbind (stoull 16 offset) (\<lambda>off.
          rbind (stoull 10 inode) (\<lambda>ino.
            Inr (Some (virtual_map_new a b (b - a) permissions off device ino
                   (dropWhile (\<lambda>c. c = CHR '' '' \<or> c = CHR 0x09) pathname)))))))
      | _ \<Rightarrow> Inr None)"

fun parse_maps_lines :: "string list \<Rightarrow> virtual_map list result" where
  "parse_maps_lines [] = Inr []"
| "parse_maps_lines (line # rest) =
     rbind (parse_maps_line line) (\<lambda>found.
     rbind (parse_maps_lines rest) (\<lambda>maps.
       Inr (case found of Some m \<Rightarrow> m # maps | None \<Rightarrow> maps)))"

definition maps_path :: "int \<Rightarrow> string" where
  "maps_path pid = ''/proc/'' @ to_string_int pid @ ''/maps''"

definition parseProcMaps :: "(string \<Rightarrow> string option) \<Rightarrow> int \<Rightarrow> virtual_map list result" where
  "parseProcMaps proc_file pid =
     (case proc_file (maps_path pid) of
        None \<Rightarrow> Inl (RuntimeError (''No such process id: '' @ to_string_int pid))
      | Some content \<Rightarrow> parse_maps_lines (getline_split CHR 0x0A content))"

section \<open>The mappings of a core file\<close>

text \<open>
  \<open>std::sort\<close> does not say in which order it leaves mappings of the same start: it is a parameter, of
  which only the documented result is used.
\<close>

definition canonical_or_path :: "file_system \<Rightarrow> string \<Rightarrow> string" where
  "canonical_or_path fs path = (case canonical fs path of Inr p \<Rightarrow> p | Inl _ \<Rightarrow> path)"

definition missing_mapped_files :: "CoreVirtualMap list \<Rightarrow> CoreVirtualMap list \<Rightarrow> CoreVirtualMap list" where
  "missing_mapped_files mapped_files memory_maps =
     filter (\<lambda>m. (cv_start m, cv_end m) \<notin> set (map (\<lambda>m. (cv_start m, cv_end m)) memory_maps)) mapped_files"

definition missing_map_paths :: "file_system \<Rightarrow> CoreVirtualMap list \<Rightarrow> string list" where
  "missing_map_paths fs missing =
     map (canonical_or_path fs) (filter (\<lambda>p. p \<noteq> '''') (map cv_path missing))"

fun file_maps_of :: "file_system \<Rightarrow> string list \<Rightarrow> CoreVirtualMap list \<Rightarrow> (string \<rightharpoonup> string) \<Rightarrow> (string \<rightharpoonup> string)" where
  "file_maps_of fs missing_paths [] file_maps = file_maps"
| "file_maps_of fs missing_paths (m # ms) file_maps =
     file_maps_of fs missing_paths ms
       (if cv_path m = '''' then file_maps
        else
          case canonical fs (cv_path m) of
            Inl _ \<Rightarrow> file_maps
          | Inr resolved_path \<Rightarrow>
              if resolved_path \<in> set missing_paths then file_maps(resolved_path \<mapsto> cv_path m) else file_maps)"

definition core_map_path :: "file_system \<Rightarrow> (string \<rightharpoonup> string) \<Rightarrow> string \<Rightarrow> string" where
  "core_map_path fs file_maps path =
     (if path = '''' then ''''
      else case file_maps (canonical_or_path fs path) of Some p \<Rightarrow> p | None \<Rightarrow> path)"

definition core_virtual_map :: "file_system \<Rightarrow> (string \<rightharpoonup> string) \<Rightarrow> CoreVirtualMap \<Rightarrow> virtual_map" where
  "core_virtual_map fs file_maps m =
     virtual_map_new (cv_start m) (cv_end m) (cv_filesize m) (cv_flags m) (cv_offset m) (cv_device m)
       (cv_inode m) (core_map_path fs file_maps (cv_path m))"

definition parseCoreFileMaps ::
  "file_system \<Rightarrow> (CoreVirtualMap list \<Rightarrow> CoreVirtualMap list) \<Rightarrow> CoreVirtualMap list \<Rightarrow>
   CoreVirtualMap list \<Rightarrow> virtual_map list" where
  "parseCoreFileMaps fs sort_by_start mapped_files memory_maps =
     (let missing = missing_mapped_files mapped_files memory_maps;
          all_maps = sort_by_start (memory_maps @ missing);
          file_maps = file_maps_of fs (missing_map_paths fs missing) memory_maps Map.empty in
      map (core_virtual_map fs file_maps) all_maps)"

section \<open>The mappings of the interpreter\<close>

record ProcessMemoryMapInfo =
  map_heap :: "virtual_map option"
  map_bss :: "virtual_map option"
  map_python :: virtual_map
  map_libpython :: "virtual_map option"

definition getBaseMap :: "virtual_map list \<Rightarrow> virtual_map result" where
  "getBaseMap binary_maps =
     (case List.find (\<lambda>m. d_path m \<noteq> '''') binary_maps of
        Some m \<Rightarrow> Inr m
      | None \<Rightarrow>
          (case binary_maps of m # _ \<Rightarrow> Inr m | [] \<Rightarrow> Inl (RuntimeError ''No maps available'')))"

definition getBss ::
  "(string \<Rightarrow> elf_file option) \<Rightarrow> virtual_map list \<Rightarrow> addr \<Rightarrow> virtual_map option result" where
  "getBss open_elf elf_maps load_point =
     (if elf_maps = [] then Inr None
      else
        rbind (getBaseMap elf_maps) (\<lambda>binary_map.
          if d_path binary_map = '''' then Inr None
          else
            rbind (getSectionInfo open_elf (d_path binary_map) ''.bss'') (\<lambda>section.
              case section of
                None \<Rightarrow> Inr None
              | Some bss_info \<Rightarrow>
                  let start = load_point + corrected_addr bss_info in
                  (case List.find (\<lambda>m. containsAddr m start) elf_maps of
                     None \<Rightarrow> Inr None
                   | Some m \<Rightarrow>
                       let offset = d_offset m + (start - d_start m) in
                       Inr (Some (virtual_map_new start (start + section_size bss_info)
                              (section_size bss_info) '''' offset '''' 0 ''''))))))"

text \<open>
  The mappings are grouped by the file name of their path; those without a path belong to the file of
  the mapping before. The groups are a list of the file names with their mappings.
\<close>

fun push_map :: "string \<Rightarrow> virtual_map \<Rightarrow> (string \<times> virtual_map list) list \<Rightarrow> (string \<times> virtual_map list) list" where
  "push_map name m [] = [(name, [m])]"
| "push_map name m ((k, ms) # libs) =
     (if k = name then (k, ms @ [m]) # libs else (k, ms) # push_map name m libs)"

fun group_maps :: "string \<Rightarrow> (string \<times> virtual_map list) list \<Rightarrow> virtual_map list \<Rightarrow> (string \<times> virtual_map list) list" where
  "group_maps current_lib libs [] = libs"
| "group_maps current_lib libs (m # ms) =
     (let path_name = (if d_path m \<noteq> '''' then filename_of (d_path m) else current_lib) in
      group_maps path_name (push_map path_name m libs) ms)"

definition maps_by_library :: "virtual_map list \<Rightarrow> (string \<times> virtual_map list) list" where
  "maps_by_library maps = group_maps '''' [] maps"

fun computed_load_points :: "(string \<rightharpoonup> addr) \<Rightarrow> virtual_map list \<Rightarrow> (string \<rightharpoonup> addr)" where
  "computed_load_points points [] = points"
| "computed_load_points points (m # ms) =
     computed_load_points
       (if d_path m = '''' then points
        else
          let name = filename_of (d_path m) in
          case points name of
            None \<Rightarrow> points(name \<mapsto> d_start m)
          | Some a \<Rightarrow> points(name \<mapsto> min a (d_start m))) ms"

definition contains_text :: "string \<Rightarrow> string \<Rightarrow> bool" where
  "contains_text s t \<longleftrightarrow> list_ex (\<lambda>k. take (length t) (drop k s) = t) [0..<Suc (length s)]"

fun join_names :: "string list \<Rightarrow> string" where
  "join_names [] = ''''"
| "join_names [name] = name"
| "join_names (name # names) = name @ '', '' @ join_names names"

definition available_maps :: "virtual_map list \<Rightarrow> string" where
  "available_maps maps =
     join_names (map d_path (filter (\<lambda>m. d_path m \<noteq> '''' \<and> \<not> contains_text (d_path m) ''.so'') maps))"

definition load_point_for :: "(string \<rightharpoonup> addr) \<Rightarrow> string \<Rightarrow> addr" where
  "load_point_for points name = (case points name of Some a \<Rightarrow> a | None \<Rightarrow> - 1)"

definition fallback_bss :: "virtual_map list \<Rightarrow> virtual_map option" where
  "fallback_bss elf_maps = List.find (\<lambda>m. d_path m = '''' \<and> CHR ''r'' \<in> set (d_flags m)) elf_maps"

definition parseMapInformation ::
  "(string \<Rightarrow> elf_file option) \<Rightarrow> string \<Rightarrow> virtual_map list \<Rightarrow> (string \<rightharpoonup> addr) option \<Rightarrow>
   ProcessMemoryMapInfo result" where
  "parseMapInformation open_elf binary maps load_point_by_module =
     (let points = (case load_point_by_module of
                      Some p \<Rightarrow> p | None \<Rightarrow> computed_load_points Map.empty maps);
          libs = maps_by_library maps;
          binary_name = filename_of binary in
      case map_of libs binary_name of
        None \<Rightarrow>
          Inl (RuntimeError (''Unable to find maps for the executable '' @ binary @
                 ''. Available executable maps: '' @ available_maps maps))
      | Some binary_maps \<Rightarrow>
          rbind (getBaseMap binary_maps) (\<lambda>python.
            let libpython_binaries = filter (\<lambda>name. contains_text name ''libpython'') (map fst libs) in
            if length libpython_binaries > 1
            then Inl (RuntimeError (''Unexpectedly found multiple libpython in process: '' @
                        to_string (length libpython_binaries)))
            else
              let elf_name = (case libpython_binaries of name # _ \<Rightarrow> name | [] \<Rightarrow> binary_name);
                  elf_maps = the (map_of libs elf_name);
                  load_point = load_point_for points elf_name in
              rbind (case libpython_binaries of
                       [] \<Rightarrow> Inr None
                     | _ # _ \<Rightarrow> rbind (getBaseMap elf_maps) (\<lambda>m. Inr (Some m))) (\<lambda>libpython.
              let heap = (case map_of libs ''[heap]'' of Some (m # _) \<Rightarrow> Some m | _ \<Rightarrow> None) in
              rbind (getBss open_elf elf_maps load_point) (\<lambda>bss.
                Inr \<lparr>map_heap = heap,
                     map_bss = (case bss of Some m \<Rightarrow> Some m | None \<Rightarrow> fallback_bss elf_maps),
                     map_python = python, map_libpython = libpython\<rparr>))))"

text \<open>The executable of a live process is the target of a link, read into a buffer of \<open>PATH_MAX\<close> bytes.\<close>

definition parseMapInformationForProcess ::
  "(string \<Rightarrow> elf_file option) \<Rightarrow> (string \<Rightarrow> string option) \<Rightarrow> int \<Rightarrow> virtual_map list \<Rightarrow>
   ProcessMemoryMapInfo result" where
  "parseMapInformationForProcess open_elf readlink pid maps =
     (let exe_link = ''/proc/'' @ to_string_int pid @ ''/exe'' in
      case readlink exe_link of
        None \<Rightarrow> Inl (RuntimeError (''Failed to read '' @ exe_link))
      | Some exe_path \<Rightarrow> parseMapInformation open_elf (take 4095 exe_path) maps None)"

definition getMainMap :: "ProcessMemoryMapInfo \<Rightarrow> virtual_map" where
  "getMainMap info = (case map_libpython info of Some m \<Rightarrow> m | None \<Rightarrow> map_python info)"


section \<open>Lines are read back\<close>

text \<open>
  A line as the kernel writes it: addresses and offset in at least eight hexadecimal digits, and any
  number of blanks before the path.
\<close>

definition pad_hex :: "nat \<Rightarrow> nat \<Rightarrow> string" where
  "pad_hex k n = replicate (k - length (to_hex n)) CHR ''0'' @ to_hex n"

definition maps_line :: "nat \<Rightarrow> virtual_map \<Rightarrow> string" where
  "maps_line padding m =
     pad_hex 8 (unat (d_start m)) @ ''-'' @ pad_hex 8 (unat (d_end m)) @ '' '' @ d_flags m @ '' '' @
     pad_hex 8 (unat (d_offset m)) @ '' '' @ d_device m @ '' '' @ to_string (unat (d_inode m)) @
     replicate (Suc padding) CHR '' '' @ d_path m"

definition proc_map :: "virtual_map \<Rightarrow> bool" where
  "proc_map m \<longleftrightarrow>
     d_filesize m = d_end m - d_start m \<and>
     length (d_flags m) = 4 \<and> (\<forall>c \<in> set (d_flags m). is_any c \<and> \<not> is_blank c) \<and>
     (\<exists>a b. d_device m = a @ '':'' @ b \<and> a \<noteq> [] \<and> b \<noteq> [] \<and> (\<forall>c \<in> set a. is_hex c) \<and> (\<forall>c \<in> set b. is_hex c)) \<and>
     (\<forall>c \<in> set (d_path m). is_any c) \<and> (d_path m = [] \<or> \<not> is_blank (hd (d_path m)))"

lemma pad_hex_digits: "c \<in> set (pad_hex k n) \<Longrightarrow> is_hex c"
  by (auto simp: pad_hex_def dest: to_hex_digits split: if_splits) (simp_all add: is_hex_def is_digit_def)

lemma pad_hex_nonempty [simp]: "pad_hex k n \<noteq> []"
  by (simp add: pad_hex_def)

lemma pad_hex_stoull: "stoull 16 (pad_hex k (unat w)) = Inr w"
  by (simp add: stoull_def pad_hex_def number_value_zeros to_hex_value unat_lt_64 [simplified])

lemma to_string_stoull: "stoull 10 (to_string (unat w)) = Inr w"
  by (simp add: stoull_def to_string_value unat_lt_64 [simplified])

lemma blank_classes [simp]: "is_blank CHR '' ''" "\<not> is_hex CHR '' ''" "\<not> is_digit CHR '' ''" "\<not> is_hex CHR ''-''" "\<not> is_hex CHR '':''"
  by (simp_all add: is_blank_def is_hex_def is_digit_def)

lemma hex_not_blank: "is_hex c \<Longrightarrow> \<not> is_blank c"
  by (auto simp: is_blank_def is_hex_def is_digit_def)

lemma begins_hex:
  assumes "\<forall>c \<in> set xs. is_hex c" "xs \<noteq> []" "\<not> is_hex c"
  shows "begins (rx_class is_hex 1 None) (xs @ c # r) xs (c # r)"
  using assms by (intro begins_class) (auto simp: Suc_le_eq)

lemma begins_blank:
  assumes "r \<noteq> []" "\<not> is_blank (hd r)"
  shows "begins (rx_class is_blank 1 None) (CHR '' '' # r) '' '' r"
  using begins_class [of "'' ''" is_blank r 1] assms by simp

lemma maps_line_match:
  assumes flags: "length flags = 4" "\<forall>c \<in> set flags. is_any c \<and> \<not> is_blank c"
    and dev: "\<forall>c \<in> set a. is_hex c" "a \<noteq> []" "\<forall>c \<in> set b. is_hex c" "b \<noteq> []"
    and nums: "\<forall>c \<in> set s. is_hex c" "s \<noteq> []" "\<forall>c \<in> set e. is_hex c" "e \<noteq> []"
      "\<forall>c \<in> set off. is_hex c" "off \<noteq> []" "\<forall>c \<in> set ino. is_digit c" "ino \<noteq> []"
    and path: "\<forall>c \<in> set path. is_any c" "path = [] \<or> \<not> is_blank (hd path)"
  shows "regex_match MAPS_REGEXP
     (s @ ''-'' @ e @ '' '' @ flags @ '' '' @ off @ '' '' @ (a @ '':'' @ b) @ '' '' @ ino @
      replicate (Suc padding) CHR '' '' @ path) = Some [s, e, flags, off, a @ '':'' @ b, ino, path]"
proof -
  have hd: "\<not> is_blank (hd xs)" if "\<forall>c \<in> set xs. is_hex c" "xs \<noteq> []" for xs
    using that hex_not_blank by (cases xs) auto
  have digit: "\<not> is_blank (hd ino)" "is_digit (hd ino)"
    using nums(7,8) by (cases ino; auto simp: is_blank_def is_digit_def)+
  have fl: "flags \<noteq> []" "\<not> is_blank (hd flags)" using flags by (cases flags; auto)+
  have inode: "begins (rx_class is_digit 1 None) (ino @ replicate (Suc padding) CHR '' '' @ path) ino
      (replicate (Suc padding) CHR '' '' @ path)"
    using nums(7,8) by (intro begins_class) (auto simp: Suc_le_eq)
  have blanks: "begins (rx_class is_blank 0 None) (replicate (Suc padding) CHR '' '' @ path)
      (replicate (Suc padding) CHR '' '') path"
    using path(2) by (intro begins_class) auto
  have pathname: "begins (rx_opt (rx_class is_any 0 None)) path path []"
    using begins_opt [OF begins_class [of path is_any "[]" 0]] path(1) by simp
  have lit: "begins (rx_lit [c]) (c # r) [c] r" for c r using begins_lit [of "[c]" r] by simp
  have perms: "begins (rx_class is_any 4 (Some 4)) (flags @ r) flags r" for r
    using flags by (intro begins_class_exact) auto
  have hexes: "begins (rx_class is_hex 1 None) (s @ CHR ''-'' # r) s (CHR ''-'' # r)"
    "begins (rx_class is_hex 1 None) (e @ CHR '' '' # r) e (CHR '' '' # r)"
    "begins (rx_class is_hex 1 None) (off @ CHR '' '' # r) off (CHR '' '' # r)"
    "begins (rx_class is_hex 1 None) (a @ CHR '':'' # r) a (CHR '':'' # r)"
    "begins (rx_class is_hex 1 None) (b @ CHR '' '' # r) b (CHR '' '' # r)" for r
    by (rule begins_hex; simp add: dev nums)+
  have blank: "begins (rx_class is_blank 1 None) (CHR '' '' # flags @ r) '' '' (flags @ r)"
    "begins (rx_class is_blank 1 None) (CHR '' '' # off @ r) '' '' (off @ r)"
    "begins (rx_class is_blank 1 None) (CHR '' '' # a @ r) '' '' (a @ r)"
    "begins (rx_class is_blank 1 None) (CHR '' '' # ino @ r) '' '' (ino @ r)" for r
    by (rule begins_blank; simp add: fl digit hd dev nums)+
  note steps = hexes lit perms inode blanks pathname blank
  show ?thesis
    unfolding MAPS_REGEXP_def append_assoc append.simps
    by (rule regex_match_begins, (rule begins_then, rule steps)+, rule begins_return)
qed


lemma maps_line_read:
  assumes "proc_map m"
  shows "parse_maps_line (maps_line padding m) = Inr (Some m)"
proof -
  from assms obtain a b where dev: "d_device m = a @ '':'' @ b" "a \<noteq> []" "b \<noteq> []"
      "\<forall>c \<in> set a. is_hex c" "\<forall>c \<in> set b. is_hex c" by (auto simp: proc_map_def)
  have flags: "length (d_flags m) = 4" "\<forall>c \<in> set (d_flags m). is_any c \<and> \<not> is_blank c"
    and path: "\<forall>c \<in> set (d_path m). is_any c" "d_path m = [] \<or> \<not> is_blank (hd (d_path m))"
    and filesize: "d_filesize m = d_end m - d_start m"
    using assms by (auto simp: proc_map_def)
  have "regex_match MAPS_REGEXP (maps_line padding m) =
      Some [pad_hex 8 (unat (d_start m)), pad_hex 8 (unat (d_end m)), d_flags m,
            pad_hex 8 (unat (d_offset m)), a @ '':'' @ b, to_string (unat (d_inode m)), d_path m]"
    unfolding maps_line_def dev(1)
    by (rule maps_line_match [OF flags dev(4) dev(2) dev(5) dev(3) _ _ _ _ _ _ _ _ path])
      (auto dest: pad_hex_digits to_string_digits)
  moreover have "dropWhile (\<lambda>c. c = CHR '' '' \<or> c = CHR 0x09) (d_path m) = d_path m"
    using path(2) by (cases "d_path m") (auto simp: is_blank_def)
  ultimately show ?thesis
    using dev(1) filesize by (simp add: parse_maps_line_def pad_hex_stoull to_string_stoull virtual_map_new_def)
qed

lemma maps_line_one_line:
  assumes "proc_map m"
  shows "CHR 0x0A \<notin> set (maps_line padding m)"
proof -
  have any: "\<not> is_hex CHR 0x0A" "\<not> is_digit CHR 0x0A" "\<not> is_any CHR 0x0A"
    by (simp_all add: is_hex_def is_digit_def is_any_def)
  with assms have "CHR 0x0A \<notin> set (d_flags m)" "CHR 0x0A \<notin> set (d_device m)" "CHR 0x0A \<notin> set (d_path m)"
    by (auto simp: proc_map_def)
  with any show ?thesis
    by (auto simp: maps_line_def dest: pad_hex_digits to_string_digits)
qed

lemma getline_split_lines:
  assumes "c \<notin> set l"
  shows "getline_split c (l @ c # rest) = l # getline_split c rest"
proof -
  have "takeWhile (\<lambda>x. x \<noteq> c) (l @ c # rest) = l" using assms by (subst takeWhile_append2) auto
  then show ?thesis by (subst getline_split.simps) simp
qed

definition maps_text :: "(nat \<times> virtual_map) list \<Rightarrow> string" where
  "maps_text ms = concat (map (\<lambda>(padding, m). maps_line padding m @ [CHR 0x0A]) ms)"

lemma maps_text_read:
  "\<forall>(padding, m) \<in> set ms. proc_map m \<Longrightarrow>
     parse_maps_lines (getline_split CHR 0x0A (maps_text ms)) = Inr (map snd ms)"
proof (induction ms)
  case Nil
  then show ?case by (simp add: maps_text_def getline_split.simps)
next
  case (Cons pm ms)
  obtain padding m where pm: "pm = (padding, m)" by (cases pm)
  have "maps_text (pm # ms) = maps_line padding m @ CHR 0x0A # maps_text ms"
    by (simp add: pm maps_text_def)
  with Cons pm show ?case
    by (simp add: getline_split_lines maps_line_one_line maps_line_read)
qed

text \<open>
  Property C17. What the kernel writes about the mappings of a process is read back: every mapping, in
  order, with its range, permissions, offset, device, inode and path.
\<close>

theorem proc_maps_read_back:
  assumes "proc_file (maps_path pid) = Some (maps_text ms)" and "\<forall>(padding, m) \<in> set ms. proc_map m"
  shows "parseProcMaps proc_file pid = Inr (map snd ms)"
  using assms by (simp add: parseProcMaps_def maps_text_read)

definition example_map :: virtual_map where
  "example_map = virtual_map_new 0x400000 0x401000 0x1000 ''r-xp'' 0 ''fd:01'' 42 ''/usr/bin/python''"

lemma example_proc_map: "proc_map example_map"
proof -
  have "d_device example_map = ''fd'' @ '':'' @ ''01''" by (simp add: example_map_def virtual_map_new_def)
  moreover have "\<forall>c \<in> set ''fd''. is_hex c" "\<forall>c \<in> set ''01''. is_hex c" by (simp_all add: is_hex_def is_digit_def)
  ultimately have "\<exists>a b. d_device example_map = a @ '':'' @ b \<and> a \<noteq> [] \<and> b \<noteq> [] \<and>
      (\<forall>c \<in> set a. is_hex c) \<and> (\<forall>c \<in> set b. is_hex c)" by blast
  then show ?thesis
    by (simp add: proc_map_def) (simp add: example_map_def virtual_map_new_def is_any_def is_blank_def)
qed

theorem proc_maps_read_back_witness:
  "parseProcMaps (\<lambda>_. Some (maps_text [(3, example_map), (0, example_map)])) 7 = Inr [example_map, example_map]"
  using proc_maps_read_back [of "\<lambda>_. Some (maps_text [(3, example_map), (0, example_map)])" 7
      "[(3, example_map), (0, example_map)]"] example_proc_map by simp


section \<open>The mappings of a core file are complete\<close>

text \<open>
  \<open>stands_for fs r m\<close>: the mapping \<open>r\<close> of the result stands for \<open>m\<close> of the core. Everything but the path is
  the same, and the path, if there is one, is a name of the same file.
\<close>

definition core_range :: "CoreVirtualMap \<Rightarrow> addr \<times> addr" where
  "core_range m = (cv_start m, cv_end m)"

definition stands_for :: "file_system \<Rightarrow> virtual_map \<Rightarrow> CoreVirtualMap \<Rightarrow> bool" where
  "stands_for fs r m \<longleftrightarrow>
     d_start r = cv_start m \<and> d_end r = cv_end m \<and> d_filesize r = cv_filesize m \<and>
     d_flags r = cv_flags m \<and> d_offset r = cv_offset m \<and> d_device r = cv_device m \<and>
     d_inode r = cv_inode m \<and> (d_path r = '''' \<longleftrightarrow> cv_path m = '''') \<and>
     canonical_or_path fs (d_path r) = canonical_or_path fs (cv_path m)"

lemma file_maps_of_names:
  "file_maps_of fs missing_paths ms file_maps r = Some p \<Longrightarrow>
     file_maps r = Some p \<or> p \<noteq> '''' \<and> canonical fs p = Inr r"
proof (induction ms arbitrary: file_maps)
  case (Cons m ms)
  from Cons.IH [OF Cons.prems [simplified]] show ?case
    by (auto split: if_splits sum.splits)
qed simp

lemma core_virtual_map_stands_for:
  assumes "\<And>r p. file_maps r = Some p \<Longrightarrow> p \<noteq> '''' \<and> canonical fs p = Inr r"
  shows "stands_for fs (core_virtual_map fs file_maps m) m"
proof -
  let ?p = "core_map_path fs file_maps (cv_path m)"
  have "(?p = '''' \<longleftrightarrow> cv_path m = '''') \<and> canonical_or_path fs ?p = canonical_or_path fs (cv_path m)"
  proof (cases "cv_path m = '''' \<or> file_maps (canonical_or_path fs (cv_path m)) = None")
    case False
    then obtain p where p: "file_maps (canonical_or_path fs (cv_path m)) = Some p" by auto
    from assms [OF p] have "canonical_or_path fs p = canonical_or_path fs (cv_path m)" "p \<noteq> ''''"
      by (simp_all add: canonical_or_path_def)
    with p False show ?thesis by (simp add: core_map_path_def)
  qed (auto simp: core_map_path_def)
  then show ?thesis by (simp add: stands_for_def core_virtual_map_def virtual_map_new_def)
qed

text \<open>
  Property C35. Whatever \<open>std::sort\<close> does with mappings of the same start, the mappings of a core file
  come in the order of their addresses and stand one for one for the dumped segments and for those mapped
  files whose range is not that of a segment: none is lost, none changed but for a path that names the same
  file, and if neither the segments nor the mapped files have a range twice, no range comes twice.
\<close>

theorem core_maps_complete:
  assumes "\<forall>xs. mset (sort_by_start xs) = mset xs \<and> sorted (map cv_start (sort_by_start xs))"
  shows "\<exists>ms. mset ms = mset memory_maps +
             mset (filter (\<lambda>f. \<forall>s \<in> set memory_maps. core_range s \<noteq> core_range f) mapped_files) \<and>
           sorted (map cv_start ms) \<and>
           list_all2 (stands_for fs) (parseCoreFileMaps fs sort_by_start mapped_files memory_maps) ms \<and>
           (distinct (map core_range memory_maps) \<and> distinct (map core_range mapped_files) \<longrightarrow>
              distinct (map core_range ms))"
proof -
  let ?missing = "missing_mapped_files mapped_files memory_maps"
  let ?all = "sort_by_start (memory_maps @ ?missing)"
  define file_maps where "file_maps = file_maps_of fs (missing_map_paths fs ?missing) memory_maps Map.empty"
  have result: "parseCoreFileMaps fs sort_by_start mapped_files memory_maps =
      map (core_virtual_map fs file_maps) ?all"
    by (simp add: parseCoreFileMaps_def Let_def file_maps_def)
  have missing: "?missing = filter (\<lambda>f. \<forall>s \<in> set memory_maps. core_range s \<noteq> core_range f) mapped_files"
    unfolding missing_mapped_files_def by (rule filter_cong) (auto simp: core_range_def image_iff)
  have all: "mset ?all = mset (memory_maps @ ?missing)" "sorted (map cv_start ?all)" using assms by blast+
  have names: "p \<noteq> '''' \<and> canonical fs p = Inr r" if "file_maps r = Some p" for r p
    using file_maps_of_names [of fs "missing_map_paths fs ?missing" memory_maps Map.empty r p] that
    by (simp add: file_maps_def)
  have same: "list_all2 (stands_for fs) (map (core_virtual_map fs file_maps) ?all) ?all"
    by (simp add: list_all2_conv_all_nth core_virtual_map_stands_for [OF names])
  have "distinct (map core_range ?all)"
    if "distinct (map core_range memory_maps)" "distinct (map core_range mapped_files)"
  proof -
    have "distinct (map core_range (memory_maps @ ?missing))"
      using that unfolding missing by (auto simp: distinct_map intro: inj_on_subset)
    moreover have "mset (map core_range ?all) = mset (map core_range (memory_maps @ ?missing))"
      using all(1) by (simp only: mset_map)
    ultimately show ?thesis by (metis mset_eq_imp_distinct_iff)
  qed
  with all same show ?thesis
    unfolding result by (intro exI [of _ ?all]) (simp add: missing [symmetric])
qed

definition core_map_at :: "addr \<Rightarrow> addr \<Rightarrow> string \<Rightarrow> CoreVirtualMap" where
  "core_map_at a b path =
     \<lparr>cv_start = a, cv_end = b, cv_filesize = 0, cv_flags = '''', cv_offset = 0, cv_device = '''',
      cv_inode = 0, cv_path = path, cv_buildid = ''''\<rparr>"

theorem core_maps_complete_witness:
  "\<exists>m \<in> set (parseCoreFileMaps example_fs (sort_key cv_start) [core_map_at 4096 8192 ''/l/a.so'']
       [core_map_at 16384 20480 '''']). d_start m = 4096 \<and> d_end m = 8192"
proof -
  let ?files = "[core_map_at 4096 8192 ''/l/a.so'']" and ?segments = "[core_map_at 16384 20480 '''']"
  have sort: "\<forall>xs. mset (sort_key cv_start xs) = mset xs \<and> sorted (map cv_start (sort_key cv_start xs))"
    by simp
  obtain ms where ms: "mset ms = mset ?segments +
        mset (filter (\<lambda>f. \<forall>s \<in> set ?segments. core_range s \<noteq> core_range f) ?files)"
    and same: "list_all2 (stands_for example_fs) (parseCoreFileMaps example_fs (sort_key cv_start) ?files ?segments) ms"
    using core_maps_complete [OF sort, of ?segments ?files example_fs] by blast
  have "core_map_at 4096 8192 ''/l/a.so'' \<in> set ms"
    using arg_cong [OF ms, of set_mset] by (simp add: core_map_at_def core_range_def)
  then obtain i where "i < length ms" "ms ! i = core_map_at 4096 8192 ''/l/a.so''"
    by (auto simp: in_set_conv_nth)
  with same show ?thesis
    by (intro bexI [of _ "parseCoreFileMaps example_fs (sort_key cv_start) ?files ?segments ! i"])
       (auto simp: list_all2_conv_all_nth stands_for_def core_map_at_def)
qed

section \<open>Which mappings belong to a library\<close>

text \<open>
  The owner of a mapping: the file name of its path or, without one, of the last path before it. The
  groups are the mappings of each owner, in order.
\<close>

fun owners :: "string \<Rightarrow> virtual_map list \<Rightarrow> string list" where
  "owners current [] = []"
| "owners current (m # ms) =
     (let name = (if d_path m \<noteq> '''' then filename_of (d_path m) else current) in name # owners name ms)"

definition owned :: "string \<Rightarrow> string \<Rightarrow> virtual_map list \<Rightarrow> virtual_map list" where
  "owned current name maps = map snd (filter (\<lambda>(ow, m). ow = name) (zip (owners current maps) maps))"

definition named :: "string \<Rightarrow> virtual_map \<Rightarrow> bool" where
  "named name m \<longleftrightarrow> d_path m \<noteq> '''' \<and> filename_of (d_path m) = name"

lemma map_of_push_map:
  "map_of (push_map name m libs) k =
     (if k = name then Some ((case map_of libs name of None \<Rightarrow> [] | Some ms \<Rightarrow> ms) @ [m]) else map_of libs k)"
  by (induction libs) auto

lemma owned_Cons:
  "owned current name (m # ms) =
     (let path_name = (if d_path m \<noteq> '''' then filename_of (d_path m) else current) in
      if path_name = name then m # owned path_name name ms else owned path_name name ms)"
  by (simp add: owned_def Let_def)

lemma map_of_group_maps:
  "map_of (group_maps current libs maps) name =
     (if owned current name maps = [] then map_of libs name
      else Some ((case map_of libs name of None \<Rightarrow> [] | Some ms \<Rightarrow> ms) @ owned current name maps))"
proof (induction maps arbitrary: current libs)
  case Nil
  then show ?case by (simp add: owned_def)
next
  case (Cons m ms)
  show ?case by (simp add: Let_def Cons.IH map_of_push_map owned_Cons)
qed

lemma maps_by_library_owned:
  "map_of (maps_by_library maps) name = (if owned '''' name maps = [] then None else Some (owned '''' name maps))"
  by (simp add: maps_by_library_def map_of_group_maps)

text \<open>The first mapping of an owner is the first one that carries its name.\<close>

lemma owned_first:
  "current \<noteq> name \<Longrightarrow>
     (case owned current name maps of [] \<Rightarrow> None | m # _ \<Rightarrow> Some m) = List.find (named name) maps"
proof (induction maps arbitrary: current)
  case (Cons m ms)
  then show ?case by (auto simp: owned_Cons Let_def named_def)
qed (simp add: owned_def)

lemma find_named_SomeD: "List.find (named name) maps = Some m \<Longrightarrow> m \<in> set maps \<and> named name m"
  by (rule find_SomeD)


lemma owned_Nil: "current \<noteq> name \<Longrightarrow> owned current name maps = [] \<longleftrightarrow> (\<forall>m \<in> set maps. \<not> named name m)"
proof (cases "owned current name maps")
  case Nil
  moreover assume "current \<noteq> name"
  ultimately have "List.find (named name) maps = None" using owned_first [of current name maps] by simp
  with Nil show ?thesis by (simp add: find_None_iff)
next
  case (Cons m ms)
  moreover assume "current \<noteq> name"
  ultimately have "List.find (named name) maps = Some m" using owned_first [of current name maps] by simp
  with Cons show ?thesis by (auto dest: find_named_SomeD)
qed

lemma library_base:
  assumes "map_of (maps_by_library maps) name = Some ms" and "name \<noteq> ''''"
  obtains m rest where "ms = m # rest" "List.find (named name) maps = Some m" "getBaseMap ms = Inr m"
proof -
  from assms have ms: "ms = owned '''' name maps" "ms \<noteq> []" by (auto simp: maps_by_library_owned split: if_splits)
  from ms(2) obtain m rest where m: "ms = m # rest" by (meson list.exhaust)
  then have own: "owned '''' name maps = m # rest" using ms(1) by simp
  from owned_first [of "''''" name maps] assms(2) have f: "List.find (named name) maps = Some m"
    by (simp add: own)
  with find_named_SomeD [OF f] m have "getBaseMap ms = Inr m" by (simp add: getBaseMap_def named_def)
  with that m f show thesis by blast
qed

lemma library_key:
  "name \<noteq> '''' \<Longrightarrow> name \<in> set (map fst (maps_by_library maps)) \<longleftrightarrow> (\<exists>m \<in> set maps. named name m)"
proof -
  assume "name \<noteq> ''''"
  then have "owned '''' name maps = [] \<longleftrightarrow> \<not> (\<exists>m \<in> set maps. named name m)" by (subst owned_Nil) auto
  moreover have "name \<in> set (map fst (maps_by_library maps)) \<longleftrightarrow> map_of (maps_by_library maps) name \<noteq> None"
    by (simp add: map_of_eq_None_iff)
  ultimately show ?thesis by (simp add: maps_by_library_owned)
qed

lemma push_map_keys:
  "distinct (map fst libs) \<Longrightarrow>
     distinct (map fst (push_map name m libs)) \<and> set (map fst (push_map name m libs)) = insert name (set (map fst libs))"
proof (induction libs)
  case (Cons p libs)
  then show ?case by (cases p) (simp_all, blast?)
qed simp

lemma library_keys_distinct: "distinct (map fst (maps_by_library maps))"
proof -
  have "distinct (map fst libs) \<Longrightarrow> distinct (map fst (group_maps current libs maps))" for current libs
    by (induction maps arbitrary: current libs) (simp_all add: Let_def push_map_keys)
  then show ?thesis by (simp add: maps_by_library_def)
qed

text \<open>The computed load point of a library is the lowest start of the mappings that carry its name.\<close>

lemma Min_insert_min:
  fixes A :: "'a::linorder set"
  shows "finite A \<Longrightarrow> Min (insert (min x y) A) = Min (insert y (insert x A))"
  by (cases "A = {}") (simp_all add: min.assoc min.commute min.left_commute)

lemma computed_load_points_Min:
  "computed_load_points points maps name =
     (let starts = (case points name of None \<Rightarrow> {} | Some a \<Rightarrow> {a}) \<union>
                   d_start ` {m \<in> set maps. named name m} in
      if starts = {} then None else Some (Min starts))"
proof (induction maps arbitrary: points)
  case Nil
  then show ?case by (simp split: option.splits)
next
  case (Cons m ms)
  have set: "{x \<in> set (m # ms). named name x} = (if named name m then {m} else {}) \<union> {x \<in> set ms. named name x}"
    by auto
  have fin: "finite (d_start ` {x \<in> set ms. named name x})" by simp
  show ?case
  proof (cases "named name m")
    case False
    then show ?thesis unfolding set by (auto simp: Cons.IH named_def Let_def split: option.splits)
  next
    case True
    then have m: "d_path m \<noteq> ''''" "filename_of (d_path m) = name" by (simp_all add: named_def)
    have img: "d_start ` {x \<in> set (m # ms). named name x} =
        insert (d_start m) (d_start ` {x \<in> set ms. named name x})"
      by (subst set) (simp add: True)
    show ?thesis unfolding img computed_load_points.simps
      by (cases "points name") (simp_all add: Cons.IH m Let_def Min_insert_min [OF fin])
  qed
qed

text \<open>A library of the interpreter: a file that is mapped and whose name contains its name.\<close>

definition libpython_file :: "virtual_map list \<Rightarrow> string \<Rightarrow> bool" where
  "libpython_file maps name \<longleftrightarrow> contains_text name ''libpython'' \<and> (\<exists>m \<in> set maps. named name m)"

lemma libpython_named: "contains_text name ''libpython'' \<Longrightarrow> name \<noteq> ''''"
  by (auto simp: contains_text_def)

lemma libpython_names:
  "set (filter (\<lambda>name. contains_text name ''libpython'') (map fst (maps_by_library maps))) =
     {name. libpython_file maps name}"
proof -
  have "name \<in> set (filter (\<lambda>name. contains_text name ''libpython'') (map fst (maps_by_library maps))) \<longleftrightarrow>
      libpython_file maps name" for name
    unfolding set_filter mem_Collect_eq libpython_file_def
    using library_key [of name maps] libpython_named [of name] by blast
  then show ?thesis by blast
qed

lemma parseMapInformation_maps:
  assumes "parseMapInformation open_elf binary maps load_points = Inr info" and "filename_of binary \<noteq> ''''"
  shows "List.find (named (filename_of binary)) maps = Some (map_python info) \<and>
    map_heap info = List.find (named ''[heap]'') maps \<and>
    (case map_libpython info of
       None \<Rightarrow> \<forall>name. \<not> libpython_file maps name
     | Some m \<Rightarrow> \<exists>name. List.find (named name) maps = Some m \<and> (\<forall>n. libpython_file maps n \<longleftrightarrow> n = name))"
proof -
  define libs where "libs = maps_by_library maps"
  define names where "names = filter (\<lambda>name. contains_text name ''libpython'') (map fst libs)"
  note f = assms(1) [unfolded parseMapInformation_def Let_def, folded libs_def, folded names_def]
  from f obtain bm where bm: "map_of libs (filename_of binary) = Some bm"
    by (cases "map_of libs (filename_of binary)") auto
  from bm assms(2) obtain py rest where py: "List.find (named (filename_of binary)) maps = Some py"
    "getBaseMap bm = Inr py" unfolding libs_def by (rule library_base)
  note g = f [unfolded bm option.case py(2) rbind_simps]
  have few: "\<not> length names > 1" using g by (cases "length names > 1") auto
  define elf where "elf = (case names of name # _ \<Rightarrow> name | [] \<Rightarrow> filename_of binary)"
  define lib where "lib = (case names of [] \<Rightarrow> Inr None
      | _ # _ \<Rightarrow> rbind (getBaseMap (the (map_of libs elf))) (\<lambda>m. Inr (Some m)))"
  note h = g [unfolded if_not_P [OF few], folded elf_def, folded lib_def]
  from h obtain l where l: "lib = Inr l" and
    rest: "rbind (getBss open_elf (the (map_of libs elf)) (load_point_for
        (case load_points of None \<Rightarrow> computed_load_points Map.empty maps | Some p \<Rightarrow> p) elf)) (\<lambda>bss.
        Inr \<lparr>map_heap = (case map_of libs ''[heap]'' of Some (m # _) \<Rightarrow> Some m | _ \<Rightarrow> None),
             map_bss = (case bss of None \<Rightarrow> fallback_bss (the (map_of libs elf)) | Some m \<Rightarrow> Some m),
             map_python = py, map_libpython = l\<rparr>) = Inr info"
    by (rule rbind_InrE)
  then have info: "map_python info = py" "map_libpython info = l"
    "map_heap info = (case map_of libs ''[heap]'' of Some (m # _) \<Rightarrow> Some m | _ \<Rightarrow> None)"
    by (auto elim!: rbind_InrE)
  have heap: "map_heap info = List.find (named ''[heap]'') maps"
  proof (cases "map_of libs ''[heap]''")
    case None
    then have "owned '''' ''[heap]'' maps = []" by (simp add: libs_def maps_by_library_owned split: if_splits)
    with owned_first [of "''''" "''[heap]''" maps] show ?thesis unfolding info None by simp
  next
    case (Some ms)
    then obtain m rest where "ms = m # rest" "List.find (named ''[heap]'') maps = Some m"
      unfolding libs_def by (rule library_base) simp
    with Some show ?thesis unfolding info by simp
  qed
  have set: "set names = {name. libpython_file maps name}"
    unfolding names_def libs_def by (rule libpython_names)
  have "case l of None \<Rightarrow> \<forall>name. \<not> libpython_file maps name
     | Some m \<Rightarrow> \<exists>name. List.find (named name) maps = Some m \<and> (\<forall>n. libpython_file maps n \<longleftrightarrow> n = name)"
  proof (cases names)
    case Nil
    with set have "\<forall>name. \<not> libpython_file maps name" by simp
    moreover from l Nil have "l = None" by (simp add: lib_def)
    ultimately show ?thesis by simp
  next
    case (Cons name more)
    with few have names: "names = [name]" by (cases more) auto
    then have name: "libpython_file maps name" "\<forall>n. libpython_file maps n \<longleftrightarrow> n = name" using set by auto
    then have "name \<in> set (map fst libs)" "name \<noteq> ''''"
      using library_key [of name maps] libpython_named [of name] by (auto simp: libs_def libpython_file_def)
    then obtain ms where "map_of libs name = Some ms" by (metis map_of_eq_None_iff not_None_eq set_map)
    with \<open>name \<noteq> ''''\<close> obtain m where "List.find (named name) maps = Some m" "getBaseMap ms = Inr m"
      unfolding libs_def by (auto elim: library_base)
    with l \<open>map_of libs name = Some ms\<close> have "l = Some m" by (simp add: lib_def elf_def names)
    with \<open>List.find (named name) maps = Some m\<close> name(2) show ?thesis by (simp only: option.case) blast
  qed
  with py heap info show ?thesis by simp
qed

text \<open>
  Property C34. The interpreter is the first mapping of the executable, the heap the first heap mapping,
  and the library the first mapping of the one mapped file whose name contains \<open>libpython\<close>, if there
  is one; when several such files are mapped the process is rejected.
\<close>

theorem interpreter_maps_found:
  assumes "parseMapInformation open_elf binary maps load_points = Inr info" and "filename_of binary \<noteq> ''''"
  shows "List.find (named (filename_of binary)) maps = Some (map_python info) \<and>
    map_heap info = List.find (named ''[heap]'') maps \<and>
    (case map_libpython info of
       None \<Rightarrow> \<forall>name. \<not> libpython_file maps name
     | Some m \<Rightarrow> \<exists>name. List.find (named name) maps = Some m \<and> (\<forall>n. libpython_file maps n \<longleftrightarrow> n = name))"
  using assms by (rule parseMapInformation_maps)

definition path_map :: "addr \<Rightarrow> string \<Rightarrow> virtual_map" where
  "path_map a path = virtual_map_new a (a + 4096) 4096 ''rw-p'' 0 ''00:00'' 0 path"

definition example_maps :: "virtual_map list" where
  "example_maps = [path_map 4096 ''/b/python'', path_map 8192 '''', path_map 16384 ''/l/libpython3.so'',
     path_map 20480 '''', path_map 32768 ''[heap]'']"

lemma example_map_info:
  "parseMapInformation (\<lambda>_. None) ''/b/python'' example_maps None =
     Inr \<lparr>map_heap = Some (path_map 32768 ''[heap]''), map_bss = Some (path_map 20480 ''''),
          map_python = path_map 4096 ''/b/python'', map_libpython = Some (path_map 16384 ''/l/libpython3.so'')\<rparr>"
proof -
  have path [simp]: "d_path (path_map a p) = p" "d_flags (path_map a p) = ''rw-p''" for a p
    by (simp_all add: path_map_def virtual_map_new_def)
  have libs: "maps_by_library example_maps =
      [(''python'', [path_map 4096 ''/b/python'', path_map 8192 '''']),
       (''libpython3.so'', [path_map 16384 ''/l/libpython3.so'', path_map 20480 '''']),
       (''[heap]'', [path_map 32768 ''[heap]''])]"
    by (simp add: example_maps_def maps_by_library_def filename_of_def Let_def)
  have names: "contains_text ''libpython3.so'' ''libpython''" "\<not> contains_text ''python'' ''libpython''"
    "\<not> contains_text ''[heap]'' ''libpython''"
    by (simp_all add: contains_text_def upt_rec)
  have binary: "filename_of ''/b/python'' = ''python''" by (simp add: filename_of_def)
  show ?thesis
    by (simp add: parseMapInformation_def libs names binary getBaseMap_def getBss_def getSectionInfo_def
        fallback_bss_def Let_def)
qed

theorem interpreter_maps_found_witness:
  "List.find (named ''python'') example_maps = Some (path_map 4096 ''/b/python'') \<and>
   (\<exists>name. List.find (named name) example_maps = Some (path_map 16384 ''/l/libpython3.so''))"
proof -
  have binary: "filename_of ''/b/python'' = ''python''" by (simp add: filename_of_def)
  from interpreter_maps_found [OF example_map_info] show ?thesis unfolding binary by auto
qed

end
