(* ===== verification/Version_Detector.thy ===== *)
theory Version_Detector
  imports Maps_Parser
begin

text \<open>
  The version of Python when the target does not tell it itself (\<open>version_detector.cpp\<close>): from a version
  string in the BSS section, from the name of the library or of the executable, or from what the
  executable prints.
\<close>

section \<open>Regular expressions\<close>

definition lower :: "char \<Rightarrow> char" where
  "lower c = (if 65 \<le> (of_char c :: nat) \<and> (of_char c :: nat) \<le> 90 then char_of ((of_char c :: nat) + 32) else c)"

definition rx_lit_icase :: "string \<Rightarrow> string rx" where
  "rx_lit_icase l s =
     (if map lower (take (length l) s) = map lower l then [(take (length l) s, drop (length l) s)] else [])"

text \<open>The release level and serial, and the free-threading remark, are optional.\<close>

definition rx_release :: "string rx" where
  "rx_release =
     rx_then (rx_alt (rx_lit ''a'') (rx_alt (rx_lit ''b'') (rx_alt (rx_lit ''c'') (rx_lit ''rc'')))) (\<lambda>level.
     rx_then (rx_class is_digit 1 (Some 2)) (\<lambda>serial. rx_return (level @ serial)))"

definition rx_free_threading :: "string rx" where
  "rx_free_threading =
     rx_then (rx_lit '' '') (\<lambda>_.
     rx_then (rx_opt (rx_lit ''experimental '')) (\<lambda>e.
     rx_then (rx_lit ''free-threading build'') (\<lambda>f. rx_return ('' '' @ e @ f))))"

definition BSS_VERSION_REGEXP :: "(string \<times> string) rx" where
  "BSS_VERSION_REGEXP =
     rx_then (rx_alt (rx_lit ''2'') (rx_lit ''3'')) (\<lambda>major.
     rx_then (rx_lit ''.'') (\<lambda>_.
     rx_then (rx_class is_digit 1 None) (\<lambda>minor.
     rx_then (rx_lit ''.'') (\<lambda>_.
     rx_then (rx_class is_digit 1 (Some 2)) (\<lambda>_.
     rx_then (rx_opt rx_release) (\<lambda>_.
     rx_then (rx_opt (rx_lit ''+'')) (\<lambda>_.
     rx_then (rx_opt rx_free_threading) (\<lambda>_.
     rx_then (rx_lit '' ('') (\<lambda>_.
     rx_then (rx_class is_any 1 (Some 64)) (\<lambda>_.
     rx_then (rx_lit '')'') (\<lambda>_. rx_return (major, minor))))))))))))"

definition rx_version :: "string \<Rightarrow> (string \<times> string) rx" where
  "rx_version prefix =
     rx_then (rx_lit_icase prefix) (\<lambda>_.
     rx_then (rx_class is_digit 1 None) (\<lambda>major.
     rx_then (rx_lit ''.'') (\<lambda>_.
     rx_then (rx_class is_digit 1 None) (\<lambda>minor.
     rx_then (rx_class is_any 0 None) (\<lambda>_. rx_return (major, minor))))))"

definition BINARY_REGEXP :: "(string \<times> string) rx" where
  "BINARY_REGEXP = rx_version ''python''"

definition LIBPYTHON_REGEXP :: "(string \<times> string) rx" where
  "LIBPYTHON_REGEXP = rx_then (rx_class is_any 0 None) (\<lambda>_. rx_version ''libpython'')"

definition VERSION_OUTPUT_REGEXP :: "(string \<times> string) rx" where
  "VERSION_OUTPUT_REGEXP = rx_version ''Python ''"

section \<open>Operations\<close>

text \<open>A match becomes a pair of numbers; a number that is too large is an exception.\<close>

definition version_of :: "(string \<times> string) option \<Rightarrow> (int \<times> int) option result" where
  "version_of found =
     (case found of
        None \<Rightarrow> Inr None
      | Some (major, minor) \<Rightarrow>
          rbind (stoi_digits major) (\<lambda>a. rbind (stoi_digits minor) (\<lambda>b. Inr (Some (a, b)))))"

definition scanProcessBssForVersion :: "copier option \<Rightarrow> virtual_map \<Rightarrow> (int \<times> int) option result" where
  "scanProcessBssForVersion memory bss =
     (case memory of
        None \<Rightarrow> Inr None
      | Some copy \<Rightarrow>
          rbind (vec_resize 1 (map_Size bss)) (\<lambda>_.
          rbind (try_catch (rbind (copy (d_start bss) (map_Size bss)) (\<lambda>bs. Inr (Some bs)))
                   is_exception (\<lambda>_. Inr None)) (\<lambda>copied.
            case copied of
              None \<Rightarrow> Inr None
            | Some bs \<Rightarrow> version_of (regex_search BSS_VERSION_REGEXP (string_of_bytes bs)))))"

text \<open>What cannot be read of a core file stays zero.\<close>

definition scanCoreBssForVersion :: "bytes option \<Rightarrow> virtual_map \<Rightarrow> (int \<times> int) option result" where
  "scanCoreBssForVersion core_content bss =
     (case core_content of
        None \<Rightarrow> Inr None
      | Some content \<Rightarrow>
          if 2 ^ 63 \<le> unat (d_offset bss) then Inr None
          else
            rbind (vec_resize 1 (map_Size bss)) (\<lambda>_.
              let n = unat (map_Size bss); part = block (unat (d_offset bss)) n content in
              version_of (regex_search BSS_VERSION_REGEXP
                (string_of_bytes (part @ replicate (n - length part) 0)))))"

definition inferVersionFromPath :: "string \<Rightarrow> (int \<times> int) option result" where
  "inferVersionFromPath path =
     (let filename = filename_of path in
      case regex_match LIBPYTHON_REGEXP filename of
        Some m \<Rightarrow> version_of (Some m)
      | None \<Rightarrow> version_of (regex_match BINARY_REGEXP filename))"

text \<open>\<open>popen\<close> runs a command line and returns what it prints.\<close>

definition getVersionFromBinary :: "(string \<Rightarrow> string option) \<Rightarrow> string \<Rightarrow> (int \<times> int) option result" where
  "getVersionFromBinary popen binary_path =
     (case popen (binary_path @ '' --version 2>&1'') of
        None \<Rightarrow> Inr None
      | Some output \<Rightarrow> version_of (regex_search VERSION_OUTPUT_REGEXP output))"

definition or_else :: "'a option result \<Rightarrow> 'a option result \<Rightarrow> 'a option result" where
  "or_else first second = rbind first (\<lambda>found. case found of Some v \<Rightarrow> Inr (Some v) | None \<Rightarrow> second)"

definition getVersionFromMapInfo ::
  "(string \<Rightarrow> string option) \<Rightarrow> ProcessMemoryMapInfo \<Rightarrow> (int \<times> int) result" where
  "getVersionFromMapInfo popen mapinfo =
     (let python_path = d_path (map_python mapinfo) in
      rbind (or_else
          (case map_libpython mapinfo of
             Some lib \<Rightarrow> if d_path lib \<noteq> '''' then inferVersionFromPath (d_path lib) else Inr None
           | None \<Rightarrow> Inr None)
          (if python_path \<noteq> ''''
           then or_else (inferVersionFromPath python_path) (getVersionFromBinary popen python_path)
           else Inr None)) (\<lambda>found.
        case found of
          Some version \<Rightarrow> Inr version
        | None \<Rightarrow> Inl (RuntimeError (''Could not determine python version from '' @ python_path))))"

definition version_from_bss ::
  "(virtual_map \<Rightarrow> (int \<times> int) option result) \<Rightarrow> (string \<Rightarrow> string option) \<Rightarrow> ProcessMemoryMapInfo \<Rightarrow>
   (int \<times> int) result" where
  "version_from_bss scan popen mapinfo =
     rbind (case map_bss mapinfo of None \<Rightarrow> Inr None | Some bss \<Rightarrow> scan bss) (\<lambda>found.
       case found of Some version \<Rightarrow> Inr version | None \<Rightarrow> getVersionFromMapInfo popen mapinfo)"

definition getVersionForProcess ::
  "(string \<Rightarrow> string option) \<Rightarrow> ProcessMemoryMapInfo \<Rightarrow> copier option \<Rightarrow> (int \<times> int) result" where
  "getVersionForProcess popen mapinfo memory =
     version_from_bss (scanProcessBssForVersion memory) popen mapinfo"

definition getVersionForCore ::
  "(string \<Rightarrow> string option) \<Rightarrow> bytes option \<Rightarrow> ProcessMemoryMapInfo \<Rightarrow> (int \<times> int) result" where
  "getVersionForCore popen core_content mapinfo =
     version_from_bss (scanCoreBssForVersion core_content) popen mapinfo"

section \<open>What is recognised\<close>

lemma begins_lit_icase: "begins (rx_lit_icase l) (l @ r) l r"
  by (simp add: begins_def rx_lit_icase_def)

text \<open>Digits that are followed by something else are captured as a whole.\<close>

lemma begins_number:
  "r = [] \<or> \<not> is_digit (hd r) \<Longrightarrow> begins (rx_class is_digit 1 None) (to_string n @ r) (to_string n) r"
  by (rule begins_class) (auto simp: Suc_le_eq dest: to_string_digits)

lemma rx_version_begins:
  assumes "r = [] \<or> \<not> is_digit (hd r)" "\<forall>c \<in> set r. is_any c"
  shows "begins (rx_version prefix) (prefix @ to_string a @ ''.'' @ to_string b @ r)
    (to_string a, to_string b) []"
proof -
  have steps: "begins (rx_class is_digit 1 None) (to_string a @ CHR ''.'' # s) (to_string a) (CHR ''.'' # s)" for s
    by (rule begins_number) (simp add: is_digit_def)
  have lit: "begins (rx_lit ''.'') (CHR ''.'' # s) ''.'' s" for s using begins_lit [of "''.''" s] by simp
  have rest: "begins (rx_class is_any 0 None) r r []"
    using begins_class [of r is_any "[]" 0] assms(2) by simp
  show ?thesis unfolding rx_version_def append.simps
    by (rule begins_then, rule begins_lit_icase, rule begins_then, rule steps, rule begins_then, rule lit,
        rule begins_then, rule begins_number [OF assms(1)], rule begins_then, rule rest, rule begins_return)
qed

lemma version_of_numbers:
  "a < 2 ^ 31 \<Longrightarrow> b < 2 ^ 31 \<Longrightarrow> version_of (Some (to_string a, to_string b)) = Inr (Some (int a, int b))"
  by (simp add: version_of_def stoi_digits_def to_string_value)

text \<open>The name of an executable tells its version, unless it is taken for that of a library.\<close>

lemma version_of_executable:
  assumes "filename_of path = ''python'' @ to_string a @ ''.'' @ to_string b @ r"
    and "r = [] \<or> \<not> is_digit (hd r)" "\<forall>c \<in> set r. is_any c" "a < 2 ^ 31" "b < 2 ^ 31"
    and "regex_match LIBPYTHON_REGEXP (filename_of path) = None"
  shows "inferVersionFromPath path = Inr (Some (int a, int b))"
  using assms(6) regex_match_begins [OF rx_version_begins [OF assms(2,3), of "''python''" a b]]
    version_of_numbers [OF assms(4,5)] assms(1)
  by (simp add: inferVersionFromPath_def Let_def BINARY_REGEXP_def)

end
