(* ===== verification/Thread_Data.thy ===== *)
theory Thread_Data
  imports Prelude "HOL-Library.Sublist" "HOL-Library.Product_Lexorder"
begin

text \<open>
  The data PyStack reports: source locations (\<open>pycode.h\<close>), Python frames and threads
  (\<open>thread_builder.h\<close>) and native frames (\<open>native_frame.h\<close>), with the recognition of the
  interpreter's evaluation function among native symbols (\<open>native_frame.cpp\<close>).
\<close>

section \<open>Records\<close>

text \<open>The fields of \<open>LocationInfo\<close> are 32-bit \<open>int\<close>s, read with their sign.\<close>

record LocationInfo =
  lineno :: "32 word"
  end_lineno :: "32 word"
  column :: "32 word"
  end_column :: "32 word"

record PyCodeData =
  code_filename :: string
  code_scope :: string
  code_location :: LocationInfo

text \<open>\<open>unordered_map<string, string>\<close> is a map; its order is not observable in the source.\<close>

record PyFrameData =
  frame_code :: PyCodeData
  arguments :: "string \<rightharpoonup> string"
  locals :: "string \<rightharpoonup> string"
  is_entry :: bool
  is_shim :: bool

record NativeFrame =
  address :: "64 word"
  symbol :: string
  native_path :: string
  linenumber :: int
  colnumber :: int
  native_library :: string

record PyThreadData =
  tid :: int
  thread_name :: "string option"
  frames :: "PyFrameData list"
  native_frames :: "NativeFrame list"
  gil_status :: int
  gc_status :: int
  interpreter_id :: int
  stack_anchor :: addr

section \<open>Evaluation frames\<close>

text \<open>\<open>std::string::find(s) != npos\<close> and \<open>starts_with\<close>.\<close>

definition str_contains :: "string \<Rightarrow> string \<Rightarrow> bool" where
  "str_contains str sub \<longleftrightarrow> sublist sub str"

definition starts_with :: "string \<Rightarrow> string \<Rightarrow> bool" where
  "starts_with str pre \<longleftrightarrow> prefix pre str"

text \<open>The comparisons of version pairs are lexicographic.\<close>

definition is_eval_frame :: "string \<Rightarrow> int \<times> int \<Rightarrow> bool" where
  "is_eval_frame fn_name python_version \<longleftrightarrow>
     (if python_version < (3, 6) then str_contains fn_name ''PyEval_EvalFrameEx''
      else if str_contains fn_name ''_PyEval_EvalFrameDefault'' then True
      else if starts_with fn_name ''_TAIL_CALL_'' \<and> str_contains fn_name ''.llvm.'' then True
      else if python_version \<ge> (3, 15) \<and> starts_with fn_name ''_TAIL_CALL_'' then True
      else False)"

text \<open>A later Python only adds names to the evaluation functions, from 3.6 on.\<close>

lemma is_eval_frame_mono:
  "(3, 6) \<le> v \<Longrightarrow> v \<le> w \<Longrightarrow> is_eval_frame fn_name v \<Longrightarrow> is_eval_frame fn_name w"
  by (auto simp: is_eval_frame_def not_less split: if_splits)

end
