(* ===== verification/Transparent_Cache.thy ===== *)
theory Transparent_Cache
  imports Prelude
begin

text \<open>
  The contract of the caches that only save time: as long as their content is consistent, a lookup
  returns what is computed for the key and leaves a consistent cache. Clients then need not know of the
  cache; a sequence of lookups gives the computed values in order.
\<close>

locale transparent_cache =
  fixes run :: "'c \<Rightarrow> 'k \<Rightarrow> 'v \<times> 'c" and compute :: "'k \<Rightarrow> 'v" and consistent :: "'c \<Rightarrow> bool"
  assumes lookup: "consistent c \<Longrightarrow> fst (run c k) = compute k \<and> consistent (snd (run c k))"
begin

lemma hit:
  assumes "consistent c"
  obtains c' where "run c k = (compute k, c')" and "consistent c'"
  using lookup [OF assms, of k] by (cases "run c k") auto

fun lookups :: "'c \<Rightarrow> 'k list \<Rightarrow> 'v list \<times> 'c" where
  "lookups c [] = ([], c)"
| "lookups c (k # ks) =
     (case run c k of (v, c1) \<Rightarrow> (case lookups c1 ks of (vs, c2) \<Rightarrow> (v # vs, c2)))"

lemma lookups_computed: "consistent c \<Longrightarrow> fst (lookups c ks) = map compute ks \<and> consistent (snd (lookups c ks))"
proof (induction ks arbitrary: c)
  case (Cons k ks)
  from Cons.prems obtain c1 where "run c k = (compute k, c1)" "consistent c1" by (rule hit)
  with Cons.IH [of c1] show ?case by (cases "lookups c1 ks") simp
qed simp

end

end
