(* ===== verification/Unwinder.thy ===== *)
theory Unwinder
  imports Thread_Data Maps_Parser Transparent_Cache
begin

text \<open>
  The native stacks (\<open>unwinder.cpp\<close>): the frames that libdw unwinds, the break out of endless unwinding,
  and the names, files and lines of the functions that are executing, inlined ones included, with the
  caches of the unwinder. What libdw and the demangler answer is a parameter. The check of the stack
  pointer is there, as with elfutils 0.188 and later on x86-64 and AArch64.
\<close>

section \<open>What libdw answers\<close>

text \<open>
  Modules, compilation units and scopes (DIEs) are numbers. A compilation unit comes with its bias; the
  attributes of a scope that are not there are \<open>None\<close>. \<open>getscopes\<close> returns a number of scopes, negative
  for an error, and the scopes.
\<close>

type_synonym die = nat
type_synonym scopes = "int \<times> die list"

record dwarf =
  addrmodule :: "addr \<Rightarrow> nat option"
  dwfl_module_name :: "nat option \<Rightarrow> string option"
  addrinfo :: "nat option \<Rightarrow> addr \<Rightarrow> string option"
  addrdie :: "nat option \<Rightarrow> addr \<Rightarrow> (die \<times> addr) option"
  compilation_units :: "nat \<Rightarrow> (die \<times> addr \<times> (addr \<times> addr) list) list"
  getsrc :: "die \<Rightarrow> addr \<Rightarrow> (string option \<times> int \<times> int) option"
  getscopes :: "die \<Rightarrow> addr \<Rightarrow> scopes"
  getscopes_die :: "die \<Rightarrow> scopes"
  is_inlined :: "die \<Rightarrow> bool"
  mips_linkage_name :: "die \<Rightarrow> string option option"
  linkage_name :: "die \<Rightarrow> string option option"
  die_name :: "die \<Rightarrow> string option"
  srcfiles_ok :: "die \<Rightarrow> bool"
  call_file :: "die \<Rightarrow> nat option"
  call_line :: "die \<Rightarrow> 64 word option"
  call_column :: "die \<Rightarrow> 64 word option"
  filesrc :: "die \<Rightarrow> nat \<Rightarrow> string option"
  cxa_demangle :: "string \<Rightarrow> string option"

section \<open>Unwinding\<close>

record Frame =
  pc :: addr
  isActivation :: bool
  stackPointer :: "addr option"

text \<open>
  The frames of a thread as libdw goes through them, \<open>None\<close> where it stops with the given code; a frame
  whose program counter or stack pointer cannot be read has \<open>None\<close> there.
\<close>

record dwfl_frame =
  fr_pc :: "(addr \<times> bool) option"
  fr_sp :: "addr option"

record dwfl_thread =
  dwfl_tid :: int
  dwfl_frames :: "nat \<Rightarrow> dwfl_frame option"
  dwfl_end_code :: int

abbreviation DWARF_CB_OK :: int where "DWARF_CB_OK \<equiv> 0"
abbreviation DWARF_CB_ABORT :: int where "DWARF_CB_ABORT \<equiv> 1"

definition frameCallback :: "dwfl_frame \<Rightarrow> Frame list \<Rightarrow> (int \<times> Frame list) result" where
  "frameCallback state frs =
     (case fr_pc state of
        None \<Rightarrow> Inr (- 1, frs)
      | Some (p, activation) \<Rightarrow>
          (case fr_sp state of
             None \<Rightarrow> Inl UnwinderError
           | Some sp \<Rightarrow>
               if frs \<noteq> [] \<and> p = pc (last frs) \<and> activation = isActivation (last frs) \<and>
                  Some sp = stackPointer (last frs)
               then Inr (DWARF_CB_ABORT, frs)
               else Inr (DWARF_CB_OK, frs @ [\<lparr>pc = p, isActivation = activation, stackPointer = Some sp\<rparr>])))"

text \<open>libdw calls back for each frame until a callback does not return \<open>DWARF_CB_OK\<close>; it may not end.\<close>

partial_function (option) frame_loop ::
  "dwfl_thread \<Rightarrow> nat \<Rightarrow> Frame list \<Rightarrow> (int \<times> Frame list) result option" where
  "frame_loop th n frs =
     (case dwfl_frames th n of
        None \<Rightarrow> Some (Inr (dwfl_end_code th, frs))
      | Some state \<Rightarrow>
          (case frameCallback state frs of
             Inl e \<Rightarrow> Some (Inl e)
           | Inr (code, frs') \<Rightarrow>
               if code = DWARF_CB_OK then frame_loop th (Suc n) frs' else Some (Inr (code, frs'))))"

definition thread_frames :: "dwfl_thread \<Rightarrow> Frame list \<Rightarrow> (int \<times> Frame list) result" where
  "thread_frames th frs = (case frame_loop th 0 frs of None \<Rightarrow> Inl Diverges | Some r \<Rightarrow> r)"

text \<open>An end of the unwinding that may be an error is one only when there are no frames.\<close>

definition check_unwound :: "int \<Rightarrow> Frame list \<Rightarrow> unit result" where
  "check_unwound code frs =
     (if code = DWARF_CB_OK \<or> code = DWARF_CB_ABORT then Inr ()
      else if code = - 1 then if frs = [] then Inl UnwinderError else Inr ()
      else Inl UnwinderError)"

section \<open>Caches\<close>

record unwinder =
  d_range_maps_cache :: "nat option \<rightharpoonup> (die \<times> addr \<times> addr \<times> addr) list"
  d_dwarf_getscopes_cache :: "addr \<rightharpoonup> scopes"
  d_dwarf_getscopes_die_cache :: "die \<rightharpoonup> scopes"
  d_symbol_by_pc_cache :: "addr \<rightharpoonup> string option"

definition CuDieRanges :: "dwarf \<Rightarrow> nat option \<Rightarrow> (die \<times> addr \<times> addr \<times> addr) list" where
  "CuDieRanges dw module =
     (case module of
        None \<Rightarrow> []
      | Some i \<Rightarrow> concat (map (\<lambda>(die, bias, ranges). map (\<lambda>(low, high). (die, bias, low + bias, high + bias)) ranges)
                   (compilation_units dw i)))"

definition findDie :: "(die \<times> addr \<times> addr \<times> addr) list \<Rightarrow> addr \<Rightarrow> (die \<times> addr) option" where
  "findDie ranges a =
     map_option (\<lambda>(die, bias, _, _). (die, bias)) (List.find (\<lambda>(_, _, low, high). low \<le> a \<and> a < high) ranges)"

definition moduleAddrDie :: "dwarf \<Rightarrow> unwinder \<Rightarrow> nat option \<Rightarrow> addr \<Rightarrow> (die \<times> addr) option \<times> unwinder" where
  "moduleAddrDie dw u module a =
     (case d_range_maps_cache u module of
        Some ranges \<Rightarrow> (findDie ranges a, u)
      | None \<Rightarrow>
          (findDie (CuDieRanges dw module) a,
           u\<lparr>d_range_maps_cache := (d_range_maps_cache u)(module \<mapsto> CuDieRanges dw module)\<rparr>))"

definition dwarfModuleAddrDie :: "dwarf \<Rightarrow> unwinder \<Rightarrow> addr \<Rightarrow> nat option \<Rightarrow> (die \<times> addr) option \<times> unwinder" where
  "dwarfModuleAddrDie dw u pc_adjusted module =
     (case addrdie dw module pc_adjusted of
        Some found \<Rightarrow> (Some found, u)
      | None \<Rightarrow> moduleAddrDie dw u module pc_adjusted)"

definition dwarfGetScopesDie :: "dwarf \<Rightarrow> unwinder \<Rightarrow> die \<Rightarrow> scopes \<times> unwinder" where
  "dwarfGetScopesDie dw u die =
     (case d_dwarf_getscopes_die_cache u die of
        Some s \<Rightarrow> (s, u)
      | None \<Rightarrow>
          (getscopes_die dw die,
           u\<lparr>d_dwarf_getscopes_die_cache := (d_dwarf_getscopes_die_cache u)(die \<mapsto> getscopes_die dw die)\<rparr>))"

definition dwarfGetScopes :: "dwarf \<Rightarrow> unwinder \<Rightarrow> die \<Rightarrow> addr \<Rightarrow> scopes \<times> unwinder" where
  "dwarfGetScopes dw u cudie a =
     (case d_dwarf_getscopes_cache u a of
        Some s \<Rightarrow> (s, u)
      | None \<Rightarrow>
          (getscopes dw cudie a,
           u\<lparr>d_dwarf_getscopes_cache := (d_dwarf_getscopes_cache u)(a \<mapsto> getscopes dw cudie a)\<rparr>))"

definition getNonInlineSymbolName :: "dwarf \<Rightarrow> unwinder \<Rightarrow> nat option \<Rightarrow> addr \<Rightarrow> string option \<times> unwinder" where
  "getNonInlineSymbolName dw u m a =
     (case d_symbol_by_pc_cache u a of
        Some name \<Rightarrow> (name, u)
      | None \<Rightarrow>
          (addrinfo dw m a,
           u\<lparr>d_symbol_by_pc_cache := (d_symbol_by_pc_cache u)(a \<mapsto> addrinfo dw m a)\<rparr>))"

section \<open>Names, files and lines\<close>

definition demangleSymbol :: "dwarf \<Rightarrow> string \<Rightarrow> string" where
  "demangleSymbol dw symb =
     (if take 2 symb \<noteq> ''_Z'' then symb
      else case cxa_demangle dw symb of None \<Rightarrow> symb | Some name \<Rightarrow> name)"

definition DIENameFromScope :: "dwarf \<Rightarrow> die \<Rightarrow> string option" where
  "DIENameFromScope dw die =
     (let linkage = (case mips_linkage_name dw die of Some n \<Rightarrow> n
                     | None \<Rightarrow> (case linkage_name dw die of Some n \<Rightarrow> n | None \<Rightarrow> None)) in
      case linkage of Some name \<Rightarrow> Some name | None \<Rightarrow> die_name dw die)"

text \<open>
  The place of a call: a line, a column and a file name that may be null. The line and the column are
  64-bit attributes stored into an \<open>int\<close>.
\<close>

type_synonym place = "int \<times> int \<times> string option"

abbreviation to_int :: "64 word \<Rightarrow> int" where
  "to_int w \<equiv> sint (ucast w :: 32 word)"

definition gatherInformationFromDIE :: "dwarf \<Rightarrow> die \<Rightarrow> die \<Rightarrow> place \<Rightarrow> place" where
  "gatherInformationFromDIE dw cudie die p =
     (case p of (line, col, sname) \<Rightarrow>
        if \<not> srcfiles_ok dw cudie then p
        else
          case call_file dw die of
            None \<Rightarrow> p
          | Some val \<Rightarrow>
              let sname = filesrc dw cudie val in
              (case call_line dw die of
                 None \<Rightarrow> (line, col, sname)
               | Some l \<Rightarrow>
                   (case call_column dw die of
                      None \<Rightarrow> (to_int l, col, sname)
                    | Some c \<Rightarrow> (to_int l, to_int c, sname))))"

definition native_frame :: "addr \<Rightarrow> string \<Rightarrow> string \<Rightarrow> int \<Rightarrow> int \<Rightarrow> string \<Rightarrow> NativeFrame" where
  "native_frame a name path line col library =
     \<lparr>address = a, symbol = name, native_path = path, linenumber = line, colnumber = col,
      native_library = library\<rparr>"

definition or_unknown :: "string option \<Rightarrow> string" where
  "or_unknown s = (case s of Some t \<Rightarrow> t | None \<Rightarrow> ''???'')"

fun inline_frames :: "dwarf \<Rightarrow> addr \<Rightarrow> die \<Rightarrow> string \<Rightarrow> place \<Rightarrow> die list \<Rightarrow> NativeFrame list \<times> place" where
  "inline_frames dw a cudie library p [] = ([], p)"
| "inline_frames dw a cudie library p (scope # scopes) =
     (if \<not> is_inlined dw scope then inline_frames dw a cudie library p scopes
      else
        case DIENameFromScope dw scope of
          None \<Rightarrow> inline_frames dw a cudie library p scopes
        | Some name \<Rightarrow>
            (case p of (line, col, filename) \<Rightarrow>
             case inline_frames dw a cudie library (gatherInformationFromDIE dw cudie scope p) scopes of
               (frs, p') \<Rightarrow>
                 (native_frame a (demangleSymbol dw name @ '' (inlined)'') (or_unknown filename) line col
                    library # frs, p')))"

text \<open>
  The frames for one program counter: the inlined functions and then the function itself. Without
  scopes there are no inlined functions; a negative number of them comes with a null pointer, which is
  dereferenced. The file name of the last frame is converted to a string even if it is null.
\<close>

definition inlined_part ::
  "dwarf \<Rightarrow> unwinder \<Rightarrow> addr \<Rightarrow> addr \<Rightarrow> die \<Rightarrow> string \<Rightarrow> place \<Rightarrow> ((NativeFrame list \<times> place) \<times> unwinder) result" where
  "inlined_part dw u a pc_corrected cudie library p =
     (case dwarfGetScopes dw u cudie pc_corrected of
        ((ncudie_scopes, cudie_scopes), u1) \<Rightarrow>
          if ncudie_scopes = 0 then Inr (([], p), u1)
          else
            case cudie_scopes of
              [] \<Rightarrow> Inl Undefined
            | die # _ \<Rightarrow>
                (case dwarfGetScopesDie dw u1 die of
                   ((nscopes, scopes), u2) \<Rightarrow>
                     Inr (inline_frames dw a cudie library p (take (nat nscopes) scopes), u2)))"

definition gatherInlineFrames ::
  "dwarf \<Rightarrow> unwinder \<Rightarrow> string \<Rightarrow> addr \<Rightarrow> addr \<Rightarrow> die \<Rightarrow> string \<Rightarrow> (NativeFrame list \<times> unwinder) result" where
  "gatherInlineFrames dw u noninline_symname a pc_corrected cudie library =
     (case getsrc dw cudie pc_corrected of
        None \<Rightarrow> Inr ([native_frame a (demangleSymbol dw noninline_symname) ''???'' 0 0 library], u)
      | Some (src, line, col) \<Rightarrow>
          rbind (inlined_part dw u a pc_corrected cudie library (line, col, Some (or_unknown src)))
            (\<lambda>((frs, (line', col', filename)), u').
             case filename of
               None \<Rightarrow> Inl Undefined
             | Some f \<Rightarrow>
                 Inr (frs @ [native_frame a (demangleSymbol dw noninline_symname) f line' col' library], u')))"

definition gather_frame :: "dwarf \<Rightarrow> unwinder \<Rightarrow> Frame \<Rightarrow> (NativeFrame list \<times> unwinder) result" where
  "gather_frame dw u f =
     (let pc_adjusted = pc f - (if isActivation f then 0 else 1);
          module = addrmodule dw pc_adjusted;
          library = or_unknown (dwfl_module_name dw module) in
      case getNonInlineSymbolName dw u module (pc f) of
        (None, u1) \<Rightarrow> Inr ([native_frame (pc f) ''???'' library 0 0 library], u1)
      | (Some raw_symname, u1) \<Rightarrow>
          (case dwarfModuleAddrDie dw u1 pc_adjusted module of
             (None, u2) \<Rightarrow> Inr ([native_frame (pc f) (demangleSymbol dw raw_symname) ''???'' 0 0 library], u2)
           | (Some (cudie, bias), u2) \<Rightarrow>
               gatherInlineFrames dw u2 raw_symname (pc f) (pc_adjusted - bias) cudie library))"

fun gatherFrames :: "dwarf \<Rightarrow> unwinder \<Rightarrow> Frame list \<Rightarrow> (NativeFrame list \<times> unwinder) result" where
  "gatherFrames dw u [] = Inr ([], u)"
| "gatherFrames dw u (f # frs) =
     rbind (gather_frame dw u f) (\<lambda>(ns, u1).
     rbind (gatherFrames dw u1 frs) (\<lambda>(rest, u2). Inr (ns @ rest, u2)))"

section \<open>The unwinders of processes and of core files\<close>

text \<open>\<open>dwfl_getthread_frames\<close> finds the thread (\<open>None\<close> is a failure, -1) and goes through its frames.\<close>

definition unwindThread_process ::
  "dwarf \<Rightarrow> (int \<Rightarrow> dwfl_thread option) \<Rightarrow> unwinder \<Rightarrow> int \<Rightarrow> (NativeFrame list \<times> unwinder) result" where
  "unwindThread_process dw threads u t =
     (if t = 0 then Inr ([], u)
      else
        rbind (case threads t of None \<Rightarrow> Inr (- 1, []) | Some th \<Rightarrow> thread_frames th []) (\<lambda>(code, frs).
        rbind (check_unwound code frs) (\<lambda>_. gatherFrames dw u frs)))"

text \<open>For a core file all threads are gone through, and those of the tid are unwound.\<close>

fun core_thread_frames :: "dwfl_thread list \<Rightarrow> int \<Rightarrow> Frame list \<Rightarrow> Frame list result" where
  "core_thread_frames [] t frs = Inr frs"
| "core_thread_frames (th # ths) t frs =
     (if dwfl_tid th \<noteq> t then core_thread_frames ths t frs
      else
        rbind (thread_frames th frs) (\<lambda>(code, frs').
        rbind (check_unwound code frs') (\<lambda>_. core_thread_frames ths t frs')))"

definition unwindThread_core ::
  "dwarf \<Rightarrow> dwfl_thread list \<Rightarrow> int \<Rightarrow> unwinder \<Rightarrow> int \<Rightarrow> (NativeFrame list \<times> unwinder) result" where
  "unwindThread_core dw threads end_code u t =
     (if t = 0 then Inr ([], u)
      else
        rbind (core_thread_frames threads t []) (\<lambda>frs.
        rbind (check_unwound end_code frs) (\<lambda>_. gatherFrames dw u frs)))"

definition getCoreTids :: "dwfl_thread list \<Rightarrow> int \<Rightarrow> int list result" where
  "getCoreTids threads end_code = (if end_code \<noteq> 0 then Inl UnwinderError else Inr (map dwfl_tid threads))"

text \<open>
  \<open>getAddressforSymbol\<close>: the first symbol of the name in a module whose name is part of the path. A
  symbol table that cannot be read is skipped; a symbol without a name is compared all the same.
\<close>

record symbol_module =
  sym_module_name :: string
  symtab :: "(string option \<times> addr) list option"

fun find_in_symtab :: "string \<Rightarrow> (string option \<times> addr) list \<Rightarrow> addr option result" where
  "find_in_symtab symb [] = Inr None"
| "find_in_symtab symb ((sname, a) # syms) =
     (case sname of
        None \<Rightarrow> Inl Undefined
      | Some n \<Rightarrow> if n = symb then Inr (Some a) else find_in_symtab symb syms)"

fun find_in_modules :: "string \<Rightarrow> string \<Rightarrow> symbol_module list \<Rightarrow> addr result" where
  "find_in_modules symb modulename [] = Inr 0"
| "find_in_modules symb modulename (m # ms) =
     (if \<not> contains_text modulename (sym_module_name m) then find_in_modules symb modulename ms
      else
        case symtab m of
          None \<Rightarrow> find_in_modules symb modulename ms
        | Some syms \<Rightarrow>
            rbind (find_in_symtab symb syms) (\<lambda>found.
              case found of Some a \<Rightarrow> Inr a | None \<Rightarrow> find_in_modules symb modulename ms))"

definition getAddressforSymbol :: "symbol_module list option \<Rightarrow> string \<Rightarrow> string \<Rightarrow> addr result" where
  "getAddressforSymbol modules symb modulename =
     (case modules of None \<Rightarrow> Inl UnwinderError | Some ms \<Rightarrow> find_in_modules symb modulename ms)"

section \<open>Unwinding ends where two frames repeat\<close>

text \<open>A readable frame of libdw, and the end of the loop at each of its outcomes.\<close>

definition state_of :: "Frame \<Rightarrow> dwfl_frame" where
  "state_of f = \<lparr>fr_pc = Some (pc f, isActivation f), fr_sp = stackPointer f\<rparr>"

lemma frameCallback_state_of:
  assumes "stackPointer f \<noteq> None"
  shows "frameCallback (state_of f) frs =
           (if frs \<noteq> [] \<and> f = last frs then Inr (DWARF_CB_ABORT, frs) else Inr (DWARF_CB_OK, frs @ [f]))"
  using assms by (cases f; cases "last frs") (auto simp: frameCallback_def state_of_def)

lemma frame_loop_step:
  assumes "dwfl_frames th n = Some (state_of f)" and "stackPointer f \<noteq> None"
  shows "frame_loop th n frs =
           (if frs \<noteq> [] \<and> f = last frs then Some (Inr (DWARF_CB_ABORT, frs)) else frame_loop th (Suc n) (frs @ [f]))"
  using assms by (subst frame_loop.simps) (simp add: frameCallback_state_of)

lemma frame_loop_prefix:
  assumes "\<forall>i<k. dwfl_frames th i = Some (state_of (f i)) \<and> stackPointer (f i) \<noteq> None"
    and "\<forall>i. Suc i < k \<longrightarrow> f i \<noteq> f (Suc i)"
  shows "frame_loop th 0 [] = frame_loop th k (map f [0..<k])"
  using assms
proof (induction k)
  case (Suc k)
  have "frame_loop th 0 [] = frame_loop th k (map f [0..<k])"
    using Suc.IH Suc.prems by simp
  also have "\<dots> = frame_loop th (Suc k) (map f [0..<k] @ [f k])"
  proof (cases k)
    case 0
    then show ?thesis using Suc.prems(1) by (simp add: frame_loop_step)
  next
    case (Suc j)
    have "f j \<noteq> f k" using Suc.prems(2) Suc by simp
    then show ?thesis using Suc.prems(1) Suc by (simp add: frame_loop_step)
  qed
  finally show ?case by simp
qed simp

text \<open>
  Property C38. The unwinding of a thread ends as soon as libdw reports the same frame twice in a row,
  however long it would go on: the callback aborts, and the frames gathered are those up to the first
  one that is repeated, each of them once.
\<close>

theorem repeated_frame_ends_unwinding:
  assumes "\<forall>i\<le>Suc k. dwfl_frames th i = Some (state_of (f i)) \<and> stackPointer (f i) \<noteq> None"
    and "\<forall>i<k. f i \<noteq> f (Suc i)" and "f (Suc k) = f k"
  shows "thread_frames th [] = Inr (DWARF_CB_ABORT, map f [0..<Suc k])"
proof -
  have "frame_loop th 0 [] = frame_loop th (Suc k) (map f [0..<Suc k])"
    using assms(1,2) by (intro frame_loop_prefix) auto
  also have "\<dots> = Some (Inr (DWARF_CB_ABORT, map f [0..<Suc k]))"
    using assms(1,3) by (subst frame_loop_step [where f = "f (Suc k)"]) auto
  finally show ?thesis by (simp add: thread_frames_def)
qed

definition musl_thread :: dwfl_thread where
  "musl_thread = \<lparr>dwfl_tid = 7,
     dwfl_frames = (\<lambda>i. Some (state_of \<lparr>pc = (if i = 0 then 100 else 200), isActivation = False,
                                       stackPointer = Some 64\<rparr>)),
     dwfl_end_code = 0\<rparr>"

theorem repeated_frame_ends_unwinding_witness:
  "thread_frames musl_thread [] =
     Inr (DWARF_CB_ABORT, [\<lparr>pc = 100, isActivation = False, stackPointer = Some 64\<rparr>,
                           \<lparr>pc = 200, isActivation = False, stackPointer = Some 64\<rparr>])"
  using repeated_frame_ends_unwinding
    [of 1 musl_thread "\<lambda>i. \<lparr>pc = (if i = 0 then 100 else 200), isActivation = False, stackPointer = Some 64\<rparr>"]
  by (simp add: musl_thread_def upt_conv_Cons)

lemma alternating_frames_never_end:
  assumes "frame_loop th n frs = Some r" and "f \<noteq> g"
    and "stackPointer f \<noteq> None" and "stackPointer g \<noteq> None"
    and "\<forall>i. dwfl_frames th i = Some (state_of (if even i then f else g))"
    and "frs \<noteq> [] \<longrightarrow> last frs = (if even n then g else f)"
  shows False
proof -
  have "dwfl_frames x = dwfl_frames th \<longrightarrow> (l \<noteq> [] \<longrightarrow> last l = (if even m then g else f)) \<longrightarrow> False"
    if r: "frame_loop x m l = Some r" for x m l
  proof (rule frame_loop.raw_induct [OF _ r,
        where P = "\<lambda>x m l r. dwfl_frames x = dwfl_frames th \<longrightarrow>
                     (l \<noteq> [] \<longrightarrow> last l = (if even m then g else f)) \<longrightarrow> False"], goal_cases)
    case (1 loop x m l r)
    let ?h = "if even m then f else g"
    show ?case
    proof (intro impI)
      assume x: "dwfl_frames x = dwfl_frames th" and l: "l \<noteq> [] \<longrightarrow> last l = (if even m then g else f)"
      have h: "stackPointer ?h \<noteq> None" "\<not> (l \<noteq> [] \<and> ?h = last l)" using l assms(2-4) by auto
      have "dwfl_frames x m = Some (state_of ?h)" using x assms(5) by simp
      then have "loop x (Suc m) (l @ [?h]) = Some r"
        using 1(2) h by (simp add: frameCallback_state_of)
      from 1(1) [OF this] show False using x by (auto split: if_splits)
    qed
  qed
  then show ?thesis using assms(1,6) by blast
qed

text \<open>
  The comment of the callback speaks of two frames with the same stack pointer. Only neighbours with
  the same program counter are compared: an unwinding that goes round two frames with one stack pointer
  does not end.
\<close>

theorem unwinding_between_two_frames_diverges:
  assumes "f \<noteq> g" and "stackPointer f = Some sp" and "stackPointer g = Some sp"
    and "\<forall>i. dwfl_frames th i = Some (state_of (if even i then f else g))"
  shows "thread_frames th [] = Inl Diverges"
proof (cases "frame_loop th 0 []")
  case (Some r)
  then show ?thesis using alternating_frames_never_end [OF Some assms(1) _ _ assms(4)] assms(2,3) by simp
qed (simp add: thread_frames_def)

section \<open>The caches\<close>

definition no_caches :: unwinder where
  "no_caches = \<lparr>d_range_maps_cache = Map.empty, d_dwarf_getscopes_cache = Map.empty,
                d_dwarf_getscopes_die_cache = Map.empty, d_symbol_by_pc_cache = Map.empty\<rparr>"

text \<open>What the code uses of a frame: its adjusted program counter, its module, its compilation unit.\<close>

definition adjusted_pc :: "Frame \<Rightarrow> addr" where
  "adjusted_pc f = pc f - (if isActivation f then 0 else 1)"

abbreviation module_at :: "dwarf \<Rightarrow> Frame \<Rightarrow> nat option" where
  "module_at dw f \<equiv> addrmodule dw (adjusted_pc f)"

definition unit_at :: "dwarf \<Rightarrow> Frame \<Rightarrow> (die \<times> addr) option" where
  "unit_at dw f = (case addrdie dw (module_at dw f) (adjusted_pc f) of
                     Some found \<Rightarrow> Some found
                   | None \<Rightarrow> findDie (CuDieRanges dw (module_at dw f)) (adjusted_pc f))"

text \<open>
  The two caches that are keyed by an address alone agree with libdw on a set of frames, the other two
  always do.
\<close>

definition scopes_ok :: "dwarf \<Rightarrow> Frame set \<Rightarrow> (addr \<rightharpoonup> scopes) \<Rightarrow> bool" where
  "scopes_ok dw F cache \<longleftrightarrow>
     (\<forall>f\<in>F. \<forall>c b. unit_at dw f = Some (c, b) \<longrightarrow>
        cache (adjusted_pc f - b) \<in> {None, Some (getscopes dw c (adjusted_pc f - b))})"

definition symbols_ok :: "dwarf \<Rightarrow> Frame set \<Rightarrow> (addr \<rightharpoonup> string option) \<Rightarrow> bool" where
  "symbols_ok dw F cache \<longleftrightarrow> (\<forall>f\<in>F. cache (pc f) \<in> {None, Some (addrinfo dw (module_at dw f) (pc f))})"

definition agrees :: "('k \<Rightarrow> 'v) \<Rightarrow> ('k \<rightharpoonup> 'v) \<Rightarrow> bool" where
  "agrees f cache \<longleftrightarrow> (\<forall>k. cache k \<in> {None, Some (f k)})"

definition caches_ok :: "dwarf \<Rightarrow> Frame set \<Rightarrow> unwinder \<Rightarrow> bool" where
  "caches_ok dw F u \<longleftrightarrow>
     agrees (CuDieRanges dw) (d_range_maps_cache u) \<and> agrees (getscopes_die dw) (d_dwarf_getscopes_die_cache u) \<and>
     scopes_ok dw F (d_dwarf_getscopes_cache u) \<and> symbols_ok dw F (d_symbol_by_pc_cache u)"

definition unambiguous :: "dwarf \<Rightarrow> Frame set \<Rightarrow> bool" where
  "unambiguous dw F \<longleftrightarrow>
     (\<forall>f\<in>F. \<forall>g\<in>F. pc f = pc g \<longrightarrow> module_at dw f = module_at dw g) \<and>
     (\<forall>f\<in>F. \<forall>g\<in>F. \<forall>c b c' b'. unit_at dw f = Some (c, b) \<and> unit_at dw g = Some (c', b') \<and>
        adjusted_pc f - b = adjusted_pc g - b' \<longrightarrow> c = c')"

lemma unambiguous_unit:
  assumes "unambiguous dw F" and "f \<in> F" and "g \<in> F"
    and "unit_at dw f = Some (c, b)" and "unit_at dw g = Some (c', b')"
    and "adjusted_pc f - b = adjusted_pc g - b'"
  shows "c = c'"
proof -
  have "\<forall>c b c' b'. unit_at dw f = Some (c, b) \<and> unit_at dw g = Some (c', b') \<and>
          adjusted_pc f - b = adjusted_pc g - b' \<longrightarrow> c = c'"
    using assms(1-3) unfolding unambiguous_def by (elim conjE) (drule (1) bspec, drule (1) bspec, assumption)+
  from this [rule_format, OF conjI [OF assms(4) conjI [OF assms(5,6)]]] show ?thesis .
qed

lemma agrees_empty: "agrees f Map.empty"
  by (simp add: agrees_def)

lemma agrees_update: "agrees f cache \<Longrightarrow> agrees f (cache(k \<mapsto> f k))"
  by (simp add: agrees_def)

lemma agrees_lookup: "agrees f cache \<Longrightarrow> cache k = Some v \<Longrightarrow> v = f k"
  by (auto simp: agrees_def dest: spec [of _ k])

lemma scopes_ok_update:
  assumes "scopes_ok dw F cache" and "unambiguous dw F" and "f \<in> F" and "unit_at dw f = Some (c, b)"
  shows "scopes_ok dw F (cache(adjusted_pc f - b \<mapsto> getscopes dw c (adjusted_pc f - b)))"
  unfolding scopes_ok_def
proof (intro ballI allI impI)
  fix g c' b' assume g: "g \<in> F" "unit_at dw g = Some (c', b')"
  show "(cache(adjusted_pc f - b \<mapsto> getscopes dw c (adjusted_pc f - b))) (adjusted_pc g - b')
          \<in> {None, Some (getscopes dw c' (adjusted_pc g - b'))}"
  proof (cases "adjusted_pc g - b' = adjusted_pc f - b")
    case True
    have "c = c'" by (rule unambiguous_unit [OF assms(2,3) g(1) assms(4) g(2)]) (simp add: True)
    with True show ?thesis by (simp only: fun_upd_apply if_True) simp
  next
    case False
    with assms(1) g show ?thesis unfolding scopes_ok_def by (simp only: fun_upd_apply if_False)
  qed
qed

lemma scopes_ok_lookup:
  assumes "scopes_ok dw F cache" and "f \<in> F" and "unit_at dw f = Some (c, b)"
    and "cache (adjusted_pc f - b) = Some s"
  shows "s = getscopes dw c (adjusted_pc f - b)"
proof -
  have "cache (adjusted_pc f - b) \<in> {None, Some (getscopes dw c (adjusted_pc f - b))}"
    using assms(1-3) unfolding scopes_ok_def by blast
  with assms(4) show ?thesis by (simp only: insert_iff empty_iff option.distinct option.inject) simp
qed

lemma symbols_ok_update:
  assumes "symbols_ok dw F cache" and "unambiguous dw F" and "f \<in> F"
  shows "symbols_ok dw F (cache(pc f \<mapsto> addrinfo dw (module_at dw f) (pc f)))"
  unfolding symbols_ok_def
proof (intro ballI)
  fix g assume g: "g \<in> F"
  show "(cache(pc f \<mapsto> addrinfo dw (module_at dw f) (pc f))) (pc g)
          \<in> {None, Some (addrinfo dw (module_at dw g) (pc g))}"
  proof (cases "pc g = pc f")
    case True
    with assms(2,3) g have "module_at dw g = module_at dw f" unfolding unambiguous_def by metis
    with True show ?thesis by (simp only: fun_upd_apply if_True) simp
  next
    case False
    with assms(1) g show ?thesis unfolding symbols_ok_def by (simp only: fun_upd_apply if_False)
  qed
qed

lemma symbols_ok_lookup:
  assumes "symbols_ok dw F cache" and "f \<in> F" and "cache (pc f) = Some n"
  shows "n = addrinfo dw (module_at dw f) (pc f)"
proof -
  have "cache (pc f) \<in> {None, Some (addrinfo dw (module_at dw f) (pc f))}"
    using assms(1,2) unfolding symbols_ok_def by blast
  with assms(3) show ?thesis by (simp only: insert_iff empty_iff option.distinct option.inject) simp
qed

lemma caches_ok_no_caches: "caches_ok dw F no_caches"
  by (simp add: caches_ok_def no_caches_def agrees_empty scopes_ok_def symbols_ok_def)

lemma symbol_cached:
  assumes "caches_ok dw F u" and "unambiguous dw F" and "f \<in> F"
  obtains u' where "getNonInlineSymbolName dw u (module_at dw f) (pc f) = (addrinfo dw (module_at dw f) (pc f), u')"
    and "caches_ok dw F u'"
proof (cases "d_symbol_by_pc_cache u (pc f)")
  case None
  with that assms symbols_ok_update [OF _ assms(2,3)] show thesis
    by (simp add: getNonInlineSymbolName_def caches_ok_def)
next
  case (Some n)
  with assms(1) have "n = addrinfo dw (module_at dw f) (pc f)"
    by (intro symbols_ok_lookup [where cache = "d_symbol_by_pc_cache u", OF _ assms(3) Some]) (simp add: caches_ok_def)
  with Some that assms(1) show thesis by (simp add: getNonInlineSymbolName_def)
qed

lemma unit_cached:
  assumes "caches_ok dw F u"
  shows "fst (dwarfModuleAddrDie dw u (adjusted_pc f) (module_at dw f)) = unit_at dw f \<and>
    caches_ok dw F (snd (dwarfModuleAddrDie dw u (adjusted_pc f) (module_at dw f)))"
proof (cases "addrdie dw (module_at dw f) (adjusted_pc f)")
  case (Some c)
  with assms show ?thesis by (simp add: dwarfModuleAddrDie_def unit_at_def)
next
  case N: None
  show ?thesis
  proof (cases "d_range_maps_cache u (module_at dw f)")
    case None
    with N assms show ?thesis
      by (simp add: dwarfModuleAddrDie_def unit_at_def moduleAddrDie_def caches_ok_def agrees_update)
  next
    case (Some rs)
    with assms have "rs = CuDieRanges dw (module_at dw f)"
      by (intro agrees_lookup [where cache = "d_range_maps_cache u", OF _ Some]) (simp add: caches_ok_def)
    with N Some assms show ?thesis by (simp add: dwarfModuleAddrDie_def unit_at_def moduleAddrDie_def)
  qed
qed

lemma scopes_cached:
  assumes "caches_ok dw F u" and "unambiguous dw F" and "f \<in> F" and "unit_at dw f = Some (c, b)"
  obtains u' where "dwarfGetScopes dw u c (adjusted_pc f - b) = (getscopes dw c (adjusted_pc f - b), u')"
    and "caches_ok dw F u'"
proof (cases "d_dwarf_getscopes_cache u (adjusted_pc f - b)")
  case None
  with that assms(1) scopes_ok_update [OF _ assms(2-4)] show thesis
    by (simp add: dwarfGetScopes_def caches_ok_def)
next
  case (Some s)
  with assms(1) have "s = getscopes dw c (adjusted_pc f - b)"
    by (intro scopes_ok_lookup [where cache = "d_dwarf_getscopes_cache u", OF _ assms(3,4) Some])
      (simp add: caches_ok_def)
  with Some that assms(1) show thesis by (simp add: dwarfGetScopes_def)
qed

lemma die_scopes_cached:
  assumes "caches_ok dw F u"
  shows "fst (dwarfGetScopesDie dw u d) = getscopes_die dw d \<and> caches_ok dw F (snd (dwarfGetScopesDie dw u d))"
proof (cases "d_dwarf_getscopes_die_cache u d")
  case None
  with assms show ?thesis by (simp add: dwarfGetScopesDie_def caches_ok_def agrees_update)
next
  case (Some s)
  with assms have "s = getscopes_die dw d"
    by (intro agrees_lookup [where cache = "d_dwarf_getscopes_die_cache u", OF _ Some]) (simp add: caches_ok_def)
  with Some assms show ?thesis by (simp add: dwarfGetScopesDie_def)
qed

interpretation units: transparent_cache "\<lambda>u f. dwarfModuleAddrDie dw u (adjusted_pc f) (module_at dw f)" "unit_at dw"
    "caches_ok dw F" for dw F
  by unfold_locales (rule unit_cached)

interpretation die_scopes: transparent_cache "dwarfGetScopesDie dw" "getscopes_die dw" "caches_ok dw F" for dw F
  by unfold_locales (rule die_scopes_cached)

text \<open>The result of an operation is the one that only depends on libdw, and the caches stay true.\<close>

definition implements :: "dwarf \<Rightarrow> Frame set \<Rightarrow> ('a \<times> unwinder) result \<Rightarrow> 'a result \<Rightarrow> bool" where
  "implements dw F r s \<longleftrightarrow> map_sum id fst r = s \<and> (\<forall>x u. r = Inr (x, u) \<longrightarrow> caches_ok dw F u)"

lemma implements_simps [simp]:
  "implements dw F (Inl e) s \<longleftrightarrow> s = Inl e"
  "implements dw F (Inr (x, u)) s \<longleftrightarrow> s = Inr x \<and> caches_ok dw F u"
  by (auto simp: implements_def)

text \<open>The frames of one program counter, without any cache.\<close>

definition inlined_of :: "dwarf \<Rightarrow> addr \<Rightarrow> addr \<Rightarrow> die \<Rightarrow> string \<Rightarrow> place \<Rightarrow> (NativeFrame list \<times> place) result" where
  "inlined_of dw a pc_corrected cudie library p =
     (case getscopes dw cudie pc_corrected of (n, units) \<Rightarrow>
        if n = 0 then Inr ([], p)
        else case units of [] \<Rightarrow> Inl Undefined
             | d # _ \<Rightarrow> (case getscopes_die dw d of (k, ds) \<Rightarrow>
                 Inr (inline_frames dw a cudie library p (take (nat k) ds))))"

definition frames_of :: "dwarf \<Rightarrow> Frame \<Rightarrow> NativeFrame list result" where
  "frames_of dw f =
     (let library = or_unknown (dwfl_module_name dw (module_at dw f)) in
      case addrinfo dw (module_at dw f) (pc f) of
        None \<Rightarrow> Inr [native_frame (pc f) ''???'' library 0 0 library]
      | Some raw \<Rightarrow>
          let plain = native_frame (pc f) (demangleSymbol dw raw) in
          (case unit_at dw f of
             None \<Rightarrow> Inr [plain ''???'' 0 0 library]
           | Some (c, b) \<Rightarrow>
               (case getsrc dw c (adjusted_pc f - b) of
                  None \<Rightarrow> Inr [plain ''???'' 0 0 library]
                | Some (src, line, col) \<Rightarrow>
                    rbind (inlined_of dw (pc f) (adjusted_pc f - b) c library (line, col, Some (or_unknown src)))
                      (\<lambda>(frs, (l, k, filename)).
                        case filename of None \<Rightarrow> Inl Undefined
                        | Some path \<Rightarrow> Inr (frs @ [plain path l k library])))))"

lemma inlined_part_implements:
  assumes "caches_ok dw F u" and "unambiguous dw F" and "f \<in> F" and "unit_at dw f = Some (c, b)"
  shows "implements dw F (inlined_part dw u a (adjusted_pc f - b) c library p)
           (inlined_of dw a (adjusted_pc f - b) c library p)"
proof -
  obtain u1 where u1: "dwarfGetScopes dw u c (adjusted_pc f - b) = (getscopes dw c (adjusted_pc f - b), u1)"
    and ok1: "caches_ok dw F u1" by (rule scopes_cached [OF assms])
  obtain n units where n: "getscopes dw c (adjusted_pc f - b) = (n, units)"
    by (cases "getscopes dw c (adjusted_pc f - b)")
  show ?thesis
  proof (cases units)
    case Nil
    with ok1 n show ?thesis by (simp add: inlined_part_def inlined_of_def u1)
  next
    case (Cons d ds)
    obtain u2 where u2: "dwarfGetScopesDie dw u1 d = (getscopes_die dw d, u2)" and ok2: "caches_ok dw F u2"
      by (rule die_scopes.hit [OF ok1])
    with Cons ok1 n show ?thesis by (simp add: inlined_part_def inlined_of_def u1 split: prod.split)
  qed
qed

lemma gather_frame_implements:
  assumes "caches_ok dw F u" and "unambiguous dw F" and "f \<in> F"
  shows "implements dw F (gather_frame dw u f) (frames_of dw f)"
proof -
  let ?library = "or_unknown (dwfl_module_name dw (module_at dw f))"
  obtain u1 where u1: "getNonInlineSymbolName dw u (module_at dw f) (pc f) = (addrinfo dw (module_at dw f) (pc f), u1)"
    and ok1: "caches_ok dw F u1" by (rule symbol_cached [OF assms])
  obtain u2 where u2: "dwarfModuleAddrDie dw u1 (adjusted_pc f) (module_at dw f) = (unit_at dw f, u2)"
    and ok2: "caches_ok dw F u2" by (rule units.hit [OF ok1])
  note unfolded = gather_frame_def frames_of_def adjusted_pc_def [symmetric] Let_def u1 u2
  show ?thesis
  proof (cases "addrinfo dw (module_at dw f) (pc f)")
    case None
    with ok1 show ?thesis by (simp add: unfolded)
  next
    case raw: (Some raw)
    show ?thesis
    proof (cases "unit_at dw f")
      case None
      with raw ok2 show ?thesis by (simp add: unfolded)
    next
      case (Some cb)
      then obtain c b where cb: "unit_at dw f = Some (c, b)" by (cases cb) auto
      note inlined = inlined_part_implements [OF ok2 assms(2,3) cb, of "pc f" ?library]
      show ?thesis
      proof (cases "getsrc dw c (adjusted_pc f - b)")
        case None
        with raw cb ok2 show ?thesis by (simp add: unfolded gatherInlineFrames_def)
      next
        case (Some src)
        obtain s line col where src: "src = (s, line, col)" by (cases src)
        show ?thesis
          using raw cb Some src inlined [of "(line, col, Some (or_unknown s))"]
          by (cases "inlined_part dw u2 (pc f) (adjusted_pc f - b) c ?library (line, col, Some (or_unknown s))")
            (auto simp: unfolded gatherInlineFrames_def split: prod.splits option.splits)
      qed
    qed
  qed
qed

text \<open>
  Property C39. Where no two of the frames confuse the caches that are keyed by an address alone, the
  caches of the unwinder are transparent: its native frames are those that libdw gives for each frame
  by itself, in order.
\<close>

theorem unwinder_caches_are_transparent:
  assumes "unambiguous dw (set frs)"
  shows "map_sum id fst (gatherFrames dw no_caches frs) = map_sum id concat (rmap (frames_of dw) frs)"
proof -
  have "set l \<subseteq> set frs \<Longrightarrow> caches_ok dw (set frs) u \<Longrightarrow>
        implements dw (set frs) (gatherFrames dw u l) (map_sum (\<lambda>e. e) concat (rmap (frames_of dw) l))" for l u
  proof (induction l arbitrary: u)
    case (Cons f l)
    have f: "implements dw (set frs) (gather_frame dw u f) (frames_of dw f)"
      using Cons.prems assms by (intro gather_frame_implements) auto
    show ?case
    proof (cases "gather_frame dw u f")
      case (Inl e)
      with f show ?thesis by simp
    next
      case (Inr x)
      obtain ns u' where x: "x = (ns, u')" by (cases x)
      have l: "implements dw (set frs) (gatherFrames dw u' l) (map_sum (\<lambda>e. e) concat (rmap (frames_of dw) l))"
        using Cons f Inr x by auto
      show ?thesis
        using f l Inr x
        by (cases "gatherFrames dw u' l"; cases "rmap (frames_of dw) l") auto
    qed
  qed simp
  from this [OF subset_refl caches_ok_no_caches] show ?thesis by (simp add: implements_def id_def)
qed

text \<open>Two modules, the second with a bias: a function is inlined in the first, none in the second.\<close>

definition two_modules :: "addr \<Rightarrow> dwarf" where
  "two_modules bias =
     \<lparr>addrmodule = (\<lambda>a. Some (if a < 100 then 0 else 1)),
      dwfl_module_name = (\<lambda>m. Some (if m = Some 0 then ''python'' else ''lib.so'')),
      addrinfo = (\<lambda>m a. Some (if m = Some 0 then ''main'' else ''f'')),
      addrdie = (\<lambda>m a. Some (if m = Some 0 then (0, 0) else (1, bias))),
      compilation_units = (\<lambda>_. []),
      getsrc = (\<lambda>d a. Some (Some (if d = 0 then ''main.c'' else ''f.c''), 3, 0)),
      getscopes = (\<lambda>d a. if d = 0 then (1, [5]) else (0, [])),
      getscopes_die = (\<lambda>d. (1, [5])),
      is_inlined = (\<lambda>d. d = 5), mips_linkage_name = (\<lambda>_. None), linkage_name = (\<lambda>_. None),
      die_name = (\<lambda>_. Some ''helper''), srcfiles_ok = (\<lambda>_. False),
      call_file = (\<lambda>_. None), call_line = (\<lambda>_. None), call_column = (\<lambda>_. None),
      filesrc = (\<lambda>_ _. None), cxa_demangle = (\<lambda>_. None)\<rparr>"

definition two_frames :: "Frame list" where
  "two_frames = [\<lparr>pc = 11, isActivation = False, stackPointer = None\<rparr>,
                 \<lparr>pc = 111, isActivation = False, stackPointer = None\<rparr>]"

definition frame_names :: "NativeFrame list result \<Rightarrow> string list result" where
  "frame_names r = map_sum id (map symbol) r"

lemmas two_modules_simps = two_modules_def two_frames_def frames_of_def inlined_of_def adjusted_pc_def
  unit_at_def native_frame_def demangleSymbol_def or_unknown_def DIENameFromScope_def
  gatherInformationFromDIE_def frame_names_def

lemma two_modules_unambiguous: "unambiguous (two_modules 50) (set two_frames)"
  by (simp add: unambiguous_def two_modules_def two_frames_def adjusted_pc_def unit_at_def)

lemma two_modules_frames:
  "frame_names (map_sum id concat (rmap (frames_of (two_modules bias)) two_frames)) =
     Inr [''helper (inlined)'', ''main'', ''f'']"
  by (simp add: two_modules_simps Let_def)

theorem unwinder_caches_are_transparent_witness:
  "frame_names (map_sum id fst (gatherFrames (two_modules 50) no_caches two_frames)) =
     Inr [''helper (inlined)'', ''main'', ''f'']"
  using unwinder_caches_are_transparent [OF two_modules_unambiguous] two_modules_frames [of 50] by simp

text \<open>
  Where the corrected program counters of two modules coincide, the scopes of one are taken for those of
  the other: the second frame shows the function that is inlined in the first.
\<close>

theorem scopes_cache_confuses_modules:
  "frame_names (map_sum id fst (gatherFrames (two_modules 100) no_caches two_frames)) =
     Inr [''helper (inlined)'', ''main'', ''helper (inlined)'', ''f'']"
  by (simp add: two_modules_simps no_caches_def gather_frame_def Let_def getNonInlineSymbolName_def
      dwarfModuleAddrDie_def gatherInlineFrames_def inlined_part_def dwarfGetScopes_def dwarfGetScopesDie_def)

end
