(* ===== verification/Remote_Objects.thy ===== *)
theory Remote_Objects
  imports Structure_Reads C_Layout
begin

text \<open>
  Strings, bytes and C strings of the target (\<open>getStringFromAddress\<close>, \<open>getBytesFromAddress\<close>
  and \<open>getCStringFromAddress\<close> in \<open>process.cpp\<close>), the walk over interpreters
  (\<open>interpreter.cpp\<close>) and the status of the interpreter. The facts say what these readers return
  for an object that is laid out in memory as CPython lays it out.
\<close>

section \<open>Strings\<close>

text \<open>The two bit-field layouts of a unicode state: \<open>kind\<close> has three bits and \<open>compact\<close> one.\<close>

definition state_kind :: "nat \<Rightarrow> 32 word \<Rightarrow> 32 word" where
  "state_kind shift state = drop_bit shift state AND 7"

definition state_compact :: "nat \<Rightarrow> 32 word \<Rightarrow> 32 word" where
  "state_compact shift state = drop_bit shift state AND 1"

definition valid_unicode_state :: "manager \<Rightarrow> 32 word \<Rightarrow> bool" where
  "valid_unicode_state m state \<longleftrightarrow>
     (if versionIsAtLeast m 3 14 \<and> d_is_free_threaded m
      then \<not> (state_kind 8 state \<noteq> 1 \<or> state_compact 11 state \<noteq> 1)
      else \<not> (state_kind 2 state \<noteq> 1 \<or> state_compact 5 state \<noteq> 1))"

text \<open>Copying \<open>len\<close> bytes into a vector that is resized first.\<close>

definition read_buffer :: "manager \<Rightarrow> addr \<Rightarrow> size_t \<Rightarrow> bytes result" where
  "read_buffer m data_addr len = rbind (vec_resize 1 len) (\<lambda>_. d_manager m data_addr len)"

text \<open>A Python 2 string object is copied as a whole for its size.\<close>

definition py2_string_size :: "manager \<Rightarrow> addr \<Rightarrow> 64 word result" where
  "py2_string_size m addr =
     rbind (d_manager m addr (sizeof Python2_PyStringObject)) (\<lambda>buf.
       Inr (le_word (block (unat (offsetof Python2_PyStringObject [''ob_base'', ''ob_size''])) 8 buf)))"

definition getStringFromAddress :: "manager \<Rightarrow> addr \<Rightarrow> string result" where
  "getStringFromAddress m addr =
     (if d_major m = 2 then
        rbind (py2_string_size m addr) (\<lambda>len.
        rbind (read_buffer m (addr + offsetof Python2_PyStringObject [''ob_sval'']) len) (\<lambda>buffer.
          Inr (string_of_bytes buffer)))
      else
        rbind (getWord m S_unicode addr (o_state, 4)) (\<lambda>state.
        if \<not> valid_unicode_state m state then Inl InvalidRemoteObject
        else
          rbind (getWord m S_unicode addr (o_length, 8)) (\<lambda>len.
          rbind (getFieldRemoteAddress m S_unicode addr (o_ascii, 8)) (\<lambda>data_addr.
          rbind (read_buffer m data_addr len) (\<lambda>buffer.
            Inr (string_of_bytes buffer))))))"

text \<open>
  \<open>getBytesFromAddress\<close> copies the terminating NUL as well and leaves it out of the result. For
  Python 2 the size is not checked, and the range of the result is invalid when the buffer is empty.
\<close>

definition getBytesFromAddress :: "manager \<Rightarrow> addr \<Rightarrow> string result" where
  "getBytesFromAddress m addr =
     (if d_major m = 2 then
        rbind (py2_string_size m addr) (\<lambda>ob_size.
        rbind (read_buffer m (addr + offsetof Python2_PyStringObject [''ob_sval'']) (ob_size + 1)) (\<lambda>buffer.
          if buffer = [] then Inl Undefined else Inr (string_of_bytes (butlast buffer))))
      else
        rbind (getWord m S_bytes addr (bytes_o_ob_size, 8)) (\<lambda>ob_size.
        let len = ob_size + 1 in
        if sint len < 1 then Inl (RuntimeError ''Incorrect size of the fetched bytes object'')
        else
          rbind (getFieldRemoteAddress m S_bytes addr (o_ob_sval, 1)) (\<lambda>data_addr.
          rbind (read_buffer m data_addr len) (\<lambda>buffer.
            Inr (string_of_bytes (butlast buffer))))))"

text \<open>
  \<open>getCStringFromAddress\<close> reads byte after byte up to a NUL; \<open>acc\<close> holds what it has read. The
  loop has no bound: \<open>None\<close> when it never meets a NUL or an error.
\<close>

partial_function (option) cstring_loop :: "manager \<Rightarrow> addr \<Rightarrow> nat \<Rightarrow> bytes \<Rightarrow> bytes result option" where
  "cstring_loop m addr position acc =
     (case d_manager m (addr + of_nat position) 1 of
        Inl e \<Rightarrow> Some (Inl e)
      | Inr bs \<Rightarrow>
          if (le_word bs :: byte) \<noteq> 0 then cstring_loop m addr (Suc position) (acc @ [le_word bs])
          else Some (Inr acc))"

definition getCStringFromAddress :: "manager \<Rightarrow> addr \<Rightarrow> string result" where
  "getCStringFromAddress m addr =
     (case cstring_loop m addr 0 [] of
        None \<Rightarrow> Inl Diverges
      | Some (Inl e) \<Rightarrow> Inl e
      | Some (Inr bs) \<Rightarrow> Inr (string_of_bytes bs))"

section \<open>Interpreters\<close>

definition getNextInterpreter :: "manager \<Rightarrow> addr \<Rightarrow> addr result" where
  "getNextInterpreter m interpreter_addr = getWord m S_is interpreter_addr (is_o_next, 8)"

definition getInterpreterId :: "manager \<Rightarrow> addr \<Rightarrow> int result" where
  "getInterpreterId m interpreter_addr =
     (if \<not> versionIsAtLeast m 3 7 then Inr (sint interpreter_addr)
      else rbind (getWord m S_is interpreter_addr (o_id, 8)) (\<lambda>id :: 64 word. Inr (sint id)))"

datatype InterpreterStatus = RUNNING | FINALIZED | UNKNOWN

definition isInterpreterActive :: "manager \<Rightarrow> InterpreterStatus result" where
  "isInterpreterActive m =
     (let runtime_addr = d_find_symbol m ''_PyRuntime'' in
      if runtime_addr \<noteq> 0 then
        rbind (getWord m S_runtime runtime_addr (o_finalizing, 8)) (\<lambda>p :: 64 word.
          Inr (if p = 0 then RUNNING else FINALIZED))
      else Inr UNKNOWN)"

section \<open>Facts\<close>

text \<open>What the loop returns when the bytes of a C string are readable up to its end.\<close>

lemma cstring_loop_prefix:
  assumes "\<forall>i < length s. d_manager m (addr + of_nat (position + i)) 1 = Inr [s ! i] \<and> s ! i \<noteq> 0"
  shows "cstring_loop m addr position acc = cstring_loop m addr (position + length s) (acc @ s)"
  using assms
proof (induction s arbitrary: position acc)
  case (Cons c s)
  have "d_manager m (addr + of_nat position) 1 = Inr [c]" "c \<noteq> 0"
    using Cons.prems [rule_format, of 0] by auto
  then have "cstring_loop m addr position acc = cstring_loop m addr (Suc position) (acc @ [c])"
    by (subst cstring_loop.simps) (simp add: le_word_def)
  also have "\<dots> = cstring_loop m addr (Suc position + length s) ((acc @ [c]) @ s)"
  proof (rule Cons.IH, intro allI impI)
    fix i assume "i < length s"
    then show "d_manager m (addr + of_nat (Suc position + i)) 1 = Inr [s ! i] \<and> s ! i \<noteq> 0"
      using Cons.prems [rule_format, of "Suc i"] by simp
  qed
  finally show ?case by simp
qed simp

lemma getCString_stops:
  assumes chars: "\<forall>i < length s. d_manager m (addr + of_nat i) 1 = Inr [s ! i] \<and> s ! i \<noteq> 0"
    and last: "d_manager m (addr + of_nat (length s)) 1 = stop" and stop: "stop = Inr [0] \<or> stop = Inl e"
  shows "getCStringFromAddress m addr =
           (case stop of Inl e \<Rightarrow> Inl e | Inr _ \<Rightarrow> Inr (string_of_bytes s))"
proof -
  have "cstring_loop m addr 0 [] = cstring_loop m addr (length s) s"
    using cstring_loop_prefix [of s m addr 0 "[]"] chars by simp
  moreover have "cstring_loop m addr (length s) s =
      Some (case stop of Inl e \<Rightarrow> Inl e | Inr _ \<Rightarrow> Inr s)"
    using last stop by (subst cstring_loop.simps) (auto simp: le_word_def)
  ultimately show ?thesis using stop by (auto simp: getCStringFromAddress_def)
qed

text \<open>
  \<open>getCStringFromAddress\<close> returns the characters before the first NUL, and fails with
  the memory manager's error when a byte before the first NUL cannot be read; in both cases it returns.
\<close>

theorem getCString_reads_to_nul:
  assumes "\<forall>i < length s. d_manager m (addr + of_nat i) 1 = Inr [s ! i] \<and> s ! i \<noteq> 0"
    and "d_manager m (addr + of_nat (length s)) 1 = stop" and "stop = Inr [0] \<or> stop = Inl e"
  shows "getCStringFromAddress m addr =
           (case stop of Inl e \<Rightarrow> Inl e | Inr _ \<Rightarrow> Inr (string_of_bytes s))"
  using assms by (rule getCString_stops)

text \<open>A target with one C string, \<open>int\<close>, at address 64 and nothing after it.\<close>

definition cstring_image :: image where
  "cstring_image a =
     (if a = 64 then Some 105 else if a = 65 then Some 110 else if a = 66 then Some 116
      else if a = 67 then Some 0 else None)"

theorem getCString_reads_to_nul_witness:
  "getCStringFromAddress (example_manager cstring_image header_tables) 64 = Inr ''int'' \<and>
   getCStringFromAddress (example_manager (cstring_image(67 := None)) header_tables) 64 =
     Inl InvalidRemoteAddress"
proof
  note reads = example_manager_def image_copier_def image_result_def image_read_def cstring_image_def
    less_Suc_eq
  let ?m = "example_manager cstring_image header_tables"
  have "\<forall>i < length [105, 110, 116 :: byte]. d_manager ?m (64 + of_nat i) 1 = Inr [[105, 110, 116] ! i] \<and>
      [105, 110, 116 :: byte] ! i \<noteq> 0"
    "d_manager ?m (64 + of_nat (length [105, 110, 116 :: byte])) 1 = Inr [0]"
    by (auto simp: reads)
  from getCString_reads_to_nul [OF this, of Undefined]
  show "getCStringFromAddress ?m 64 = Inr ''int''" by (simp add: string_of_bytes_def char_of_def bit_Suc_0_iff)
  let ?m = "example_manager (cstring_image(67 := None)) header_tables"
  have "\<forall>i < length [105, 110, 116 :: byte]. d_manager ?m (64 + of_nat i) 1 = Inr [[105, 110, 116] ! i] \<and>
      [105, 110, 116 :: byte] ! i \<noteq> 0"
    "d_manager ?m (64 + of_nat (length [105, 110, 116 :: byte])) 1 = Inl InvalidRemoteAddress"
    by (auto simp: reads)
  from getCString_reads_to_nul [OF this, of InvalidRemoteAddress]
  show "getCStringFromAddress ?m 64 = Inl InvalidRemoteAddress" by simp
qed

section \<open>Small targets for the witnesses\<close>

text \<open>A memory of a few segments, each with its first address and its bytes.\<close>

definition segments_copier :: "(addr \<times> bytes) list \<Rightarrow> copier" where
  "segments_copier segs a n =
     (case List.find (\<lambda>(s, bs). s \<le> a \<and> unat (a - s) + unat n \<le> length bs) segs of
        None \<Rightarrow> Inl InvalidRemoteAddress
      | Some (s, bs) \<Rightarrow> Inr (block (unat (a - s)) (unat n) bs))"

interpretation segments: remote_memory "segments_copier segs" for segs
  by unfold_locales (auto simp: segments_copier_def dest!: find_SomeD split: option.splits)

definition segments_manager :: "int \<times> int \<Rightarrow> python_v \<Rightarrow> (addr \<times> bytes) list \<Rightarrow> manager" where
  "segments_manager version v segs =
     \<lparr>d_manager = segments_copier segs, d_is_address_valid = (\<lambda>a m. a \<noteq> 0 \<and> containsAddr m a),
      d_find_symbol = (\<lambda>_. 0), d_memory_maps = [], manager_pid = 1, d_tids = [1],
      d_major = fst version, d_minor = snd version, d_py_v = Some v, d_is_free_threaded = False,
      d_debug_offsets_addr = 0, d_debug_offsets = None\<rparr>"

lemma segments_manager_simps [simp]:
  "d_manager (segments_manager version v segs) = segments_copier segs"
  "offsets (segments_manager version v segs) = Inr v"
  "d_major (segments_manager version v segs) = fst version"
  "versionIsAtLeast (segments_manager (major, minor) v segs) a b \<longleftrightarrow>
     major > a \<or> major = a \<and> minor \<ge> b"
  "d_find_symbol (segments_manager version v segs) = (\<lambda>_. 0)"
  "d_is_free_threaded (segments_manager version v segs) = False"
  "d_tids (segments_manager version v segs) = [1]"
  "manager_pid (segments_manager version v segs) = 1"
  "d_memory_maps (segments_manager version v segs) = []"
  by (simp_all add: segments_manager_def offsets_def versionIsAtLeast_def)

text \<open>Evaluating the reads of a segment memory.\<close>

lemmas eval_reads =
  segments_copier_def getWord_def getField_def getFieldRemoteAddress_def copyFromRemote_def Let_def
  field_in_bounds_unat block_def le_word_def

text \<open>\<open>u64 n\<close> is the little-endian content of a word.\<close>

definition u64 :: "nat \<Rightarrow> bytes" where
  "u64 n = le_encode 8 n"

lemma length_u64 [simp]: "length (u64 n) = 8"
  by (simp add: u64_def)

end
