(* ===== verification/Double_Format.thy ===== *)
theory Double_Format
  imports Prelude
begin

text \<open>
  How a \<open>std::ostream\<close> with default flags writes a \<open>double\<close> (\<open>Object::toString\<close> in
  \<open>pytypes.cpp\<close> prints Python floats this way): six significant digits, rounded to nearest with ties
  to even, trailing zeros removed, and scientific notation for exponents below -4 or from 6 on. The
  value is decoded from the bits of the IEEE 754 binary64 number and computed exactly.
\<close>

text \<open>A finite number as \<open>num / den\<close>.\<close>

definition double_fraction :: "64 word \<Rightarrow> nat \<times> nat" where
  "double_fraction w =
     (let e = unat (drop_bit 52 w AND 0x7FF); f = unat (w AND mask 52);
          m = (if e = 0 then f else 2 ^ 52 + f); k = (if e = 0 then 1 else e)
      in if k \<ge> 1075 then (m * 2 ^ (k - 1075), 1) else (m, 2 ^ (1075 - k)))"

text \<open>The number of factors 10 by which a positive fraction below 1 has to grow to reach 1.\<close>

function scale_up :: "nat \<Rightarrow> nat \<Rightarrow> nat \<Rightarrow> nat" where
  "scale_up num den j = (if num = 0 \<or> num \<ge> den then j else scale_up (10 * num) den (Suc j))"
  by pat_completeness auto
termination by (relation "measure (\<lambda>(num, den, _). den - num)") auto

declare scale_up.simps [simp del]

definition decimal_exponent :: "nat \<Rightarrow> nat \<Rightarrow> int" where
  "decimal_exponent num den =
     (if num \<ge> den then int (length (to_string (num div den))) - 1 else - int (scale_up num den 0))"

definition round_half_even :: "nat \<Rightarrow> nat \<Rightarrow> nat" where
  "round_half_even num den =
     (let q = num div den; r = 2 * (num mod den) in
      if r > den \<or> r = den \<and> odd q then q + 1 else q)"

text \<open>The six significant digits and the exponent of the first one.\<close>

definition six_digits :: "nat \<Rightarrow> nat \<Rightarrow> nat \<times> int" where
  "six_digits num den =
     (let x = decimal_exponent num den;
          r = (if x \<le> 5 then round_half_even (num * 10 ^ nat (5 - x)) den
               else round_half_even num (den * 10 ^ nat (x - 5)))
      in if r = 10 ^ 6 then (10 ^ 5, x + 1) else (r, x))"

definition strip_zeros :: "string \<Rightarrow> string" where
  "strip_zeros s = rev (dropWhile (\<lambda>c. c = CHR ''0'') (rev s))"

definition with_fraction :: "string \<Rightarrow> string \<Rightarrow> string" where
  "with_fraction whole frac =
     (if strip_zeros frac = '''' then whole else whole @ ''.'' @ strip_zeros frac)"

definition exponent_string :: "int \<Rightarrow> string" where
  "exponent_string x =
     ''e'' @ (if x < 0 then ''-'' else ''+'') @
     (if \<bar>x\<bar> < 10 then ''0'' else '''') @ to_string (nat \<bar>x\<bar>)"

definition format_positive :: "nat \<Rightarrow> nat \<Rightarrow> string" where
  "format_positive num den =
     (case six_digits num den of
        (r, x) \<Rightarrow>
          let ds = to_string r in
          if x < - 4 \<or> x \<ge> 6 then with_fraction (take 1 ds) (drop 1 ds) @ exponent_string x
          else if x \<ge> 0 then with_fraction (take (nat x + 1) ds) (drop (nat x + 1) ds)
          else with_fraction ''0'' (replicate (nat (- x) - 1) (CHR ''0'') @ ds))"

definition format_double :: "64 word \<Rightarrow> string" where
  "format_double w =
     (let sign = (if bit w 63 then ''-'' else ''''); e = drop_bit 52 w AND 0x7FF; f = w AND mask 52 in
      if e = 0x7FF then sign @ (if f = 0 then ''inf'' else ''nan'')
      else if e = 0 \<and> f = 0 then sign @ ''0''
      else case double_fraction w of (num, den) \<Rightarrow> sign @ format_positive num den)"

end
