(* ===== verification/Py_Types.thy ===== *)
theory Py_Types
  imports Remote_Objects Double_Format
begin

text \<open>
  The representation of Python objects as text (\<open>pytypes.cpp\<close>): reading tuples, lists, integers and
  dictionaries of the target, classifying an object by the flags and the name of its type, and
  printing it within a limit. The properties say that printing ends on every object graph, cyclic ones
  included, that containers and strings respect the limit, and what integers are printed as.
\<close>

section \<open>Reading vectors of addresses\<close>

definition chunks :: "nat \<Rightarrow> bytes \<Rightarrow> bytes list" where
  "chunks k bs = map (\<lambda>i. block (k * i) k bs) [0..<length bs div k]"

definition addresses_of :: "bytes \<Rightarrow> addr list" where
  "addresses_of bs = map le_word (chunks 8 bs)"

definition read_vector :: "manager \<Rightarrow> nat \<Rightarrow> addr \<Rightarrow> size_t \<Rightarrow> bytes result" where
  "read_vector m k a n = rbind (vec_resize k n) (\<lambda>_. d_manager m a (n * of_nat k))"

text \<open>The items of \<open>TupleObject\<close> and \<open>ListObject\<close>.\<close>

definition tuple_items :: "manager \<Rightarrow> addr \<Rightarrow> addr list result" where
  "tuple_items m addr =
     rbind (getWord m S_tuple addr (tuple_o_ob_size, 8)) (\<lambda>num_items.
     if num_items = 0 then Inr []
     else
       rbind (getFieldRemoteAddress m S_tuple addr (tuple_o_ob_item, 8)) (\<lambda>items_addr.
       rbind (read_vector m 8 items_addr num_items) (\<lambda>bs. Inr (addresses_of bs))))"

definition list_items :: "manager \<Rightarrow> addr \<Rightarrow> addr list result" where
  "list_items m addr =
     rbind (getWord m S_list addr (list_o_ob_size, 8)) (\<lambda>num_items.
     if num_items = 0 then Inr []
     else
       rbind (getWord m S_list addr (list_o_ob_item, 8)) (\<lambda>items_addr.
       rbind (read_vector m 8 items_addr num_items) (\<lambda>bs. Inr (addresses_of bs))))"

section \<open>Integers\<close>

text \<open>
  \<open>1Lu << n\<close> and \<open>1L << n\<close> with a count known only at run time. C++ leaves counts of 64 and more
  undefined; the shift instructions of x86-64 and AArch64 use the count modulo 64, and the reading of
  dictionary sizes below depends on it.
\<close>

definition shift_one :: "64 word \<Rightarrow> 64 word" where
  "shift_one n = push_bit (unat n mod 64) 1"

text \<open>
  The loop over the digits; the result is \<open>d_value\<close> and \<open>d_overflowed\<close>. The overflow builtins compute
  with unbounded integers, test the result for \<open>long long\<close> and store it wrapped.
\<close>

definition fits_long_long :: "int \<Rightarrow> bool" where
  "fits_long_long i \<longleftrightarrow> - (2 ^ 63) \<le> i \<and> i < 2 ^ 63"

fun sum_digits :: "nat \<Rightarrow> 32 word list \<Rightarrow> int \<Rightarrow> int \<times> bool" where
  "sum_digits i [] d_value = (d_value, False)"
| "sum_digits i (dig # digits) d_value =
     (let factor = uint dig * uint (shift_one (of_nat (30 * i))) in
      if \<not> fits_long_long factor then (d_value, True)
      else if \<not> fits_long_long (d_value + factor)
      then (sint (of_int (d_value + factor) :: 64 word), True)
      else sum_digits (Suc i) digits (d_value + factor))"

text \<open>The sign and the number of digits; from 3.12 on they are packed into a tag.\<close>

definition long_size_sign :: "manager \<Rightarrow> 64 word \<Rightarrow> 64 word \<times> bool" where
  "long_size_sign m ob_size =
     (if versionIsAtLeast m 3 12 then (drop_bit 3 ob_size, ob_size AND 3 = 2)
      else (if sint ob_size < 0 then - ob_size else ob_size, sint ob_size < 0))"

definition long_object :: "manager \<Rightarrow> addr \<Rightarrow> (int \<times> bool) result" where
  "long_object m addr =
     rbind (getWord m S_long addr (long_o_ob_size, 8)) (\<lambda>ob_size.
     case long_size_sign m ob_size of (sz, negative) \<Rightarrow>
       if sz = 0 then Inr (0, False)
       else
         rbind (getFieldRemoteAddress m S_long addr (o_ob_digit, 4)) (\<lambda>digits_addr.
         rbind (read_vector m 4 digits_addr sz) (\<lambda>bs.
           case sum_digits 0 (map le_word (chunks 4 bs)) 0 of (d_value, d_overflowed) \<Rightarrow>
             Inr (if negative \<and> \<not> d_overflowed then - 1 * d_value else d_value, d_overflowed))))"

section \<open>Dictionaries\<close>

text \<open>The index entries before the key entries take 1, 2, 4 or 8 bytes each.\<close>

definition indices_bytes :: "64 word \<Rightarrow> 64 word" where
  "indices_bytes dk_size =
     (if sint dk_size \<le> 0xFF then dk_size
      else if sint dk_size \<le> 0xFFFF then 2 * dk_size
      else if sint dk_size \<le> 0xFFFFFFFF then 4 * dk_size
      else 8 * dk_size)"

text \<open>Key and value of the entries (\<open>PyDictKeyEntry\<close> and \<open>PyDictUnicodeEntry\<close>).\<close>

definition entry_word :: "ctype \<Rightarrow> string \<Rightarrow> bytes \<Rightarrow> addr" where
  "entry_word T member bs = le_word (block (unat (offsetof T [member])) 8 bs)"

definition dict_entries :: "ctype \<Rightarrow> bytes \<Rightarrow> (addr \<times> addr) list" where
  "dict_entries T bs =
     map (\<lambda>e. (entry_word T ''me_key'' e, entry_word T ''me_value'' e)) (chunks (csize T) bs)"

text \<open>
  \<open>getDictEntries\<close>: the number of items and the entries that are not empty. Both vectors are resized
  before the copy; the converted entries are appended to \<open>num_items\<close> empty ones.
\<close>

definition getDictEntries :: "manager \<Rightarrow> addr \<Rightarrow> (64 word \<times> (addr \<times> addr) list) result" where
  "getDictEntries m dict_addr =
     (if \<not> versionIsAtLeast m 3 0 then Inl Abort else
     rbind (getWord m S_dict dict_addr (o_ma_keys, 8)) (\<lambda>keys_addr.
     rbind (getWord m S_dictkeys keys_addr (o_dk_nentries, 8)) (\<lambda>num_items.
     rbind (getWord m S_dictkeys keys_addr (o_dk_size, 8)) (\<lambda>raw_dk_size.
     rbind (if versionIsAtLeast m 3 11
            then rbind (getWord m S_dictkeys keys_addr (o_dk_kind, 1)) (\<lambda>kind :: byte.
                   Inr (shift_one raw_dk_size, kind))
            else Inr (raw_dk_size, 0)) (\<lambda>(dk_size, dk_kind).
     if num_items = 0 then Inr (num_items, [])
     else
       rbind (getFieldRemoteAddress m S_dictkeys keys_addr (o_dk_indices, 1)) (\<lambda>dk_indices_addr.
       let entries_addr = dk_indices_addr + indices_bytes dk_size in
       rbind (vec_resize (csize Python3_PyDictKeyEntry) num_items) (\<lambda>_.
       rbind (if dk_kind \<noteq> 0
              then rbind (read_vector m (csize Python3_11_PyDictUnicodeEntry) entries_addr num_items)
                     (\<lambda>bs. Inr (replicate (unat num_items) (0, 0) @
                                dict_entries Python3_11_PyDictUnicodeEntry bs))
              else rbind (read_vector m (csize Python3_PyDictKeyEntry) entries_addr num_items)
                     (\<lambda>bs. Inr (dict_entries Python3_PyDictKeyEntry bs))) (\<lambda>raw_entries.
         Inr (num_items, filter (\<lambda>e. fst e \<noteq> 0) raw_entries)))))))))"

text \<open>The keys and the values of a dictionary.\<close>

definition loadFromPython3 :: "manager \<Rightarrow> addr \<Rightarrow> (addr list \<times> addr list) result" where
  "loadFromPython3 m addr =
     rbind (getDictEntries m addr) (\<lambda>(num_items, valid_entries).
     rbind (getWord m S_dict addr (o_ma_values, 8)) (\<lambda>dictvalues_addr.
     if dictvalues_addr \<noteq> 0 then
       rbind (vec_resize 8 num_items) (\<lambda>_.
       rbind (getFieldRemoteAddress m S_dictvalues dictvalues_addr (o_values, 8)) (\<lambda>values_addr.
       rbind (d_manager m values_addr (num_items * 8)) (\<lambda>bs.
         Inr (map fst valid_entries, addresses_of bs))))
     else Inr (map fst valid_entries, map snd valid_entries)))"

definition loadFromPython2 :: "manager \<Rightarrow> addr \<Rightarrow> (addr list \<times> addr list) result" where
  "loadFromPython2 m addr =
     rbind (d_manager m addr (sizeof Python2_PyDictObject)) (\<lambda>dict.
     let num_items = entry_word Python2_PyDictObject ''ma_mask'' dict + 1;
         entries_addr = entry_word Python2_PyDictObject ''ma_table'' dict in
     rbind (read_vector m (csize Python2_PyDictEntry) entries_addr num_items) (\<lambda>bs.
       let valid_entries = filter (\<lambda>e. snd e \<noteq> 0) (dict_entries Python2_PyDictEntry bs) in
       Inr (map fst valid_entries, map snd valid_entries)))"

text \<open>\<open>None\<close> is an invalid dictionary: the versions 3.0 to 3.5 are not supported.\<close>

definition dict_object :: "manager \<Rightarrow> addr \<Rightarrow> (addr list \<times> addr list) option result" where
  "dict_object m addr =
     (if versionIsAtLeast m 3 6 then rbind (loadFromPython3 m addr) (\<lambda>kv. Inr (Some kv))
      else if versionIsAtLeast m 3 0 then Inr None
      else rbind (loadFromPython2 m addr) (\<lambda>kv. Inr (Some kv)))"

section \<open>Objects\<close>

text \<open>The members of \<open>Object\<close>.\<close>

record py_object_data =
  obj_addr :: addr
  obj_type_addr :: addr
  classname :: string
  obj_flags :: "64 word"

definition guessClassName :: "manager \<Rightarrow> addr \<Rightarrow> string result" where
  "guessClassName m type_addr =
     rbind (getWord m S_type type_addr (o_tp_repr, 8)) (\<lambda>tp_repr.
       Inr (if tp_repr = d_find_symbol m ''float_repr'' then ''float''
            else if tp_repr = d_find_symbol m ''none_repr'' then ''NoneType''
            else if tp_repr = d_find_symbol m ''bool_repr'' then ''bool''
            else if tp_repr = d_find_symbol m ''code_repr'' then ''PyCodeObject''
            else ''???''))"

text \<open>
  The constructor of \<open>Object\<close>. When the object or its type cannot be read the object is an
  \<open>invalid object\<close> without flags; when only the name cannot, it is guessed.
\<close>

definition new_object :: "manager \<Rightarrow> addr \<Rightarrow> py_object_data result" where
  "new_object m addr =
     (let invalid = (\<lambda>type_addr. \<lparr>obj_addr = addr, obj_type_addr = type_addr,
                                  classname = ''invalid object'', obj_flags = 0\<rparr>) in
      case copyFromRemote m S_object addr of
        Inl e \<Rightarrow> if is_remote_copy_error e then Inr (invalid 0) else Inl e
      | Inr _ \<Rightarrow>
          rbind (getWord m S_object addr (o_ob_type, 8)) (\<lambda>type_addr.
          case getWord m S_type type_addr (o_tp_flags, 8) of
            Inl e \<Rightarrow> if is_remote_copy_error e then Inr (invalid type_addr) else Inl e
          | Inr flags \<Rightarrow>
              rbind (getWord m S_type type_addr (o_tp_name, 8)) (\<lambda>name_addr.
              rbind (try_catch (getCStringFromAddress m name_addr) is_remote_copy_error
                       (\<lambda>_. guessClassName m type_addr)) (\<lambda>name.
                Inr \<lparr>obj_addr = addr, obj_type_addr = type_addr, classname = name,
                     obj_flags = flags\<rparr>))))"

datatype ObjectType =
    T_BYTES | T_STRING | T_NONE | T_INT_BOOL | T_LONG_BOOL | T_INT | T_LONG | T_FLOAT | T_TUPLE | T_LIST | T_DICT | T_CODE | T_OTHER

abbreviation TPFLAGS_INT_SUBCLASS :: "64 word" where "TPFLAGS_INT_SUBCLASS \<equiv> 2 ^ 23"
abbreviation TPFLAGS_LONG_SUBCLASS :: "64 word" where "TPFLAGS_LONG_SUBCLASS \<equiv> 2 ^ 24"
abbreviation TPFLAGS_LIST_SUBCLASS :: "64 word" where "TPFLAGS_LIST_SUBCLASS \<equiv> 2 ^ 25"
abbreviation TPFLAGS_TUPLE_SUBCLASS :: "64 word" where "TPFLAGS_TUPLE_SUBCLASS \<equiv> 2 ^ 26"
abbreviation TPFLAGS_BYTES_SUBCLASS :: "64 word" where "TPFLAGS_BYTES_SUBCLASS \<equiv> 2 ^ 27"
abbreviation TPFLAGS_UNICODE_SUBCLASS :: "64 word" where "TPFLAGS_UNICODE_SUBCLASS \<equiv> 2 ^ 28"
abbreviation TPFLAGS_DICT_SUBCLASS :: "64 word" where "TPFLAGS_DICT_SUBCLASS \<equiv> 2 ^ 29"
abbreviation TPFLAGS_BASE_EXC_SUBCLASS :: "64 word" where "TPFLAGS_BASE_EXC_SUBCLASS \<equiv> 2 ^ 30"
abbreviation TPFLAGS_TYPE_SUBCLASS :: "64 word" where "TPFLAGS_TYPE_SUBCLASS \<equiv> 2 ^ 31"

definition subclass_mask :: "64 word" where
  "subclass_mask =
     TPFLAGS_INT_SUBCLASS OR TPFLAGS_LONG_SUBCLASS OR TPFLAGS_LIST_SUBCLASS OR TPFLAGS_TUPLE_SUBCLASS OR
     TPFLAGS_BYTES_SUBCLASS OR TPFLAGS_UNICODE_SUBCLASS OR TPFLAGS_DICT_SUBCLASS OR
     TPFLAGS_BASE_EXC_SUBCLASS OR TPFLAGS_TYPE_SUBCLASS"

definition objectType :: "manager \<Rightarrow> py_object_data \<Rightarrow> ObjectType" where
  "objectType m obj =
     (let subclass_flags = obj_flags obj AND subclass_mask in
      if subclass_flags = TPFLAGS_BYTES_SUBCLASS then (if versionIsAtLeast m 3 0 then T_BYTES else T_STRING)
      else if subclass_flags = TPFLAGS_UNICODE_SUBCLASS then T_STRING
      else if subclass_flags = TPFLAGS_INT_SUBCLASS then (if classname obj = ''bool'' then T_INT_BOOL else T_INT)
      else if subclass_flags = TPFLAGS_LONG_SUBCLASS then (if classname obj = ''bool'' then T_LONG_BOOL else T_LONG)
      else if subclass_flags = TPFLAGS_TUPLE_SUBCLASS then T_TUPLE
      else if subclass_flags = TPFLAGS_LIST_SUBCLASS then T_LIST
      else if subclass_flags = TPFLAGS_DICT_SUBCLASS then T_DICT
      else if classname obj = ''float'' then T_FLOAT
      else if classname obj = ''NoneType'' then T_NONE
      else if classname obj = ''code'' then T_CODE
      else T_OTHER)"

text \<open>The alternatives of the variant \<open>PythonObject\<close>.\<close>

datatype python_object =
    P_string string
  | P_bool bool
  | P_long "64 word"
  | P_double "64 word"
  | P_tuple "addr list"
  | P_list "addr list"
  | P_dict "(addr list \<times> addr list) option"
  | P_long_object bool int bool
  | P_none
  | P_generic addr string

definition containsOnlyASCII :: "string \<Rightarrow> bool" where
  "containsOnlyASCII val \<longleftrightarrow> list_all (\<lambda>c. (of_char c :: nat) < 127) val"

definition normalizeBytesObjectRepresentation :: "string \<Rightarrow> string \<Rightarrow> string" where
  "normalizeBytesObjectRepresentation val pre =
     (if containsOnlyASCII val then pre @ [CHR 0x22] @ val @ [CHR 0x22] else ''<BINARY>'')"

definition toInteger :: "manager \<Rightarrow> addr \<Rightarrow> 64 word result" where
  "toInteger m addr =
     rbind (d_manager m addr (sizeof C_PyIntObject)) (\<lambda>bs. Inr (entry_word C_PyIntObject ''ob_ival'' bs))"

definition toConcreteObject :: "manager \<Rightarrow> py_object_data \<Rightarrow> python_object result" where
  "toConcreteObject m obj =
     (let a = obj_addr obj in
      try_catch
        (case objectType m obj of
           T_STRING \<Rightarrow>
             rbind (getStringFromAddress m a) (\<lambda>s.
               Inr (P_string (if versionIsAtLeast m 3 0 then [CHR 0x22] @ s @ [CHR 0x22]
                              else normalizeBytesObjectRepresentation s '''')))
         | T_BYTES \<Rightarrow>
             rbind (getBytesFromAddress m a) (\<lambda>s.
               Inr (P_string (normalizeBytesObjectRepresentation s ''b'')))
         | T_NONE \<Rightarrow> Inr P_none
         | T_INT \<Rightarrow> rbind (toInteger m a) (\<lambda>i. Inr (P_long i))
         | T_INT_BOOL \<Rightarrow> rbind (toInteger m a) (\<lambda>i. Inr (P_bool (sint i > 0)))
         | T_LONG \<Rightarrow> rbind (long_object m a) (\<lambda>(v, ov). Inr (P_long_object False v ov))
         | T_LONG_BOOL \<Rightarrow> rbind (long_object m a) (\<lambda>(v, ov). Inr (P_long_object True v ov))
         | T_FLOAT \<Rightarrow> rbind (getWord m S_float a (o_ob_fval, 8)) (\<lambda>w. Inr (P_double w))
         | T_TUPLE \<Rightarrow> rbind (tuple_items m a) (\<lambda>items. Inr (P_tuple items))
         | T_LIST \<Rightarrow> rbind (list_items m a) (\<lambda>items. Inr (P_list items))
         | T_DICT \<Rightarrow> rbind (dict_object m a) (\<lambda>kv. Inr (P_dict kv))
         | T_CODE \<Rightarrow> Inr (P_generic a (classname obj))
         | T_OTHER \<Rightarrow> Inr (P_generic a (classname obj)))
        (\<lambda>e. e = InvalidRemoteObject) (\<lambda>_. Inr (P_generic a (classname obj))))"

section \<open>Printing\<close>

definition ELLIPSIS :: string where
  "ELLIPSIS = ''...''"

text \<open>
  \<open>limitOutput\<close>: the difference of a signed and an unsigned number is unsigned, so the test only
  fails when the two are equal.
\<close>

definition limitOutput :: "string \<Rightarrow> int \<Rightarrow> string" where
  "limitOutput arg max_size =
     (if (of_int max_size :: 64 word) - of_nat (length arg) > 0 then arg else ELLIPSIS)"

definition long_toString :: "bool \<Rightarrow> int \<Rightarrow> bool \<Rightarrow> int \<Rightarrow> string" where
  "long_toString is_bool d_value d_overflowed max_size =
     (if is_bool then (if d_value > 0 then ''True'' else ''False'')
      else if d_overflowed then ''<UNRESOLVED BIG INT>''
      else limitOutput (to_string_int d_value) max_size)"

definition generic_toString :: "addr \<Rightarrow> string \<Rightarrow> int \<Rightarrow> string" where
  "generic_toString addr name max_size =
     limitOutput (''<'' @ name @ '' at 0x'' @ to_hex (unat addr) @ ''>'') max_size"

definition string_toString :: "string \<Rightarrow> int \<Rightarrow> string" where
  "string_toString arg max_size =
     (if (of_int max_size :: 64 word) < of_nat (length arg)
      then take (nat (max_size - 3)) arg @ ''...'' else arg)"

text \<open>\<open>join(elements, ", ")\<close>.\<close>

fun join :: "string list \<Rightarrow> string" where
  "join [] = ''''"
| "join [s] = s"
| "join (s # ss) = s @ '', '' @ join ss"

text \<open>The text for an object whose content cannot be read; \<open>showbase\<close> writes no prefix for 0.\<close>

definition unreadable_toString :: "py_object_data \<Rightarrow> string" where
  "unreadable_toString obj =
     ''<'' @ classname obj @ '' object at '' @
     (if obj_addr obj = 0 then ''0'' else ''0x'' @ to_hex (unat (obj_addr obj))) @ ''>''"

text \<open>
  \<open>object_toString m addr max_size\<close> is \<open>Object(manager, addr).toString(max_size)\<close>,
  \<open>format_sequence\<close> the loop of \<open>formatSequence\<close> and \<open>format_dict\<close> the loop of
  \<open>DictObject::toString\<close>; both return the vector of elements. Sizes are \<open>ssize_t\<close> in the source; they
  only decrease from the caller's limit (80), so they are integers here.
\<close>

function (sequential) object_toString :: "manager \<Rightarrow> addr \<Rightarrow> int \<Rightarrow> string result"
and format_sequence :: "manager \<Rightarrow> addr list \<Rightarrow> int \<Rightarrow> string list result"
and format_dict :: "manager \<Rightarrow> (addr \<times> addr option) list \<Rightarrow> int \<Rightarrow> string list result"
where
  "object_toString m addr max_size =
     rbind (new_object m addr) (\<lambda>obj.
     if max_size \<le> 5 then Inr ELLIPSIS
     else
       try_catch
         (rbind (toConcreteObject m obj) (\<lambda>c.
            case c of
              P_string s \<Rightarrow> Inr (string_toString s max_size)
            | P_bool b \<Rightarrow> Inr (if b then ''1'' else ''0'')
            | P_long i \<Rightarrow> Inr (to_string_int (sint i))
            | P_double w \<Rightarrow> Inr (format_double w)
            | P_tuple items \<Rightarrow>
                rbind (format_sequence m items (max_size - 2)) (\<lambda>elements. Inr (''('' @ join elements @ '')''))
            | P_list items \<Rightarrow>
                rbind (format_sequence m items (max_size - 2)) (\<lambda>elements. Inr (''['' @ join elements @ '']''))
            | P_dict None \<Rightarrow> Inr ''<UNRESOLVED DICT OBJECT>''
            | P_dict (Some (keys, values)) \<Rightarrow>
                rbind (format_dict m
                         (map (\<lambda>i. (keys ! i, if i < length values then Some (values ! i) else None))
                            [0..<length keys]) (max_size - 2))
                  (\<lambda>elements. Inr (''{'' @ join elements @ ''}''))
            | P_long_object is_bool v ov \<Rightarrow> Inr (long_toString is_bool v ov max_size)
            | P_none \<Rightarrow> Inr ''None''
            | P_generic a name \<Rightarrow> Inr (generic_toString a name max_size)))
         is_remote_copy_error (\<lambda>_. Inr (unreadable_toString obj)))"
| "format_sequence m [] remaining_size = Inr []"
| "format_sequence m (item # items) remaining_size =
     rbind (object_toString m item remaining_size) (\<lambda>item_str.
       let remaining_size' = remaining_size - (int (length item_str) + 2) in
       if remaining_size' < 5 then Inr [ELLIPSIS]
       else rbind (format_sequence m items remaining_size') (\<lambda>elements. Inr (item_str # elements)))"
| "format_dict m [] remaining_size = Inr []"
| "format_dict m ((key, val) # entries) remaining_size =
     rbind (object_toString m key remaining_size) (\<lambda>key_str.
     rbind (case val of None \<Rightarrow> Inl Undefined | Some v \<Rightarrow> object_toString m v remaining_size) (\<lambda>val_str.
       let item_str = key_str @ '': '' @ val_str;
           remaining_size' = remaining_size - (int (length item_str) + 2) in
       if remaining_size' < 5 then Inr [ELLIPSIS]
       else rbind (format_dict m entries remaining_size') (\<lambda>elements. Inr (item_str # elements))))"
  by pat_completeness auto
termination
  by (relation "measures
      [\<lambda>x. case x of Inl (_, _, k) \<Rightarrow> nat k | Inr (Inl (_, _, k)) \<Rightarrow> nat k | Inr (Inr (_, _, k)) \<Rightarrow> nat k,
       \<lambda>x. case x of Inl _ \<Rightarrow> 0 | Inr (Inl (_, xs, _)) \<Rightarrow> length xs | Inr (Inr (_, xs, _)) \<Rightarrow> length xs]")
    auto

declare object_toString.simps [simp del]

section \<open>Errors of printing\<close>

text \<open>Once a structure has been copied, reading its fields raises no memory error.\<close>

lemma getField_after_copy:
  "copyFromRemote m S a = Inr buf \<Longrightarrow> getField m S a field = Inl e \<Longrightarrow> e = Abort"
  by (auto simp: getField_def copyFromRemote_def Let_def result_simps split: if_splits)

lemma getWord_after_copy:
  "copyFromRemote m S a = Inr buf \<Longrightarrow> getWord m S a field = Inl e \<Longrightarrow> e = Abort"
  by (auto simp: getWord_def result_simps dest: getField_after_copy)

lemma getWord_copied: "getWord m S a field = Inr w \<Longrightarrow> \<exists>buf. copyFromRemote m S a = Inr buf"
  by (auto simp: getWord_def getField_def result_simps)

lemma try_catch_eq_Inl:
  "try_catch m c h = Inl e \<longleftrightarrow> (\<exists>e'. m = Inl e' \<and> (if c e' then h e' = Inl e else e' = e))"
  by (cases m) auto

lemma guessClassName_error:
  "copyFromRemote m S_type a = Inr buf \<Longrightarrow> guessClassName m a = Inl e \<Longrightarrow> e = Abort"
  unfolding guessClassName_def rbind_eq_Inl by (auto dest: getWord_after_copy)

lemma new_object_error:
  assumes "new_object m addr = Inl e"
  shows "\<not> is_remote_copy_error e"
proof (cases "copyFromRemote m S_object addr")
  case (Inl e')
  with assms show ?thesis by (auto simp: new_object_def split: if_splits)
next
  case (Inr buf)
  note object = getWord_after_copy [OF Inr]
  show ?thesis
  proof (cases "getWord m S_object addr (o_ob_type, 8) :: addr result")
    case (Inl e')
    with assms Inr object [OF Inl] show ?thesis by (auto simp: new_object_def)
  next
    case ob_type: (Inr ta)
    show ?thesis
    proof (cases "getWord m S_type ta (o_tp_flags, 8) :: 64 word result")
      case (Inl e')
      with assms Inr ob_type show ?thesis by (auto simp: new_object_def split: if_splits)
    next
      case flags: (Inr fl)
      then obtain buf' where "copyFromRemote m S_type ta = Inr buf'" using getWord_copied by blast
      note type = getWord_after_copy [OF this] guessClassName_error [OF this]
      show ?thesis
        using assms Inr ob_type flags
        by (auto simp: new_object_def result_simps try_catch_eq_Inl dest: type split: if_splits)
    qed
  qed
qed

lemma object_toString_error:
  "object_toString m addr max_size = Inl e \<Longrightarrow> \<not> is_remote_copy_error e"
  by (subst (asm) object_toString.simps)
    (auto simp: result_simps try_catch_eq_Inl dest: new_object_error split: if_splits)

section \<open>The size limit\<close>

lemma length_join_Cons:
  "length (join (s # ss)) = length s + (if ss = [] then 0 else 2 + length (join ss))"
  by (cases ss) simp_all

lemma length_ELLIPSIS [simp]: "length ELLIPSIS = 3"
  by (simp add: ELLIPSIS_def)

lemma join_limit:
  assumes "int (length s) + 2 \<le> remaining - 5"
    and "int (length (join ss)) \<le> max (remaining - (int (length s) + 2) - 2) 3"
  shows "int (length (join (s # ss))) \<le> max (remaining - 2) 3"
  using assms by (auto simp: length_join_Cons)

lemma format_sequence_length:
  "format_sequence m items remaining = Inr ss \<Longrightarrow> int (length (join ss)) \<le> max (remaining - 2) 3"
proof (induction items arbitrary: remaining ss)
  case (Cons item items)
  then obtain s where s: "object_toString m item remaining = Inr s"
    by (auto simp: result_simps)
  show ?case
  proof (cases "remaining - (int (length s) + 2) < 5")
    case False
    with Cons.prems s obtain ss' where ss': "ss = s # ss'"
        "format_sequence m items (remaining - (int (length s) + 2)) = Inr ss'"
      by (auto simp: result_simps Let_def)
    show ?thesis unfolding ss'(1) by (rule join_limit [OF _ Cons.IH [OF ss'(2)]]) (use False in simp)
  qed (use Cons.prems s in \<open>auto simp: Let_def\<close>)
qed simp

lemma format_dict_length:
  "format_dict m entries remaining = Inr ss \<Longrightarrow> int (length (join ss)) \<le> max (remaining - 2) 3"
proof (induction entries arbitrary: remaining ss)
  case (Cons entry entries)
  obtain key val where entry: "entry = (key, val)" by force
  with Cons.prems obtain k v where kv: "object_toString m key remaining = Inr k"
      "(case val of None \<Rightarrow> Inl Undefined | Some v \<Rightarrow> object_toString m v remaining) = Inr v"
    by (auto simp: result_simps)
  let ?s = "k @ '': '' @ v"
  show ?case
  proof (cases "remaining - (int (length ?s) + 2) < 5")
    case False
    with Cons.prems entry kv obtain ss' where ss': "ss = ?s # ss'"
        "format_dict m entries (remaining - (int (length ?s) + 2)) = Inr ss'"
      by (auto simp: result_simps Let_def)
    show ?thesis unfolding ss'(1) by (rule join_limit [OF _ Cons.IH [OF ss'(2)]]) (use False in simp)
  next
    case True
    then have "ss = [ELLIPSIS]" using Cons.prems entry kv by (simp add: Let_def)
    then show ?thesis by simp
  qed
qed simp

lemma format_sequence_error: "format_sequence m items remaining = Inl e \<Longrightarrow> \<not> is_remote_copy_error e"
  by (induction items arbitrary: remaining)
    (auto simp: result_simps Let_def dest: object_toString_error split: if_splits)

lemma format_dict_error: "format_dict m entries remaining = Inl e \<Longrightarrow> \<not> is_remote_copy_error e"
  by (induction entries arbitrary: remaining)
    (auto simp: result_simps Let_def split: if_splits option.splits, (blast dest: object_toString_error)+)

lemma string_toString_length:
  "0 \<le> max_size \<Longrightarrow> max_size < 2 ^ 63 \<Longrightarrow> length arg < 2 ^ 63 \<Longrightarrow>
     int (length (string_toString arg max_size)) \<le> max max_size 3"
proof -
  assume m: "0 \<le> max_size" "max_size < 2 ^ 63" and arg: "length arg < 2 ^ 63"
  have "of_int max_size = (of_nat (nat max_size) :: 64 word)" using m(1) by simp
  then have "(of_int max_size :: 64 word) < of_nat (length arg) \<longleftrightarrow> nat max_size < length arg"
    using m arg by (simp only:) (rule of_nat_less_64; simp)
  with m show ?thesis by (auto simp: string_toString_def)
qed

text \<open>The objects whose representation is cut at the limit: strings, bytes and containers.\<close>

fun limited :: "python_object \<Rightarrow> bool" where
  "limited (P_string s) \<longleftrightarrow> length s < 2 ^ 63"
| "limited (P_tuple _) = True"
| "limited (P_list _) = True"
| "limited (P_dict (Some _)) = True"
| "limited _ = False"

section \<open>Values of dictionaries\<close>

context remote_memory
begin

lemma copy_counted:
  assumes "copy a (n * of_nat k) = Inr bs" and "unat n * k < 2 ^ 63"
  shows "length bs = unat n * k"
proof -
  have "n * of_nat k = of_nat (unat n * k)" by simp
  moreover have "unat n * k < 2 ^ 64" using assms(2) by simp
  ultimately show ?thesis using copy_length [OF assms(1)] by (simp only: unat_of_nat_size)
qed

lemma read_vector_length:
  assumes "d_manager m = copy" and "read_vector m k a n = Inr bs"
  shows "length bs = unat n * k"
  using assms by (auto simp: read_vector_def result_simps intro: copy_counted)

lemma getDictEntries_length:
  assumes m: "d_manager m = copy" and r: "getDictEntries m a = Inr (n, es)"
  shows "length es \<le> unat n"
proof -
  have entries: "length (filter P (dict_entries T bs)) \<le> unat n"
    if "read_vector m (csize T) x n = Inr bs" "0 < csize T" for P T x bs
  proof -
    have "length (dict_entries T bs) = unat n"
      using read_vector_length [OF m that(1)] that(2) by (simp add: dict_entries_def chunks_def)
    then show ?thesis by (metis length_filter_le)
  qed
  show ?thesis
    using r entries [of Python3_11_PyDictUnicodeEntry] entries [of Python3_PyDictKeyEntry]
    by (auto simp: getDictEntries_def result_simps Let_def layout split: if_splits)
qed

lemma dict_values_cover_keys:
  assumes m: "d_manager m = copy" and r: "dict_object m a = Inr (Some (ks, vs))"
  shows "length ks \<le> length vs"
proof (cases "versionIsAtLeast m 3 6")
  case True
  with r obtain n es where es: "getDictEntries m a = Inr (n, es)" and ks: "ks = map fst es"
    and vs: "vs = map snd es \<or> (\<exists>values_addr bs. unat n * 8 < 2 ^ 63 \<and>
        copy values_addr (n * 8) = Inr bs \<and> vs = addresses_of bs)"
    using m by (auto simp: dict_object_def loadFromPython3_def result_simps split: if_splits)
  from vs show ?thesis
  proof
    assume "\<exists>values_addr bs. unat n * 8 < 2 ^ 63 \<and> copy values_addr (n * 8) = Inr bs \<and> vs = addresses_of bs"
    then obtain values_addr bs where bs: "unat n * 8 < 2 ^ 63" "copy values_addr (n * 8) = Inr bs"
        "vs = addresses_of bs" by blast
    then have "length bs = unat n * 8" using copy_counted [of values_addr n 8 bs] by simp
    then show ?thesis
      using getDictEntries_length [OF m es] ks bs(3) by (simp add: addresses_of_def chunks_def)
  qed (simp add: ks)
next
  case False
  with r show ?thesis
    by (auto simp: dict_object_def loadFromPython2_def result_simps Let_def split: if_splits)
qed

end

section \<open>Properties\<close>

text \<open>
  Property C30. No memory error escapes from printing an object: whatever part of the object graph is
  unreadable or inconsistent, the text says so and printing goes on. In particular an unreadable
  local variable does not end the report.
\<close>

theorem printing_contains_memory_errors:
  assumes "object_toString m addr max_size = Inl e"
  shows "\<not> is_remote_copy_error e"
  using assms by (rule object_toString_error)

text \<open>
  Property C31. The text for a string or a container is never longer than the limit (or than an
  ellipsis), whatever the container holds: elements that overrun the space left for them are replaced.
\<close>

theorem printing_respects_limit:
  assumes obj: "new_object m addr = Inr obj" "toConcreteObject m obj = Inr c" "limited c"
    and s: "object_toString m addr max_size = Inr s" and max: "0 \<le> max_size" "max_size < 2 ^ 63"
  shows "int (length s) \<le> max max_size 3"
proof (cases "max_size \<le> 5")
  case True
  with obj s have "s = ELLIPSIS" by (subst (asm) object_toString.simps) simp
  then show ?thesis by simp
next
  case False
  note unfolded = s [unfolded object_toString.simps [of m addr]]
  show ?thesis
  proof (cases c)
    case (P_string t)
    with obj unfolded False have "s = string_toString t max_size" by simp
    then show ?thesis using string_toString_length [OF max] P_string obj(3) by simp
  next
    case (P_tuple items)
    with obj unfolded False obtain ss where "format_sequence m items (max_size - 2) = Inr ss"
        "s = ''('' @ join ss @ '')''"
      by (auto simp: result_simps try_catch_eq_Inr dest: format_sequence_error)
    with False format_sequence_length [OF this(1)] show ?thesis by simp
  next
    case (P_list items)
    with obj unfolded False obtain ss where "format_sequence m items (max_size - 2) = Inr ss"
        "s = ''['' @ join ss @ '']''"
      by (auto simp: result_simps try_catch_eq_Inr dest: format_sequence_error)
    with False format_sequence_length [OF this(1)] show ?thesis by simp
  next
    case (P_dict kv)
    with obj(3) obtain ks vs where "kv = Some (ks, vs)" by (cases kv) auto
    with P_dict obj unfolded False obtain ss entries where "format_dict m entries (max_size - 2) = Inr ss"
        "s = ''{'' @ join ss @ ''}''"
      by (auto simp: result_simps try_catch_eq_Inr dest: format_dict_error)
    with False format_dict_length [OF this(1)] show ?thesis by simp
  qed (use obj(3) in simp_all)
qed

lemma of_nat_eq_64: "a < 2 ^ 64 \<Longrightarrow> b < 2 ^ 64 \<Longrightarrow> (of_nat a :: 64 word) = of_nat b \<longleftrightarrow> a = b"
  by (metis unat_of_nat_size)

lemma shift_one_digit: "i < 3 \<Longrightarrow> uint (shift_one (of_nat (30 * i))) = 2 ^ (30 * i)"
proof -
  assume "i < 3"
  then have "i = 0 \<or> i = 1 \<or> i = 2" by auto
  then show ?thesis by (auto simp: shift_one_def push_bit_eq_mult)
qed

lemma sum_digits_value:
  assumes "i + length digits \<le> 3" and "0 \<le> acc" and "acc < 2 ^ 63"
  defines "v \<equiv> \<lambda>i digits. \<Sum>j<length digits. uint (digits ! j) * 2 ^ (30 * (i + j))"
  shows "if acc + v i digits < 2 ^ 63 then sum_digits i digits acc = (acc + v i digits, False)
         else snd (sum_digits i digits acc)"
  using assms(1-3)
proof (induction digits arbitrary: i acc)
  case Nil
  then show ?case by (simp add: v_def)
next
  case (Cons d digits)
  have v: "v i (d # digits) = uint d * 2 ^ (30 * i) + v (Suc i) digits"
    unfolding v_def length_Cons sum.lessThan_Suc_shift by simp
  have pos: "0 \<le> v (Suc i) digits" "0 \<le> uint d * 2 ^ (30 * i)" by (simp_all add: v_def sum_nonneg)
  have factor: "uint d * uint (shift_one (of_nat (30 * i))) = uint d * 2 ^ (30 * i)"
    using Cons.prems(1) by (subst shift_one_digit) simp_all
  show ?case
  proof (cases "acc + uint d * 2 ^ (30 * i) < 2 ^ 63")
    case True
    then have "sum_digits i (d # digits) acc = sum_digits (Suc i) digits (acc + uint d * 2 ^ (30 * i))"
    proof -
      have "fits_long_long (uint d * 2 ^ (30 * i))" "fits_long_long (acc + uint d * 2 ^ (30 * i))"
        using True pos Cons.prems(2) unfolding fits_long_long_def by linarith+
      then show ?thesis by (simp only: sum_digits.simps factor Let_def) simp
    qed
    then show ?thesis
      using Cons.IH [of "Suc i" "acc + uint d * 2 ^ (30 * i)"] Cons.prems True pos v
      by (simp add: add.assoc)
  next
    case False
    then have "snd (sum_digits i (d # digits) acc)"
      by (simp only: sum_digits.simps factor Let_def fits_long_long_def) simp
    with False pos v show ?thesis by simp
  qed
qed

text \<open>
  Integers of up to three digits of 30 bits are read with their exact value when it
  fits a \<open>long long\<close>, and reported as overflowing otherwise.
\<close>

theorem sum_digits_exact:
  assumes "length digits \<le> 3"
  shows "let v = \<Sum>i<length digits. uint (digits ! i) * 2 ^ (30 * i) in
         if v < 2 ^ 63 then sum_digits 0 digits 0 = (v, False) else snd (sum_digits 0 digits 0)"
  using sum_digits_value [of 0 digits 0] assms by (simp add: Let_def)

theorem sum_digits_exact_witness:
  "sum_digits 0 [5, 0, 1] 0 = (2 ^ 60 + 5, False) \<and> snd (sum_digits 0 [0, 0, 8] 0)"
proof -
  have sums: "(\<Sum>i<length ds. uint (ds ! i) * 2 ^ (30 * i)) = uint a + uint b * 2 ^ 30 + uint c * 2 ^ 60"
    if "ds = [a, b, c]" for ds :: "32 word list" and a b c
    unfolding that by (simp only: length_Cons list.size(3) sum.lessThan_Suc lessThan_0 sum.empty) simp
  show ?thesis
    using sum_digits_exact [of "[5, 0, 1]", unfolded sums [OF refl]]
      sum_digits_exact [of "[0, 0, 8]", unfolded sums [OF refl]]
    by (simp del: sum_digits.simps)
qed

text \<open>
  From the fourth digit on the shift count is 90 or more: with the count taken modulo 64,
  as the processor does, the integer \<open>2 ^ 90\<close> is read, without overflow, as \<open>2 ^ 26\<close>.
\<close>

theorem sum_digits_shift_wraps: "sum_digits 0 [0, 0, 0, 1] 0 = (2 ^ 26, False)"
  by (simp add: shift_one_def fits_long_long_def push_bit_eq_mult Let_def)

text \<open>
  \<open>limitOutput\<close> does not limit: it replaces a text exactly when its length is the limit.
\<close>

theorem limitOutput_not_limiting:
  assumes "0 \<le> max_size" and "max_size < 2 ^ 63" and "length arg < 2 ^ 63"
  shows "limitOutput arg max_size = (if int (length arg) = max_size then ELLIPSIS else arg)"
proof -
  have "of_int max_size = (of_nat (nat max_size) :: 64 word)" using assms(1) by simp
  moreover have "(of_nat (nat max_size) :: 64 word) - of_nat (length arg) > 0 \<longleftrightarrow>
      (of_nat (nat max_size) :: 64 word) \<noteq> of_nat (length arg)"
    by (simp add: word_gt_0)
  moreover have "(of_nat (nat max_size) :: 64 word) = of_nat (length arg) \<longleftrightarrow> nat max_size = length arg"
    using assms by (intro of_nat_eq_64) simp_all
  ultimately show ?thesis using assms(1) by (auto simp: limitOutput_def)
qed

theorem limitOutput_not_limiting_witness:
  "limitOutput ''123456'' 6 = ELLIPSIS \<and> limitOutput ''12345678'' 6 = ''12345678''"
  using limitOutput_not_limiting [of 6 "''123456''"] limitOutput_not_limiting [of 6 "''12345678''"] by simp

text \<open>
  Every key of a dictionary that was read has a value: the loop of
  \<open>DictObject::toString\<close> never indexes the vector of values out of range.
\<close>

theorem dict_keys_have_values:
  assumes "remote_memory (d_manager m)" and "dict_object m addr = Inr (Some (ks, vs))"
  shows "length ks \<le> length vs"
  using assms(2) by (rule remote_memory.dict_values_cover_keys [OF assms(1) refl])

section \<open>Cyclic objects\<close>

text \<open>The text for a list whose only item is the list itself.\<close>

fun nested_lists :: "nat \<Rightarrow> string" where
  "nested_lists max_size =
     (if max_size \<le> 5 then ELLIPSIS
      else let s = nested_lists (max_size - 2) in
           if max_size < length s + 9 then ''['' @ ELLIPSIS @ '']'' else ''['' @ s @ '']'')"

declare nested_lists.simps [simp del]

lemma self_containing_list_text:
  assumes "new_object m addr = Inr obj" and "toConcreteObject m obj = Inr (P_list [addr])"
  shows "object_toString m addr (int n) = Inr (nested_lists n)"
proof (induction n rule: less_induct)
  case (less n)
  show ?case
  proof (cases "n \<le> 5")
    case True
    with assms(1) show ?thesis by (subst object_toString.simps) (simp add: nested_lists.simps)
  next
    case False
    then have n2: "int n - 2 = int (n - 2)" by simp
    have "object_toString m addr (int (n - 2)) = Inr (nested_lists (n - 2))"
      using False by (intro less) simp
    moreover have "int (n - 2) - (int (length (nested_lists (n - 2))) + 2) < 5 \<longleftrightarrow>
        n < length (nested_lists (n - 2)) + 9"
      using False by auto
    ultimately show ?thesis
      using assms False by (subst object_toString.simps)
        (simp add: n2 nested_lists.simps [of n] Let_def del: of_nat_diff)
  qed
qed

text \<open>
  For a list whose only item is the list itself the result is a nest of brackets that ends in an ellipsis
  when the limit is used up.
\<close>

theorem printing_self_containing_list:
  assumes "new_object m addr = Inr obj" and "toConcreteObject m obj = Inr (P_list [addr])"
  shows "object_toString m addr (int n) = Inr (nested_lists n)"
  using assms by (rule self_containing_list_text)

text \<open>
  How deep the calls of printing are nested. \<open>print_nested d\<close> prints as \<open>object_toString\<close> does, on a
  stack that has room for \<open>d\<close> nested calls of \<open>Object::toString\<close>; a call beyond that overflows it. The
  two loops take the printer of the items as a parameter.
\<close>

fun sequence_items :: "(addr \<Rightarrow> int \<Rightarrow> string result) \<Rightarrow> addr list \<Rightarrow> int \<Rightarrow> string list result" where
  "sequence_items pr [] remaining = Inr []"
| "sequence_items pr (item # items) remaining =
     rbind (pr item remaining) (\<lambda>s.
       let remaining' = remaining - (int (length s) + 2) in
       if remaining' < 5 then Inr [ELLIPSIS]
       else rbind (sequence_items pr items remaining') (\<lambda>elements. Inr (s # elements)))"

fun dict_items ::
  "(addr \<Rightarrow> int \<Rightarrow> string result) \<Rightarrow> (addr \<times> addr option) list \<Rightarrow> int \<Rightarrow> string list result" where
  "dict_items pr [] remaining = Inr []"
| "dict_items pr ((key, val) # entries) remaining =
     rbind (pr key remaining) (\<lambda>key_str.
     rbind (case val of None \<Rightarrow> Inl Undefined | Some v \<Rightarrow> pr v remaining) (\<lambda>val_str.
       let s = key_str @ '': '' @ val_str; remaining' = remaining - (int (length s) + 2) in
       if remaining' < 5 then Inr [ELLIPSIS]
       else rbind (dict_items pr entries remaining') (\<lambda>elements. Inr (s # elements))))"

primrec print_nested :: "nat \<Rightarrow> manager \<Rightarrow> addr \<Rightarrow> int \<Rightarrow> string result" where
  "print_nested 0 = (\<lambda>m addr max_size. Inl Stack_Overflow)"
| "print_nested (Suc d) = (\<lambda>m addr max_size.
     rbind (new_object m addr) (\<lambda>obj.
     if max_size \<le> 5 then Inr ELLIPSIS
     else
       try_catch
         (rbind (toConcreteObject m obj) (\<lambda>c.
            case c of
              P_string s \<Rightarrow> Inr (string_toString s max_size)
            | P_bool b \<Rightarrow> Inr (if b then ''1'' else ''0'')
            | P_long i \<Rightarrow> Inr (to_string_int (sint i))
            | P_double w \<Rightarrow> Inr (format_double w)
            | P_tuple items \<Rightarrow>
                rbind (sequence_items (print_nested d m) items (max_size - 2))
                  (\<lambda>elements. Inr (''('' @ join elements @ '')''))
            | P_list items \<Rightarrow>
                rbind (sequence_items (print_nested d m) items (max_size - 2))
                  (\<lambda>elements. Inr (''['' @ join elements @ '']''))
            | P_dict None \<Rightarrow> Inr ''<UNRESOLVED DICT OBJECT>''
            | P_dict (Some (keys, values)) \<Rightarrow>
                rbind (dict_items (print_nested d m)
                         (map (\<lambda>i. (keys ! i, if i < length values then Some (values ! i) else None))
                            [0..<length keys]) (max_size - 2))
                  (\<lambda>elements. Inr (''{'' @ join elements @ ''}''))
            | P_long_object is_bool v ov \<Rightarrow> Inr (long_toString is_bool v ov max_size)
            | P_none \<Rightarrow> Inr ''None''
            | P_generic a name \<Rightarrow> Inr (generic_toString a name max_size)))
         is_remote_copy_error (\<lambda>_. Inr (unreadable_toString obj))))"

lemma sequence_items_eq:
  "(\<And>a k. k \<le> remaining \<Longrightarrow> pr a k = object_toString m a k) \<Longrightarrow>
     sequence_items pr items remaining = format_sequence m items remaining"
  by (induction items arbitrary: remaining) (auto simp: Let_def intro!: rbind_cong)

lemma dict_items_eq:
  "(\<And>a k. k \<le> remaining \<Longrightarrow> pr a k = object_toString m a k) \<Longrightarrow>
     dict_items pr entries remaining = format_dict m entries remaining"
proof (induction entries arbitrary: remaining)
  case (Cons entry entries)
  obtain key val where "entry = (key, val)" by force
  with Cons show ?case by (auto simp: Let_def split: option.splits intro!: rbind_cong)
qed simp

lemma print_nested_eq:
  "max_size \<le> 2 * int d + 5 \<Longrightarrow> print_nested (Suc d) m addr max_size = object_toString m addr max_size"
proof (induction d arbitrary: addr max_size)
  case 0
  then show ?case by (subst object_toString.simps) simp
next
  case (Suc d)
  have below: "print_nested (Suc d) m a k = object_toString m a k" if "k \<le> max_size - 2" for a k
    using Suc.prems that by (intro Suc.IH) simp
  note loops = sequence_items_eq [of "max_size - 2" "print_nested (Suc d) m" m, OF below]
    dict_items_eq [of "max_size - 2" "print_nested (Suc d) m" m, OF below]
  show ?case
    by (subst object_toString.simps, subst print_nested.simps(2)) (simp only: loops)
qed

text \<open>
  Property C32. The recursion of printing ends on every graph of objects, cyclic ones included, without
  overflowing the stack: whatever the target contains, no more calls are nested than half the limit, so for
  the 80 characters of a local variable 39 are enough, and with room for them the result is the one that
  printing without a bound on the nesting gives.
\<close>

theorem printing_nests_within_limit:
  assumes "max_size \<le> 2 * int depth + 3" and "depth \<noteq> 0"
  shows "print_nested depth m addr max_size = object_toString m addr max_size"
proof -
  obtain d where "depth = Suc d" using assms(2) by (cases depth) auto
  with print_nested_eq [of max_size d m addr] assms(1) show ?thesis by (simp del: print_nested.simps)
qed

section \<open>Witnesses\<close>

text \<open>
  A target with one list, at address 4096, that contains itself; its type is at 8192 and the type's
  name at 16384.
\<close>

definition small_tables :: python_v where
  "small_tables = zero_python_v
     \<lparr>py_object := \<lparr>object_size = 16, o_ob_type = 8\<rparr>,
      py_type := \<lparr>type_size = 24, o_tp_name = 0, o_tp_repr = 8, o_tp_flags = 16\<rparr>,
      py_list := \<lparr>list_size = 32, list_o_ob_size = 16, list_o_ob_item = 24\<rparr>\<rparr>"

definition cyclic_target :: manager where
  "cyclic_target = segments_manager (3, 12) small_tables
     [(4096, [1, 0, 0, 0, 0, 0, 0, 0,  0, 32, 0, 0, 0, 0, 0, 0,
              1, 0, 0, 0, 0, 0, 0, 0,  0, 48, 0, 0, 0, 0, 0, 0]),
      (8192, [0, 64, 0, 0, 0, 0, 0, 0,  0, 0, 0, 0, 0, 0, 0, 0,  0, 0, 0, 2, 0, 0, 0, 0]),
      (12288, [0, 16, 0, 0, 0, 0, 0, 0]),
      (16384, [108, 105, 115, 116, 0])]"

lemma small_tables_simps [simp]:
  "py_object small_tables = \<lparr>object_size = 16, o_ob_type = 8\<rparr>"
  "py_type small_tables = \<lparr>type_size = 24, o_tp_name = 0, o_tp_repr = 8, o_tp_flags = 16\<rparr>"
  "py_list small_tables = \<lparr>list_size = 32, list_o_ob_size = 16, list_o_ob_item = 24\<rparr>"
  by (simp_all add: small_tables_def)

lemma cyclic_target_name: "getCStringFromAddress cyclic_target 16384 = Inr ''list''"
proof -
  have "\<forall>i < length [108, 105, 115, 116 :: byte].
      d_manager cyclic_target (16384 + of_nat i) 1 = Inr [[108, 105, 115, 116] ! i] \<and>
      [108, 105, 115, 116 :: byte] ! i \<noteq> 0"
    "d_manager cyclic_target (16384 + of_nat (length [108, 105, 115, 116 :: byte])) 1 = Inr [0]"
    by (auto simp: cyclic_target_def eval_reads less_Suc_eq)
  from getCString_stops [OF this, of Undefined] show ?thesis
    by (simp add: string_of_bytes_def char_of_def bit_Suc_0_iff)
qed

lemma cyclic_target_object:
  "new_object cyclic_target 4096 =
     Inr \<lparr>obj_addr = 4096, obj_type_addr = 8192, classname = ''list'', obj_flags = TPFLAGS_LIST_SUBCLASS\<rparr>"
proof -
  have "\<exists>buf. copyFromRemote cyclic_target S_object 4096 = Inr buf"
    "getWord cyclic_target S_object 4096 (o_ob_type, 8) = Inr (8192 :: addr)"
    "getWord cyclic_target S_type 8192 (o_tp_flags, 8) = Inr (TPFLAGS_LIST_SUBCLASS :: 64 word)"
    "getWord cyclic_target S_type 8192 (o_tp_name, 8) = Inr (16384 :: addr)"
    by (simp_all add: cyclic_target_def eval_reads)
  then show ?thesis using cyclic_target_name by (auto simp: new_object_def)
qed

lemma cyclic_target_list:
  "toConcreteObject cyclic_target
     \<lparr>obj_addr = 4096, obj_type_addr = 8192, classname = ''list'', obj_flags = TPFLAGS_LIST_SUBCLASS\<rparr> =
     Inr (P_list [4096])"
proof -
  have "list_items cyclic_target 4096 = Inr [4096]"
    by (simp add: list_items_def read_vector_def vec_resize_def addresses_of_def chunks_def
        cyclic_target_def eval_reads)
  moreover have "objectType cyclic_target
     \<lparr>obj_addr = 4096, obj_type_addr = 8192, classname = ''list'', obj_flags = TPFLAGS_LIST_SUBCLASS\<rparr> = T_LIST"
    by (simp add: objectType_def subclass_mask_def)
  ultimately show ?thesis by (simp add: toConcreteObject_def Let_def)
qed

theorem printing_self_containing_list_witness:
  "object_toString cyclic_target 4096 20 = Inr ''[[[[[...]]]]]''"
proof -
  have "nested_lists 20 = ''[[[[[...]]]]]''" by (simp add: nested_lists.simps ELLIPSIS_def)
  then show ?thesis
    using printing_self_containing_list [OF cyclic_target_object cyclic_target_list, of 20] by simp
qed

theorem printing_nests_within_limit_witness:
  "print_nested 9 cyclic_target 4096 20 = Inr ''[[[[[...]]]]]''"
proof -
  have "nested_lists 20 = ''[[[[[...]]]]]''" by (simp add: nested_lists.simps ELLIPSIS_def)
  then show ?thesis
    using self_containing_list_text [OF cyclic_target_object cyclic_target_list, of 20]
      printing_nests_within_limit [of 20 9 cyclic_target 4096] by simp
qed

theorem printing_respects_limit_witness:
  "\<exists>s. object_toString cyclic_target 4096 80 = Inr s \<and> length s \<le> 80"
proof -
  obtain s where s: "object_toString cyclic_target 4096 80 = Inr s"
    using self_containing_list_text [OF cyclic_target_object cyclic_target_list, of 80] by auto
  from printing_respects_limit [OF cyclic_target_object cyclic_target_list _ s] s show ?thesis by simp
qed

theorem printing_contains_memory_errors_witness:
  "object_toString (cyclic_target\<lparr>d_py_v := None\<rparr>) 4096 80 = Inl Undefined \<and>
   \<not> is_remote_copy_error Undefined"
proof -
  have "object_toString (cyclic_target\<lparr>d_py_v := None\<rparr>) 4096 80 = Inl Undefined"
    by (subst object_toString.simps)
      (simp add: new_object_def copyFromRemote_def offsets_def cyclic_target_def segments_manager_def)
  with printing_contains_memory_errors [OF this] show ?thesis by blast
qed

text \<open>A Python 2 dictionary at 4096 with one entry at 8192.\<close>

definition py2_dict_target :: manager where
  "py2_dict_target = segments_manager (2, 7) zero_python_v
     [(4096, [1, 0, 0, 0, 0, 0, 0, 0,  0, 64, 0, 0, 0, 0, 0, 0,  1, 0, 0, 0, 0, 0, 0, 0,
              1, 0, 0, 0, 0, 0, 0, 0,  0, 0, 0, 0, 0, 0, 0, 0,  0, 32, 0, 0, 0, 0, 0, 0]),
      (8192, [9, 9, 9, 9, 9, 9, 9, 9,  0, 1, 0, 0, 0, 0, 0, 0,  0, 2, 0, 0, 0, 0, 0, 0])]"

theorem dict_keys_have_values_witness:
  "dict_object py2_dict_target 4096 = Inr (Some ([256], [512])) \<and>
   length [256 :: addr] \<le> length [512 :: addr]"
proof
  let ?dict = "[1, 0, 0, 0, 0, 0, 0, 0,  0, 64, 0, 0, 0, 0, 0, 0,  1, 0, 0, 0, 0, 0, 0, 0,
              1, 0, 0, 0, 0, 0, 0, 0,  0, 0, 0, 0, 0, 0, 0, 0,  0, 32, 0, 0, 0, 0, 0, 0] :: bytes"
  let ?entry = "[9, 9, 9, 9, 9, 9, 9, 9,  0, 1, 0, 0, 0, 0, 0, 0,  0, 2, 0, 0, 0, 0, 0, 0] :: bytes"
  have offset: "offsetof Python2_PyDictObject [''ma_mask''] = 32"
    "offsetof Python2_PyDictObject [''ma_table''] = 40"
    "offsetof Python2_PyDictEntry [''me_key''] = 8" "offsetof Python2_PyDictEntry [''me_value''] = 16"
    unfolding offsetof_def
    by (simp_all add: Python2_PyDictObject_def Python2_PyDictEntry_def layout) (simp_all add: round_up_def)
  have words: "entry_word Python2_PyDictObject ''ma_mask'' ?dict = 0"
    "entry_word Python2_PyDictObject ''ma_table'' ?dict = 8192"
    "entry_word Python2_PyDictEntry ''me_key'' ?entry = 256"
    "entry_word Python2_PyDictEntry ''me_value'' ?entry = 512"
    by (simp_all add: entry_word_def offset le_word_def block_def)
  have dict: "d_manager py2_dict_target 4096 (sizeof Python2_PyDictObject) = Inr ?dict"
    by (simp add: py2_dict_target_def sizeof_def layout segments_copier_def block_def)
  have table: "read_vector py2_dict_target (csize Python2_PyDictEntry) 8192 1 = Inr ?entry"
    by (simp add: read_vector_def vec_resize_def py2_dict_target_def layout segments_copier_def block_def)
  have "chunks (csize Python2_PyDictEntry) ?entry = [?entry]"
    by (simp add: chunks_def layout block_def)
  then have "dict_entries Python2_PyDictEntry ?entry = [(256, 512)]"
    unfolding dict_entries_def by (simp only: words list.map)
  with dict table words have "loadFromPython2 py2_dict_target 4096 = Inr ([256], [512])"
    unfolding loadFromPython2_def Let_def by (simp only: rbind_simps words add_0) simp
  then show r: "dict_object py2_dict_target 4096 = Inr (Some ([256], [512]))"
    by (simp add: dict_object_def py2_dict_target_def)
  have "remote_memory (d_manager py2_dict_target)"
    by (simp add: py2_dict_target_def segments.remote_memory_axioms)
  from dict_keys_have_values [OF this r] show "length [256 :: addr] \<le> length [512 :: addr]" .
qed

end
