(* ===== verification/Linetable.thy ===== *)
theory Linetable
  imports Thread_Data
begin

text \<open>
  The line number tables of code objects (\<open>pycode.cpp\<close>): the location table of Python 3.11 and
  later (\<open>parse_linetable\<close>), the line table of 3.10 and the \<open>lnotab\<close> of earlier versions. The main
  facts compare the decoders with an encoder of the location table and with the intervals that the
  tables describe.
\<close>

section \<open>The location table\<close>

text \<open>
  The table is read through \<open>c_str()\<close>: there is a NUL after the last byte, and reading further is
  undefined.
\<close>

definition read_at :: "bytes \<Rightarrow> nat \<Rightarrow> byte result" where
  "read_at linetable ptr =
     (if ptr < length linetable then Inr (linetable ! ptr)
      else if ptr = length linetable then Inr 0 else Inl Undefined)"

text \<open>
  The lambda \<open>scan_varint\<close>: \<open>read\<close> is the byte just read. Shifting an \<open>unsigned int\<close> by 32 or more
  is undefined.
\<close>

function scan_varint_loop ::
  "bytes \<Rightarrow> nat \<Rightarrow> 32 word \<Rightarrow> 32 word \<Rightarrow> nat \<Rightarrow> (32 word \<times> nat) result" where
  "scan_varint_loop linetable ptr read val shift =
     (if read AND 64 \<noteq> 0 then
        rbind (read_at linetable ptr) (\<lambda>b.
          let read' = ucast b; shift' = shift + 6 in
          if shift' \<ge> 32 then Inl Undefined
          else scan_varint_loop linetable (Suc ptr) read' (val OR push_bit shift' (read' AND 63)) shift')
      else Inr (val, ptr))"
  by pat_completeness auto
termination
  by (relation "measure (\<lambda>(_, _, _, _, shift). 32 - shift)") auto

declare scan_varint_loop.simps [simp del]

definition scan_varint :: "bytes \<Rightarrow> nat \<Rightarrow> (32 word \<times> nat) result" where
  "scan_varint linetable ptr =
     rbind (read_at linetable ptr) (\<lambda>b.
       scan_varint_loop linetable (Suc ptr) (ucast b) (ucast b AND 63) 0)"

definition scan_signed_varint :: "bytes \<Rightarrow> nat \<Rightarrow> (32 word \<times> nat) result" where
  "scan_signed_varint linetable ptr =
     rbind (scan_varint linetable ptr) (\<lambda>(uval, ptr').
       let sval = drop_bit 1 uval; sign = (if uval AND 1 \<noteq> 0 then - 1 else 1) in
       Inr (sign * sval, ptr'))"

text \<open>
  The body of the \<open>switch\<close>, on the code and the position after the first byte. A failing \<open>assert\<close>
  ends the program.
\<close>

definition apply_entry ::
  "bytes \<Rightarrow> byte \<Rightarrow> nat \<Rightarrow> LocationInfo \<Rightarrow> (LocationInfo \<times> nat) result" where
  "apply_entry linetable code ptr info =
     (if code = 15 then Inr (info, ptr)
      else if code = 14 then
        rbind (scan_signed_varint linetable ptr) (\<lambda>(line_delta, ptr1).
        rbind (scan_varint linetable ptr1) (\<lambda>(end_delta, ptr2).
        rbind (scan_varint linetable ptr2) (\<lambda>(col, ptr3).
        rbind (scan_varint linetable ptr3) (\<lambda>(end_col, ptr4).
          Inr (\<lparr>lineno = lineno info + line_delta, end_lineno = lineno info + line_delta + end_delta,
                column = col - 1, end_column = end_col - 1\<rparr>, ptr4)))))
      else if code = 13 then
        rbind (scan_signed_varint linetable ptr) (\<lambda>(line_delta, ptr1).
          Inr (info\<lparr>lineno := lineno info + line_delta, column := - 1, end_column := - 1\<rparr>, ptr1))
      else if code = 10 \<or> code = 11 \<or> code = 12 then
        rbind (read_at linetable ptr) (\<lambda>col.
        rbind (read_at linetable (Suc ptr)) (\<lambda>end_col.
          let line = lineno info + (ucast code - 10) in
          Inr (\<lparr>lineno = line, end_lineno = line, column = ucast col, end_column = ucast end_col\<rparr>,
               Suc (Suc ptr))))
      else
        rbind (read_at linetable ptr) (\<lambda>second_byte.
          if second_byte AND 128 \<noteq> 0 then Inl Abort
          else
            let col = push_bit 3 (ucast code) OR ucast (drop_bit 4 second_byte) in
            Inr (info\<lparr>column := col, end_column := col + ucast (second_byte AND 15)\<rparr>, Suc ptr)))"

lemma scan_varint_loop_ptr:
  "scan_varint_loop linetable ptr read val shift = Inr (v, ptr') \<Longrightarrow> ptr \<le> ptr'"
proof (induction linetable ptr read val shift rule: scan_varint_loop.induct)
  case (1 linetable ptr read val shift)
  from "1.prems" show ?case
    by (subst (asm) scan_varint_loop.simps)
      (auto simp: Let_def result_simps split: if_splits dest!: "1.IH" [OF _ _ refl refl])
qed

lemma scan_varint_ptr: "scan_varint linetable ptr = Inr (v, ptr') \<Longrightarrow> ptr \<le> ptr'"
  by (auto simp: scan_varint_def result_simps dest: scan_varint_loop_ptr)

lemma scan_signed_varint_ptr: "scan_signed_varint linetable ptr = Inr (v, ptr') \<Longrightarrow> ptr \<le> ptr'"
  by (auto simp: scan_signed_varint_def result_simps Let_def dest: scan_varint_ptr split: prod.splits)

lemma apply_entry_ptr: "apply_entry linetable code ptr info = Inr (info', ptr') \<Longrightarrow> ptr \<le> ptr'"
  by (auto simp: apply_entry_def result_simps Let_def split: if_splits prod.splits
      dest!: scan_varint_ptr scan_signed_varint_ptr)

text \<open>
  The loop of \<open>parse_linetable\<close>: \<open>None\<close> is \<open>false\<close>. It ends because the position grows and reading
  beyond the table is an error.
\<close>

function parse_linetable_loop ::
  "bytes \<Rightarrow> 64 word \<Rightarrow> nat \<Rightarrow> 64 word \<Rightarrow> LocationInfo \<Rightarrow> LocationInfo option result" where
  "parse_linetable_loop linetable addrq ptr a info =
     rbind (read_at linetable ptr) (\<lambda>first_byte.
       if first_byte = 0 then Inr None
       else
         let code = drop_bit 3 first_byte AND 15;
             end_addr = a + (ucast (first_byte AND 7) + 1)
         in rbind (apply_entry linetable code (Suc ptr) info) (\<lambda>entry.
              if a \<le> addrq \<and> end_addr > addrq then Inr (Some (fst entry))
              else parse_linetable_loop linetable addrq (snd entry) end_addr (fst entry)))"
  by pat_completeness auto
termination
  by (relation "measure (\<lambda>(linetable, _, ptr, _, _). Suc (length linetable) - ptr)")
    (auto simp: read_at_def split: if_splits dest!: apply_entry_ptr)

declare parse_linetable_loop.simps [simp del]

text \<open>\<open>uninit\<close> is the content of the uninitialised \<open>LocationInfo\<close> the callers pass.\<close>

definition parse_linetable ::
  "64 word \<Rightarrow> bytes \<Rightarrow> 32 word \<Rightarrow> LocationInfo \<Rightarrow> LocationInfo option result" where
  "parse_linetable addrq linetable firstlineno uninit =
     parse_linetable_loop linetable addrq 0 0 (uninit\<lparr>lineno := firstlineno\<rparr>)"

section \<open>The tables before 3.11\<close>

text \<open>
  \<open>lnotab[i]\<close> for \<open>i = size()\<close> is NUL. The loops read pairs; a table of odd length is padded.
\<close>

fun line_table_310 :: "bytes \<Rightarrow> 64 word \<Rightarrow> 64 word \<Rightarrow> 32 word \<Rightarrow> 32 word" where
  "line_table_310 [] last_executed current code_lineno = code_lineno"
| "line_table_310 [start_delta] last_executed current code_lineno = code_lineno"
| "line_table_310 (start_delta # line_delta # rest) last_executed current code_lineno =
     (let current' = current + ucast start_delta;
          code_lineno' = code_lineno + (if sint line_delta = - 0x80 then 0 else scast line_delta) in
      if current' > last_executed then code_lineno'
      else line_table_310 rest last_executed current' code_lineno')"

text \<open>
  Before 3.10 the increment of the bytecode offset is a plain \<open>char\<close>, which is signed on x86-64.
\<close>

fun lnotab_line :: "bytes \<Rightarrow> 64 word \<Rightarrow> 64 word \<Rightarrow> 32 word \<Rightarrow> 32 word" where
  "lnotab_line [] last_executed bc code_lineno = code_lineno"
| "lnotab_line [bc_delta] last_executed bc code_lineno = code_lineno"
| "lnotab_line (bc_delta # line_delta # rest) last_executed bc code_lineno =
     (let bc' = bc + scast bc_delta in
      if bc' > last_executed then code_lineno
      else lnotab_line rest last_executed bc' (code_lineno + scast line_delta))"

section \<open>Encoding\<close>

text \<open>The variable-length integers of CPython's location tables, least significant six bits first.\<close>

fun encode_varint :: "nat \<Rightarrow> bytes" where
  "encode_varint n =
     (if n < 64 then [of_nat n] else of_nat (64 + n mod 64) # encode_varint (n div 64))"

declare encode_varint.simps [simp del]

definition encode_signed_varint :: "int \<Rightarrow> bytes" where
  "encode_signed_varint i = encode_varint (if i < 0 then 2 * nat (- i) + 1 else 2 * nat i)"

lemma read_at_drop: "drop ptr t = b # rest \<Longrightarrow> read_at t ptr = Inr b"
proof -
  assume d: "drop ptr t = b # rest"
  then have "ptr < length t" by (rule contrapos_pp) simp
  with nth_via_drop [OF d] show ?thesis by (simp add: read_at_def)
qed

lemma drop_Suc_Cons: "drop ptr t = b # rest \<Longrightarrow> drop (Suc ptr) t = rest"
  by (simp add: drop_Suc drop_tl)

lemma word_chunks: "(take_bit 6 w OR push_bit 6 (drop_bit 6 w) :: 32 word) = w"
proof (rule bit_word_eqI)
  fix n assume "n < LENGTH(32)"
  then show "bit (take_bit 6 w OR push_bit 6 (drop_bit 6 w)) n = bit w n"
    by (cases "n < 6") (auto simp: bit_simps)
qed

lemma ucast_byte: "n < 256 \<Longrightarrow> (ucast (of_nat n :: byte) :: 32 word) = of_nat n"
  by (simp add: unsigned_of_nat take_bit_nat_eq_self)

lemma and_63: "(of_nat n :: 32 word) AND 63 = of_nat (n mod 64)"
proof -
  have "(63 :: 32 word) = mask 6" by (simp add: mask_eq_exp_minus_1)
  then have "(of_nat n :: 32 word) AND 63 = take_bit 6 (of_nat n)" by (simp add: take_bit_eq_mask)
  also have "\<dots> = of_nat (take_bit 6 n)" by (simp add: take_bit_of_nat)
  finally show ?thesis by (simp add: take_bit_eq_mod)
qed

lemma and_64: "n < 128 \<Longrightarrow> (of_nat n :: 32 word) AND 64 = 0 \<longleftrightarrow> n < 64"
proof -
  assume n: "n < 128"
  have "(of_nat n :: 32 word) AND 2 ^ 6 = 0 \<longleftrightarrow> \<not> bit (of_nat n :: 32 word) 6"
    by (rule and_exp_eq_0_iff_not_bit)
  also have "\<dots> \<longleftrightarrow> \<not> bit n 6" by (simp add: bit_simps)
  also have "\<dots> \<longleftrightarrow> even (n div 64)" by (simp add: bit_iff_odd)
  also have "\<dots> \<longleftrightarrow> n < 64"
  proof (cases "n < 64")
    case False
    with n have "n div 64 = 1" by (intro div_nat_eqI) auto
    with False show ?thesis by simp
  qed simp
  finally show ?thesis by simp
qed

lemma of_nat_chunks:
  "n < 2 ^ 32 \<Longrightarrow> (of_nat (n mod 64) OR push_bit 6 (of_nat (n div 64)) :: 32 word) = of_nat n"
proof -
  assume n: "n < 2 ^ 32"
  have "of_nat (take_bit 6 n) = (take_bit 6 (of_nat n) :: 32 word)" by (rule of_nat_take_bit)
  then have "of_nat (n mod 64) = (take_bit 6 (of_nat n) :: 32 word)"
    by (simp add: take_bit_eq_mod [of 6 n])
  moreover have "of_nat (n div 64) = (drop_bit 6 (of_nat n) :: 32 word)"
  proof -
    have "unat (drop_bit 6 (of_nat n :: 32 word)) = unat (of_nat (n div 64) :: 32 word)"
      using n by (simp only: unsigned_drop_bit_eq unsigned_of_nat) (simp add: drop_bit_eq_div take_bit_nat_eq_self)
    then show ?thesis by (simp add: word_unat_eq_iff)
  qed
  ultimately show ?thesis by (simp add: word_chunks)
qed

lemma scan_varint_loop_encode:
  assumes "drop ptr t = encode_varint n @ rest" and "n * 2 ^ shift < 2 ^ 32" and "shift < 32"
  shows "rbind (read_at t ptr) (\<lambda>b. scan_varint_loop t (Suc ptr) (ucast b)
             (val OR push_bit shift (ucast b AND 63)) shift) =
           Inr (val OR push_bit shift (of_nat n), ptr + length (encode_varint n))"
  using assms
proof (induction n arbitrary: ptr shift val rule: encode_varint.induct)
  case (1 n)
  have n32: "n < 2 ^ 32" using "1.prems"(2) by (rule le_less_trans [rotated]) simp
  show ?case
  proof (cases "n < 64")
    case True
    then have "drop ptr t = of_nat n # rest" using "1.prems"(1) by (simp add: encode_varint.simps)
    then have "read_at t ptr = Inr (of_nat n)" by (rule read_at_drop)
    with True show ?thesis
      by (simp add: scan_varint_loop.simps encode_varint.simps ucast_byte and_63 and_64 del: push_bit_and)
  next
    case False
    let ?b = "64 + n mod 64"
    have enc: "encode_varint n = of_nat ?b # encode_varint (n div 64)"
      using False by (simp add: encode_varint.simps)
    then have d: "drop ptr t = of_nat ?b # (encode_varint (n div 64) @ rest)" using "1.prems"(1) by simp
    have b: "?b < 128" by simp
    have "64 * 2 ^ shift \<le> n * 2 ^ shift" using False by simp
    moreover have "(2 :: nat) ^ (shift + 6) = 64 * 2 ^ shift" by (simp add: power_add)
    ultimately have "2 ^ (shift + 6) < (2 :: nat) ^ 32" using "1.prems"(2) by (simp only: le_less_trans)
    then have shift: "shift + 6 < 32" by (rule power_less_imp_less_exp [rotated]) simp
    have "n div 64 * 2 ^ (shift + 6) = (n div 64 * 64) * 2 ^ shift" by (simp add: power_add)
    also have "\<dots> \<le> n * 2 ^ shift" by (intro mult_le_mono) simp_all
    finally have range: "n div 64 * 2 ^ (shift + 6) < 2 ^ 32" using "1.prems"(2) by simp
    have val: "(val OR push_bit shift (of_nat (n mod 64))) OR push_bit (shift + 6) (of_nat (n div 64)) =
        val OR push_bit shift (of_nat n :: 32 word)"
      using of_nat_chunks [OF n32]
      by (metis or.assoc push_bit_or push_bit_push_bit)
    have "rbind (read_at t ptr) (\<lambda>b. scan_varint_loop t (Suc ptr) (ucast b)
            (val OR push_bit shift (ucast b AND 63)) shift) =
        scan_varint_loop t (Suc ptr) (of_nat ?b) (val OR push_bit shift (of_nat (n mod 64))) shift"
      using b by (simp add: read_at_drop [OF d] ucast_byte and_63 del: of_nat_add push_bit_and)
    also have "\<dots> = rbind (read_at t (Suc ptr)) (\<lambda>b. scan_varint_loop t (Suc (Suc ptr)) (ucast b)
            ((val OR push_bit shift (of_nat (n mod 64))) OR push_bit (shift + 6) (ucast b AND 63)) (shift + 6))"
      using and_64 [OF b] shift
      by (subst scan_varint_loop.simps) (simp add: Let_def not_le del: of_nat_add push_bit_and)
    also have "\<dots> = Inr (val OR push_bit shift (of_nat n), ptr + length (encode_varint n))"
      unfolding "1.IH" [OF False drop_Suc_Cons [OF d] range shift] val enc by simp
    finally show ?thesis .
  qed
qed

lemma scan_varint_encode:
  assumes "drop ptr t = encode_varint n @ rest" and "n < 2 ^ 32"
  shows "scan_varint t ptr = Inr (of_nat n, ptr + length (encode_varint n))"
  using scan_varint_loop_encode [of ptr t n rest 0 0] assms by (simp add: scan_varint_def)

lemma scan_signed_varint_encode:
  assumes "drop ptr t = encode_signed_varint i @ rest" and "\<bar>i\<bar> < 2 ^ 31"
  shows "scan_signed_varint t ptr = Inr (of_int i, ptr + length (encode_signed_varint i))"
proof -
  let ?u = "if i < 0 then 2 * nat (- i) + 1 else 2 * nat i"
  have u: "?u < 2 ^ 32" using assms(2) by auto
  have scan: "scan_varint t ptr = Inr (of_nat ?u, ptr + length (encode_signed_varint i))"
    using scan_varint_encode [OF _ u] assms(1) by (simp add: encode_signed_varint_def)
  have parity: "(of_nat ?u :: 32 word) AND 1 \<noteq> 0 \<longleftrightarrow> i < 0"
    using and_exp_eq_0_iff_not_bit [of "of_nat ?u :: 32 word" 0] by (simp add: bit_simps bit_0)
  have half: "drop_bit 1 (of_nat ?u :: 32 word) = of_nat (nat \<bar>i\<bar>)"
  proof -
    have "unat (drop_bit 1 (of_nat ?u :: 32 word)) = ?u div 2"
      using u by (simp only: unsigned_drop_bit_eq unsigned_of_nat) (simp add: drop_bit_eq_div take_bit_nat_eq_self)
    also have "\<dots> = nat \<bar>i\<bar>" by auto
    also have "\<dots> = unat (of_nat (nat \<bar>i\<bar>) :: 32 word)"
      using assms(2) by (subst unat_of_nat) simp
    finally show ?thesis by (simp add: word_unat_eq_iff)
  qed
  have "(if i < 0 then - 1 else 1) * of_nat (nat \<bar>i\<bar>) = (of_int i :: 32 word)"
    by (cases "i < 0") simp_all
  with scan parity half show ?thesis
    unfolding scan_signed_varint_def by (simp add: Let_def)
qed

section \<open>Entries\<close>

text \<open>
  The kinds of entries of a location table, each with the number of code units it covers. Lines are
  deltas, the columns of \<open>Long\<close> are one more than the column (0 for none).
\<close>

datatype loc_entry =
    No_location
  | Long int nat nat nat
  | No_columns int
  | One_line nat byte byte
  | Short nat byte

fun entry_code :: "loc_entry \<Rightarrow> nat" where
  "entry_code No_location = 15"
| "entry_code (Long _ _ _ _) = 14"
| "entry_code (No_columns _) = 13"
| "entry_code (One_line k _ _) = 10 + k"
| "entry_code (Short k _) = k"

fun entry_rest :: "loc_entry \<Rightarrow> bytes" where
  "entry_rest No_location = []"
| "entry_rest (Long delta end_delta col end_col) =
     encode_signed_varint delta @ encode_varint end_delta @ encode_varint col @ encode_varint end_col"
| "entry_rest (No_columns delta) = encode_signed_varint delta"
| "entry_rest (One_line k col end_col) = [col, end_col]"
| "entry_rest (Short k b) = [b]"

definition encode_entry :: "nat \<times> loc_entry \<Rightarrow> bytes" where
  "encode_entry e = of_nat (128 + 8 * entry_code (snd e) + (fst e - 1)) # entry_rest (snd e)"

fun valid_entry :: "loc_entry \<Rightarrow> bool" where
  "valid_entry No_location = True"
| "valid_entry (Long delta end_delta col end_col) \<longleftrightarrow>
     \<bar>delta\<bar> < 2 ^ 31 \<and> end_delta < 2 ^ 32 \<and> col < 2 ^ 32 \<and> end_col < 2 ^ 32"
| "valid_entry (No_columns delta) \<longleftrightarrow> \<bar>delta\<bar> < 2 ^ 31"
| "valid_entry (One_line k _ _) \<longleftrightarrow> k < 3"
| "valid_entry (Short k b) \<longleftrightarrow> k < 10 \<and> unat b < 128"

text \<open>What an entry says about the location, given the location of the entry before it.\<close>

fun entry_info :: "loc_entry \<Rightarrow> LocationInfo \<Rightarrow> LocationInfo" where
  "entry_info No_location info = info"
| "entry_info (Long delta end_delta col end_col) info =
     (let line = lineno info + of_int delta in
      \<lparr>lineno = line, end_lineno = line + of_nat end_delta, column = of_nat col - 1,
       end_column = of_nat end_col - 1\<rparr>)"
| "entry_info (No_columns delta) info =
     info\<lparr>lineno := lineno info + of_int delta, column := - 1, end_column := - 1\<rparr>"
| "entry_info (One_line k col end_col) info =
     (let line = lineno info + of_nat k in
      \<lparr>lineno = line, end_lineno = line, column = ucast col, end_column = ucast end_col\<rparr>)"
| "entry_info (Short k b) info =
     (let col = of_nat (8 * k) OR ucast (drop_bit 4 b) in
      info\<lparr>column := col, end_column := col + ucast (b AND 15)\<rparr>)"

lemma byte_below_128: "unat b < 128 \<Longrightarrow> (b :: byte) AND 128 = 0"
proof -
  assume "unat b < 128"
  then have "take_bit 7 (unat b) = unat b" by (simp add: take_bit_nat_eq_self)
  then have "\<not> bit (unat b) 7" by (metis bit_take_bit_iff less_irrefl)
  then have "\<not> bit b 7" by (simp add: bit_unsigned_iff)
  then have "b AND 2 ^ 7 = 0" by (rule and_exp_eq_0_iff_not_bit [THEN iffD2])

  then show ?thesis by simp
qed

lemma drop_append: "drop ptr t = xs @ rest \<Longrightarrow> drop (ptr + length xs) t = rest"
  by (metis append_eq_conv_conj drop_drop add.commute)

lemma apply_entry_encode:
  assumes "drop ptr t = entry_rest e @ rest" and "valid_entry e"
  shows "apply_entry t (of_nat (entry_code e)) ptr info =
           Inr (entry_info e info, ptr + length (entry_rest e))"
proof (cases e)
  case (Long delta end_delta col end_col)
  have d1: "drop ptr t = encode_signed_varint delta @ (encode_varint end_delta @ encode_varint col @ encode_varint end_col @ rest)"
    using assms Long by simp
  note d2 = drop_append [OF d1]
  note d3 = drop_append [OF d2]
  note d4 = drop_append [OF d3]
  show ?thesis using assms(2) Long
    by (simp add: apply_entry_def scan_signed_varint_encode [OF d1] scan_varint_encode [OF d2]
        scan_varint_encode [OF d3] scan_varint_encode [OF d4] Let_def)
next
  case (No_columns delta)
  with assms show ?thesis
    by (simp add: apply_entry_def scan_signed_varint_encode)
next
  case (One_line k col end_col)
  then have k: "k = 0 \<or> k = 1 \<or> k = 2" using assms(2) by auto
  have d: "drop ptr t = col # (end_col # rest)" using assms(1) One_line by simp
  show ?thesis using k One_line
    by (auto simp: apply_entry_def read_at_drop [OF d] read_at_drop [OF drop_Suc_Cons [OF d]] Let_def)
next
  case (Short k b)
  then have k: "k < 10" and b: "b AND 128 = 0" using assms(2) by (simp_all add: byte_below_128)
  have d: "drop ptr t = b # rest" using assms(1) Short by simp
  have c: "unat (of_nat k :: byte) = k" using k by (simp add: unat_of_nat)
  have neq: "(of_nat k :: byte) \<noteq> 10" "(of_nat k :: byte) \<noteq> 11" "(of_nat k :: byte) \<noteq> 12"
    "(of_nat k :: byte) \<noteq> 13" "(of_nat k :: byte) \<noteq> 14" "(of_nat k :: byte) \<noteq> 15"
    using k c by auto
  have "push_bit 3 (ucast (of_nat k :: byte)) = (of_nat (8 * k) :: 32 word)"
    using k by (simp add: ucast_byte push_bit_eq_mult)
  with neq Short b show ?thesis
    by (simp add: apply_entry_def read_at_drop [OF d] Let_def)
qed (use assms in \<open>simp add: apply_entry_def\<close>)

section \<open>Whole tables\<close>

definition valid_table :: "(nat \<times> loc_entry) list \<Rightarrow> bool" where
  "valid_table es \<longleftrightarrow> list_all (\<lambda>e. 1 \<le> fst e \<and> fst e \<le> 8 \<and> valid_entry (snd e)) es"

definition encode_table :: "(nat \<times> loc_entry) list \<Rightarrow> bytes" where
  "encode_table es = concat (map encode_entry es)"

text \<open>Entry number \<open>k\<close> covers the code units from \<open>entry_start es k\<close> to \<open>entry_start es (Suc k)\<close>.\<close>

definition entry_start :: "(nat \<times> 'a) list \<Rightarrow> nat \<Rightarrow> nat" where
  "entry_start es k = sum_list (map fst (take k es))"

fun locate :: "(nat \<times> loc_entry) list \<Rightarrow> nat \<Rightarrow> nat \<Rightarrow> LocationInfo \<Rightarrow> LocationInfo option" where
  "locate [] q start info = None"
| "locate (e # es) q start info =
     (if start \<le> q \<and> q < start + fst e then Some (entry_info (snd e) info)
      else locate es q (start + fst e) (entry_info (snd e) info))"

lemma and_mask_of_nat: "(of_nat n :: 'a::len word) AND mask k = of_nat (n mod 2 ^ k)"
proof -
  have "(of_nat n :: 'a word) AND mask k = of_nat (take_bit k n)"
    by (simp only: take_bit_eq_mask [symmetric] of_nat_take_bit)
  then show ?thesis by (simp add: take_bit_eq_mod)
qed

lemma byte_masks: "(15 :: byte) = mask 4" "(7 :: byte) = mask 3"
  by (simp_all add: mask_eq_exp_minus_1)

lemma entry_code_bound: "valid_entry e \<Longrightarrow> entry_code e < 16"
  by (cases e) auto

lemma first_byte:
  assumes "c < 16" and "1 \<le> l" and "l \<le> 8"
  defines "b \<equiv> (of_nat (128 + 8 * c + (l - 1)) :: byte)"
  shows "b \<noteq> 0" and "drop_bit 3 b AND 15 = of_nat c" and "(ucast (b AND 7) :: 64 word) + 1 = of_nat l"
proof -
  let ?n = "128 + 8 * c + (l - 1)"
  have n: "?n < 256" using assms by simp
  have unat: "unat b = ?n" unfolding b_def using n by (subst unat_of_nat) simp
  then show "b \<noteq> 0" by (metis add_is_0 unsigned_0 zero_neq_numeral)
  have "unat (drop_bit 3 b) = ?n div 8"
    using n by (simp only: unsigned_drop_bit_eq unat) (simp add: drop_bit_eq_div take_bit_nat_eq_self)
  also have "\<dots> = 16 + c" using assms(2,3) by (intro div_nat_eqI) auto
  finally have "drop_bit 3 b = of_nat (16 + c)"
    using assms(1) by (simp add: word_unat_eq_iff unat_of_nat del: of_nat_add)
  then have "drop_bit 3 b AND 15 = of_nat ((16 + c) mod 2 ^ 4)" unfolding byte_masks by (simp only: and_mask_of_nat)
  then show "drop_bit 3 b AND 15 = of_nat c" using assms(1) by simp
  have "((16 + c) * 8 + (l - 1)) mod 8 = l - 1" using assms(2,3) by (subst mod_mult_self3) simp
  moreover have "(16 + c) * 8 + (l - 1) = ?n" by simp
  ultimately have "?n mod 8 = l - 1" by (simp only:)
  then have "b AND 7 = of_nat (l - 1)" unfolding byte_masks b_def by (simp only: and_mask_of_nat) simp
  then have "(ucast (b AND 7) :: 64 word) = of_nat (l - 1)"
    using assms(3) by (simp add: unsigned_of_nat take_bit_nat_eq_self)
  then show "(ucast (b AND 7) :: 64 word) + 1 = of_nat l" using assms(2) by (simp add: of_nat_diff)
qed

lemma parse_linetable_loop_encode:
  assumes "valid_table es" and "drop ptr t = encode_table es" and "ptr \<le> length t"
    and "start + sum_list (map fst es) < 2 ^ 64" and "q < 2 ^ 64"
  shows "parse_linetable_loop t (of_nat q) ptr (of_nat start) info = Inr (locate es q start info)"
  using assms
proof (induction es arbitrary: ptr start info)
  case Nil
  then have "read_at t ptr = Inr 0" by (simp add: encode_table_def read_at_def)
  then show ?case by (subst parse_linetable_loop.simps) simp
next
  case (Cons e es)
  let ?b = "of_nat (128 + 8 * entry_code (snd e) + (fst e - 1)) :: byte"
  have valid: "1 \<le> fst e" "fst e \<le> 8" "valid_entry (snd e)" "valid_table es"
    using Cons.prems(1) by (simp_all add: valid_table_def)
  note b = first_byte [OF entry_code_bound [OF valid(3)] valid(1,2)]
  have d: "drop ptr t = ?b # (entry_rest (snd e) @ encode_table es)"
    using Cons.prems(2) by (simp add: encode_table_def encode_entry_def)
  note step = apply_entry_encode [OF drop_Suc_Cons [OF d] valid(3), of info]
  let ?ptr = "Suc ptr + length (entry_rest (snd e))"
  have d': "drop ?ptr t = encode_table es" by (rule drop_append [OF drop_Suc_Cons [OF d]])
  have "length (drop ptr t) = Suc (length (entry_rest (snd e)) + length (encode_table es))" by (simp add: d)
  then have ptr': "?ptr \<le> length t" by simp
  have sum: "start + fst e + sum_list (map fst es) < 2 ^ 64" using Cons.prems(4) by simp
  have "(of_nat start :: 64 word) \<le> of_nat q \<longleftrightarrow> start \<le> q"
    "(of_nat q :: 64 word) < of_nat start + of_nat (fst e) \<longleftrightarrow> q < start + fst e"
    using Cons.prems(5) sum
    by (simp_all add: word_le_unat word_less_unat unat_of_nat_size flip: of_nat_add)
  then show ?case
    using Cons.IH [OF valid(4) d' ptr' sum Cons.prems(5), of "entry_info (snd e) info"] b
    by (subst parse_linetable_loop.simps) (simp add: read_at_drop [OF d] step Let_def)
qed

lemma locate_Some:
  assumes "k < length es" and "start + entry_start es k \<le> q" and "q < start + entry_start es (Suc k)"
  shows "locate es q start info = Some (fold (\<lambda>e. entry_info (snd e)) (take (Suc k) es) info)"
  using assms
proof (induction es arbitrary: k start info)
  case (Cons e es)
  show ?case
  proof (cases k)
    case (Suc j)
    have "start + fst e \<le> q" using Cons.prems(2) Suc by (simp add: entry_start_def)
    moreover have "locate es q (start + fst e) (entry_info (snd e) info) =
        Some (fold (\<lambda>e. entry_info (snd e)) (take (Suc j) es) (entry_info (snd e) info))"
      using Cons.prems Suc by (intro Cons.IH) (simp_all add: entry_start_def add.assoc)
    ultimately show ?thesis using Suc by simp
  qed (use Cons.prems in \<open>simp add: entry_start_def\<close>)
qed simp

lemma locate_None: "start + sum_list (map fst es) \<le> q \<Longrightarrow> locate es q start info = None"
  by (induction es arbitrary: start info) auto

lemma parse_linetable_locate:
  assumes "valid_table es" and "q < 2 ^ 64" and "sum_list (map fst es) < 2 ^ 64"
  shows "parse_linetable (of_nat q) (encode_table es) firstlineno uninit =
           Inr (locate es q 0 (uninit\<lparr>lineno := firstlineno\<rparr>))"
  using parse_linetable_loop_encode [of es 0 "encode_table es" 0 q] assms by (simp add: parse_linetable_def)

text \<open>
  What an entry means: its line is the first line of the code plus all line deltas up to it, and it gives
  the columns, the end line or both. \<open>describes e line info\<close> says that \<open>info\<close> is what the entry \<open>e\<close> says
  about its instructions when its line is \<open>line\<close>; the end line counts where the entry gives one.
\<close>

fun line_delta :: "loc_entry \<Rightarrow> int" where
  "line_delta No_location = 0"
| "line_delta (Long delta _ _ _) = delta"
| "line_delta (No_columns delta) = delta"
| "line_delta (One_line k _ _) = int k"
| "line_delta (Short _ _) = 0"

definition entry_line :: "32 word \<Rightarrow> (nat \<times> loc_entry) list \<Rightarrow> nat \<Rightarrow> 32 word" where
  "entry_line firstlineno es k = firstlineno + of_int (sum_list (map (line_delta \<circ> snd) (take (Suc k) es)))"

fun describes :: "loc_entry \<Rightarrow> 32 word \<Rightarrow> LocationInfo \<Rightarrow> bool" where
  "describes No_location line info \<longleftrightarrow> lineno info = line"
| "describes (Long _ end_delta col end_col) line info \<longleftrightarrow>
     lineno info = line \<and> end_lineno info = line + of_nat end_delta \<and>
     column info = of_int (int col - 1) \<and> end_column info = of_int (int end_col - 1)"
| "describes (No_columns _) line info \<longleftrightarrow> lineno info = line \<and> column info = - 1 \<and> end_column info = - 1"
| "describes (One_line _ col end_col) line info \<longleftrightarrow>
     lineno info = line \<and> end_lineno info = line \<and>
     column info = of_nat (unat col) \<and> end_column info = of_nat (unat end_col)"
| "describes (Short k b) line info \<longleftrightarrow>
     lineno info = line \<and> column info = of_nat (8 * k + unat b div 16) \<and>
     end_column info = of_nat (8 * k + unat b div 16 + unat b mod 16)"

lemma short_columns:
  assumes "unat (b :: byte) < 128"
  shows "(of_nat (8 * k) :: 32 word) OR ucast (drop_bit 4 b) = of_nat (8 * k + unat b div 16)"
    and "(ucast (b AND 15) :: 32 word) = of_nat (unat b mod 16)"
proof -
  let ?x = "ucast (drop_bit 4 b) :: 32 word"
  have "take_bit 8 (unat b) = unat b" using assms by (simp add: take_bit_nat_eq_self)
  then have "unat (drop_bit 4 b) = unat b div 16"
    by (simp only: unsigned_drop_bit_eq) (simp add: drop_bit_eq_div)
  then have x: "?x = of_nat (unat b div 16)" by (metis of_nat_unat)
  have "unat b div 16 < 2 ^ 3" using assms by simp
  then have "take_bit 3 (unat b div 16) = unat b div 16" by (rule take_bit_nat_eq_self)
  then have take: "take_bit 3 ?x = ?x" unfolding x by (metis of_nat_take_bit)
  have "(of_nat (8 * k) :: 32 word) = push_bit 3 (of_nat k)" by (simp add: push_bit_eq_mult)
  then have "\<not> bit (of_nat (8 * k) :: 32 word) n \<or> \<not> bit ?x n" for n
    by (metis bit_push_bit_iff bit_take_bit_iff linorder_not_less take)
  then have "(of_nat (8 * k) :: 32 word) + ?x = of_nat (8 * k) OR ?x" by (rule disjunctive_add)
  then show "(of_nat (8 * k) :: 32 word) OR ?x = of_nat (8 * k + unat b div 16)" by (simp add: x)
  have "b = of_nat (unat b)" by simp
  then have "b AND 15 = of_nat (unat b mod 2 ^ 4)" unfolding byte_masks by (metis and_mask_of_nat)
  moreover have "unat b mod 16 < 256" using unsigned_less [of b] by (simp add: less_le_trans [of _ 16])
  ultimately show "(ucast (b AND 15) :: 32 word) = of_nat (unat b mod 16)" by (simp add: ucast_byte)
qed

lemma entry_info_describes:
  "valid_entry e \<Longrightarrow> describes e (lineno info + of_int (line_delta e)) (entry_info e info)"
  by (cases e) (auto simp: Let_def short_columns(2) short_columns(1) [unfolded of_nat_mult of_nat_add of_nat_numeral])


lemma entry_info_line: "lineno (entry_info e info) = lineno info + of_int (line_delta e)"
  by (cases e) (simp_all add: Let_def)

lemma fold_entry_line:
  "lineno (fold (\<lambda>e. entry_info (snd e)) es info) = lineno info + of_int (sum_list (map (line_delta \<circ> snd) es))"
  by (induction es arbitrary: info) (simp_all add: entry_info_line)

lemma fold_describes:
  assumes "valid_table es" and "k < length es"
  shows "describes (snd (es ! k)) (entry_line firstlineno es k)
           (fold (\<lambda>e. entry_info (snd e)) (take (Suc k) es) (uninit\<lparr>lineno := firstlineno\<rparr>))"
proof -
  let ?before = "fold (\<lambda>e. entry_info (snd e)) (take k es) (uninit\<lparr>lineno := firstlineno\<rparr>)"
  have "valid_entry (snd (es ! k))" using assms by (auto simp: valid_table_def list_all_length)
  from entry_info_describes [OF this, of ?before] assms(2) show ?thesis
    by (simp add: take_Suc_conv_app_nth fold_entry_line entry_line_def add.assoc)
qed

text \<open>
  Property C11. Decoding inverts encoding: in the encoding of any well-formed location table,
  \<open>parse_linetable\<close> finds for a code unit the line that the deltas up to the covering entry add up to and
  the columns and the end line that this entry gives, and reports that there is no location for code
  units past the end. (The end line where an entry gives none is another matter: \<open>end_lineno_is_stale\<close>.)
\<close>

theorem parse_linetable_encoded:
  assumes "valid_table es" and "q < 2 ^ 64" and "sum_list (map fst es) < 2 ^ 64"
  shows "(\<forall>k < length es. entry_start es k \<le> q \<and> q < entry_start es (Suc k) \<longrightarrow>
            (\<exists>info. parse_linetable (of_nat q) (encode_table es) firstlineno uninit = Inr (Some info) \<and>
                    describes (snd (es ! k)) (entry_line firstlineno es k) info)) \<and>
         (sum_list (map fst es) \<le> q \<longrightarrow>
            parse_linetable (of_nat q) (encode_table es) firstlineno uninit = Inr None)"
  using parse_linetable_locate [OF assms] locate_Some [of _ es 0 q] locate_None [of 0 es q]
    fold_describes [OF assms(1)] by simp

text \<open>
  Entries that do not carry an end line leave \<open>end_lineno\<close> as it was: after a statement of
  several lines, a one-line instruction of the short form keeps the stale end line, and if the very
  first entry has no columns the end line is the content of the uninitialised variable.
\<close>

theorem end_lineno_is_stale:
  "parse_linetable 1 (encode_table [(1, Long 0 5 1 1), (1, Short 0 0)]) line uninit =
     Inr (Some \<lparr>lineno = line, end_lineno = line + 5, column = 0, end_column = 0\<rparr>) \<and>
   parse_linetable 0 (encode_table [(1, No_columns 3)]) line uninit =
     Inr (Some \<lparr>lineno = line + 3, end_lineno = end_lineno uninit, column = - 1, end_column = - 1\<rparr>)"
proof
  let ?es = "[(1, Long 0 5 1 1), (1, Short 0 0)]"
  show "parse_linetable 1 (encode_table ?es) line uninit =
     Inr (Some \<lparr>lineno = line, end_lineno = line + 5, column = 0, end_column = 0\<rparr>)"
    using parse_linetable_loop_encode [of ?es 0 "encode_table ?es" 0 1 "uninit\<lparr>lineno := line\<rparr>"]
    by (simp add: valid_table_def parse_linetable_def Let_def)
  let ?es = "[(1, No_columns 3)]"
  show "parse_linetable 0 (encode_table ?es) line uninit =
     Inr (Some \<lparr>lineno = line + 3, end_lineno = end_lineno uninit, column = - 1, end_column = - 1\<rparr>)"
    using parse_linetable_loop_encode [of ?es 0 "encode_table ?es" 0 0 "uninit\<lparr>lineno := line\<rparr>"]
    by (simp add: valid_table_def parse_linetable_def)
qed

text \<open>
  On a table that ends inside an entry, the decoder reads beyond the terminating NUL.
\<close>

theorem truncated_linetable_overrun:
  "parse_linetable 0 [240, 64] line uninit = Inl Undefined"
proof -
  have "(drop_bit 3 240 AND 15 :: byte) = 14" by code_simp
  moreover have "scan_signed_varint [240, 64] 1 = Inr (0, 3)"
    by (simp add: scan_signed_varint_def scan_varint_def read_at_def scan_varint_loop.simps Let_def)
  moreover have "scan_varint [240, 64] 3 = Inl Undefined"
    by (simp add: scan_varint_def read_at_def)
  ultimately show ?thesis
    by (simp add: parse_linetable_def parse_linetable_loop.simps apply_entry_def read_at_def Let_def)
qed

section \<open>Intervals of the older tables\<close>

definition pair_table :: "(byte \<times> byte) list \<Rightarrow> bytes" where
  "pair_table ps = concat (map (\<lambda>p. [fst p, snd p]) ps)"

definition code_deltas :: "(byte \<times> byte) list \<Rightarrow> (nat \<times> byte) list" where
  "code_deltas ps = map (\<lambda>p. (unat (fst p), snd p)) ps"

definition line_delta_310 :: "byte \<Rightarrow> 32 word" where
  "line_delta_310 d = (if sint d = - 0x80 then 0 else scast d)"

lemma entry_start_Cons [simp]: "entry_start (e # es) (Suc k) = fst e + entry_start es k"
  by (simp add: entry_start_def)

lemma entry_start_0 [simp]: "entry_start es 0 = 0"
  by (simp add: entry_start_def)

lemma code_deltas_Cons [simp]: "code_deltas (p # ps) = (unat (fst p), snd p) # code_deltas ps"
  by (simp add: code_deltas_def)

lemma pair_table_Cons [simp]: "pair_table (p # ps) = fst p # snd p # pair_table ps"
  by (simp add: pair_table_def)

lemma ucast_byte_64: "(ucast (b :: byte) :: 64 word) = of_nat (unat b)"
  by (simp only: of_nat_unat)

lemma line_table_310_interval_aux:
  assumes "k < length ps" and "start + entry_start (code_deltas ps) k \<le> q"
    and "q < start + entry_start (code_deltas ps) (Suc k)"
    and "start + sum_list (map fst (code_deltas ps)) < 2 ^ 64" and "q < 2 ^ 64"
  shows "line_table_310 (pair_table ps) (of_nat q) (of_nat start) line =
           line + sum_list (map (\<lambda>p. line_delta_310 (snd p)) (take (Suc k) ps))"
  using assms
proof (induction ps arbitrary: k start line)
  case (Cons p ps)
  have q: "(of_nat q :: 64 word) < of_nat (start + unat (fst p)) \<longleftrightarrow> q < start + unat (fst p)"
    using Cons.prems(4,5) by (intro of_nat_less_64) simp_all
  have sum: "of_nat start + ucast (fst p) = (of_nat (start + unat (fst p)) :: 64 word)" by simp
  have step: "line_table_310 (pair_table (p # ps)) (of_nat q) (of_nat start) line =
      (if q < start + unat (fst p) then line + line_delta_310 (snd p)
       else line_table_310 (pair_table ps) (of_nat q) (of_nat (start + unat (fst p)))
              (line + line_delta_310 (snd p)))"
    unfolding pair_table_Cons line_table_310.simps Let_def sum q line_delta_310_def ..
  show ?case
  proof (cases k)
    case 0
    then show ?thesis using Cons.prems unfolding step by simp
  next
    case (Suc j)
    have "line_table_310 (pair_table ps) (of_nat q) (of_nat (start + unat (fst p)))
        (line + line_delta_310 (snd p)) =
        line + line_delta_310 (snd p) + sum_list (map (\<lambda>p. line_delta_310 (snd p)) (take (Suc j) ps))"
      using Cons.prems Suc by (intro Cons.IH) (simp_all add: add.assoc)
    then show ?thesis using Cons.prems Suc unfolding step by (simp add: add.assoc)
  qed
qed simp

lemma scast_byte_64: "unat (b :: byte) < 128 \<Longrightarrow> (scast b :: 64 word) = of_nat (unat b)"
proof -
  assume b: "unat b < 128"
  have "sint b = int (unat b)"
    using b by (simp add: sint_uint uint_nat signed_take_bit_int_eq_self del: of_nat_unat)
  then have "(scast b :: 64 word) = of_int (int (unat b))" by (metis of_int_sint)
  then show ?thesis by simp
qed

lemma lnotab_interval_aux:
  assumes "k < length ps" and "start + entry_start (code_deltas ps) k \<le> q"
    and "q < start + entry_start (code_deltas ps) (Suc k)"
    and "start + sum_list (map fst (code_deltas ps)) < 2 ^ 64" and "q < 2 ^ 64"
    and "list_all (\<lambda>p. unat (fst p) < 128) (take (Suc k) ps)"
  shows "lnotab_line (pair_table ps) (of_nat q) (of_nat start) line =
           line + sum_list (map (\<lambda>p. scast (snd p)) (take k ps))"
  using assms
proof (induction ps arbitrary: k start line)
  case (Cons p ps)
  have q: "(of_nat q :: 64 word) < of_nat (start + unat (fst p)) \<longleftrightarrow> q < start + unat (fst p)"
    using Cons.prems(4,5) by (intro of_nat_less_64) simp_all
  have small: "unat (fst p) < 128" using Cons.prems(6) by simp
  have sum: "of_nat start + scast (fst p) = (of_nat (start + unat (fst p)) :: 64 word)"
    unfolding scast_byte_64 [OF small] by (rule of_nat_add [symmetric])
  have step: "lnotab_line (pair_table (p # ps)) (of_nat q) (of_nat start) line =
      (if q < start + unat (fst p) then line
       else lnotab_line (pair_table ps) (of_nat q) (of_nat (start + unat (fst p))) (line + scast (snd p)))"
    unfolding pair_table_Cons lnotab_line.simps Let_def sum q ..
  show ?case
  proof (cases k)
    case 0
    then show ?thesis using Cons.prems unfolding step by simp
  next
    case (Suc j)
    have "lnotab_line (pair_table ps) (of_nat q) (of_nat (start + unat (fst p))) (line + scast (snd p)) =
        line + scast (snd p) + sum_list (map (\<lambda>p. scast (snd p)) (take j ps))"
      using Cons.prems Suc by (intro Cons.IH) (simp_all add: add.assoc)
    then show ?thesis using Cons.prems Suc unfolding step by (simp add: add.assoc)
  qed
qed simp


text \<open>
  A bytecode increment of 128 or more in an \<open>lnotab\<close> is sign-extended: the offset becomes
  huge and the search stops before the entry. Here the instruction 250 lies after the increment of 200
  and belongs to the next line, but the line before is reported.
\<close>

theorem lnotab_increment_sign_extended:
  "lnotab_line (pair_table [(200, 1), (100, 1)]) 250 0 line = line \<and>
   entry_start (code_deltas [(200, 1), (100, 1)]) 1 \<le> 250 \<and>
   250 < entry_start (code_deltas [(200, 1), (100, 1)]) 2"
proof -
  have "(0 :: 64 word) + scast (200 :: byte) > 250" by code_simp
  then have "lnotab_line (pair_table [(200, 1), (100, 1)]) 250 0 line = line"
    unfolding pair_table_Cons lnotab_line.simps Let_def by simp
  then show ?thesis by (simp add: code_deltas_def entry_start_def)
qed

section \<open>Witnesses\<close>

theorem parse_linetable_encoded_witness:
  "\<exists>info. parse_linetable 3 (encode_table [(2, Long 1 2 5 9), (4, Short 1 18), (1, One_line 1 4 8)]) 10
      \<lparr>lineno = 0, end_lineno = 0, column = 0, end_column = 0\<rparr> = Inr (Some info) \<and>
     lineno info = 11 \<and> column info = 9 \<and> end_column info = 11"
proof -
  let ?es = "[(2, Long 1 2 5 9), (4, Short 1 18), (1, One_line 1 4 8)]"
  let ?info = "\<lparr>lineno = 0, end_lineno = 0, column = 0, end_column = 0\<rparr>"
  have "valid_table ?es" by (simp add: valid_table_def)
  note decoded = parse_linetable_encoded [OF this, of 3 10 ?info]
  have "1 < length ?es \<and> entry_start ?es 1 \<le> 3 \<and> 3 < entry_start ?es (Suc 1)"
    by (simp add: entry_start_def)
  with decoded obtain info where "parse_linetable (of_nat 3) (encode_table ?es) 10 ?info = Inr (Some info)"
    "describes (snd (?es ! 1)) (entry_line 10 ?es 1) info" by auto
  then show ?thesis by (intro exI [of _ info]) (simp add: entry_line_def)
qed


end
