(* ===== verification/Py_Code.thy ===== *)
theory Py_Code
  imports Py_Types Linetable
begin

text \<open>
  Code objects (\<open>CodeObject\<close> and \<open>getLocationInfo\<close> in \<open>pycode.cpp\<close>): the file, the name, the
  location of the current instruction and the names of the variables of the code a frame runs.
\<close>

record CodeObject =
  d_filename :: string
  d_scope :: string
  d_location_info :: LocationInfo
  d_narguments :: "32 word"
  d_varnames :: "string list"

definition no_location :: LocationInfo where
  "no_location = \<lparr>lineno = 0, end_lineno = 0, column = 0, end_column = 0\<rparr>"

definition bytes_of_string :: "string \<Rightarrow> bytes" where
  "bytes_of_string s = map (\<lambda>c. of_nat (of_char c)) s"

lemma bytes_of_string_of_bytes [simp]: "bytes_of_string (string_of_bytes bs) = bs"
proof -
  have "(of_nat (of_char (char_of (unat b)) :: nat) :: byte) = b" for b
  proof -
    have "unat b < 256" using unsigned_less [of b] by simp
    then have "of_char (char_of (unat b)) = unat b" by simp
    then show ?thesis by simp
  qed
  then show ?thesis by (simp add: bytes_of_string_def string_of_bytes_def o_def)
qed

text \<open>
  The index of the current instruction in code units: the difference of two \<open>uint16_t\<close> pointers.
\<close>

definition code_unit_index :: "addr \<Rightarrow> addr \<Rightarrow> 64 word" where
  "code_unit_index last_instruction code_adaptive = signed_drop_bit 1 (last_instruction - code_adaptive)"

text \<open>
  In a free-threaded interpreter every thread runs its own copy of the bytecode; the vector of the
  copies lies behind the pointer stored before the bytecode. The index is an \<open>int\<close> used as a \<open>size_t\<close>.
\<close>

definition thread_local_bytecode :: "manager \<Rightarrow> addr \<Rightarrow> 32 word \<Rightarrow> addr result" where
  "thread_local_bytecode m code_adaptive tlbc_index =
     rbind (copyObjectFromProcess m (code_adaptive - 8) 8) (\<lambda>tlbc_entries :: addr.
     rbind (copyObjectFromProcess m tlbc_entries 8) (\<lambda>tlbc_size :: 64 word.
     rbind (read_vector m 8 (tlbc_entries + 8) tlbc_size) (\<lambda>bs.
       let vec = addresses_of bs; i = unat (scast tlbc_index :: 64 word) in
       if i < length vec then Inr (vec ! i) else Inl Undefined)))"

text \<open>
  \<open>getLocationInfo\<close>; \<open>uninit\<close> is the content of the uninitialised \<open>posinfo\<close>. A failing \<open>assert\<close> ends
  the program.
\<close>

definition getLocationInfo ::
  "manager \<Rightarrow> addr \<Rightarrow> addr \<Rightarrow> 32 word \<Rightarrow> LocationInfo \<Rightarrow> LocationInfo result" where
  "getLocationInfo m code_addr last_instruction_index tlbc_index uninit =
     rbind (getWord m S_code code_addr (o_firstlineno, 4)) (\<lambda>code_lineno.
     rbind (getWord m S_code code_addr (o_lnotab, 8)) (\<lambda>lnotab_addr.
     rbind (getBytesFromAddress m lnotab_addr) (\<lambda>lnotab_string.
     let lnotab = bytes_of_string lnotab_string;
         from_linetable = (\<lambda>code_adaptive.
           rbind (parse_linetable (code_unit_index last_instruction_index code_adaptive) lnotab
                    code_lineno uninit)
             (\<lambda>found. Inr (case found of Some info \<Rightarrow> info | None \<Rightarrow> no_location)));
         one_line = (\<lambda>line. no_location\<lparr>lineno := line, end_lineno := line\<rparr>)
     in if \<not> versionIsAtLeast m 3 11 \<and> odd (length lnotab) then Inl Abort
        else if versionIsAtLeast m 3 14 \<and> d_is_free_threaded m then
          rbind (getFieldRemoteAddress m S_code code_addr (o_code_adaptive, 1)) (\<lambda>code_adaptive.
          rbind (thread_local_bytecode m code_adaptive tlbc_index) from_linetable)
        else if versionIsAtLeast m 3 11 then
          rbind (getFieldRemoteAddress m S_code code_addr (o_code_adaptive, 1)) from_linetable
        else if versionIsAtLeast m 3 10 then
          Inr (one_line (line_table_310 lnotab (push_bit 1 last_instruction_index) 0 code_lineno))
        else Inr (one_line (lnotab_line lnotab last_instruction_index 0 code_lineno)))))"

definition new_code_object ::
  "manager \<Rightarrow> addr \<Rightarrow> addr \<Rightarrow> 32 word \<Rightarrow> LocationInfo \<Rightarrow> CodeObject result" where
  "new_code_object m addr lasti tlbc_index uninit =
     rbind (getWord m S_code addr (o_filename, 8)) (\<lambda>filename_addr.
     rbind (getStringFromAddress m filename_addr) (\<lambda>filename.
     rbind (getWord m S_code addr (o_name, 8)) (\<lambda>name_addr.
     rbind (getStringFromAddress m name_addr) (\<lambda>scope.
     rbind (getLocationInfo m addr lasti tlbc_index uninit) (\<lambda>location_info.
     rbind (getWord m S_code addr (o_argcount, 4)) (\<lambda>narguments.
     rbind (getWord m S_code addr (o_varnames, 8)) (\<lambda>varnames_addr.
     rbind (tuple_items m varnames_addr) (\<lambda>items.
     rbind (rmap (getStringFromAddress m) items) (\<lambda>varnames.
       Inr \<lparr>d_filename = filename, d_scope = scope, d_location_info = location_info,
            d_narguments = narguments, d_varnames = varnames\<rparr>)))))))))"

text \<open>The code object of a frame whose code cannot be read.\<close>

definition unknown_code :: CodeObject where
  "unknown_code =
     \<lparr>d_filename = ''???'', d_scope = ''???'', d_location_info = no_location, d_narguments = 0,
      d_varnames = []\<rparr>"

section \<open>Locations of instructions\<close>

text \<open>Code units are two bytes: the instruction number \<open>q\<close> has index \<open>q\<close>.\<close>

lemma code_unit_index_of: "q < 2 ^ 62 \<Longrightarrow> code_unit_index (code_adaptive + of_nat (2 * q)) code_adaptive = of_nat q"
proof -
  assume q: "q < 2 ^ 62"
  have "unat (of_nat (2 * q) :: 64 word) = 2 * q" "unat (of_nat q :: 64 word) = q"
    using q by (intro unat_of_nat_size; simp)+
  note unats = this
  have "sint (of_nat (2 * q) :: 64 word) = int (2 * q)"
    using q unats by (subst sint_eq_unat) simp_all
  then have "sint (signed_drop_bit 1 (of_nat (2 * q) :: 64 word)) = int q"
    by (simp add: sint_signed_drop_bit_eq drop_bit_eq_div)
  moreover have "sint (of_nat q :: 64 word) = int q"
    using q unats by (subst sint_eq_unat) simp_all
  ultimately have "signed_drop_bit 1 (of_nat (2 * q) :: 64 word) = of_nat q"
    by (metis signed_word_eqI)
  then show ?thesis by (simp add: code_unit_index_def del: of_nat_mult)
qed

text \<open>
  The bytecode that a frame runs: the one behind the code object or, in a free-threaded interpreter, the
  entry of the thread in the vector of copies, which starts with its length and is found through the
  pointer stored before the bytecode.
\<close>

definition runs_bytecode :: "manager \<Rightarrow> addr \<Rightarrow> nat \<Rightarrow> addr \<Rightarrow> bool" where
  "runs_bytecode m code_adaptive tlbc_index bytecode \<longleftrightarrow>
     (if versionIsAtLeast m 3 14 \<and> d_is_free_threaded m then
        \<exists>entries n bs.
          (copyObjectFromProcess m (code_adaptive - 8) 8 :: addr result) = Inr entries \<and>
          (copyObjectFromProcess m entries 8 :: 64 word result) = Inr n \<and>
          d_manager m (entries + 8) (n * 8) = Inr bs \<and> length bs = 8 * unat n \<and>
          unat n < 2 ^ 60 \<and> tlbc_index < unat n \<and> tlbc_index < 2 ^ 31 \<and>
          bytecode = le_word (block (8 * tlbc_index) 8 bs)
      else bytecode = code_adaptive)"

lemma thread_local_bytecode_runs:
  assumes "runs_bytecode m code_adaptive i bytecode" and "versionIsAtLeast m 3 14" "d_is_free_threaded m"
  shows "thread_local_bytecode m code_adaptive (of_nat i) = Inr bytecode"
proof -
  obtain entries n bs where r:
    "(copyObjectFromProcess m (code_adaptive - 8) 8 :: addr result) = Inr entries"
    "(copyObjectFromProcess m entries 8 :: 64 word result) = Inr n"
    "d_manager m (entries + 8) (n * 8) = Inr bs" "length bs = 8 * unat n" "unat n < 2 ^ 60" "i < unat n"
    "i < 2 ^ 31" "bytecode = le_word (block (8 * i) 8 bs)"
    using assms by (auto simp: runs_bytecode_def)
  have "read_vector m 8 (entries + 8) n = Inr bs"
    using r(3,5) by (simp add: read_vector_def vec_resize_def)
  moreover have "unat (scast (of_nat i :: 32 word) :: 64 word) = i"
  proof -
    have "sint (of_nat i :: 32 word) = int i"
      using r(7) by (subst sint_uint) (simp add: signed_take_bit_int_eq_self uint_nat unat_of_nat)
    then have "(scast (of_nat i :: 32 word) :: 64 word) = of_nat i" by (metis of_int_of_nat_eq of_int_sint)
    then show ?thesis using r(7) by (simp add: unat_of_nat)
  qed
  moreover have "i < length (addresses_of bs)" "addresses_of bs ! i = bytecode"
    using r(4,6,8) by (simp_all add: addresses_of_def chunks_def)
  ultimately show ?thesis using r(1,2) by (simp add: thread_local_bytecode_def Let_def)
qed

text \<open>
  Property C28. From 3.11 on, in free-threaded interpreters too, a frame that is at code unit \<open>q\<close> of the
  bytecode it runs is reported at the location that the code's location table describes for \<open>q\<close>: the
  address arithmetic, the copy of the table and its decoding compose.
\<close>


theorem location_of_instruction:
  assumes version: "versionIsAtLeast m 3 11"
    and code: "getWord m S_code a (o_firstlineno, 4) = Inr firstlineno"
      "getWord m S_code a (o_lnotab, 8) = Inr lnotab_addr"
      "getFieldRemoteAddress m S_code a (o_code_adaptive, 1) = Inr code_adaptive"
      "getBytesFromAddress m lnotab_addr = Inr (string_of_bytes (encode_table es))"
    and bytecode: "runs_bytecode m code_adaptive tlbc_index bytecode"
    and es: "valid_table es" "sum_list (map fst es) < 2 ^ 62"
    and q: "k < length es" "entry_start es k \<le> q" "q < entry_start es (Suc k)"
  shows "\<exists>info. getLocationInfo m a (bytecode + of_nat (2 * q)) (of_nat tlbc_index) uninit = Inr info \<and>
           describes (snd (es ! k)) (entry_line firstlineno es k) info"
proof -
  let ?info = "fold (\<lambda>e. entry_info (snd e)) (take (Suc k) es) (uninit\<lparr>lineno := firstlineno\<rparr>)"
  have "entry_start es (Suc k) \<le> sum_list (map fst es)"
    unfolding entry_start_def by (metis append_take_drop_id le_add1 map_append sum_list_append)
  then have q62: "q < 2 ^ 62" using q(3) es(2) by linarith
  have "parse_linetable (of_nat q) (encode_table es) firstlineno uninit =
      Inr (locate es q 0 (uninit\<lparr>lineno := firstlineno\<rparr>))"
    using es q62 by (intro parse_linetable_locate) simp_all
  moreover have "locate es q 0 (uninit\<lparr>lineno := firstlineno\<rparr>) = Some ?info"
    using q by (intro locate_Some) simp_all
  ultimately have parsed: "parse_linetable (code_unit_index (bytecode + of_nat (2 * q)) bytecode)
      (encode_table es) firstlineno uninit = Inr (Some ?info)"
    by (simp only: code_unit_index_of [OF q62])
  have "getLocationInfo m a (bytecode + of_nat (2 * q)) (of_nat tlbc_index) uninit = Inr ?info"
  proof (cases "versionIsAtLeast m 3 14 \<and> d_is_free_threaded m")
    case True
    then have "thread_local_bytecode m code_adaptive (of_nat tlbc_index) = Inr bytecode"
      using thread_local_bytecode_runs [OF bytecode] by blast
    with True version code parsed show ?thesis by (simp add: getLocationInfo_def Let_def del: of_nat_mult)
  next
    case False
    then have "bytecode = code_adaptive" using bytecode unfolding runs_bytecode_def by metis
    with version code parsed show ?thesis
      unfolding getLocationInfo_def Let_def if_not_P [OF False] by (simp del: of_nat_mult)
  qed
  with fold_describes [OF es(1) q(1)] show ?thesis by blast
qed

text \<open>A code object at 4096 whose bytecode starts at 4128 and whose location table is at 8192.\<close>

definition code_target :: manager where
  "code_target = segments_manager (3, 12)
     (zero_python_v
        \<lparr>py_code := \<lparr>code_size = 24, o_filename = 0, o_name = 0, o_lnotab = 8, o_firstlineno = 16, o_argcount = 0,
                     o_varnames = 0, o_code_adaptive = 32\<rparr>,
         py_bytes := \<lparr>bytes_size = 24, bytes_o_ob_size = 16, o_ob_sval = 24\<rparr>\<rparr>)
     [(4096, [0, 0, 0, 0, 0, 0, 0, 0,  0, 32, 0, 0, 0, 0, 0, 0,  7, 0, 0, 0, 0, 0, 0, 0]),
      (8192, [1, 0, 0, 0, 0, 0, 0, 0,  0, 0, 0, 0, 0, 0, 0, 0,  5, 0, 0, 0, 0, 0, 0, 0,
              209, 4, 9, 130, 18, 0])]"

theorem location_of_instruction_witness:
  "\<exists>info. getLocationInfo code_target 4096 4134 0 no_location = Inr info \<and>
     lineno info = 7 \<and> column info = 1 \<and> end_column info = 3"
proof -
  let ?es = "[(2, One_line 0 4 9), (3, Short 0 18)]"
  have table: "encode_table ?es = [209, 4, 9, 130, 18]" by (simp add: encode_table_def encode_entry_def)
  have "getBytesFromAddress code_target 8192 = Inr (string_of_bytes (encode_table ?es))"
    unfolding table
    by (simp add: getBytesFromAddress_def code_target_def read_buffer_def vec_resize_def eval_reads)
  moreover have "getWord code_target S_code 4096 (o_firstlineno, 4) = Inr (7 :: 32 word)"
    "getWord code_target S_code 4096 (o_lnotab, 8) = Inr (8192 :: addr)"
    "getFieldRemoteAddress code_target S_code 4096 (o_code_adaptive, 1) = Inr 4128"
    "versionIsAtLeast code_target 3 11" "runs_bytecode code_target 4128 0 4128"
    by (simp_all add: code_target_def runs_bytecode_def eval_reads)
  moreover have "valid_table ?es" by (simp add: valid_table_def)
  moreover have "entry_start ?es 1 \<le> 3" "3 < entry_start ?es (Suc 1)" by (simp_all add: entry_start_def)
  ultimately obtain info where "getLocationInfo code_target 4096 (4128 + of_nat (2 * 3)) (of_nat 0) no_location = Inr info"
    "describes (snd (?es ! 1)) (entry_line 7 ?es 1) info"
    using location_of_instruction [of code_target 4096 7 8192 4128 ?es 0 4128 1 3 no_location] by auto
  then show ?thesis by (intro exI [of _ info]) (simp add: entry_line_def)
qed

end
