(* ===== verification/Linked_Chains.thy ===== *)
theory Linked_Chains
  imports Prelude
begin

text \<open>
  Chains of linked structures in the memory of the target. \<open>linked nxt stop a xs\<close> says that following
  \<open>nxt\<close> from \<open>a\<close> visits exactly \<open>xs\<close> until \<open>stop\<close> holds. Such a list is unique and has no
  repetitions, which is how the readers of frames and threads, which follow pointers until the end,
  are known not to report anything twice; and a set closed under \<open>nxt\<close> has no such list at all.
\<close>

primrec linked :: "('a \<Rightarrow> 'a option) \<Rightarrow> ('a \<Rightarrow> bool) \<Rightarrow> 'a \<Rightarrow> 'a list \<Rightarrow> bool" where
  "linked nxt stop a [] \<longleftrightarrow> stop a"
| "linked nxt stop a (x # xs) \<longleftrightarrow>
     x = a \<and> \<not> stop a \<and> (case nxt a of None \<Rightarrow> False | Some b \<Rightarrow> linked nxt stop b xs)"

lemma linked_unique: "linked nxt stop a xs \<Longrightarrow> linked nxt stop a ys \<Longrightarrow> xs = ys"
proof (induction xs arbitrary: a ys)
  case Nil
  then show ?case by (cases ys) auto
next
  case (Cons x xs)
  then show ?case by (cases ys) (fastforce split: option.splits)+
qed

lemma linked_append: "linked nxt stop a (xs @ ys) \<Longrightarrow> \<exists>b. linked nxt stop b ys"
  by (induction xs arbitrary: a) (auto split: option.splits)

lemma linked_distinct: "linked nxt stop a xs \<Longrightarrow> distinct xs"
proof (induction xs arbitrary: a)
  case (Cons x xs)
  then obtain b where rest: "linked nxt stop b xs" and x: "x = a"
    by (auto split: option.splits)
  have "x \<notin> set xs"
  proof
    assume "x \<in> set xs"
    then obtain ys zs where split: "xs = ys @ x # zs" by (auto dest: split_list)
    with rest obtain c where "linked nxt stop c (x # zs)" using linked_append by metis
    moreover from this have "c = x" by simp
    ultimately have "linked nxt stop a (x # zs)" using x by simp
    from linked_unique [OF Cons.prems this] split show False by simp
  qed
  with rest Cons.IH show ?case by auto
qed simp

lemma linked_closed:
  assumes "\<forall>x \<in> A. \<not> stop x \<and> (\<exists>y \<in> A. nxt x = Some y)"
  shows "a \<in> A \<Longrightarrow> \<not> linked nxt stop a xs"
proof (induction xs arbitrary: a)
  case (Cons x xs)
  then obtain y where "nxt a = Some y" "y \<in> A" using assms by blast
  with Cons.IH show ?case by auto
qed (use assms in auto)

text \<open>The element after the \<open>i\<close>-th, and after the last.\<close>

lemma linked_next:
  "linked nxt stop a xs \<Longrightarrow> i < length xs \<Longrightarrow>
     \<exists>b. nxt (xs ! i) = Some b \<and> (if Suc i < length xs then b = xs ! Suc i else stop b)"
proof (induction xs arbitrary: a i)
  case (Cons x xs)
  then obtain b where b: "nxt x = Some b" "linked nxt stop b xs" by (auto split: option.splits)
  show ?case
  proof (cases i)
    case 0
    with b show ?thesis by (cases xs) auto
  next
    case (Suc j)
    with Cons.prems(2) have "j < length xs" by simp
    from Cons.IH [OF b(2) this] obtain c where "nxt (xs ! j) = Some c"
      "if Suc j < length xs then c = xs ! Suc j else stop c" by blast
    with Suc show ?thesis by (intro exI [of _ c]) (simp split: if_splits)
  qed
qed simp

lemma linked_first: "linked nxt stop a xs \<Longrightarrow> xs \<noteq> [] \<Longrightarrow> hd xs = a"
  by (cases xs) auto

end
