(* ===== verification/Py_Frame.thy ===== *)
theory Py_Frame
  imports Py_Code Linked_Chains
begin

text \<open>
  Python frames (\<open>FrameObject\<close> in \<open>pyframe.cpp\<close>): the chain of frames of a thread, read by a
  constructor that constructs the previous frame, the code each frame runs and its variables. The
  properties relate the frames read to the chain that is in memory, whatever its end is, and say what
  the variables of a frame are.
\<close>

section \<open>The model\<close>

record FrameObject =
  d_addr :: addr
  d_frame_no :: nat
  d_code :: "CodeObject option"
  d_arguments :: "string \<rightharpoonup> string"
  d_locals :: "string \<rightharpoonup> string"
  d_is_entry :: bool
  d_is_shim :: bool

text \<open>
  \<open>d_prev\<close> is a pointer to a frame or null: a frame with its previous frames is a list, the frame
  first. \<open>getIsShim\<close> compares the owner, a \<open>char\<close>, with \<open>FRAME_OWNED_BY_INTERPRETER\<close> and
  \<open>FRAME_OWNED_BY_CSTACK\<close>, which are 3 and 4 in 3.14; the latter is 3 before.
\<close>

abbreviation FRAME_OWNED_BY_CSTACK_v312 :: byte where "FRAME_OWNED_BY_CSTACK_v312 \<equiv> 3"
abbreviation FRAME_OWNED_BY_INTERPRETER :: byte where "FRAME_OWNED_BY_INTERPRETER \<equiv> 3"
abbreviation FRAME_OWNED_BY_CSTACK :: byte where "FRAME_OWNED_BY_CSTACK \<equiv> 4"

definition getIsShim :: "manager \<Rightarrow> addr \<Rightarrow> bool result" where
  "getIsShim m addr =
     (if versionIsAtLeast m 3 12 then
        rbind (getWord m S_frame addr (o_owner, 1)) (\<lambda>owner.
          if versionIsAtLeast m 3 14
          then Inr (owner = FRAME_OWNED_BY_CSTACK \<or> owner = FRAME_OWNED_BY_INTERPRETER)
          else Inr (owner = FRAME_OWNED_BY_CSTACK_v312))
      else Inr False)"

text \<open>
  From 3.14 on, references to objects carry flags in their two low bits. The index of the thread-local
  bytecode lies behind the instruction pointer and one reference.
\<close>

definition strip_flags :: "addr \<Rightarrow> addr" where
  "strip_flags a = a AND NOT 3"

definition last_instruction_of :: "manager \<Rightarrow> addr \<Rightarrow> addr result" where
  "last_instruction_of m addr =
     (if versionIsAtLeast m 3 11 then getWord m S_frame addr (o_prev_instr, 8)
      else rbind (getWord m S_frame addr (o_lasti, 4)) (\<lambda>lasti :: 32 word. Inr (scast lasti)))"

definition tlbc_index_of :: "manager \<Rightarrow> addr \<Rightarrow> 32 word result" where
  "tlbc_index_of m addr =
     (if versionIsAtLeast m 3 14 \<and> d_is_free_threaded m then
        rbind (getFieldRemoteAddress m S_frame addr (o_prev_instr, 8)) (\<lambda>prev_instr_addr.
          copyObjectFromProcess m (prev_instr_addr + 8 + 8) 4)
      else Inr (- 1))"

definition getCode :: "manager \<Rightarrow> addr \<Rightarrow> LocationInfo \<Rightarrow> CodeObject option result" where
  "getCode m addr uninit =
     rbind (getWord m S_frame addr (o_code, 8)) (\<lambda>code_field.
       let py_code_addr = (if versionIsAtLeast m 3 14 then strip_flags code_field else code_field) in
       if py_code_addr = 0 then Inr None
       else
         rbind (last_instruction_of m addr) (\<lambda>last_instruction.
         rbind (tlbc_index_of m addr) (\<lambda>tlbc_index.
         rbind (try_catch (new_code_object m py_code_addr last_instruction tlbc_index uninit)
                  is_remote_copy_error (\<lambda>_. Inr unknown_code)) (\<lambda>code. Inr (Some code)))))"

text \<open>\<open>isEntry\<close> of a frame with its number and its previous frames.\<close>

definition isEntry :: "manager \<Rightarrow> addr \<Rightarrow> nat \<Rightarrow> bool \<Rightarrow> FrameObject list \<Rightarrow> bool result" where
  "isEntry m addr frame_no shim prev =
     (if versionIsAtLeast m 3 12 then
        Inr (prev \<noteq> [] \<and> d_is_shim (hd prev) \<or> frame_no = 0 \<and> shim)
      else if versionIsAtLeast m 3 11 then
        rbind (getWord m S_frame addr (o_is_entry, 1)) (\<lambda>b :: byte. Inr (b \<noteq> 0))
      else Inr True)"

text \<open>
  What the constructor reads before it constructs the previous frame: the shim flag, the code of a
  frame that is not a shim, and the address of the previous frame. \<open>uninit\<close> gives, for each frame,
  the content of the uninitialised location.
\<close>

definition frame_head ::
  "manager \<Rightarrow> (addr \<Rightarrow> LocationInfo) \<Rightarrow> addr \<Rightarrow> (bool \<times> CodeObject option \<times> addr) result" where
  "frame_head m uninit addr =
     rbind (getIsShim m addr) (\<lambda>shim.
     rbind (if shim then Inr None else getCode m addr (uninit addr)) (\<lambda>code.
     rbind (getWord m S_frame addr (o_back, 8)) (\<lambda>prev_addr.
       Inr (shim, code, prev_addr))))"

text \<open>
  The constructor. It recurses on the previous frame, so the nesting of constructors is bounded by the
  stack: \<open>depth\<close> is how many more of them fit.
\<close>

fun new_frame ::
  "manager \<Rightarrow> (addr \<Rightarrow> LocationInfo) \<Rightarrow> nat \<Rightarrow> addr \<Rightarrow> nat \<Rightarrow> FrameObject list result" where
  "new_frame m uninit 0 addr frame_no = Inl Stack_Overflow"
| "new_frame m uninit (Suc depth) addr frame_no =
     rbind (frame_head m uninit addr) (\<lambda>(shim, code, prev_addr).
     let next_frame_no = (if shim then frame_no else frame_no + 1) in
     rbind (if prev_addr \<noteq> 0
            then try_catch (new_frame m uninit depth prev_addr next_frame_no) is_remote_copy_error
                   (\<lambda>_. Inr [])
            else Inr []) (\<lambda>prev.
     rbind (isEntry m addr frame_no shim prev) (\<lambda>is_entry.
       Inr (\<lparr>d_addr = addr, d_frame_no = frame_no, d_code = code, d_arguments = Map.empty,
             d_locals = Map.empty, d_is_entry = is_entry, d_is_shim = shim\<rparr> # prev))))"

section \<open>Local variables\<close>

text \<open>The lambda \<open>addLocal\<close>; \<open>insert\<close> keeps a value that is already there.\<close>

definition MAX_LOCAL_STR_SIZE :: int where
  "MAX_LOCAL_STR_SIZE = 80"

definition addLocal ::
  "manager \<Rightarrow> CodeObject \<Rightarrow> addr list \<Rightarrow> nat \<Rightarrow> (string \<rightharpoonup> string) \<Rightarrow> (string \<rightharpoonup> string) result" where
  "addLocal m code tuple_buffer index vars =
     (let slot = tuple_buffer ! index in
      if slot = 0 then Inr vars
      else
        let addr = (if versionIsAtLeast m 3 14 then strip_flags slot else slot);
            key = d_varnames code ! index
        in rbind (object_toString m addr MAX_LOCAL_STR_SIZE) (\<lambda>text.
             Inr (case vars key of None \<Rightarrow> vars(key \<mapsto> text) | Some _ \<Rightarrow> vars)))"

fun resolve_loop ::
  "manager \<Rightarrow> CodeObject \<Rightarrow> addr list \<Rightarrow> nat \<Rightarrow> nat list \<Rightarrow>
   (string \<rightharpoonup> string) \<times> (string \<rightharpoonup> string) \<Rightarrow> ((string \<rightharpoonup> string) \<times> (string \<rightharpoonup> string)) result" where
  "resolve_loop m code tuple_buffer n_arguments [] vars = Inr vars"
| "resolve_loop m code tuple_buffer n_arguments (i # is) (args, locs) =
     (if i < n_arguments then
        rbind (addLocal m code tuple_buffer i args) (\<lambda>args'.
          resolve_loop m code tuple_buffer n_arguments is (args', locs))
      else
        rbind (addLocal m code tuple_buffer i locs) (\<lambda>locs'.
          resolve_loop m code tuple_buffer n_arguments is (args, locs')))"

text \<open>The number of arguments is an \<open>int\<close> that becomes a \<open>size_t\<close>.\<close>

definition resolveLocalVariables :: "manager \<Rightarrow> FrameObject \<Rightarrow> FrameObject result" where
  "resolveLocalVariables m f =
     (case d_code f of
        None \<Rightarrow> Inr f
      | Some code \<Rightarrow>
          let n_arguments = (scast (d_narguments code) :: size_t);
              n_locals = (of_nat (length (d_varnames code)) :: size_t)
          in rbind (getFieldRemoteAddress m S_frame (d_addr f) (o_localsplus, 8)) (\<lambda>locals_addr.
             if n_locals < n_arguments
             then Inl (RuntimeError ''Found more arguments than local variables'')
             else
               rbind (read_vector m 8 locals_addr n_locals) (\<lambda>bs.
               rbind (resolve_loop m code (addresses_of bs) (unat n_arguments)
                        [0..<length (addresses_of bs)] (d_arguments f, d_locals f)) (\<lambda>(args, locs).
                 Inr (f\<lparr>d_arguments := args, d_locals := locs\<rparr>)))))"

section \<open>The chain of frames\<close>

text \<open>
  \<open>frame_path m uninit a as\<close>: following the previous frames from \<open>a\<close>, \<open>as\<close> are the frames up to
  the end of the chain, which is a null pointer or a frame that cannot be read.
\<close>

definition chain_ends :: "manager \<Rightarrow> (addr \<Rightarrow> LocationInfo) \<Rightarrow> addr \<Rightarrow> bool" where
  "chain_ends m uninit a \<longleftrightarrow>
     a = 0 \<or> (case frame_head m uninit a of Inl e \<Rightarrow> is_remote_copy_error e | Inr _ \<Rightarrow> False)"

definition prev_frame :: "manager \<Rightarrow> (addr \<Rightarrow> LocationInfo) \<Rightarrow> addr \<rightharpoonup> addr" where
  "prev_frame m uninit a =
     (case frame_head m uninit a of Inl _ \<Rightarrow> None | Inr (_, _, prev_addr) \<Rightarrow> Some prev_addr)"

definition frame_path :: "manager \<Rightarrow> (addr \<Rightarrow> LocationInfo) \<Rightarrow> addr \<Rightarrow> addr list \<Rightarrow> bool" where
  "frame_path m uninit a as \<longleftrightarrow> linked (prev_frame m uninit) (chain_ends m uninit) a as"

lemma frame_path_simps [simp]:
  "frame_path m uninit a [] \<longleftrightarrow> chain_ends m uninit a"
  "frame_path m uninit a (x # xs) \<longleftrightarrow>
     x = a \<and> a \<noteq> 0 \<and>
     (case frame_head m uninit a of
        Inl _ \<Rightarrow> False
      | Inr (_, _, prev_addr) \<Rightarrow> frame_path m uninit prev_addr xs)"
  by (auto simp: frame_path_def prev_frame_def chain_ends_def split: sum.splits)

lemma frame_path_distinct: "frame_path m uninit a as \<Longrightarrow> distinct as"
  unfolding frame_path_def by (rule linked_distinct)

text \<open>Reading the entry flag raises no memory error after the frame has been read.\<close>

lemma frame_head_copied:
  assumes "frame_head m uninit a = Inr r" shows "\<exists>buf. copyFromRemote m S_frame a = Inr buf"
  using assms getWord_copied [of m S_frame a "(o_back, 8)"] by (auto simp: frame_head_def result_simps)

lemma isEntry_after_head:
  "frame_head m uninit a = Inr r \<Longrightarrow> isEntry m a frame_no shim prev = Inl e \<Longrightarrow> e = Abort"
  by (auto simp: isEntry_def result_simps dest: frame_head_copied getWord_after_copy split: if_splits)

text \<open>A memory error of the constructor is one of its own frame.\<close>

lemma new_frame_memory_error:
  assumes "new_frame m uninit depth a k = Inl e" and e: "is_remote_copy_error e"
  shows "frame_head m uninit a = Inl e"
proof (cases depth)
  case 0
  with assms show ?thesis by auto
next
  case (Suc d)
  show ?thesis
  proof (cases "frame_head m uninit a")
    case (Inl e')
    with Suc assms show ?thesis by simp
  next
    case (Inr r)
    obtain shim code prev_addr where r: "r = (shim, code, prev_addr)" by (cases r)
    let ?k = "if shim then k else k + 1"
    have "(if prev_addr \<noteq> 0
        then try_catch (new_frame m uninit d prev_addr ?k) is_remote_copy_error (\<lambda>_. Inr [])
        else Inr []) \<noteq> Inl e"
      using e by (cases "new_frame m uninit d prev_addr ?k") auto
    with Suc assms Inr r obtain prev where "isEntry m a k shim prev = Inl e"
      by (auto simp only: new_frame.simps Let_def rbind_simps rbind_eq_Inl prod.case sum.distinct)
    then have "e = Abort" by (rule isEntry_after_head [OF Inr])
    with e show ?thesis by simp
  qed
qed

text \<open>One constructor that succeeds.\<close>

lemma new_frame_InrE:
  assumes "new_frame m uninit depth a k = Inr fs"
  obtains d shim code prev_addr prev is_entry where
    "depth = Suc d" "frame_head m uninit a = Inr (shim, code, prev_addr)"
    "prev_addr \<noteq> 0 \<and> new_frame m uninit d prev_addr (if shim then k else k + 1) = Inr prev \<or>
     chain_ends m uninit prev_addr \<and> prev = []"
    "isEntry m a k shim prev = Inr is_entry"
    "fs = \<lparr>d_addr = a, d_frame_no = k, d_code = code, d_arguments = Map.empty,
           d_locals = Map.empty, d_is_entry = is_entry, d_is_shim = shim\<rparr> # prev"
proof (cases depth)
  case (Suc d)
  then obtain shim code prev_addr prev is_entry where head: "frame_head m uninit a = Inr (shim, code, prev_addr)"
    and prev: "(if prev_addr \<noteq> 0
         then try_catch (new_frame m uninit d prev_addr (if shim then k else k + 1)) is_remote_copy_error
                (\<lambda>_. Inr [])
         else Inr []) = Inr prev"
    and rest: "isEntry m a k shim prev = Inr is_entry"
    "fs = \<lparr>d_addr = a, d_frame_no = k, d_code = code, d_arguments = Map.empty,
           d_locals = Map.empty, d_is_entry = is_entry, d_is_shim = shim\<rparr> # prev"
    using assms by (auto simp: result_simps Let_def)
  have "prev_addr \<noteq> 0 \<and> new_frame m uninit d prev_addr (if shim then k else k + 1) = Inr prev \<or>
     chain_ends m uninit prev_addr \<and> prev = []"
  proof (cases "prev_addr = 0")
    case False
    with prev show ?thesis
      by (auto simp: try_catch_eq_Inr chain_ends_def dest: new_frame_memory_error)
  qed (use prev in \<open>simp add: chain_ends_def\<close>)
  with Suc head rest that show thesis by blast
qed (use assms in simp)

lemma new_frame_path:
  "new_frame m uninit depth a k = Inr fs \<Longrightarrow> a \<noteq> 0 \<Longrightarrow> frame_path m uninit a (map d_addr fs)"
proof (induction depth arbitrary: a k fs)
  case (Suc depth)
  from Suc.prems(1) show ?case
    by (rule new_frame_InrE) (use Suc in auto)
qed simp

lemma new_frame_depth: "new_frame m uninit depth a k = Inr fs \<Longrightarrow> length fs \<le> depth"
proof (induction depth arbitrary: a k fs)
  case (Suc depth)
  from Suc.prems(1) show ?case
    by (rule new_frame_InrE) (use Suc.IH in auto)
qed simp

text \<open>Frames are numbered without the shims, and a frame is an entry frame as the version says.\<close>

lemma new_frame_numbers:
  "new_frame m uninit depth a k = Inr fs \<Longrightarrow> i < length fs \<Longrightarrow>
     d_frame_no (fs ! i) = k + length (filter (\<lambda>f. \<not> d_is_shim f) (take i fs))"
proof (induction depth arbitrary: a k fs i)
  case (Suc depth)
  from Suc.prems(1) show ?case
    by (rule new_frame_InrE) (use Suc in \<open>auto simp: nth_Cons split: nat.splits\<close>)
qed simp

lemma new_frame_entries:
  "new_frame m uninit depth a k = Inr fs \<Longrightarrow> i < length fs \<Longrightarrow>
     isEntry m (d_addr (fs ! i)) (d_frame_no (fs ! i)) (d_is_shim (fs ! i)) (drop (Suc i) fs) =
       Inr (d_is_entry (fs ! i))"
proof (induction depth arbitrary: a k fs i)
  case (Suc depth)
  from Suc.prems(1) show ?case
    by (rule new_frame_InrE) (use Suc in \<open>auto simp: nth_Cons split: nat.splits\<close>)
qed simp

text \<open>With room for one constructor more than there are frames, a chain that ends is read.\<close>

lemma new_frame_of_path:
  assumes "frame_path m uninit a as" "a \<noteq> 0" "length as < depth" "as \<noteq> []"
    and "\<forall>x \<in> set as. \<forall>k shim prev. succeeds (isEntry m x k shim prev)"
  shows "\<exists>fs. new_frame m uninit depth a k = Inr fs \<and> map d_addr fs = as"
  using assms
proof (induction as arbitrary: a k depth)
  case (Cons x xs)
  then obtain shim code prev_addr where head: "frame_head m uninit a = Inr (shim, code, prev_addr)"
    and path: "frame_path m uninit prev_addr xs" and x: "x = a"
    by (auto split: sum.splits)
  obtain d where d: "depth = Suc d" "length xs < d" using Cons.prems(3) by (cases depth) auto
  let ?k = "if shim then k else k + 1"
  have "\<exists>prev. (if prev_addr \<noteq> 0
      then try_catch (new_frame m uninit d prev_addr ?k) is_remote_copy_error (\<lambda>_. Inr [])
      else Inr []) = Inr prev \<and> map d_addr prev = xs"
  proof (cases xs)
    case Nil
    obtain d' where "d = Suc d'" using d(2) by (cases d) auto
    with path Nil show ?thesis by (auto simp: chain_ends_def split: sum.splits)
  next
    case (Cons y ys)
    with path have "prev_addr \<noteq> 0" by auto
    moreover have "\<exists>prev. new_frame m uninit d prev_addr ?k = Inr prev \<and> map d_addr prev = xs"
      using Cons.IH [OF path \<open>prev_addr \<noteq> 0\<close> d(2)] Cons Cons.prems(5) by simp
    ultimately show ?thesis by auto
  qed
  then obtain prev where prev: "(if prev_addr \<noteq> 0
      then try_catch (new_frame m uninit d prev_addr ?k) is_remote_copy_error (\<lambda>_. Inr [])
      else Inr []) = Inr prev" "map d_addr prev = xs" by blast
  moreover obtain is_entry where "isEntry m a k shim prev = Inr is_entry"
    using Cons.prems(5) x by (meson list.set_intros(1))
  ultimately show ?case using head x unfolding d(1) new_frame.simps Let_def
    by (simp only: rbind_simps prod.case) simp
qed simp

text \<open>A chain that never ends is never read: only the stack bounds the recursion.\<close>

lemma new_frame_endless:
  assumes "\<forall>x \<in> A. x \<noteq> 0 \<and> (\<exists>shim code prev_addr. frame_head m uninit x = Inr (shim, code, prev_addr) \<and> prev_addr \<in> A)"
  shows "a \<in> A \<Longrightarrow> new_frame m uninit depth a k = Inl Stack_Overflow"
proof (induction depth arbitrary: a k)
  case (Suc depth)
  then obtain shim code prev_addr where head: "frame_head m uninit a = Inr (shim, code, prev_addr)"
    and "prev_addr \<in> A" using assms by blast
  moreover from this have "prev_addr \<noteq> 0" using assms by blast
  ultimately show ?case using Suc.IH by simp
qed simp


text \<open>
  Property C6. The frames that are read are the chain in memory up to its end: consecutive frames are
  linked by their previous pointers, no frame occurs twice, there are at most as many as the stack has
  room for, and the chain ends at a null pointer or at a frame that cannot be read. Frames are numbered
  without the shims, and from 3.12 on the entry frames are those below which lies a shim, and a shim on
  top.
\<close>

theorem frames_read_are_the_chain:
  assumes "new_frame m uninit depth a 0 = Inr fs" and "a \<noteq> 0"
  shows "frame_path m uninit a (map d_addr fs) \<and> distinct (map d_addr fs) \<and> length fs \<le> depth \<and>
    (\<forall>i < length fs. d_frame_no (fs ! i) = length (filter (\<lambda>f. \<not> d_is_shim f) (take i fs)) \<and>
       (versionIsAtLeast m 3 12 \<longrightarrow>
          d_is_entry (fs ! i) = (Suc i < length fs \<and> d_is_shim (fs ! Suc i) \<or>
                                 d_frame_no (fs ! i) = 0 \<and> d_is_shim (fs ! i))))"
proof -
  have "frame_path m uninit a (map d_addr fs)" using assms by (rule new_frame_path)
  then have "frame_path m uninit a (map d_addr fs) \<and> distinct (map d_addr fs) \<and> length fs \<le> depth"
    using frame_path_distinct new_frame_depth [OF assms(1)] by blast
  moreover have "d_is_entry (fs ! i) = (Suc i < length fs \<and> d_is_shim (fs ! Suc i) \<or>
      d_frame_no (fs ! i) = 0 \<and> d_is_shim (fs ! i))"
    if "i < length fs" "versionIsAtLeast m 3 12" for i
    using new_frame_entries [OF assms(1) that(1)] that by (auto simp: isEntry_def hd_drop_conv_nth)
  ultimately show ?thesis using new_frame_numbers [OF assms(1)] by simp
qed

text \<open>
  Property C24. A chain of frames that ends, at a null pointer or at an unreadable frame, is read
  completely when the stack has room for one constructor more than the chain has frames.
\<close>

theorem ending_chain_is_read:
  assumes "frame_path m uninit a as" and "a \<noteq> 0" "as \<noteq> []" and "length as < depth"
    and "\<forall>x \<in> set as. \<forall>k shim prev. succeeds (isEntry m x k shim prev)"
  shows "\<exists>fs. new_frame m uninit depth a k = Inr fs \<and> map d_addr fs = as"
  using assms by (intro new_frame_of_path)

text \<open>
  A corrupted chain that never ends overflows the stack whatever its size: the exception
  handler of the constructor does not help, since every frame of the chain can be read.
\<close>

theorem endless_chain_overflows:
  assumes "\<forall>x \<in> A. x \<noteq> 0 \<and>
      (\<exists>shim code prev_addr. frame_head m uninit x = Inr (shim, code, prev_addr) \<and> prev_addr \<in> A)"
    and "a \<in> A"
  shows "new_frame m uninit depth a k = Inl Stack_Overflow"
  using assms by (rule new_frame_endless)

text \<open>Uninitialised locations, for the examples.\<close>

definition unset_locations :: "addr \<Rightarrow> LocationInfo" where
  "unset_locations a = \<lparr>lineno = 0, end_lineno = 0, column = 0, end_column = 0\<rparr>"

text \<open>
  Two frames of a 3.12 target: at 4096 a frame whose code cannot be read and at 4128 a shim. The
  previous frame of the shim is a parameter.
\<close>

definition frame_target :: "byte \<Rightarrow> manager" where
  "frame_target b = segments_manager (3, 12)
     (zero_python_v
        \<lparr>py_frame := \<lparr>frame_size = 32, o_back = 0, o_code = 8, o_lasti = 0, o_prev_instr = 16,
                      o_localsplus = 32, o_is_entry = 0, o_owner = 24\<rparr>\<rparr>)
     [(4096, [32, 16, 0, 0, 0, 0, 0, 0,  1, 0, 0, 0, 0, 0, 0, 0,  0, 0, 0, 0, 0, 0, 0, 0,  0, 0, 0, 0, 0, 0, 0, 0]),
      (4128, [0, b, 0, 0, 0, 0, 0, 0,  0, 0, 0, 0, 0, 0, 0, 0,  0, 0, 0, 0, 0, 0, 0, 0,  3, 0, 0, 0, 0, 0, 0, 0])]"

lemma frame_target_heads:
  "frame_head (frame_target b) uninit 4096 = Inr (False, Some unknown_code, 4128)"
  "frame_head (frame_target 16) uninit 4128 = Inr (True, None, 4096)"
  "frame_head (frame_target 1) uninit 4128 = Inr (True, None, 256)"
  "frame_head (frame_target 1) uninit 256 = Inl InvalidRemoteAddress"
  "versionIsAtLeast (frame_target b) 3 12"
  by (simp_all add: frame_head_def getIsShim_def getCode_def last_instruction_of_def tlbc_index_of_def
      new_code_object_def frame_target_def eval_reads)

lemma frame_target_path: "frame_path (frame_target 1) uninit 4096 [4096, 4128]"
  by (simp add: frame_target_heads chain_ends_def)

lemma frame_target_frames:
  "new_frame (frame_target 1) uninit 4 4096 0 =
     Inr [\<lparr>d_addr = 4096, d_frame_no = 0, d_code = Some unknown_code, d_arguments = Map.empty,
           d_locals = Map.empty, d_is_entry = True, d_is_shim = False\<rparr>,
          \<lparr>d_addr = 4128, d_frame_no = 1, d_code = None, d_arguments = Map.empty,
           d_locals = Map.empty, d_is_entry = False, d_is_shim = True\<rparr>]"
proof -
  have four: "(4 :: nat) = Suc (Suc (Suc (Suc 0)))" by simp
  show ?thesis unfolding four by (simp add: frame_target_heads isEntry_def)
qed

theorem frames_read_are_the_chain_witness:
  "\<exists>fs. new_frame (frame_target 1) unset_locations 4 4096 0 = Inr fs \<and> distinct (map d_addr fs) \<and> length fs = 2"
  using frames_read_are_the_chain [OF frame_target_frames] frame_target_frames by simp

theorem ending_chain_is_read_witness:
  "\<exists>fs. new_frame (frame_target 1) unset_locations 3 4096 5 = Inr fs \<and> map d_addr fs = [4096, 4128]"
proof (rule ending_chain_is_read [OF frame_target_path])
  show "\<forall>x \<in> set [4096, 4128]. \<forall>k shim prev. succeeds (isEntry (frame_target 1) x k shim prev)"
    by (simp add: isEntry_def frame_target_heads)
qed simp_all

theorem endless_chain_overflows_witness:
  "new_frame (frame_target 16) unset_locations 1000 4096 0 = Inl Stack_Overflow"
proof (rule endless_chain_overflows [of "{4096, 4128}"])
  show "\<forall>x \<in> {4096, 4128}. x \<noteq> 0 \<and> (\<exists>shim code prev_addr.
      frame_head (frame_target 16) unset_locations x = Inr (shim, code, prev_addr) \<and> prev_addr \<in> {4096, 4128})"
    by (auto simp: frame_target_heads)
qed simp


section \<open>What the variables of a frame are\<close>

text \<open>The variable in a slot of a frame: its name with its text, if the slot is not empty.\<close>

definition slot_text :: "manager \<Rightarrow> addr \<Rightarrow> string result" where
  "slot_text m slot =
     object_toString m (if versionIsAtLeast m 3 14 then strip_flags slot else slot) MAX_LOCAL_STR_SIZE"

definition slot_binding :: "manager \<Rightarrow> CodeObject \<Rightarrow> addr list \<Rightarrow> nat \<Rightarrow> (string \<times> string) list" where
  "slot_binding m code tuple_buffer i =
     (case slot_text m (tuple_buffer ! i) of
        Inr text \<Rightarrow> if tuple_buffer ! i = 0 then [] else [(d_varnames code ! i, text)]
      | Inl _ \<Rightarrow> [])"

definition bindings_of :: "manager \<Rightarrow> CodeObject \<Rightarrow> addr list \<Rightarrow> nat list \<Rightarrow> string \<rightharpoonup> string" where
  "bindings_of m code tuple_buffer is = map_of (concat (map (slot_binding m code tuple_buffer) is))"

lemma addLocal_Inr:
  assumes "addLocal m code tuple_buffer i vars = Inr vars'"
  shows "vars' = map_of (slot_binding m code tuple_buffer i) ++ vars"
  using assms
  by (auto simp: addLocal_def slot_binding_def slot_text_def Let_def result_simps map_add_def fun_eq_iff
      split: if_splits option.splits sum.splits)

lemma bindings_of_Cons:
  "bindings_of m code tuple_buffer (i # is) =
     bindings_of m code tuple_buffer is ++ map_of (slot_binding m code tuple_buffer i)"
  by (simp add: bindings_of_def)

lemma resolve_loop_Inr:
  "resolve_loop m code tuple_buffer n is (args, locs) = Inr (args', locs') \<Longrightarrow>
     args' = bindings_of m code tuple_buffer (filter (\<lambda>i. i < n) is) ++ args \<and>
     locs' = bindings_of m code tuple_buffer (filter (\<lambda>i. \<not> i < n) is) ++ locs"
proof (induction "is" arbitrary: args locs)
  case Nil
  then show ?case by (simp add: bindings_of_def)
next
  case (Cons i "is")
  show ?case
  proof (cases "i < n")
    case True
    with Cons.prems obtain args1 where add: "addLocal m code tuple_buffer i args = Inr args1"
      and "resolve_loop m code tuple_buffer n is (args1, locs) = Inr (args', locs')"
      by (auto simp: result_simps)
    from Cons.IH [OF this(2)] addLocal_Inr [OF add] True show ?thesis by (simp add: bindings_of_Cons)
  next
    case False
    with Cons.prems obtain locs1 where add: "addLocal m code tuple_buffer i locs = Inr locs1"
      and "resolve_loop m code tuple_buffer n is (args, locs1) = Inr (args', locs')"
      by (auto simp: result_simps)
    from Cons.IH [OF this(2)] addLocal_Inr [OF add] False show ?thesis by (simp add: bindings_of_Cons)
  qed
qed

lemma filter_upt_split:
  assumes "n \<le> k"
  shows "filter (\<lambda>i. i < n) [0..<k] = [0..<n]" and "filter (\<lambda>i. \<not> i < n) [0..<k] = [n..<k]"
proof -
  have "[0..<k] = [0..<n] @ [n..<k]" using assms by (metis le_add_diff_inverse upt_add_eq_append zero_le)
  then show "filter (\<lambda>i. i < n) [0..<k] = [0..<n]" "filter (\<lambda>i. \<not> i < n) [0..<k] = [n..<k]"
    by (simp_all add: filter_id_conv)
qed

context remote_memory
begin

lemma read_vector_length:
  assumes m: "d_manager m = copy" and bs: "read_vector m 8 a n = Inr bs"
  shows "length (addresses_of bs) = unat n"
proof -
  from bs m have n: "unat n * 8 < 2 ^ 63" and "copy a (n * 8) = Inr bs"
    by (auto simp: read_vector_def result_simps)
  then have "length bs = unat (n * 8)" by (intro copy_length)
  also have "\<dots> = unat n * 8" using n by (simp add: unat_word_ariths)
  finally show ?thesis by (simp add: addresses_of_def chunks_def)
qed

end


text \<open>
  Property C25. The variables that are reported are the frame's slots: the first slots are the
  arguments, the others the local variables, each under the name the code gives to its slot and with
  the text of the object it refers to; empty slots are left out, and of two slots with the same name
  the first counts.
\<close>

theorem variables_are_the_slots:
  assumes f: "resolveLocalVariables m f = Inr f'"
    and code: "d_code f = Some code" and fresh: "d_arguments f = Map.empty" "d_locals f = Map.empty"
    and nargs: "0 \<le> sint (d_narguments code)" and varnames: "length (d_varnames code) < 2 ^ 60"
    and copy: "remote_memory (d_manager m)"
  shows "\<exists>locals_addr bs. let n = nat (sint (d_narguments code)); slots = addresses_of bs in
      getFieldRemoteAddress m S_frame (d_addr f) (o_localsplus, 8) = Inr locals_addr \<and>
      read_vector m 8 locals_addr (of_nat (length (d_varnames code))) = Inr bs \<and>
      length slots = length (d_varnames code) \<and> n \<le> length slots \<and>
      f' = f\<lparr>d_arguments := bindings_of m code slots [0..<n],
             d_locals := bindings_of m code slots [n..<length slots]\<rparr>"
proof -
  let ?n = "nat (sint (d_narguments code))"
  have n: "unat (scast (d_narguments code) :: size_t) = ?n" using nargs by (rule unat_scast_nonneg)
  have k: "unat (of_nat (length (d_varnames code)) :: size_t) = length (d_varnames code)"
    using varnames by (intro unat_of_nat_size) simp
  note f = f [unfolded resolveLocalVariables_def Let_def code option.case n]
  from f obtain locals_addr where
    addr: "getFieldRemoteAddress m S_frame (d_addr f) (o_localsplus, 8) = Inr locals_addr"
    unfolding rbind_eq_Inr by blast
  note f = f [unfolded addr rbind_simps]
  from f have le: "\<not> (of_nat (length (d_varnames code)) :: size_t) < scast (d_narguments code)"
    by (rule contrapos_pn) (simp only: if_True sum.distinct not_False_eq_True)
  note f = f [unfolded if_not_P [OF le]]
  from f obtain bs where
    bs: "read_vector m 8 locals_addr (of_nat (length (d_varnames code))) = Inr bs"
    unfolding rbind_eq_Inr by blast
  note f = f [unfolded bs rbind_simps]
  from f obtain args locs where
    loop: "resolve_loop m code (addresses_of bs) ?n [0..<length (addresses_of bs)]
          (d_arguments f, d_locals f) = Inr (args, locs)"
    and f': "f' = f\<lparr>d_arguments := args, d_locals := locs\<rparr>"
    unfolding rbind_eq_Inr by (auto simp only: prod.case sum.inject split: prod.splits)
  have len: "length (addresses_of bs) = length (d_varnames code)"
    using remote_memory.read_vector_length [OF copy refl bs] k by simp
  have "?n \<le> length (addresses_of bs)" using le by (simp add: word_less_unat n k len)
  with addr bs len f' resolve_loop_Inr [OF loop] fresh show ?thesis
    by (auto simp: Let_def filter_upt_split)
qed


text \<open>A frame at 4096 with an empty slot \<open>a\<close> and a slot \<open>b\<close> that refers to no object.\<close>

definition variables_target :: manager where
  "variables_target = segments_manager (3, 12)
     (zero_python_v
        \<lparr>py_frame := \<lparr>frame_size = 32, o_back = 0, o_code = 8, o_lasti = 0, o_prev_instr = 16,
                      o_localsplus = 32, o_is_entry = 0, o_owner = 24\<rparr>,
         py_object := \<lparr>object_size = 16, o_ob_type = 8\<rparr>\<rparr>)
     [(4128, [0, 0, 0, 0, 0, 0, 0, 0,  1, 0, 0, 0, 0, 0, 0, 0])]"

definition variables_frame :: FrameObject where
  "variables_frame =
     \<lparr>d_addr = 4096, d_frame_no = 0,
      d_code = Some (unknown_code\<lparr>d_narguments := 1, d_varnames := [''a'', ''b'']\<rparr>),
      d_arguments = Map.empty, d_locals = Map.empty, d_is_entry = False, d_is_shim = False\<rparr>"

lemma variables_target_object:
  "object_toString variables_target 1 MAX_LOCAL_STR_SIZE = Inr ''<invalid object at 0x1>''"
  by (subst object_toString.simps)
    (simp add: new_object_def variables_target_def toConcreteObject_def objectType_def subclass_mask_def
      generic_toString_def limitOutput_def to_hex.simps MAX_LOCAL_STR_SIZE_def eval_reads)

lemma variables_target_resolved:
  "resolveLocalVariables variables_target variables_frame =
     Inr (variables_frame\<lparr>d_arguments := Map.empty, d_locals := [''b'' \<mapsto> ''<invalid object at 0x1>'']\<rparr>)"
  using variables_target_object
  by (simp add: resolveLocalVariables_def variables_frame_def variables_target_def unknown_code_def
      read_vector_def vec_resize_def addresses_of_def chunks_def addLocal_def eval_reads upt_rec)

theorem variables_are_the_slots_witness:
  "\<exists>locals_addr bs. read_vector variables_target 8 locals_addr 2 = Inr bs \<and>
     bindings_of variables_target
       (unknown_code\<lparr>d_narguments := 1, d_varnames := [''a'', ''b'']\<rparr>) (addresses_of bs)
       [1..<length (addresses_of bs)] = [''b'' \<mapsto> ''<invalid object at 0x1>'']"
proof -
  have "remote_memory (d_manager variables_target)"
    by (simp add: variables_target_def segments.remote_memory_axioms)
  then show ?thesis
    using variables_are_the_slots [OF variables_target_resolved] by (fastforce simp: variables_frame_def Let_def)
qed

end
