(* ===== verification/Py_Thread.thy ===== *)
theory Py_Thread
  imports Py_Frame
begin

text \<open>
  Python threads (\<open>PyThread\<close> in \<open>pythread.cpp\<close>): the chain of thread states of an interpreter,
  with the frames, the operating-system tid, the stack anchor and the GIL and GC status of each.
\<close>

section \<open>The tid of a thread before 3.11\<close>

text \<open>
  The tid is in the \<open>struct pthread\<close> of the thread, whose address is the pthread id, at an offset that
  is found once by looking for the pid in the structures of all threads (\<open>findPthreadTidOffset\<close>).
  First the offsets of the two layouts of glibc are tried.
\<close>

definition glibc_pthread_offset_candidates :: "64 word list" where
  "glibc_pthread_offset_candidates =
     [offsetof C_pthread_structure_with_simple_header [''tid''],
      offsetof C_pthread_structure_with_tcbhead [''tid'']]"

fun try_candidates :: "manager \<Rightarrow> addr \<Rightarrow> 64 word list \<Rightarrow> 64 word option result" where
  "try_candidates m pthread_id_addr [] = Inr None"
| "try_candidates m pthread_id_addr (candidate # candidates) =
     (case copyObjectFromProcess m (pthread_id_addr + candidate) 4 of
        Inl e \<Rightarrow>
          if is_remote_copy_error e then try_candidates m pthread_id_addr candidates else Inl e
      | Inr (the_tid :: 32 word) \<Rightarrow>
          if sint the_tid = manager_pid m then Inr (Some candidate)
          else try_candidates m pthread_id_addr candidates)"

text \<open>Otherwise up to 100 words of the structure are scanned, or what of them can be copied.\<close>

fun copy_halving :: "manager \<Rightarrow> addr \<Rightarrow> nat \<Rightarrow> bytes result" where
  "copy_halving m a buffer_size =
     (if buffer_size = 0 then Inr []
      else
        case d_manager m a (of_nat buffer_size) of
          Inl e \<Rightarrow> if is_remote_copy_error e then copy_halving m a (buffer_size div 2) else Inl e
        | Inr buffer \<Rightarrow> Inr buffer)"

declare copy_halving.simps [simp del]

definition scan_pthread :: "manager \<Rightarrow> addr \<Rightarrow> 64 word option result" where
  "scan_pthread m pthread_id_addr =
     rbind (copy_halving m pthread_id_addr 800) (\<lambda>buffer.
       let words = addresses_of buffer in
       Inr (map_option (\<lambda>i. of_nat (8 * i))
              (List.find (\<lambda>i. sint (ucast (words ! i) :: 32 word) = manager_pid m) [0..<length words])))"

text \<open>
  The walk over the thread states, with what is tried on each pthread structure as a parameter. It only
  notices a state that is its own successor: on any other cycle it does not end (\<open>None\<close>).
\<close>

partial_function (option) tid_walk ::
  "(addr \<Rightarrow> 64 word option result) \<Rightarrow> manager \<Rightarrow> addr \<Rightarrow> 64 word option result option" where
  "tid_walk probe m current_thread_addr =
     (if current_thread_addr = 0 then Some (Inr None)
      else
        case rbind (getWord m S_thread current_thread_addr (o_thread_id, 8)) probe of
          Inl e \<Rightarrow> Some (Inl e)
        | Inr (Some offset) \<Rightarrow> Some (Inr (Some offset))
        | Inr None \<Rightarrow>
            (case getWord m S_thread current_thread_addr (thread_o_next, 8) of
               Inl e \<Rightarrow> Some (Inl e)
             | Inr next_thread_addr \<Rightarrow>
                 if next_thread_addr = current_thread_addr then Some (Inr None)
                 else tid_walk probe m next_thread_addr))"

definition run_walk :: "'a result option \<Rightarrow> 'a result" where
  "run_walk r = (case r of None \<Rightarrow> Inl Diverges | Some x \<Rightarrow> x)"

definition findPthreadTidOffset :: "manager \<Rightarrow> addr \<Rightarrow> 64 word result" where
  "findPthreadTidOffset m interp_state_addr =
     rbind (getWord m S_is interp_state_addr (o_tstate_head, 8)) (\<lambda>thread_head.
     rbind (run_walk (tid_walk (\<lambda>a. try_candidates m a glibc_pthread_offset_candidates) m thread_head))
       (\<lambda>found. case found of
          Some offset \<Rightarrow> Inr offset
        | None \<Rightarrow>
            rbind (run_walk (tid_walk (scan_pthread m) m thread_head)) (\<lambda>found'.
              Inr (case found' of Some offset \<Rightarrow> offset | None \<Rightarrow> 0))))"

definition inferTidFromPThreadStructure :: "manager \<Rightarrow> 64 word \<Rightarrow> addr \<Rightarrow> int result" where
  "inferTidFromPThreadStructure m tid_offset pthread_id =
     rbind (copyObjectFromProcess m (pthread_id + tid_offset) 4) (\<lambda>the_tid :: 32 word.
       if sint the_tid \<noteq> 0 \<and> sint the_tid \<notin> set (d_tids m)
       then Inl (RuntimeError ''Invalid thread ID found!'') else Inr (sint the_tid))"

definition getThreadTid :: "manager \<Rightarrow> 64 word \<Rightarrow> addr \<Rightarrow> addr \<Rightarrow> int result" where
  "getThreadTid m tid_offset ts pthread_id =
     (if versionIsAtLeast m 3 11 then
        rbind (getWord m S_thread ts (o_native_thread_id, 8)) (\<lambda>t :: 64 word.
          Inr (sint (ucast t :: 32 word)))
      else inferTidFromPThreadStructure m tid_offset pthread_id)"

section \<open>Frames and the stack anchor\<close>

definition getFrameAddr :: "manager \<Rightarrow> addr \<Rightarrow> addr result" where
  "getFrameAddr m ts =
     (if versionIsAtLeast m 3 11 \<and> \<not> versionIsAtLeast m 3 13 then
        rbind (getWord m S_thread ts (o_frame, 8)) (\<lambda>cframe_addr.
          if \<not> manager_isAddressValid m cframe_addr then Inr 0
          else getWord m S_cframe cframe_addr (current_frame, 8))
      else getWord m S_thread ts (o_frame, 8))"

text \<open>
  The stack anchor is the first frame that the interpreter itself, or the C code that called it, owns.
  The search gives up after 4096 frames.
\<close>

definition is_anchor :: "manager \<Rightarrow> addr \<Rightarrow> bool result" where
  "is_anchor m a =
     (if versionIsAtLeast m 3 14 then
        rbind (getWord m S_frame a (o_owner, 1)) (\<lambda>owner.
          Inr (owner = FRAME_OWNED_BY_INTERPRETER \<or> owner = FRAME_OWNED_BY_CSTACK))
      else if versionIsAtLeast m 3 12 then
        rbind (getWord m S_frame a (o_owner, 1)) (\<lambda>owner. Inr (owner = FRAME_OWNED_BY_CSTACK_v312))
      else rbind (getWord m S_frame a (o_is_entry, 1)) (\<lambda>b :: byte. Inr (b \<noteq> 0)))"

fun anchor_loop :: "manager \<Rightarrow> addr \<Rightarrow> nat \<Rightarrow> addr \<Rightarrow> addr result" where
  "anchor_loop m frame_addr 0 current_addr = Inr frame_addr"
| "anchor_loop m frame_addr (Suc n) current_addr =
     (if current_addr = 0 then Inr frame_addr
      else
        rbind (is_anchor m current_addr) (\<lambda>found.
        if found then Inr current_addr
        else
          rbind (getWord m S_frame current_addr (o_back, 8)) (\<lambda>next_addr.
            if next_addr = current_addr then Inr frame_addr
            else anchor_loop m frame_addr n next_addr)))"

definition getStackAnchor :: "manager \<Rightarrow> addr \<Rightarrow> addr result" where
  "getStackAnchor m frame_addr =
     (if frame_addr = 0 then Inr 0
      else if \<not> versionIsAtLeast m 3 11 then Inr frame_addr
      else anchor_loop m frame_addr 4096 frame_addr)"


section \<open>GIL and GC status\<close>

datatype GilStatus = GIL_UNKNOWN | NOT_HELD | HELD
datatype GCStatus = COLLECTING_UNKNOWN | NOT_COLLECTING | COLLECTING

definition gil_of :: "bool \<Rightarrow> GilStatus" where
  "gil_of held = (if held then HELD else NOT_HELD)"

text \<open>
  Before 3.8, the 256 words of \<open>_PyRuntime\<close> are searched for a second occurrence of the thread state.
\<close>

fun gil_scan :: "manager \<Rightarrow> addr \<Rightarrow> nat \<Rightarrow> nat \<Rightarrow> addr \<Rightarrow> GilStatus result" where
  "gil_scan m ts hits 0 raddr = Inr NOT_HELD"
| "gil_scan m ts hits (Suc n) raddr =
     rbind (copyObjectFromProcess m raddr 8) (\<lambda>thread_addr :: addr.
       if thread_addr = ts \<and> hits + 1 = 2 then Inr HELD
       else gil_scan m ts (if thread_addr = ts then hits + 1 else hits) n (raddr + 8))"

definition calculateGilStatus :: "manager \<Rightarrow> addr \<Rightarrow> GilStatus result" where
  "calculateGilStatus m ts =
     (let pyruntime = d_find_symbol m ''_PyRuntime'' in
      if pyruntime \<noteq> 0 then
        if \<not> versionIsAtLeast m 3 0 then Inl Abort
        else if versionIsAtLeast m 3 12 then
          rbind (getWord m S_thread ts (o_interp, 8)) (\<lambda>is_addr.
          rbind (getWord m S_is is_addr (o_gil_runtime_state, 8)) (\<lambda>gil_addr.
          rbind (getWord m S_gilruntimestate gil_addr (o_locked, 4)) (\<lambda>locked :: 32 word.
          rbind (getWord m S_gilruntimestate gil_addr (o_last_holder, 8)) (\<lambda>holder :: addr.
            Inr (gil_of (locked \<noteq> 0 \<and> holder = ts))))))
        else if versionIsAtLeast m 3 8 then
          rbind (getWord m S_runtime pyruntime (o_tstate_current, 8)) (\<lambda>tstate_current :: addr.
            Inr (gil_of (tstate_current = ts)))
        else gil_scan m ts 0 256 pyruntime
      else
        let current_thread = d_find_symbol m ''_PyThreadState_Current'' in
        if current_thread \<noteq> 0 then
          rbind (copyObjectFromProcess m current_thread 8) (\<lambda>thread_addr :: addr.
            Inr (gil_of (thread_addr = ts)))
        else Inr GIL_UNKNOWN)"

definition gc_status_at :: "manager \<Rightarrow> addr \<Rightarrow> GCStatus result" where
  "gc_status_at m gcstate_addr =
     rbind (getWord m S_gc gcstate_addr (o_collecting, 8)) (\<lambda>collecting :: addr.
       Inr (if collecting \<noteq> 0 then COLLECTING else NOT_COLLECTING))"

definition calculateGCStatus :: "manager \<Rightarrow> addr \<Rightarrow> GCStatus result" where
  "calculateGCStatus m ts =
     (if versionIsAtLeast m 3 9 then
        rbind (getWord m S_thread ts (o_interp, 8)) (\<lambda>is_addr.
        rbind (getFieldRemoteAddress m S_is is_addr (is_o_gc, 1)) (gc_status_at m))
      else if versionIsAtLeast m 3 7 then
        let pyruntime = d_find_symbol m ''_PyRuntime'' in
        if pyruntime = 0 then Inr COLLECTING_UNKNOWN
        else rbind (getFieldRemoteAddress m S_runtime pyruntime (runtime_o_gc, 1)) (gc_status_at m)
      else Inr COLLECTING_UNKNOWN)"

section \<open>The chain of threads\<close>

record PyThread =
  pt_addr :: addr
  pt_tid :: int
  d_pthread_id :: "64 word"
  d_gil_status :: GilStatus
  d_gc_status :: GCStatus
  d_first_frame :: "FrameObject list"
  d_stack_anchor :: addr

text \<open>
  The constructor up to the point where it constructs the next thread: the frames, the anchor, the
  address of the next thread (null for a state that is its own successor), the pthread id and the tid.
\<close>

definition thread_head ::
  "manager \<Rightarrow> (addr \<Rightarrow> LocationInfo) \<Rightarrow> nat \<Rightarrow> 64 word \<Rightarrow> addr \<Rightarrow>
   (FrameObject list \<times> addr \<times> addr \<times> 64 word \<times> int) result" where
  "thread_head m uninit depth tid_offset addr =
     rbind (getFrameAddr m addr) (\<lambda>frame_addr.
     rbind (if frame_addr \<noteq> 0 then new_frame m uninit depth frame_addr 0 else Inr []) (\<lambda>first_frame.
     rbind (if frame_addr \<noteq> 0 then getStackAnchor m frame_addr else Inr 0) (\<lambda>anchor.
     rbind (getWord m S_thread addr (thread_o_next, 8)) (\<lambda>candidate_next_addr.
     rbind (getWord m S_thread addr (o_thread_id, 8)) (\<lambda>pthread_id.
     rbind (getThreadTid m tid_offset addr pthread_id) (\<lambda>thread_tid.
       Inr (first_frame, anchor, if candidate_next_addr = addr then 0 else candidate_next_addr,
            pthread_id, thread_tid)))))))"

text \<open>As for frames, a thread with the threads after it is a list, and \<open>depth\<close> bounds the nesting.\<close>

fun new_thread ::
  "manager \<Rightarrow> (addr \<Rightarrow> LocationInfo) \<Rightarrow> 64 word \<Rightarrow> nat \<Rightarrow> addr \<Rightarrow> PyThread list result" where
  "new_thread m uninit tid_offset 0 addr = Inl Stack_Overflow"
| "new_thread m uninit tid_offset (Suc depth) addr =
     rbind (thread_head m uninit depth tid_offset addr)
       (\<lambda>(first_frame, anchor, next_addr, pthread_id, thread_tid).
     rbind (if next_addr \<noteq> 0 then new_thread m uninit tid_offset depth next_addr else Inr []) (\<lambda>next.
     rbind (calculateGilStatus m addr) (\<lambda>gil.
     rbind (calculateGCStatus m addr) (\<lambda>gc.
       Inr (\<lparr>pt_addr = addr, pt_tid = thread_tid, d_pthread_id = pthread_id, d_gil_status = gil,
             d_gc_status = gc, d_first_frame = first_frame, d_stack_anchor = anchor\<rparr> # next)))))"

text \<open>
  \<open>getThreadFromInterpreterState\<close>. \<open>tid_offset_in_pthread_struct\<close> is a global variable, so the
  operation returns its new value with the threads. A null list of threads is not checked for.
\<close>

definition getThreadFromInterpreterState ::
  "manager \<Rightarrow> (addr \<Rightarrow> LocationInfo) \<Rightarrow> nat \<Rightarrow> 64 word \<Rightarrow> addr \<Rightarrow> 64 word \<times> PyThread list result" where
  "getThreadFromInterpreterState m uninit depth tid_offset addr =
     (let threads = (\<lambda>off.
        rbind (getWord m S_is addr (o_tstate_head, 8)) (\<lambda>thread_addr.
          new_thread m uninit off depth thread_addr)) in
      if tid_offset = 0 \<and> \<not> versionIsAtLeast m 3 11 then
        case findPthreadTidOffset m addr of
          Inl e \<Rightarrow> (tid_offset, Inl e)
        | Inr off \<Rightarrow> (off, threads off)
      else (tid_offset, threads tid_offset))"


section \<open>Facts about the chain of threads\<close>

definition next_thread :: "manager \<Rightarrow> addr \<rightharpoonup> addr" where
  "next_thread m a =
     (case getWord m S_thread a (thread_o_next, 8) of
        Inl _ \<Rightarrow> None
      | Inr next_addr \<Rightarrow> Some (if next_addr = a then 0 else next_addr))"

lemma thread_head_next:
  "thread_head m uninit depth off a = Inr (fs, anchor, n, pid, t) \<Longrightarrow> next_thread m a = Some n"
  by (auto simp: thread_head_def next_thread_def result_simps)

lemma new_thread_InrE:
  assumes "new_thread m uninit off depth a = Inr ts"
  obtains d fs anchor n pid t gil gc rest where
    "depth = Suc d" "thread_head m uninit d off a = Inr (fs, anchor, n, pid, t)"
    "n = 0 \<and> rest = [] \<or> n \<noteq> 0 \<and> new_thread m uninit off d n = Inr rest"
    "calculateGilStatus m a = Inr gil" "calculateGCStatus m a = Inr gc"
    "ts = \<lparr>pt_addr = a, pt_tid = t, d_pthread_id = pid, d_gil_status = gil, d_gc_status = gc,
           d_first_frame = fs, d_stack_anchor = anchor\<rparr> # rest"
  using assms by (cases depth) (auto simp: result_simps split: if_splits)

lemma new_thread_linked:
  "new_thread m uninit off depth a = Inr ts \<Longrightarrow> a \<noteq> 0 \<Longrightarrow>
     linked (next_thread m) (\<lambda>b. b = 0) a (map pt_addr ts)"
proof (induction depth arbitrary: a ts)
  case (Suc depth)
  from Suc.prems(1) show ?case
    by (rule new_thread_InrE) (use Suc in \<open>auto dest: thread_head_next\<close>)
qed simp

text \<open>What is recorded of each thread is what the constructor computes from its state.\<close>

lemma new_thread_member:
  "new_thread m uninit off depth a = Inr ts \<Longrightarrow> t \<in> set ts \<Longrightarrow>
     calculateGilStatus m (pt_addr t) = Inr (d_gil_status t) \<and>
     calculateGCStatus m (pt_addr t) = Inr (d_gc_status t) \<and>
     (\<exists>d n. thread_head m uninit d off (pt_addr t) =
        Inr (d_first_frame t, d_stack_anchor t, n, d_pthread_id t, pt_tid t))"
proof (induction depth arbitrary: a ts)
  case (Suc depth)
  from Suc.prems(1) show ?case
    by (rule new_thread_InrE) (use Suc in \<open>auto; blast\<close>)
qed simp

lemma thread_head_tid:
  "thread_head m uninit d off a = Inr (fs, anchor, n, pid, t) \<Longrightarrow> getThreadTid m off a pid = Inr t"
  by (auto simp: thread_head_def result_simps)

lemma inferTid_known:
  "inferTidFromPThreadStructure m off pid = Inr t \<Longrightarrow> t = 0 \<or> t \<in> set (d_tids m)"
  by (auto simp: inferTidFromPThreadStructure_def result_simps split: if_splits)

text \<open>The state of the GIL names one holder.\<close>

lemma gil_of_HELD [simp]: "gil_of b = HELD \<longleftrightarrow> b"
  by (simp add: gil_of_def)

definition thread_interp :: "manager \<Rightarrow> addr \<Rightarrow> addr result" where
  "thread_interp m ts = getWord m S_thread ts (o_interp, 8)"

lemma one_holder:
  assumes "calculateGilStatus m a = Inr HELD" "calculateGilStatus m b = Inr HELD"
    and "versionIsAtLeast m 3 8 \<or> d_find_symbol m ''_PyRuntime'' = 0"
    and "versionIsAtLeast m 3 12 \<longrightarrow> thread_interp m a = thread_interp m b"
  shows "a = b"
proof -
  consider "d_find_symbol m ''_PyRuntime'' \<noteq> 0" "versionIsAtLeast m 3 12"
    | "d_find_symbol m ''_PyRuntime'' \<noteq> 0" "\<not> versionIsAtLeast m 3 12" "versionIsAtLeast m 3 8"
    | "d_find_symbol m ''_PyRuntime'' = 0" using assms(3) by blast
  then show ?thesis
    by cases (use assms in \<open>auto simp: calculateGilStatus_def Let_def result_simps thread_interp_def
        split: if_splits\<close>)
qed

text \<open>
  Property C7. The threads that are reported are the chain of thread states from the head of the
  interpreter to its end, each once. From 3.11 on the tid of each is the native thread id in its state;
  before 3.11 it is read from the \<open>struct pthread\<close> of the thread at the offset that was found, and it is
  that of a known thread of the process, or 0 for one that has terminated.
\<close>

theorem threads_read_are_the_chain:
  assumes "new_thread m uninit off depth a = Inr ts" and "a \<noteq> 0"
  shows "linked (next_thread m) (\<lambda>b. b = 0) a (map pt_addr ts) \<and> distinct (map pt_addr ts) \<and>
    (\<forall>t \<in> set ts.
       if versionIsAtLeast m 3 11 then
         \<exists>w :: 64 word. getWord m S_thread (pt_addr t) (o_native_thread_id, 8) = Inr w \<and>
           pt_tid t = sint (ucast w :: 32 word)
       else
         (\<exists>w :: 32 word. copyObjectFromProcess m (d_pthread_id t + off) 4 = Inr w \<and> pt_tid t = sint w) \<and>
         (pt_tid t = 0 \<or> pt_tid t \<in> set (d_tids m)))"
proof -
  have "if versionIsAtLeast m 3 11 then
         \<exists>w :: 64 word. getWord m S_thread (pt_addr t) (o_native_thread_id, 8) = Inr w \<and>
           pt_tid t = sint (ucast w :: 32 word)
       else
         (\<exists>w :: 32 word. copyObjectFromProcess m (d_pthread_id t + off) 4 = Inr w \<and> pt_tid t = sint w) \<and>
         (pt_tid t = 0 \<or> pt_tid t \<in> set (d_tids m))" if t: "t \<in> set ts" for t
  proof -
    obtain d n where "thread_head m uninit d off (pt_addr t) =
        Inr (d_first_frame t, d_stack_anchor t, n, d_pthread_id t, pt_tid t)"
      using new_thread_member [OF assms(1) t] by blast
    from thread_head_tid [OF this] show ?thesis
      by (auto simp: getThreadTid_def inferTidFromPThreadStructure_def result_simps split: if_splits)
  qed
  with new_thread_linked [OF assms] linked_distinct [OF new_thread_linked [OF assms]] show ?thesis
    by blast
qed

text \<open>
  Property C26. In versions from 3.8 on, and in older ones that have no \<open>_PyRuntime\<close>, at most one
  thread is reported to hold the GIL: before 3.12 one of all threads, from 3.12 on, when every
  interpreter has its own GIL, one of the threads of the same interpreter. (Python 3.7, where
  \<open>_PyRuntime\<close> is searched for a second occurrence of the thread, is left out: nothing guarantees it there.)
\<close>


theorem one_gil_holder:
  assumes "new_thread m uninit off depth a = Inr ts" and "a \<noteq> 0"
    and "versionIsAtLeast m 3 8 \<or> d_find_symbol m ''_PyRuntime'' = 0"
    and "i < length ts" "j < length ts" "d_gil_status (ts ! i) = HELD" "d_gil_status (ts ! j) = HELD"
    and "versionIsAtLeast m 3 12 \<longrightarrow>
      thread_interp m (pt_addr (ts ! i)) = thread_interp m (pt_addr (ts ! j))"
  shows "i = j"
proof -
  have "pt_addr (ts ! i) = pt_addr (ts ! j)"
    using new_thread_member [OF assms(1) nth_mem [OF assms(4)]]
      new_thread_member [OF assms(1) nth_mem [OF assms(5)]] assms by (intro one_holder) auto
  moreover have "distinct (map pt_addr ts)"
    using linked_distinct [OF new_thread_linked [OF assms(1,2)]] .
  ultimately show ?thesis using assms(4,5) by (simp add: distinct_conv_nth) (metis length_map nth_map)
qed


section \<open>The stack anchor\<close>

lemma frame_head_parts:
  "frame_head m uninit a = Inr (shim, code, prev_addr) \<Longrightarrow>
     getIsShim m a = Inr shim \<and> getWord m S_frame a (o_back, 8) = Inr prev_addr"
  by (auto simp: frame_head_def result_simps)

lemma is_anchor_shim: "versionIsAtLeast m 3 12 \<Longrightarrow> is_anchor m a = getIsShim m a"
  by (auto simp: is_anchor_def getIsShim_def disj_commute intro!: arg_cong [where f = "rbind _"])

lemma new_frame_shims:
  "new_frame m uninit depth a k = Inr fs \<Longrightarrow> f \<in> set fs \<Longrightarrow> getIsShim m (d_addr f) = Inr (d_is_shim f)"
proof (induction depth arbitrary: a k fs)
  case (Suc depth)
  from Suc.prems(1) show ?case
    by (rule new_frame_InrE) (use Suc in \<open>auto dest: frame_head_parts\<close>)
qed simp

text \<open>Frames that are not anchors are passed over.\<close>

lemma not_chain_ends: "\<not> chain_ends m uninit a \<Longrightarrow> a \<noteq> 0"
  by (auto simp: chain_ends_def)

lemma anchor_loop_skip:
  assumes "linked (prev_frame m uninit) (chain_ends m uninit) a (xs @ ys)" and "length xs \<le> n"
    and "\<forall>x \<in> set xs. is_anchor m x = Inr False"
  shows "\<exists>b. linked (prev_frame m uninit) (chain_ends m uninit) b ys \<and>
    anchor_loop m frame_addr n a = anchor_loop m frame_addr (n - length xs) b \<and>
    (xs \<noteq> [] \<longrightarrow> getWord m S_frame (last xs) (o_back, 8) = Inr b)"
  using assms
proof (induction xs arbitrary: a n)
  case (Cons x xs)
  from Cons.prems(1) obtain b where b: "prev_frame m uninit x = Some b" "x = a" "a \<noteq> 0"
      "linked (prev_frame m uninit) (chain_ends m uninit) b (xs @ ys)"
    by (auto dest: not_chain_ends split: option.splits)
  then have link: "getWord m S_frame a (o_back, 8) = Inr b"
    by (auto simp: prev_frame_def dest: frame_head_parts split: sum.splits)
  have "b \<noteq> a"
  proof
    assume "b = a"
    with b have "linked (prev_frame m uninit) (chain_ends m uninit) a (xs @ ys)" by simp
    from linked_unique [OF this Cons.prems(1)] show False by simp
  qed
  obtain n' where n: "n = Suc n'" "length xs \<le> n'" using Cons.prems(2) by (cases n) auto
  with Cons.prems(3) b link \<open>b \<noteq> a\<close>
  have step: "anchor_loop m frame_addr n a = anchor_loop m frame_addr n' b" by simp
  obtain c where c: "linked (prev_frame m uninit) (chain_ends m uninit) c ys"
    "anchor_loop m frame_addr n' b = anchor_loop m frame_addr (n' - length xs) c"
    "xs \<noteq> [] \<longrightarrow> getWord m S_frame (last xs) (o_back, 8) = Inr c" "xs = [] \<longrightarrow> c = b"
  proof (cases "xs = []")
    case True
    with b(4) that show thesis by simp
  next
    case False
    with Cons.IH [OF b(4) n(2)] Cons.prems(3) that show thesis by auto
  qed
  have "anchor_loop m frame_addr n a = anchor_loop m frame_addr (n - length (x # xs)) c"
    using step c(2) n(1) by simp
  moreover have "getWord m S_frame (last (x # xs)) (o_back, 8) = Inr c"
    using c(3,4) link b(2) by (cases "xs = []") simp_all
  ultimately show ?case using c(1) by blast
qed auto

lemma getStackAnchor_first_shim:
  assumes fs: "new_frame m uninit depth a 0 = Inr fs" and a: "a \<noteq> 0" and v: "versionIsAtLeast m 3 12"
    and i: "i < length fs" "i < 4096" "d_is_shim (fs ! i)" "\<forall>j < i. \<not> d_is_shim (fs ! j)"
  shows "getStackAnchor m a = Inr (d_addr (fs ! i))"
proof -
  let ?as = "map d_addr fs"
  have path: "linked (prev_frame m uninit) (chain_ends m uninit) a (take i ?as @ drop i ?as)"
    using new_frame_path [OF fs a] by (simp add: frame_path_def)
  have "\<forall>x \<in> set (take i ?as). is_anchor m x = Inr False"
  proof
    fix x assume "x \<in> set (take i ?as)"
    then obtain j where j: "j < i" "x = d_addr (fs ! j)" using i(1) by (auto simp: in_set_conv_nth)
    with i(1) have "fs ! j \<in> set fs" by simp
    from new_frame_shims [OF fs this] j i(4) v show "is_anchor m x = Inr False"
      by (simp add: is_anchor_shim)
  qed
  from anchor_loop_skip [OF path _ this, of 4096 a] i
  obtain b where b: "linked (prev_frame m uninit) (chain_ends m uninit) b (drop i ?as)"
    "anchor_loop m a 4096 a = anchor_loop m a (4096 - i) b" by auto
  have ba: "b = d_addr (fs ! i)" "b \<noteq> 0" using b(1) i(1) by (auto simp: chain_ends_def drop_map simp flip: Cons_nth_drop_Suc)
  have "is_anchor m b = Inr True" using new_frame_shims [OF fs nth_mem [OF i(1)]] i(3) v ba(1) by (simp add: is_anchor_shim)
  moreover obtain k where "4096 - i = Suc k" using i(2) by (cases "4096 - i") auto
  moreover have "versionIsAtLeast m 3 11" using v by (auto simp: versionIsAtLeast_def)
  ultimately show ?thesis using b(2) ba a by (simp add: getStackAnchor_def)
qed

text \<open>
  Property C27. From 3.12 on, the anchor of a stack is its first shim, the frame that marks where C code
  entered the interpreter, if one is among its first 4096 frames.
\<close>

theorem anchor_is_first_shim:
  assumes fs: "new_frame m uninit depth a 0 = Inr fs" and a: "a \<noteq> 0" and v: "versionIsAtLeast m 3 12"
    and i: "i < length fs" "i < 4096" "d_is_shim (fs ! i)" "\<forall>j < i. \<not> d_is_shim (fs ! j)"
  shows "getStackAnchor m a = Inr (d_addr (fs ! i))"
  using assms by (rule getStackAnchor_first_shim)


text \<open>
  A chain of frames without an anchor that ends at an unreadable frame is a stack for
  \<open>FrameObject\<close>, which treats the unreadable frame as the end, but not for \<open>getStackAnchor\<close>, which
  lets the error escape: the thread and with it all threads of the process are lost.
\<close>

theorem unreadable_tail_loses_threads:
  assumes fs: "new_frame m uninit depth a 0 = Inr fs" and a: "a \<noteq> 0" and v: "versionIsAtLeast m 3 11"
    and len: "length fs < 4096" and no_anchor: "\<forall>f \<in> set fs. is_anchor m (d_addr f) = Inr False"
    and tail: "getWord m S_frame (d_addr (last fs)) (o_back, 8) = Inr b" "b \<noteq> 0"
      "copyFromRemote m S_frame b = Inl e"
    and thread: "getFrameAddr m ts = Inr a"
  shows "getStackAnchor m a = Inl e \<and> new_thread m uninit off (Suc depth) ts = Inl e"
proof -
  let ?as = "map d_addr fs"
  have path: "linked (prev_frame m uninit) (chain_ends m uninit) a (?as @ [])"
    using new_frame_path [OF fs a] by (simp add: frame_path_def)
  have "fs \<noteq> []" using fs by (auto elim: new_frame_InrE)
  moreover have "\<forall>x \<in> set ?as. is_anchor m x = Inr False" using no_anchor by simp
  ultimately have loop: "anchor_loop m a 4096 a = anchor_loop m a (4096 - length fs) b"
    using anchor_loop_skip [OF path, of 4096 a] len tail(1) by (auto simp: last_map)
  obtain k where k: "4096 - length fs = Suc k" using len by (cases "4096 - length fs") auto
  have "is_anchor m b = Inl e"
    using tail(3) by (auto simp: is_anchor_def getWord_def getField_def)
  with loop k tail(2) a v have "getStackAnchor m a = Inl e" by (simp add: getStackAnchor_def)
  with thread a fs show ?thesis by (simp add: thread_head_def)
qed

section \<open>A target for the witnesses\<close>

text \<open>
  Two threads of a 3.14 target, at 4096 and 4128. The first runs the frame at 8192, whose previous
  frame is a parameter; the GIL state at 12288 names it as the holder. The second has no frames.
\<close>

definition thread_target :: "(addr \<times> bytes) list \<Rightarrow> manager" where
  "thread_target below = (segments_manager (3, 14)
     (zero_python_v
        \<lparr>py_frame := \<lparr>frame_size = 32, o_back = 0, o_code = 8, o_lasti = 0, o_prev_instr = 16,
                      o_localsplus = 32, o_is_entry = 0, o_owner = 24\<rparr>,
         py_thread := \<lparr>thread_size = 32, o_prev = 0, thread_o_next = 0, o_interp = 16, o_frame = 8,
                       o_thread_id = 0, o_native_thread_id = 24\<rparr>,
         py_is := \<lparr>is_size = 8, is_o_next = 0, o_tstate_head = 0, is_o_gc = 0, o_modules = 0, o_sysdict = 0,
                   o_builtins = 0, o_gil_runtime_state = 0, o_id = 0\<rparr>,
         py_gc := \<lparr>gc_size = 8, o_collecting = 0\<rparr>,
         py_gilruntimestate := \<lparr>gilruntimestate_size = 16, o_locked = 8, o_last_holder = 0\<rparr>\<rparr>)
     ([(4096, [32, 16, 0, 0, 0, 0, 0, 0,  0, 32, 0, 0, 0, 0, 0, 0,  0, 64, 0, 0, 0, 0, 0, 0,  7, 0, 0, 0, 0, 0, 0, 0]),
       (4128, [0, 0, 0, 0, 0, 0, 0, 0,  0, 0, 0, 0, 0, 0, 0, 0,  0, 64, 0, 0, 0, 0, 0, 0,  8, 0, 0, 0, 0, 0, 0, 0]),
       (8192, [32, 32, 0, 0, 0, 0, 0, 0,  4, 0, 0, 0, 0, 0, 0, 0,  0, 0, 0, 0, 0, 0, 0, 0,  0, 0, 0, 0, 0, 0, 0, 0]),
       (12288, [0, 16, 0, 0, 0, 0, 0, 0,  1, 0, 0, 0, 0, 0, 0, 0]),
       (16384, [0, 48, 0, 0, 0, 0, 0, 0])] @ below))\<lparr>d_find_symbol := (\<lambda>s. 64)\<rparr>"

definition shim_segment :: "addr \<times> bytes" where
  "shim_segment =
     (8224, [0, 0, 0, 0, 0, 0, 0, 0,  0, 0, 0, 0, 0, 0, 0, 0,  0, 0, 0, 0, 0, 0, 0, 0,  3, 0, 0, 0, 0, 0, 0, 0])"


lemma thread_target_simps [simp]:
  "d_manager (m\<lparr>d_find_symbol := f\<rparr>) = d_manager m"
  "offsets (m\<lparr>d_find_symbol := f\<rparr>) = offsets m"
  "versionIsAtLeast (m\<lparr>d_find_symbol := f\<rparr>) x y = versionIsAtLeast m x y"
  by (simp_all add: offsets_def versionIsAtLeast_def split: option.splits)

lemmas eval_threads =
  thread_target_def shim_segment_def getIsShim_def getCode_def last_instruction_of_def tlbc_index_of_def
  new_code_object_def strip_flags_def frame_head_def isEntry_def getFrameAddr_def getStackAnchor_def
  is_anchor_def getThreadTid_def calculateGilStatus_def calculateGCStatus_def gc_status_at_def gil_of_def

lemma thread_target_version [simp]: "versionIsAtLeast (thread_target below) 3 b \<longleftrightarrow> b \<le> 14"
  by (simp add: thread_target_def)

lemma thread_target_heads:
  "frame_head (thread_target [shim_segment]) uninit 8192 = Inr (False, Some unknown_code, 8224)"
  "frame_head (thread_target []) uninit 8192 = Inr (False, Some unknown_code, 8224)"
  "frame_head (thread_target [shim_segment]) uninit 8224 = Inr (True, None, 0)"
  "copyFromRemote (thread_target []) S_frame 8224 = Inl InvalidRemoteAddress"
  by (simp_all add: eval_threads eval_reads)

lemma thread_target_frames:
  "new_frame (thread_target [shim_segment]) uninit (Suc (Suc d)) 8192 0 =
     Inr [\<lparr>d_addr = 8192, d_frame_no = 0, d_code = Some unknown_code, d_arguments = Map.empty,
           d_locals = Map.empty, d_is_entry = True, d_is_shim = False\<rparr>,
          \<lparr>d_addr = 8224, d_frame_no = 1, d_code = None, d_arguments = Map.empty,
           d_locals = Map.empty, d_is_entry = False, d_is_shim = True\<rparr>]"
  by (simp add: thread_target_heads isEntry_def)


definition target_threads :: "FrameObject list \<Rightarrow> PyThread list" where
  "target_threads fs =
     [\<lparr>pt_addr = 4096, pt_tid = 7, d_pthread_id = 4128, d_gil_status = HELD,
       d_gc_status = COLLECTING, d_first_frame = fs, d_stack_anchor = 8224\<rparr>,
      \<lparr>pt_addr = 4128, pt_tid = 8, d_pthread_id = 0, d_gil_status = NOT_HELD,
       d_gc_status = COLLECTING, d_first_frame = [], d_stack_anchor = 0\<rparr>]"

lemma thread_target_threads:
  "\<exists>fs. new_thread (thread_target [shim_segment]) uninit 0 4 4096 =
     Inr (target_threads fs)"
proof -
  let ?m = "thread_target [shim_segment]"
  have anchor: "getStackAnchor ?m 8192 = Inr 8224"
    using getStackAnchor_first_shim [OF thread_target_frames, where i = 1] by simp
  have first: "getFrameAddr ?m 4096 = Inr 8192" "getFrameAddr ?m 4128 = Inr 0"
    "getWord ?m S_thread 4096 (thread_o_next, 8) = Inr (4128 :: addr)"
    "getWord ?m S_thread 4128 (thread_o_next, 8) = Inr (0 :: addr)"
    "getWord ?m S_thread 4096 (o_thread_id, 8) = Inr (4128 :: addr)"
    "getWord ?m S_thread 4128 (o_thread_id, 8) = Inr (0 :: addr)"
    "getThreadTid ?m 0 4096 pid = Inr 7" "getThreadTid ?m 0 4128 pid = Inr 8" for pid
    by (simp_all add: eval_threads eval_reads)
  have second: "calculateGilStatus ?m 4096 = Inr HELD" "calculateGilStatus ?m 4128 = Inr NOT_HELD"
    "calculateGCStatus ?m 4096 = Inr COLLECTING" "calculateGCStatus ?m 4128 = Inr COLLECTING"
    by (simp_all add: eval_threads eval_reads)
  have four: "(4 :: nat) = Suc (Suc (Suc (Suc 0)))" by simp
  show ?thesis unfolding four target_threads_def
    using first second anchor by (simp add: thread_head_def thread_target_frames del: new_frame.simps)
qed


text \<open>
  Two threads of a 3.10 target, at 4096 and 4128, without frames. The first is the main thread, whose
  pthread structure is at 8192, the second has terminated.
\<close>

definition old_target :: manager where
  "old_target = segments_manager (3, 10)
     (zero_python_v
        \<lparr>py_thread := \<lparr>thread_size = 32, o_prev = 0, thread_o_next = 0, o_interp = 24, o_frame = 8,
                       o_thread_id = 16, o_native_thread_id = 0\<rparr>,
         py_is := \<lparr>is_size = 8, is_o_next = 0, o_tstate_head = 0, is_o_gc = 0, o_modules = 0, o_sysdict = 0,
                   o_builtins = 0, o_gil_runtime_state = 0, o_id = 0\<rparr>,
         py_gc := \<lparr>gc_size = 8, o_collecting = 0\<rparr>\<rparr>)
     [(4096, [32, 16, 0, 0, 0, 0, 0, 0,  0, 0, 0, 0, 0, 0, 0, 0,  0, 32, 0, 0, 0, 0, 0, 0,  0, 64, 0, 0, 0, 0, 0, 0]),
      (4128, [0, 0, 0, 0, 0, 0, 0, 0,  0, 0, 0, 0, 0, 0, 0, 0,  8, 32, 0, 0, 0, 0, 0, 0,  0, 64, 0, 0, 0, 0, 0, 0]),
      (8192, [1, 0, 0, 0, 9, 9, 9, 9,  0, 0, 0, 0, 9, 9, 9, 9]),
      (16384, [0, 0, 0, 0, 0, 0, 0, 0])]"

lemma old_target_threads:
  "\<exists>ts. new_thread old_target uninit 0 2 4096 = Inr ts \<and> map pt_addr ts = [4096, 4128] \<and>
     map d_pthread_id ts = [8192, 8200]"
proof -
  have version: "\<not> versionIsAtLeast old_target 3 11" "versionIsAtLeast old_target 3 9"
    and fields: "getWord old_target S_thread 4096 (o_frame, 8) = Inr (0 :: addr)"
    "getWord old_target S_thread 4128 (o_frame, 8) = Inr (0 :: addr)"
    "getWord old_target S_thread 4096 (thread_o_next, 8) = Inr (4128 :: addr)"
    "getWord old_target S_thread 4128 (thread_o_next, 8) = Inr (0 :: addr)"
    "getWord old_target S_thread 4096 (o_thread_id, 8) = Inr (8192 :: addr)"
    "getWord old_target S_thread 4128 (o_thread_id, 8) = Inr (8200 :: addr)"
    "getWord old_target S_thread 4096 (o_interp, 8) = Inr (16384 :: addr)"
    "getWord old_target S_thread 4128 (o_interp, 8) = Inr (16384 :: addr)"
    and gc: "rbind (getFieldRemoteAddress old_target S_is 16384 (is_o_gc, 1)) (gc_status_at old_target) =
      Inr NOT_COLLECTING"
    and tids: "copyObjectFromProcess old_target 8192 4 = Inr (1 :: 32 word)"
    "copyObjectFromProcess old_target 8200 4 = Inr (0 :: 32 word)" "d_tids old_target = [1]"
    and gil: "calculateGilStatus old_target ts = Inr GIL_UNKNOWN" for ts
    by (simp_all add: old_target_def eval_reads copyObjectFromProcess_def gc_status_at_def
        calculateGilStatus_def)
  note parts = getFrameAddr_def getThreadTid_def inferTidFromPThreadStructure_def calculateGCStatus_def
    version fields gc [simplified] tids gil
  have two: "(2 :: nat) = Suc (Suc 0)" by simp
  show ?thesis unfolding two by (simp add: thread_head_def parts)
qed

theorem threads_read_are_the_chain_witness:
  "\<exists>ts. new_thread old_target unset_locations 0 2 4096 = Inr ts \<and>
     map pt_addr ts = [4096, 4128] \<and> distinct (map pt_addr ts) \<and> map pt_tid ts = [1, 0]"
proof -
  obtain ts where ts: "new_thread old_target unset_locations 0 2 4096 = Inr ts"
      "map pt_addr ts = [4096, 4128]" "map d_pthread_id ts = [8192, 8200]"
    using old_target_threads [of unset_locations] by (elim exE conjE)
  note chain = threads_read_are_the_chain [OF ts(1)]
  obtain t u where tu: "ts = [t, u]" "d_pthread_id t = 8192" "d_pthread_id u = 8200"
    using ts(2,3) by (auto simp: map_eq_Cons_conv)
  have "\<not> versionIsAtLeast old_target 3 11" by (simp add: old_target_def)
  moreover have "copyObjectFromProcess old_target 8192 4 = Inr (1 :: 32 word)"
    "copyObjectFromProcess old_target 8200 4 = Inr (0 :: 32 word)"
    by (simp_all add: old_target_def eval_reads copyObjectFromProcess_def)
  ultimately have "pt_tid t = 1" "pt_tid u = 0" using chain tu by auto
  with ts chain tu(1) show ?thesis by auto
qed

theorem one_gil_holder_witness:
  "\<exists>ts. new_thread (thread_target [shim_segment]) unset_locations 0 4 4096 = Inr ts \<and>
     (\<forall>i < length ts. d_gil_status (ts ! i) = HELD \<longleftrightarrow> i = 0)"
proof -
  let ?m = "thread_target [shim_segment]"
  obtain fs where ts: "new_thread ?m unset_locations 0 4 4096 = Inr (target_threads fs)"
    using thread_target_threads by blast
  have two: "i < length (target_threads fs) \<longleftrightarrow> i = 0 \<or> i = 1" for i
    by (auto simp: target_threads_def)
  have "thread_interp ?m 4096 = thread_interp ?m 4128"
    by (simp add: thread_interp_def eval_threads eval_reads)
  then have interp: "thread_interp ?m (pt_addr (target_threads fs ! i)) =
      thread_interp ?m (pt_addr (target_threads fs ! 0))" if "i < length (target_threads fs)" for i
    using that by (auto simp: two) (simp_all add: target_threads_def)
  have held: "d_gil_status (target_threads fs ! 0) = HELD" by (simp add: target_threads_def)
  have "i = 0" if "i < length (target_threads fs)" "d_gil_status (target_threads fs ! i) = HELD" for i
    using one_gil_holder [OF ts _ _ that(1) _ that(2) held] interp [OF that(1)] by (simp add: two)
  with ts held show ?thesis by blast
qed

theorem anchor_is_first_shim_witness:
  "getStackAnchor (thread_target [shim_segment]) 8192 = Inr 8224"
  using anchor_is_first_shim [OF thread_target_frames, where i = 1] by simp

theorem unreadable_tail_loses_threads_witness:
  "getStackAnchor (thread_target []) 8192 = Inl InvalidRemoteAddress \<and>
   new_thread (thread_target []) unset_locations 0 (Suc 2) 4096 = Inl InvalidRemoteAddress"
proof -
  have unreadable: "frame_head (thread_target []) unset_locations 8224 = Inl InvalidRemoteAddress"
    by (simp add: eval_threads eval_reads)
  have two: "2 = Suc (Suc 0)" by simp
  have "new_frame (thread_target []) unset_locations 2 8192 0 =
      Inr [\<lparr>d_addr = 8192, d_frame_no = 0, d_code = Some unknown_code, d_arguments = Map.empty,
            d_locals = Map.empty, d_is_entry = False, d_is_shim = False\<rparr>]"
    unfolding two by (simp add: thread_target_heads unreadable isEntry_def)
  moreover have "getWord (thread_target []) S_frame 8192 (o_back, 8) = Inr (8224 :: addr)"
    "is_anchor (thread_target []) 8192 = Inr False" "getFrameAddr (thread_target []) 4096 = Inr 8192"
    by (simp_all add: eval_threads eval_reads)
  ultimately show ?thesis
    using unreadable_tail_loses_threads [of "thread_target []" unset_locations 2 8192 _ 8224 InvalidRemoteAddress 4096 0]
      thread_target_heads(4) by simp
qed


section \<open>Cycles of threads\<close>

lemma tid_walk_endless:
  assumes "\<forall>x \<in> A. x \<noteq> 0 \<and> rbind (getWord m S_thread x (o_thread_id, 8)) probe = Inr None \<and>
      (\<exists>y \<in> A. getWord m S_thread x (thread_o_next, 8) = Inr y \<and> y \<noteq> x)"
    and "a \<in> A"
  shows "tid_walk probe m a = None"
proof -
  have "p = probe \<longrightarrow> n = m \<longrightarrow> b \<notin> A" if r: "tid_walk p n b = Some r" for p n b r
  proof (rule tid_walk.raw_induct [where P = "\<lambda>p n b r. p = probe \<longrightarrow> n = m \<longrightarrow> b \<notin> A", OF _ r])
    fix walk p' n' b' r'
    assume IH: "\<And>p n b r. walk p n b = Some r \<Longrightarrow> p = probe \<longrightarrow> n = m \<longrightarrow> b \<notin> A"
      and body: "(if b' = 0 then Some (Inr None)
        else case rbind (getWord n' S_thread b' (o_thread_id, 8)) p' of
               Inl e \<Rightarrow> Some (Inl e)
             | Inr (Some offset) \<Rightarrow> Some (Inr (Some offset))
             | Inr None \<Rightarrow>
                 (case getWord n' S_thread b' (thread_o_next, 8) of
                    Inl e \<Rightarrow> Some (Inl e)
                  | Inr next_thread_addr \<Rightarrow>
                      if next_thread_addr = b' then Some (Inr None)
                      else walk p' n' next_thread_addr)) = Some r'"
    show "p' = probe \<longrightarrow> n' = m \<longrightarrow> b' \<notin> A"
    proof (intro impI notI)
      assume eq: "p' = probe" "n' = m" and "b' \<in> A"
      with assms(1) obtain y where y: "b' \<noteq> 0"
          "rbind (getWord m S_thread b' (o_thread_id, 8)) probe = Inr None"
          "getWord m S_thread b' (thread_o_next, 8) = Inr y" "y \<noteq> b'" "y \<in> A" by blast
      with body eq have "walk p' n' y = Some r'" by simp
      with IH eq y(5) show False by blast
    qed
  qed
  with assms(2) show ?thesis by (cases "tid_walk probe m a") auto
qed

text \<open>
  A corrupted list of threads with a cycle of two or more is not survived. The search for
  the tid offset, when no thread of the cycle shows the pid, never ends; reading the threads never
  returns a list, whatever the size of the stack.
\<close>

theorem thread_cycles_are_fatal:
  assumes cycle: "\<forall>x \<in> A. x \<noteq> 0 \<and>
      (\<exists>y \<in> A. getWord m S_thread x (thread_o_next, 8) = Inr y \<and> y \<noteq> x)"
    and head: "getWord m S_is is_addr (o_tstate_head, 8) = Inr a" "a \<in> A"
  shows "((\<forall>x \<in> A. rbind (getWord m S_thread x (o_thread_id, 8))
              (\<lambda>p. try_candidates m p glibc_pthread_offset_candidates) = Inr None) \<longrightarrow>
            findPthreadTidOffset m is_addr = Inl Diverges) \<and>
         \<not> succeeds (new_thread m uninit off depth a)"
proof (intro conjI impI)
  assume no_pid: "\<forall>x \<in> A. rbind (getWord m S_thread x (o_thread_id, 8))
      (\<lambda>p. try_candidates m p glibc_pthread_offset_candidates) = Inr None"
  have "tid_walk (\<lambda>p. try_candidates m p glibc_pthread_offset_candidates) m a = None"
    using cycle no_pid head(2) by (intro tid_walk_endless [of A]) blast+
  with head(1) show "findPthreadTidOffset m is_addr = Inl Diverges"
    by (simp add: findPthreadTidOffset_def run_walk_def)
next
  have "\<forall>x \<in> A. \<not> x = 0 \<and> (\<exists>y \<in> A. next_thread m x = Some y)"
    using cycle by (fastforce simp: next_thread_def)
  from linked_closed [OF this head(2)] show "\<not> succeeds (new_thread m uninit off depth a)"
    using new_thread_linked [of m uninit off depth a] cycle head(2) by blast
qed

text \<open>Two threads of a 3.10 target that are each other's successor, without readable pthread structures.\<close>

definition cycle_target :: manager where
  "cycle_target = segments_manager (3, 10)
     (zero_python_v
        \<lparr>py_thread := \<lparr>thread_size = 16, o_prev = 0, thread_o_next = 0, o_interp = 0, o_frame = 0,
                       o_thread_id = 8, o_native_thread_id = 0\<rparr>,
         py_is := \<lparr>is_size = 8, is_o_next = 0, o_tstate_head = 0, is_o_gc = 0, o_modules = 0, o_sysdict = 0,
                   o_builtins = 0, o_gil_runtime_state = 0, o_id = 0\<rparr>\<rparr>)
     [(4096, [16, 16, 0, 0, 0, 0, 0, 0,  1, 0, 0, 0, 0, 0, 0, 0]),
      (4112, [0, 16, 0, 0, 0, 0, 0, 0,  1, 0, 0, 0, 0, 0, 0, 0]),
      (16384, [0, 16, 0, 0, 0, 0, 0, 0])]"

theorem thread_cycles_are_fatal_witness:
  "findPthreadTidOffset cycle_target 16384 = Inl Diverges \<and>
   \<not> succeeds (new_thread cycle_target unset_locations 0 1000 4096)"
proof -
  have tid_offsets: "offsetof C_pthread_structure_with_simple_header [''tid''] = 208"
    "offsetof C_pthread_structure_with_tcbhead [''tid''] = 720"
    unfolding offsetof_def C_pthread_structure_with_simple_header_def C_pthread_structure_with_tcbhead_def
    by (simp_all add: round_up_def layout)
  have "\<forall>x \<in> {4096, 4112}. rbind (getWord cycle_target S_thread x (o_thread_id, 8))
      (\<lambda>p. try_candidates cycle_target p glibc_pthread_offset_candidates) = Inr None"
    by (simp add: cycle_target_def glibc_pthread_offset_candidates_def tid_offsets
        copyObjectFromProcess_def eval_reads)
  moreover have "\<forall>x \<in> {4096, 4112}. x \<noteq> 0 \<and>
      (\<exists>y \<in> {4096, 4112}. getWord cycle_target S_thread x (thread_o_next, 8) = Inr (y :: addr) \<and> y \<noteq> x)"
    "getWord cycle_target S_is 16384 (o_tstate_head, 8) = Inr (4096 :: addr)"
    by (simp_all add: cycle_target_def eval_reads)
  ultimately show ?thesis
    using thread_cycles_are_fatal [of "{4096, 4112}" cycle_target 16384 4096 unset_locations 0 1000] by blast
qed

end
