(* ===== verification/Interpreter_Search.thy ===== *)
theory Interpreter_Search
  imports Py_Types Debug_Offsets Transparent_Cache
begin

text \<open>
  How PyStack finds the head of the list of interpreters (\<open>process.cpp\<close>, \<open>thread_builder.cpp\<close>):
  through \<open>_PyRuntime\<close> or an older symbol, through the debug offsets, or by scanning the BSS, the heap
  or all anonymous mappings for a pointer to something that is a valid interpreter state. The main
  properties are that whatever is found is valid, and that the methods are tried in a fixed order.
\<close>

section \<open>Symbols\<close>

text \<open>
  \<open>findSymbol\<close> with its cache, a map that persists between calls. The lookup behind it is that of
  the unwinder in the main mapping.
\<close>

type_synonym symbol_cache = "string \<rightharpoonup> addr"

definition findSymbol :: "manager \<Rightarrow> symbol_cache \<Rightarrow> string \<Rightarrow> addr \<times> symbol_cache" where
  "findSymbol m d_symbol_cache name =
     (case d_symbol_cache name of
        None \<Rightarrow> let addr = d_find_symbol m name in (addr, d_symbol_cache(name \<mapsto> addr))
      | Some addr \<Rightarrow> (addr, d_symbol_cache))"

definition cache_ok :: "manager \<Rightarrow> symbol_cache \<Rightarrow> bool" where
  "cache_ok m c \<longleftrightarrow> (\<forall>name addr. c name = Some addr \<longrightarrow> addr = d_find_symbol m name)"

lemma findSymbol_transparent:
  "cache_ok m c \<Longrightarrow> findSymbol m c name = (a, c') \<Longrightarrow> a = d_find_symbol m name \<and> cache_ok m c'"
  by (auto simp: findSymbol_def cache_ok_def Let_def split: option.splits if_splits)

interpretation symbol_lookup: transparent_cache "findSymbol m" "d_find_symbol m" "cache_ok m" for m
  using findSymbol_transparent by unfold_locales (metis prod.collapse)

text \<open>However often symbols are looked up, the answers are those of the unwinder.\<close>

lemma symbols_looked_up: "fst (symbol_lookup.lookups m Map.empty names) = map (d_find_symbol m) names"
  by (rule conjunct1 [OF symbol_lookup.lookups_computed]) (simp add: cache_ok_def)

section \<open>Valid interpreter states\<close>

definition isValidDictionaryObject :: "manager \<Rightarrow> addr \<Rightarrow> bool result" where
  "isValidDictionaryObject m addr =
     (if addr = 0 then Inr False
      else if \<not> manager_isAddressValid m addr then Inr False
      else try_catch (rbind (new_object m addr) (\<lambda>pyobj. Inr (objectType m pyobj = T_DICT)))
             is_remote_copy_error (\<lambda>_. Inr False))"

text \<open>
  The loop over the three dictionaries ends at the first one that is not valid. The source keeps them
  in a hash map, whose order is not specified; the model takes them in the order they are written.
\<close>

fun valid_dictionaries :: "manager \<Rightarrow> addr list \<Rightarrow> bool result" where
  "valid_dictionaries m [] = Inr True"
| "valid_dictionaries m (addr # addrs) =
     rbind (isValidDictionaryObject m addr) (\<lambda>ok.
       if \<not> ok then Inr False else valid_dictionaries m addrs)"

text \<open>\<open>try\<close> of a copy: whether it succeeded, unless it failed with something that is not caught.\<close>

definition copied :: "bytes result \<Rightarrow> bool result" where
  "copied r = try_catch (rbind r (\<lambda>_. Inr True)) is_remote_copy_error (\<lambda>_. Inr False)"

definition isValidInterpreterState :: "manager \<Rightarrow> addr \<Rightarrow> bool result" where
  "isValidInterpreterState m addr =
     (if \<not> manager_isAddressValid m addr then Inr False
      else
        rbind (copied (copyFromRemote m S_is addr)) (\<lambda>is_copied.
        if \<not> is_copied then Inr False
        else
          rbind (getWord m S_is addr (o_tstate_head, 8)) (\<lambda>current_thread_addr.
          if \<not> manager_isAddressValid m current_thread_addr then Inr False
          else
            rbind (copied (copyFromRemote m S_thread current_thread_addr)) (\<lambda>thread_copied.
            if \<not> thread_copied then Inr False
            else
              rbind (getWord m S_thread current_thread_addr (o_interp, 8)) (\<lambda>interp.
              if interp \<noteq> addr then Inr False
              else
                rbind (getWord m S_is addr (o_modules, 8)) (\<lambda>modules.
                rbind (getWord m S_is addr (o_sysdict, 8)) (\<lambda>sysdict.
                rbind (getWord m S_is addr (o_builtins, 8)) (\<lambda>builtins.
                  valid_dictionaries m [modules, sysdict, builtins]))))))))"

section \<open>The methods\<close>

definition findInterpreterStateFromPointer :: "manager \<Rightarrow> addr \<Rightarrow> addr result" where
  "findInterpreterStateFromPointer m pointer =
     rbind (copyObjectFromProcess m pointer 8) (\<lambda>interp_state.
     rbind (isValidInterpreterState m interp_state) (\<lambda>ok.
       Inr (if \<not> ok then 0 else interp_state)))"

definition findInterpreterStateFromPyRuntime :: "manager \<Rightarrow> addr \<Rightarrow> addr result" where
  "findInterpreterStateFromPyRuntime m runtime_addr =
     rbind (getWord m S_runtime runtime_addr (o_interp_head, 8)) (\<lambda>interp_state.
     rbind (isValidInterpreterState m interp_state) (\<lambda>ok.
       Inr (if \<not> ok then 0 else interp_state)))"

definition findInterpreterStateFromSymbols :: "manager \<Rightarrow> addr result" where
  "findInterpreterStateFromSymbols m =
     (let pyruntime = d_find_symbol m ''_PyRuntime'' in
      if pyruntime \<noteq> 0 then findInterpreterStateFromPyRuntime m pyruntime
      else
        let interp_head = d_find_symbol m ''interp_head'' in
        if interp_head \<noteq> 0 then findInterpreterStateFromPointer m interp_head else Inr 0)"

text \<open>
  The buffer of a scan is read word by word; a word that begins in the buffer and ends beyond it is
  read out of bounds.
\<close>

function scan_words :: "manager \<Rightarrow> bytes \<Rightarrow> nat \<Rightarrow> addr result" where
  "scan_words m memory_buffer off =
     (if off \<ge> length memory_buffer then Inr 0
      else if off + 8 > length memory_buffer then Inl Undefined
      else
        let word = le_word (block off 8 memory_buffer) in
        rbind (isValidInterpreterState m word) (\<lambda>ok.
          if \<not> ok then scan_words m memory_buffer (off + 8) else Inr word))"
  by pat_completeness auto
termination
  by (relation "measure (\<lambda>(_, memory_buffer, off). length memory_buffer - off)") auto

declare scan_words.simps [simp del]

definition scanMemoryAreaForInterpreterState :: "manager \<Rightarrow> virtual_map \<Rightarrow> addr result" where
  "scanMemoryAreaForInterpreterState m vmap =
     rbind (vec_resize 1 (map_Size vmap)) (\<lambda>_.
     rbind (d_manager m (d_start vmap) (map_Size vmap)) (\<lambda>memory_buffer.
       scan_words m memory_buffer 0))"

definition scan_option :: "manager \<Rightarrow> virtual_map option \<Rightarrow> addr result" where
  "scan_option m area =
     (case area of None \<Rightarrow> Inr 0 | Some vmap \<Rightarrow> scanMemoryAreaForInterpreterState m vmap)"

text \<open>The BSS and the heap are members of the process manager that may be missing.\<close>

definition scanBSS :: "manager \<Rightarrow> virtual_map option \<Rightarrow> addr result" where
  "scanBSS m d_bss = scan_option m d_bss"

definition scanHeap :: "manager \<Rightarrow> virtual_map option \<Rightarrow> addr result" where
  "scanHeap m d_heap = scan_option m d_heap"

fun scan_anonymous :: "manager \<Rightarrow> virtual_map list \<Rightarrow> addr result" where
  "scan_anonymous m [] = Inr 0"
| "scan_anonymous m (vmap # vmaps) =
     (if d_path vmap \<noteq> '''' then scan_anonymous m vmaps
      else
        rbind (scanMemoryAreaForInterpreterState m vmap) (\<lambda>found.
          if found \<noteq> 0 then Inr found else scan_anonymous m vmaps))"

definition scanAllAnonymousMaps :: "manager \<Rightarrow> addr result" where
  "scanAllAnonymousMaps m = scan_anonymous m (d_memory_maps m)"

text \<open>
  \<open>findPyRuntimeFromElfData\<close> reads the section headers of a file and the load point of a module with
  libelf: its result (0 when the section or the load point is missing) is a parameter.
\<close>

definition findInterpreterStateFromElfData :: "manager \<Rightarrow> addr \<Rightarrow> addr result" where
  "findInterpreterStateFromElfData m pyruntime =
     (if pyruntime = 0 then Inr 0 else findInterpreterStateFromPyRuntime m pyruntime)"

text \<open>\<open>catch (...)\<close> swallows every exception.\<close>

definition findInterpreterStateFromDebugOffsets :: "manager \<Rightarrow> addr result" where
  "findInterpreterStateFromDebugOffsets m =
     (if d_debug_offsets_addr m = 0 then Inr 0
      else
        try_catch
          (rbind (getWord m S_runtime (d_debug_offsets_addr m) (o_interp_head, 8)) (\<lambda>interp_state.
           rbind (isValidInterpreterState m interp_state) (\<lambda>ok.
             Inr (if ok then interp_state else 0))))
          is_exception (\<lambda>_. Inr 0))"

section \<open>Trying the methods\<close>

text \<open>\<open>StackMethodFlag\<close>: one bit each. The methods are tried in the order of the vector.\<close>

datatype StackMethodFlag =
    METHOD_ELF_DATA | METHOD_SYMBOLS | METHOD_BSS | METHOD_ANONYMOUS_MAPS | METHOD_HEAP
  | METHOD_DEBUG_OFFSETS

fun method_bit :: "StackMethodFlag \<Rightarrow> nat" where
  "method_bit METHOD_ELF_DATA = 0"
| "method_bit METHOD_SYMBOLS = 1"
| "method_bit METHOD_BSS = 2"
| "method_bit METHOD_ANONYMOUS_MAPS = 3"
| "method_bit METHOD_HEAP = 4"
| "method_bit METHOD_DEBUG_OFFSETS = 5"

definition all_methods :: "StackMethodFlag list" where
  "all_methods =
     [METHOD_DEBUG_OFFSETS, METHOD_ELF_DATA, METHOD_SYMBOLS, METHOD_BSS, METHOD_ANONYMOUS_MAPS,
      METHOD_HEAP]"

text \<open>The data of the process manager the methods use beside the memory.\<close>

record search_data =
  elf_pyruntime :: addr
  search_bss :: "virtual_map option"
  search_heap :: "virtual_map option"

fun run_method :: "manager \<Rightarrow> search_data \<Rightarrow> StackMethodFlag \<Rightarrow> addr result" where
  "run_method m d METHOD_DEBUG_OFFSETS = findInterpreterStateFromDebugOffsets m"
| "run_method m d METHOD_ELF_DATA = findInterpreterStateFromElfData m (elf_pyruntime d)"
| "run_method m d METHOD_SYMBOLS = findInterpreterStateFromSymbols m"
| "run_method m d METHOD_BSS = scanBSS m (search_bss d)"
| "run_method m d METHOD_ANONYMOUS_MAPS = scanAllAnonymousMaps m"
| "run_method m d METHOD_HEAP = scanHeap m (search_heap d)"

fun try_methods ::
  "(StackMethodFlag \<Rightarrow> addr result) \<Rightarrow> 32 word \<Rightarrow> StackMethodFlag list \<Rightarrow> addr result" where
  "try_methods run method_flags [] = Inr 0"
| "try_methods run method_flags (meth # meths) =
     (if \<not> bit method_flags (method_bit meth) then try_methods run method_flags meths
      else
        case run meth of
          Inl e \<Rightarrow> if is_exception e then try_methods run method_flags meths else Inl e
        | Inr head \<Rightarrow> if head \<noteq> 0 then Inr head else try_methods run method_flags meths)"

definition getInterpreterStateAddr :: "manager \<Rightarrow> search_data \<Rightarrow> 32 word \<Rightarrow> addr result" where
  "getInterpreterStateAddr m d method_flags = try_methods (run_method m d) method_flags all_methods"


section \<open>What is found is valid\<close>

text \<open>
  A valid state is one whose first thread points back to it and whose dictionaries are dictionaries.
\<close>

lemma valid_dictionaries_True:
  "valid_dictionaries m addrs = Inr True \<longleftrightarrow> (\<forall>a \<in> set addrs. isValidDictionaryObject m a = Inr True)"
  by (induction addrs) (auto simp: result_simps)

lemma valid_state_back_pointer:
  assumes "isValidInterpreterState m addr = Inr True"
  obtains tstate where "getWord m S_is addr (o_tstate_head, 8) = Inr tstate"
    "getWord m S_thread tstate (o_interp, 8) = Inr addr"
    "manager_isAddressValid m addr" "manager_isAddressValid m tstate"
  using assms by (auto simp: isValidInterpreterState_def result_simps split: if_splits)

text \<open>
  The contract of a method: it returns null or the address of a valid state. Trying several methods
  keeps the contract, and the result is that of the first enabled method that decides.
\<close>

definition decides :: "addr result \<Rightarrow> bool" where
  "decides r \<longleftrightarrow> (case r of Inl e \<Rightarrow> \<not> is_exception e | Inr a \<Rightarrow> a \<noteq> 0)"

locale interpreter_finder =
  fixes valid :: "addr \<Rightarrow> bool" and run :: "StackMethodFlag \<Rightarrow> addr result"
  assumes run_valid: "run meth = Inr a \<Longrightarrow> a \<noteq> 0 \<Longrightarrow> valid a"
begin

lemma try_methods_first:
  "try_methods run flags meths =
     (case List.find (\<lambda>meth. bit flags (method_bit meth) \<and> decides (run meth)) meths of
        None \<Rightarrow> Inr 0
      | Some meth \<Rightarrow> run meth)"
  by (induction meths) (auto simp: decides_def split: sum.splits)

lemma try_methods_valid:
  assumes "try_methods run flags meths = Inr a" and "a \<noteq> 0" shows "valid a"
  using assms run_valid by (auto simp: try_methods_first split: option.splits)

end

lemma checked_valid:
  "rbind (isValidInterpreterState m s) (\<lambda>ok. Inr (if \<not> ok then 0 else s)) = Inr a \<Longrightarrow> a \<noteq> 0 \<Longrightarrow>
     isValidInterpreterState m a = Inr True"
  by (auto simp: result_simps split: if_splits)

lemma from_pyruntime_valid:
  "findInterpreterStateFromPyRuntime m r = Inr a \<Longrightarrow> a \<noteq> 0 \<Longrightarrow> isValidInterpreterState m a = Inr True"
  by (auto simp: findInterpreterStateFromPyRuntime_def result_simps split: if_splits)

lemma from_symbols_valid:
  "findInterpreterStateFromSymbols m = Inr a \<Longrightarrow> a \<noteq> 0 \<Longrightarrow> isValidInterpreterState m a = Inr True"
  by (auto simp: findInterpreterStateFromSymbols_def findInterpreterStateFromPointer_def Let_def
      result_simps dest: from_pyruntime_valid split: if_splits)

lemma from_debug_offsets_valid:
  "findInterpreterStateFromDebugOffsets m = Inr a \<Longrightarrow> a \<noteq> 0 \<Longrightarrow> isValidInterpreterState m a = Inr True"
  by (auto simp: findInterpreterStateFromDebugOffsets_def result_simps split: if_splits)

lemma scan_words_valid:
  "scan_words m buf off = Inr a \<Longrightarrow> a \<noteq> 0 \<Longrightarrow> isValidInterpreterState m a = Inr True"
proof (induction m buf off rule: scan_words.induct)
  case (1 m buf off)
  from "1.prems" show ?case
    by (subst (asm) scan_words.simps)
      (auto simp: Let_def result_simps split: if_splits intro: "1.IH" [OF _ _ refl])
qed

lemma scan_option_valid:
  "scan_option m area = Inr a \<Longrightarrow> a \<noteq> 0 \<Longrightarrow> isValidInterpreterState m a = Inr True"
  by (auto simp: scan_option_def scanMemoryAreaForInterpreterState_def result_simps
      dest: scan_words_valid split: option.splits)

lemma scan_anonymous_valid:
  "scan_anonymous m vmaps = Inr a \<Longrightarrow> a \<noteq> 0 \<Longrightarrow> isValidInterpreterState m a = Inr True"
  by (induction vmaps)
    (auto simp: scanMemoryAreaForInterpreterState_def result_simps dest: scan_words_valid split: if_splits)

interpretation search: interpreter_finder "\<lambda>a. isValidInterpreterState m a = Inr True" "run_method m d" for m d
proof
  fix meth a assume "run_method m d meth = Inr a" "a \<noteq> 0"
  then show "isValidInterpreterState m a = Inr True"
    by (cases meth)
      (auto simp: findInterpreterStateFromElfData_def scanBSS_def scanHeap_def scanAllAnonymousMaps_def
        dest: from_pyruntime_valid from_symbols_valid from_debug_offsets_valid scan_option_valid
          scan_anonymous_valid split: if_splits)
qed


text \<open>
  Property C8. Whatever method finds it, the address that \<open>getInterpreterStateAddr\<close> returns, unless it
  is null, is one that passed validation: it and its first thread lie in mapped memory and the thread
  points back to it.
\<close>

theorem found_interpreter_is_valid:
  assumes "getInterpreterStateAddr m d method_flags = Inr addr" and "addr \<noteq> 0"
  shows "isValidInterpreterState m addr = Inr True \<and> manager_isAddressValid m addr \<and>
    (\<exists>tstate. getWord m S_is addr (o_tstate_head, 8) = Inr tstate \<and> manager_isAddressValid m tstate \<and>
       getWord m S_thread tstate (o_interp, 8) = Inr addr)"
proof -
  have "isValidInterpreterState m addr = Inr True"
    using assms search.try_methods_valid unfolding getInterpreterStateAddr_def by blast
  then show ?thesis by (auto elim: valid_state_back_pointer)
qed

text \<open>
  The enabled methods are tried in the order debug offsets, ELF data, symbols, BSS,
  anonymous mappings, heap, and the first that finds an address decides: a method that raises an
  exception counts as one that found nothing, so the search itself never raises one.
\<close>

theorem methods_tried_in_order:
  "getInterpreterStateAddr m d method_flags =
     (case List.find (\<lambda>meth. bit method_flags (method_bit meth) \<and> decides (run_method m d meth))
             [METHOD_DEBUG_OFFSETS, METHOD_ELF_DATA, METHOD_SYMBOLS, METHOD_BSS,
              METHOD_ANONYMOUS_MAPS, METHOD_HEAP] of
        None \<Rightarrow> Inr 0
      | Some meth \<Rightarrow> run_method m d meth)"
  unfolding getInterpreterStateAddr_def all_methods_def search.try_methods_first ..

lemma search_raises_no_exception:
  "getInterpreterStateAddr m d method_flags = Inl e \<Longrightarrow> \<not> is_exception e"
  unfolding getInterpreterStateAddr_def search.try_methods_first
  by (auto simp: decides_def dest!: find_SomeD split: option.splits sum.splits)

section \<open>What scanning finds\<close>

lemma addresses_of_drop:
  assumes "off + 8 \<le> length buf" and "8 dvd length buf" and "8 dvd off"
  shows "addresses_of (drop off buf) = le_word (block off 8 buf) # addresses_of (drop (off + 8) buf)"
proof -
  let ?n = "length (drop (off + 8) buf) div 8"
  have "length (drop off buf) div 8 = Suc ?n" using assms by (auto elim!: dvdE)
  then have "addresses_of (drop off buf) = map (\<lambda>i. le_word (block (8 * i) 8 (drop off buf))) [0..<Suc ?n]"
    by (simp add: addresses_of_def chunks_def)
  also have "\<dots> = le_word (block off 8 buf) # map (\<lambda>i. le_word (block (8 * Suc i) 8 (drop off buf))) [0..<?n]"
    by (simp add: map_upt_Suc block_drop del: upt_Suc)
  also have "map (\<lambda>i. le_word (block (8 * Suc i) 8 (drop off buf))) [0..<?n] = addresses_of (drop (off + 8) buf)"
    by (simp add: addresses_of_def chunks_def block_drop ac_simps)
  finally show ?thesis .
qed

lemma scan_words_find:
  assumes "8 dvd length buf"
  shows "8 dvd off \<Longrightarrow> \<forall>w \<in> set (addresses_of (drop off buf)). succeeds (isValidInterpreterState m w) \<Longrightarrow>
    scan_words m buf off =
      Inr (case List.find (\<lambda>w. isValidInterpreterState m w = Inr True) (addresses_of (drop off buf)) of
             None \<Rightarrow> 0 | Some w \<Rightarrow> w)"
proof (induction "length buf - off" arbitrary: off rule: less_induct)
  case less
  show ?case
  proof (cases "off \<ge> length buf")
    case True
    then show ?thesis by (subst scan_words.simps) (simp add: addresses_of_def chunks_def)
  next
    case False
    with assms less.prems(1) have le: "off + 8 \<le> length buf" by (auto elim!: dvdE)
    let ?w = "le_word (block off 8 buf) :: addr"
    note rest = addresses_of_drop [OF le assms less.prems(1)]
    obtain b where b: "isValidInterpreterState m ?w = Inr b" using less.prems(2) rest by auto
    have "scan_words m buf (off + 8) =
        Inr (case List.find (\<lambda>w. isValidInterpreterState m w = Inr True) (addresses_of (drop (off + 8) buf)) of
               None \<Rightarrow> 0 | Some w \<Rightarrow> w)"
      using less.prems rest False by (intro less.hyps) auto
    with le b rest show ?thesis by (subst scan_words.simps) (simp add: Let_def)
  qed
qed


text \<open>
  A scan of a readable area of whole words returns the first word that is the address of a
  valid state, and null when there is none.
\<close>

theorem scan_finds_first_valid:
  assumes "d_manager m (d_start vmap) (map_Size vmap) = Inr buf" and "unat (map_Size vmap) < 2 ^ 63"
    and "8 dvd length buf" and "\<forall>w \<in> set (addresses_of buf). succeeds (isValidInterpreterState m w)"
  shows "scanMemoryAreaForInterpreterState m vmap =
    Inr (case List.find (\<lambda>w. isValidInterpreterState m w = Inr True) (addresses_of buf) of
           None \<Rightarrow> 0 | Some w \<Rightarrow> w)"
  using scan_words_find [OF assms(3), of 0 m] assms
  by (simp add: scanMemoryAreaForInterpreterState_def vec_resize_def)

text \<open>
  The scan of all anonymous mappings ends at the first of them that cannot be read, such as
  a guard page: the mappings after it are not scanned, whatever they hold. (The search for the debug
  offsets skips such mappings.)
\<close>

theorem anonymous_scan_stops_at_unreadable_map:
  assumes "d_memory_maps m = earlier @ vmap # rest"
    and "\<forall>v \<in> set earlier. d_path v = '''' \<longrightarrow> scanMemoryAreaForInterpreterState m v = Inr 0"
    and "d_path vmap = ''''" and "unat (map_Size vmap) < 2 ^ 63"
    and "d_manager m (d_start vmap) (map_Size vmap) = Inl e"
  shows "scanAllAnonymousMaps m = Inl e"
proof -
  have "scan_anonymous m (earlier @ vmap # rest) = Inl e"
    using assms(2-5)
    by (induction earlier) (auto simp: scanMemoryAreaForInterpreterState_def vec_resize_def)
  with assms(1) show ?thesis by (simp add: scanAllAnonymousMaps_def)
qed

text \<open>
  The size of an area need not be a multiple of eight (that of the BSS section is what the file says):
  the last words are then read beyond the buffer.
\<close>

theorem scan_reads_beyond_the_area:
  "length buf = 4 \<Longrightarrow> scan_words m buf 0 = Inl Undefined"
  by (subst scan_words.simps) simp

text \<open>
  A target with one interpreter state, at 4096, whose thread at 4128 points back to it and runs no
  frame. Its dictionaries are one object at 4160 of a type with the flag of dictionaries. A pointer to the state is at 8200, in
  a mapping from 8192; the mapping from 12288 cannot be read.
\<close>

definition search_map :: "addr \<Rightarrow> addr \<Rightarrow> virtual_map" where
  "search_map a b = virtual_map_new a b (b - a) ''rw-p'' 0 ''00:00'' 0 ''''"

definition search_target :: "virtual_map list \<Rightarrow> manager" where
  "search_target vmaps = (segments_manager (3, 12)
     (zero_python_v
        \<lparr>py_is := \<lparr>is_size = 32, is_o_next = 16, o_tstate_head = 0, is_o_gc = 16, o_modules = 8, o_sysdict = 8,
                   o_builtins = 8, o_gil_runtime_state = 0, o_id = 24\<rparr>,
         py_thread := \<lparr>thread_size = 32, o_prev = 0, thread_o_next = 8, o_interp = 0, o_frame = 0,
                       o_thread_id = 16, o_native_thread_id = 24\<rparr>,
         py_object := \<lparr>object_size = 8, o_ob_type = 0\<rparr>,
         py_type := \<lparr>type_size = 16, o_tp_name = 8, o_tp_repr = 8, o_tp_flags = 0\<rparr>,
         py_cframe := \<lparr>cframe_size = 24, current_frame = 16\<rparr>, py_gc := \<lparr>gc_size = 8, o_collecting = 0\<rparr>\<rparr>)
     [(4096, [32, 16, 0, 0, 0, 0, 0, 0,  64, 16, 0, 0, 0, 0, 0, 0,  0, 0, 0, 0, 0, 0, 0, 0,  0, 0, 0, 0, 0, 0, 0, 0]),
      (4128, [0, 16, 0, 0, 0, 0, 0, 0,  0, 0, 0, 0, 0, 0, 0, 0,  0, 0, 0, 0, 0, 0, 0, 0,  7, 0, 0, 0, 0, 0, 0, 0]),
      (4160, [72, 16, 0, 0, 0, 0, 0, 0]),
      (4168, [0, 0, 0, 32, 0, 0, 0, 0,  0, 0, 0, 0, 0, 0, 0, 0]),
      (8192, [7, 0, 0, 0, 0, 0, 0, 0,  0, 16, 0, 0, 0, 0, 0, 0])])
     \<lparr>d_memory_maps := search_map 4096 4184 # vmaps, d_tids := [7, 8]\<rparr>"


lemma search_target_simps [simp]:
  "d_manager (m\<lparr>d_memory_maps := maps, d_tids := tids\<rparr>) = d_manager m"
  "offsets (m\<lparr>d_memory_maps := maps, d_tids := tids\<rparr>) = offsets m"
  "versionIsAtLeast (m\<lparr>d_memory_maps := maps, d_tids := tids\<rparr>) x y = versionIsAtLeast m x y"
  by (simp_all add: offsets_def versionIsAtLeast_def split: option.splits)

lemma search_target_addresses:
  "manager_isAddressValid (search_target vmaps) a \<longleftrightarrow>
     a \<noteq> 0 \<and> (4096 \<le> a \<and> a < 4184 \<or> list_ex (\<lambda>v. containsAddr v a) vmaps)"
  by (auto simp: manager_isAddressValid_def search_target_def segments_manager_def search_map_def
      virtual_map_new_def containsAddr_def list_ex_iff)

lemma search_target_dictionary: "isValidDictionaryObject (search_target vmaps) 4160 = Inr True"
proof -
  have "getCStringFromAddress (search_target vmaps) 0 = Inl InvalidRemoteAddress"
    by (intro getCString_stops [of "[]", where stop = "Inl InvalidRemoteAddress", simplified])
      (simp_all add: search_target_def eval_reads)
  moreover have "copyFromRemote (search_target vmaps) S_object 4160 = Inr [72, 16, 0, 0, 0, 0, 0, 0]"
    "getWord (search_target vmaps) S_object 4160 (o_ob_type, 8) = Inr (4168 :: addr)"
    "getWord (search_target vmaps) S_type 4168 (o_tp_flags, 8) = Inr (2 ^ 29 :: 64 word)"
    "getWord (search_target vmaps) S_type 4168 (o_tp_name, 8) = Inr (0 :: addr)"
    "getWord (search_target vmaps) S_type 4168 (o_tp_repr, 8) = Inr (0 :: addr)"
    by (simp_all add: search_target_def eval_reads)
  moreover have "d_find_symbol (search_target vmaps) = (\<lambda>_. 0)" by (simp add: search_target_def)
  ultimately have "new_object (search_target vmaps) 4160 =
      Inr \<lparr>obj_addr = 4160, obj_type_addr = 4168, classname = ''float'', obj_flags = 2 ^ 29\<rparr>"
    by (simp add: new_object_def guessClassName_def)
  then show ?thesis
    by (simp add: isValidDictionaryObject_def search_target_addresses objectType_def subclass_mask_def)
qed

lemma search_target_state: "isValidInterpreterState (search_target vmaps) 4096 = Inr True"
proof -
  have "valid_dictionaries (search_target vmaps) [4160, 4160, 4160] = Inr True"
    by (simp add: search_target_dictionary)
  moreover have "copyFromRemote (search_target vmaps) S_is 4096 = Inr [32, 16, 0, 0, 0, 0, 0, 0,  64, 16, 0, 0, 0, 0, 0, 0,  0, 0, 0, 0, 0, 0, 0, 0,  0, 0, 0, 0, 0, 0, 0, 0]"
    "copyFromRemote (search_target vmaps) S_thread 4128 = Inr [0, 16, 0, 0, 0, 0, 0, 0,  0, 0, 0, 0, 0, 0, 0, 0,  0, 0, 0, 0, 0, 0, 0, 0,  7, 0, 0, 0, 0, 0, 0, 0]"
    "getWord (search_target vmaps) S_is 4096 (o_tstate_head, 8) = Inr (4128 :: addr)"
    "getWord (search_target vmaps) S_thread 4128 (o_interp, 8) = Inr (4096 :: addr)"
    "getWord (search_target vmaps) S_is 4096 (o_modules, 8) = Inr (4160 :: addr)"
    "getWord (search_target vmaps) S_is 4096 (o_sysdict, 8) = Inr (4160 :: addr)"
    "getWord (search_target vmaps) S_is 4096 (o_builtins, 8) = Inr (4160 :: addr)"
    by (simp_all add: search_target_def eval_reads)
  ultimately show ?thesis by (simp add: isValidInterpreterState_def search_target_addresses copied_def)
qed

lemma search_target_garbage: "isValidInterpreterState (search_target []) 7 = Inr False"
  by (simp add: isValidInterpreterState_def search_target_addresses)

text \<open>With the mapping from 8192 the scan of the anonymous mappings finds the state.\<close>

definition search_buffer :: bytes where
  "search_buffer = [7, 0, 0, 0, 0, 0, 0, 0,  0, 16, 0, 0, 0, 0, 0, 0]"

lemma search_target_scan:
  "addresses_of search_buffer = [7, 4096]"
  "8 dvd length search_buffer"
  "\<forall>w \<in> set (addresses_of search_buffer). succeeds (isValidInterpreterState (search_target []) w)"
  "d_manager (search_target []) (d_start (search_map 8192 8208)) (map_Size (search_map 8192 8208)) =
     Inr search_buffer"
  "unat (map_Size (search_map 8192 8208)) < 2 ^ 63"
proof -
  show "addresses_of search_buffer = [7, 4096]"
    by (simp add: search_buffer_def addresses_of_def chunks_def block_def le_word_def upt_rec)
  then show "\<forall>w \<in> set (addresses_of search_buffer). succeeds (isValidInterpreterState (search_target []) w)"
    by (simp add: search_target_garbage search_target_state) blast
  have "length search_buffer = 16" by (simp add: search_buffer_def)
  then show "8 dvd length search_buffer" by presburger
qed (simp_all add: search_target_def search_map_def virtual_map_new_def map_Size_def segments_copier_def
      block_def search_buffer_def)

theorem scan_finds_first_valid_witness:
  "scanMemoryAreaForInterpreterState (search_target []) (search_map 8192 8208) = Inr 4096"
  using scan_finds_first_valid [OF search_target_scan(4,5,2,3)]
  by (simp add: search_target_scan(1) search_target_garbage search_target_state)

lemma search_target_symbols:
  "getInterpreterStateAddr (search_target []) \<lparr>elf_pyruntime = 0, search_bss = Some (search_map 8192 8208), search_heap = None\<rparr> 4 =
     Inr 4096"
proof -
  have "scanMemoryAreaForInterpreterState (search_target []) (search_map 8192 8208) = Inr 4096"
    using scan_words_find [OF search_target_scan(2), of 0 "search_target []"] search_target_scan
    by (simp add: scanMemoryAreaForInterpreterState_def vec_resize_def search_target_garbage
        search_target_state)
  then show ?thesis
    by (simp add: getInterpreterStateAddr_def all_methods_def scanBSS_def scan_option_def bit_numeral_rec)
qed

theorem found_interpreter_is_valid_witness:
  "isValidInterpreterState (search_target []) 4096 = Inr True \<and>
   getWord (search_target []) S_thread 4128 (o_interp, 8) = Inr (4096 :: addr)"
proof -
  have "getWord (search_target []) S_is 4096 (o_tstate_head, 8) = Inr (4128 :: addr)"
    by (simp add: search_target_def eval_reads)
  with found_interpreter_is_valid [OF search_target_symbols] show ?thesis by auto
qed

theorem anonymous_scan_stops_at_unreadable_map_witness:
  "scanAllAnonymousMaps (search_target [search_map 12288 12296, search_map 8192 8208]) = Inl InvalidRemoteAddress"
proof (rule anonymous_scan_stops_at_unreadable_map [of _ "[]"])
  show "d_memory_maps (search_target [search_map 12288 12296, search_map 8192 8208]) =
      [] @ search_map 4096 4184 # [search_map 12288 12296, search_map 8192 8208]"
    by (simp add: search_target_def)
qed (simp_all add: search_map_def virtual_map_new_def map_Size_def search_target_def segments_copier_def)

end
