(* ===== verification/Normalize_Threads.thy ===== *)
theory Normalize_Threads
  imports Thread_Data "HOL-Library.Multiset"
begin

text \<open>
  The post-processing of the discovered threads (\<open>bindings.cpp\<close>): several interpreters can
  run on one OS thread, so the threads are grouped by tid, the stacks of a tid are ordered from
  outermost to innermost by their stack anchor, and the native stack, which all of them share, is cut
  into the chunks that belong to each Python stack.
\<close>

section \<open>The model\<close>

datatype NativeReportingMode = Native_OFF | Native_PYTHON | Native_ALL | Native_LAST

definition numEntryFrames :: "PyThreadData \<Rightarrow> nat" where
  "numEntryFrames thr = length (filter is_entry (frames thr))"

text \<open>
  \<open>std::stable_sort\<close> with the comparison of pairs; the negated anchor is an unsigned word.
\<close>

definition anchor_key :: "PyThreadData \<Rightarrow> int \<times> addr" where
  "anchor_key a = (if stack_anchor a = 0 then 1 else 0, - stack_anchor a)"

definition sortThreadsByStackAnchor :: "PyThreadData list \<Rightarrow> PyThreadData list" where
  "sortThreadsByStackAnchor data = sort_key anchor_key data"

definition eval_indices :: "NativeFrame list \<Rightarrow> int \<times> int \<Rightarrow> nat list" where
  "eval_indices natives python_version =
     filter (\<lambda>i. is_eval_frame (symbol (natives ! i)) python_version) [0..<length natives]"

text \<open>
  The loop of \<open>sliceNativeStack\<close>; \<open>cursor\<close> counts the evaluation frames handed out and
  \<open>natives_cursor\<close> is the iterator into the native frames.
\<close>

fun slice_loop ::
  "NativeFrame list \<Rightarrow> nat list \<Rightarrow> nat \<Rightarrow> nat \<Rightarrow> PyThreadData list \<Rightarrow> PyThreadData list" where
  "slice_loop natives eval_index cursor natives_cursor [] = []"
| "slice_loop natives eval_index cursor natives_cursor (thr # rest) =
     (if numEntryFrames thr = 0 then
        thr\<lparr>native_frames := []\<rparr> # slice_loop natives eval_index cursor natives_cursor rest
      else
        let next_cursor = cursor + numEntryFrames thr;
            next_natives =
              (if next_cursor < length eval_index then eval_index ! next_cursor else length natives)
        in thr\<lparr>native_frames := block natives_cursor (next_natives - natives_cursor) natives\<rparr>
           # slice_loop natives eval_index next_cursor next_natives rest)"

definition sliceNativeStack :: "PyThreadData list \<Rightarrow> int \<times> int \<Rightarrow> PyThreadData list" where
  "sliceNativeStack data python_version =
     (if data = [] \<or> native_frames (hd data) = [] then data
      else
        let natives = native_frames (hd data);
            eval_index = eval_indices natives python_version;
            total_entry_frames = foldl (\<lambda>acc d. acc + numEntryFrames d) 0 data
        in if length eval_index \<noteq> total_entry_frames then data
           else slice_loop natives eval_index 0 0 data)"

text \<open>The grouping loop; \<open>try_emplace\<close> inserts the index of a new group for a new tid.\<close>

definition group_step ::
  "(int \<rightharpoonup> nat) \<times> PyThreadData list list \<Rightarrow> PyThreadData \<Rightarrow> (int \<rightharpoonup> nat) \<times> PyThreadData list list" where
  "group_step acc thr =
     (case acc of (tid_to_group, groups) \<Rightarrow>
        (case tid_to_group (tid thr) of
           None \<Rightarrow> (tid_to_group(tid thr \<mapsto> length groups), groups @ [[thr]])
         | Some i \<Rightarrow> (tid_to_group, groups[i := groups ! i @ [thr]])))"

definition group_by_tid :: "PyThreadData list \<Rightarrow> PyThreadData list list" where
  "group_by_tid threads = snd (foldl group_step (Map.empty, []) threads)"

definition normalize_group ::
  "NativeReportingMode \<Rightarrow> int \<times> int \<Rightarrow> PyThreadData list \<Rightarrow> PyThreadData list" where
  "normalize_group native_mode python_version grp =
     (if length grp > 1 then
        let sorted_group = sortThreadsByStackAnchor grp in
        if native_mode \<noteq> Native_OFF then sliceNativeStack sorted_group python_version else sorted_group
      else grp)"

definition normalizeThreads ::
  "PyThreadData list \<Rightarrow> NativeReportingMode \<Rightarrow> int \<times> int \<Rightarrow> PyThreadData list" where
  "normalizeThreads threads native_mode python_version =
     concat (map (normalize_group native_mode python_version) (group_by_tid threads))"

section \<open>Grouping\<close>

text \<open>The tids in the order in which they are first seen, and the groups they stand for.\<close>

definition first_seen :: "'a list \<Rightarrow> 'a list" where
  "first_seen xs = rev (remdups (rev xs))"

definition with_tid :: "int \<Rightarrow> PyThreadData list \<Rightarrow> PyThreadData list" where
  "with_tid t threads = filter (\<lambda>thr. tid thr = t) threads"

lemma first_seen_Nil [simp]: "first_seen [] = []"
  by (simp add: first_seen_def)

lemma first_seen_snoc [simp]:
  "first_seen (xs @ [x]) = (if x \<in> set xs then first_seen xs else first_seen xs @ [x])"
  by (simp add: first_seen_def)

lemma set_first_seen [simp]: "set (first_seen xs) = set xs"
  by (simp add: first_seen_def)

lemma distinct_first_seen [simp]: "distinct (first_seen xs)"
  by (simp add: first_seen_def)

lemma first_seen_distinct: "distinct xs \<Longrightarrow> first_seen xs = xs"
  by (simp add: first_seen_def distinct_remdups_id)

definition index_in :: "'a list \<Rightarrow> 'a \<rightharpoonup> nat" where
  "index_in xs x = (if x \<in> set xs then Some (length (takeWhile (\<lambda>y. y \<noteq> x) xs)) else None)"

lemma filter_key_distinct: "distinct (map f xs) \<Longrightarrow> x \<in> set xs \<Longrightarrow> filter (\<lambda>y. f y = f x) xs = [x]"
proof (induction xs)
  case (Cons a xs)
  then have "filter (\<lambda>y. f y = f a) xs = []" by (simp add: filter_empty_conv) (metis image_eqI)
  with Cons show ?case by auto
qed simp

lemma index_in_SomeD: "index_in xs x = Some i \<Longrightarrow> i < length xs \<and> xs ! i = x"
  by (induction xs arbitrary: i) (auto simp: index_in_def split: if_splits)

lemma index_in_snoc:
  "x \<notin> set xs \<Longrightarrow> index_in (xs @ [x]) = (index_in xs)(x \<mapsto> length xs)"
proof -
  assume x: "x \<notin> set xs"
  have "takeWhile (\<lambda>y. y \<noteq> x) xs = xs" using x by (simp add: takeWhile_eq_all_conv) metis
  then show ?thesis using x by (auto simp: index_in_def fun_eq_iff takeWhile_append)
qed

lemma foldl_group_step:
  "foldl group_step (Map.empty, []) threads =
     (index_in (first_seen (map tid threads)),
      map (\<lambda>t. with_tid t threads) (first_seen (map tid threads)))"
proof (induction threads rule: rev_induct)
  case Nil
  show ?case by (simp add: index_in_def fun_eq_iff)
next
  case (snoc thr threads)
  let ?seen = "first_seen (map tid threads)"
  show ?case
  proof (cases "tid thr \<in> set (map tid threads)")
    case False
    then have "index_in ?seen (tid thr) = None" by (simp add: index_in_def)
    moreover have "with_tid (tid thr) threads = []"
      using False unfolding with_tid_def filter_empty_conv by (metis image_eqI list.set_map)
    moreover have "with_tid t (threads @ [thr]) = with_tid t threads" if "t \<in> set ?seen" for t
      using that False by (auto simp: with_tid_def)
    moreover have "with_tid (tid thr) (threads @ [thr]) = with_tid (tid thr) threads @ [thr]"
      by (simp add: with_tid_def)
    moreover have "index_in (?seen @ [tid thr]) = (index_in ?seen)(tid thr \<mapsto> length ?seen)"
      using False by (intro index_in_snoc) simp
    ultimately show ?thesis
      using False snoc by (auto simp: group_step_def fun_eq_iff)
  next
    case True
    then obtain i where i: "index_in ?seen (tid thr) = Some i" by (simp add: index_in_def)
    from index_in_SomeD [OF i] have i': "i < length ?seen" "?seen ! i = tid thr" by auto
    have "(map (\<lambda>t. with_tid t threads) ?seen)[i := with_tid (tid thr) threads @ [thr]] =
        map (\<lambda>t. with_tid t (threads @ [thr])) ?seen"
    proof (rule nth_equalityI)
      fix j assume "j < length ((map (\<lambda>t. with_tid t threads) ?seen)[i := with_tid (tid thr) threads @ [thr]])"
      then have j: "j < length ?seen" by simp
      then have "?seen ! j = tid thr \<longleftrightarrow> j = i"
        using i' by (metis distinct_first_seen nth_eq_iff_index_eq)
      with j i' show "(map (\<lambda>t. with_tid t threads) ?seen)[i := with_tid (tid thr) threads @ [thr]] ! j =
          map (\<lambda>t. with_tid t (threads @ [thr])) ?seen ! j"
        by (auto simp: with_tid_def nth_list_update)
    qed simp
    with True snoc i i' show ?thesis by (simp add: group_step_def)
  qed
qed

lemma group_by_tid_eq:
  "group_by_tid threads = map (\<lambda>t. with_tid t threads) (first_seen (map tid threads))"
  by (simp add: group_by_tid_def foldl_group_step)

section \<open>Slicing\<close>

definition entry_total :: "PyThreadData list \<Rightarrow> nat" where
  "entry_total data = sum_list (map numEntryFrames data)"

lemma entry_total_simps [simp]:
  "entry_total [] = 0"
  "entry_total (thr # data) = numEntryFrames thr + entry_total data"
  by (simp_all add: entry_total_def)

lemma foldl_entry_total: "foldl (\<lambda>acc d. acc + numEntryFrames d) n data = n + entry_total data"
  by (induction data arbitrary: n) simp_all

definition eval_count :: "int \<times> int \<Rightarrow> NativeFrame list \<Rightarrow> nat" where
  "eval_count v natives = length (filter (\<lambda>f. is_eval_frame (symbol f) v) natives)"

lemma eval_count_append [simp]: "eval_count v (xs @ ys) = eval_count v xs + eval_count v ys"
  by (simp add: eval_count_def)

lemma eval_count_indices:
  "k \<le> length natives \<Longrightarrow>
     eval_count v (take k natives) =
     length (filter (\<lambda>i. is_eval_frame (symbol (natives ! i)) v) [0..<k])"
proof -
  assume k: "k \<le> length natives"
  have "take k natives = map ((!) natives) [0..<k]"
    using k by (intro nth_equalityI) auto
  then show ?thesis by (simp add: eval_count_def filter_map o_def)
qed

lemma eval_count_length: "length (eval_indices natives v) = eval_count v natives"
  using eval_count_indices [of "length natives" natives v] by (simp add: eval_indices_def)

lemma eval_index_bound: "c < length (eval_indices natives v) \<Longrightarrow> eval_indices natives v ! c < length natives"
  using nth_mem [of c "eval_indices natives v"] by (auto simp: eval_indices_def)

text \<open>Where the chunk that starts with the evaluation frame number \<open>c\<close> begins.\<close>

definition boundary :: "NativeFrame list \<Rightarrow> nat list \<Rightarrow> nat \<Rightarrow> nat" where
  "boundary natives eval_index c =
     (if c = 0 then 0 else if c < length eval_index then eval_index ! c else length natives)"

lemma boundary_0 [simp]: "boundary natives ev 0 = 0"
  by (simp add: boundary_def)

lemma boundary_le: "boundary natives (eval_indices natives v) c \<le> length natives"
  using eval_index_bound [of c natives v] by (simp add: boundary_def less_imp_le)

lemma filter_upt_before_nth:
  assumes c: "c < length (filter P [0..<n])" and k: "k = filter P [0..<n] ! c"
  shows "length (filter P [0..<k]) = c"
proof -
  let ?ev = "filter P [0..<n]"
  have "k \<in> set ?ev" using c k nth_mem by blast
  then have kn: "k < n" "P k" by auto
  then have "[0..<n] = [0..<k] @ k # [Suc k..<n]"
    using upt_add_eq_append [of 0 k "n - k"] by (simp add: upt_conv_Cons)
  then have ev: "?ev = filter P [0..<k] @ k # filter P [Suc k..<n]" using kn by simp
  then have "?ev ! length (filter P [0..<k]) = k" "length (filter P [0..<k]) < length ?ev" by simp_all
  moreover have "distinct ?ev" by simp
  ultimately show ?thesis using c k by (metis nth_eq_iff_index_eq)
qed

lemma evals_before_boundary:
  "c \<le> length (eval_indices natives v) \<Longrightarrow>
     eval_count v (take (boundary natives (eval_indices natives v) c) natives) = c"
proof -
  assume c: "c \<le> length (eval_indices natives v)"
  consider "c = 0" | "0 < c" "c < length (eval_indices natives v)" | "0 < c" "c = length (eval_indices natives v)"
    using c by linarith
  then show ?thesis
  proof cases
    case 2
    then have "eval_count v (take (eval_indices natives v ! c) natives) = c"
      using filter_upt_before_nth [of c] eval_index_bound [of c]
      by (simp add: eval_count_indices less_imp_le eval_indices_def)
    with 2 show ?thesis by (simp add: boundary_def)
  qed (simp_all add: boundary_def eval_count_length eval_count_def)
qed

lemma boundary_mono:
  assumes "c \<le> d" and "d \<le> length (eval_indices natives v)"
  shows "boundary natives (eval_indices natives v) c \<le> boundary natives (eval_indices natives v) d"
proof (rule ccontr)
  let ?b = "boundary natives (eval_indices natives v)"
  assume "\<not> ?b c \<le> ?b d"
  then have "take (?b c) natives = take (?b d) natives @ drop (?b d) (take (?b c) natives)"
    using append_take_drop_id [of "?b d" "take (?b c) natives"] by (simp add: min_def)
  then have "eval_count v (take (?b c) natives) =
      eval_count v (take (?b d) natives) + eval_count v (drop (?b d) (take (?b c) natives))"
    by (metis eval_count_append)
  then have "d \<le> c" using assms by (simp add: evals_before_boundary)
  with assms(1) have "c = d" by simp
  with \<open>\<not> ?b c \<le> ?b d\<close> show False by blast
qed

lemma block_split: "i \<le> j \<Longrightarrow> j \<le> k \<Longrightarrow> block i (j - i) xs @ block j (k - j) xs = block i (k - i) xs"
proof -
  assume "i \<le> j" "j \<le> k"
  then have "take (k - i) (drop i xs) = take (j - i) (drop i xs) @ take (k - j) (drop (j - i) (drop i xs))"
    using take_add [of "j - i" "k - j" "drop i xs"] by simp
  with \<open>i \<le> j\<close> show ?thesis by (simp add: block_def add.commute)
qed

lemma eval_count_chunk:
  assumes "c + n \<le> length (eval_indices natives v)"
  defines "b \<equiv> boundary natives (eval_indices natives v)"
  shows "eval_count v (block (b c) (b (c + n) - b c) natives) = n"
proof -
  have "b c \<le> b (c + n)" unfolding b_def using assms(1) by (intro boundary_mono) simp_all
  then have "block 0 (b c) natives @ block (b c) (b (c + n) - b c) natives = block 0 (b (c + n)) natives"
    using block_split [of 0 "b c" "b (c + n)" natives] by simp
  then have "eval_count v (take (b c) natives) + eval_count v (block (b c) (b (c + n) - b c) natives) =
      eval_count v (take (b (c + n)) natives)"
    by (metis block_def drop0 eval_count_append)
  then show ?thesis using assms(1) unfolding b_def by (simp add: evals_before_boundary)
qed

lemma slice_loop_spec:
  assumes "c + entry_total data \<le> length (eval_indices natives v)"
  defines "b \<equiv> boundary natives (eval_indices natives v)"
  shows "concat (map native_frames (slice_loop natives (eval_indices natives v) c (b c) data)) =
           block (b c) (b (c + entry_total data) - b c) natives \<and>
         (\<forall>thr \<in> set (slice_loop natives (eval_indices natives v) c (b c) data).
            eval_count v (native_frames thr) = numEntryFrames thr)"
  using assms(1)
proof (induction data arbitrary: c)
  case Nil
  show ?case by (simp add: block_def)
next
  case (Cons thr data)
  let ?n = "numEntryFrames thr"
  have entry: "numEntryFrames (thr\<lparr>native_frames := x\<rparr>) = ?n" for x by (simp add: numEntryFrames_def)
  show ?case
  proof (cases "?n = 0")
    case True
    with Cons show ?thesis by (simp add: entry) (simp add: eval_count_def)
  next
    case False
    then have nxt: "(if c + ?n < length (eval_indices natives v) then eval_indices natives v ! (c + ?n)
        else length natives) = b (c + ?n)"
      by (simp add: b_def boundary_def)
    have le: "b c \<le> b (c + ?n)" "b (c + ?n) \<le> b (c + ?n + entry_total data)"
      unfolding b_def using Cons.prems by (simp_all add: boundary_mono)
    have "c + ?n + entry_total data \<le> length (eval_indices natives v)" using Cons.prems by simp
    note IH = Cons.IH [OF this]
    have "eval_count v (block (b c) (b (c + ?n) - b c) natives) = ?n"
      using eval_count_chunk [of c ?n natives v] Cons.prems by (simp add: b_def)
    with False nxt IH block_split [OF le, of natives] show ?thesis
      by (simp add: Let_def entry add.assoc)
  qed
qed

lemma slice_loop_strip:
  "map (\<lambda>thr. thr\<lparr>native_frames := []\<rparr>) (slice_loop natives ev c nc data) =
     map (\<lambda>thr. thr\<lparr>native_frames := []\<rparr>) data"
  by (induction data arbitrary: c nc) (simp_all add: Let_def)

lemma sliceNativeStack_strip:
  "map (\<lambda>thr. thr\<lparr>native_frames := []\<rparr>) (sliceNativeStack data v) =
     map (\<lambda>thr. thr\<lparr>native_frames := []\<rparr>) data"
  by (simp add: sliceNativeStack_def Let_def slice_loop_strip)

section \<open>Properties\<close>

text \<open>
  Property C10. When the Python stacks of a tid have entry frames and the native stack has as many
  evaluation frames, slicing partitions the native stack: the chunks put together are the whole native
  stack, in order, and every Python stack gets exactly as many evaluation frames as it has entry
  frames. (Without any entry frame the native stack is dropped: \<open>slicing_drops_native_stack\<close>.)
\<close>

theorem slices_partition_native_stack:
  assumes "data \<noteq> []" and "0 < entry_total data"
    and "eval_count v (native_frames (hd data)) = entry_total data"
  shows "concat (map native_frames (sliceNativeStack data v)) = native_frames (hd data) \<and>
         (\<forall>thr \<in> set (sliceNativeStack data v). eval_count v (native_frames thr) = numEntryFrames thr)"
proof -
  let ?natives = "native_frames (hd data)" and ?ev = "eval_indices (native_frames (hd data)) v"
  have len: "length ?ev = entry_total data" using assms(3) by (simp add: eval_count_length)
  have "?natives \<noteq> []" using assms(2,3) by (auto simp: eval_count_def)
  then have slice: "sliceNativeStack data v = slice_loop ?natives ?ev 0 (boundary ?natives ?ev 0) data"
    using assms(1) len by (simp add: sliceNativeStack_def foldl_entry_total Let_def)
  have "boundary ?natives ?ev (entry_total data) = length ?natives"
    using assms(2) len by (simp add: boundary_def)
  then show ?thesis
    using slice_loop_spec [of 0 data ?natives v] len unfolding slice by simp
qed

lemma normalizeThreads_stripped:
  "map (\<lambda>thr. thr\<lparr>native_frames := []\<rparr>) (normalizeThreads threads mode v) =
     map (\<lambda>thr. thr\<lparr>native_frames := []\<rparr>)
       (concat (map (\<lambda>t. sort_key anchor_key (filter (\<lambda>thr. tid thr = t) threads))
                  (first_seen (map tid threads))))"
proof -
  have "map (\<lambda>thr. thr\<lparr>native_frames := []\<rparr>) (normalize_group mode v grp) =
      map (\<lambda>thr. thr\<lparr>native_frames := []\<rparr>) (sort_key anchor_key grp)" for grp
  proof (cases "length grp > 1")
    case False
    then have "sort_key anchor_key grp = grp" by (cases grp; cases "tl grp") auto
    with False show ?thesis by (simp add: normalize_group_def)
  qed (simp add: normalize_group_def sortThreadsByStackAnchor_def sliceNativeStack_strip Let_def)
  then show ?thesis
    by (simp add: normalizeThreads_def group_by_tid_eq with_tid_def map_concat o_def)
qed

lemma normalizeThreads_tids: "tid ` set (normalizeThreads threads mode v) = tid ` set threads"
proof -
  let ?strip = "map (\<lambda>thr. thr\<lparr>native_frames := []\<rparr>)"
  have "tid ` set xs = tid ` set (?strip xs)" for xs :: "PyThreadData list"
    by (simp add: image_image)
  then have "tid ` set (normalizeThreads threads mode v) =
      tid ` set (concat (map (\<lambda>t. sort_key anchor_key (filter (\<lambda>thr. tid thr = t) threads))
                  (first_seen (map tid threads))))"
    using normalizeThreads_stripped [of threads mode v] by metis
  also have "\<dots> = tid ` set threads" by auto
  finally show ?thesis .
qed

text \<open>
  The order of the stacks of one tid: \<open>a\<close> may come before \<open>b\<close> when \<open>b\<close> has no anchor, or both have one
  and that of \<open>a\<close> is not lower.
\<close>

definition outer_first :: "PyThreadData \<Rightarrow> PyThreadData \<Rightarrow> bool" where
  "outer_first a b \<longleftrightarrow>
     stack_anchor b = 0 \<or> stack_anchor a \<noteq> 0 \<and> stack_anchor b \<le> stack_anchor a"

lemma neg_word_le: "a \<noteq> 0 \<Longrightarrow> b \<noteq> 0 \<Longrightarrow> - a \<le> - b \<longleftrightarrow> b \<le> (a :: addr)"
proof -
  assume "a \<noteq> 0" "b \<noteq> 0"
  then have nonzero: "uint a \<noteq> 0" "uint b \<noteq> 0" by (simp_all add: uint_0_iff)
  have range: "0 \<le> uint a" "uint a < 2 ^ 64" "0 \<le> uint b" "uint b < 2 ^ 64"
    using uint_lt2p [of a] uint_lt2p [of b] by simp_all
  have "uint (- a) = 2 ^ 64 - uint a" "uint (- b) = 2 ^ 64 - uint b"
    using nonzero range by (simp_all add: uint_word_ariths zmod_zminus1_eq_if)
  then show ?thesis by (simp add: word_le_def)
qed

lemma anchor_key_outer_first: "anchor_key a \<le> anchor_key b \<longleftrightarrow> outer_first a b"
  using neg_word_le [of "stack_anchor a" "stack_anchor b"] by (auto simp: anchor_key_def outer_first_def)

lemma anchor_key_eq: "anchor_key a = anchor_key b \<longleftrightarrow> stack_anchor a = stack_anchor b"
  by (auto simp: anchor_key_def)

lemma sorted_by_anchor:
  "sorted_wrt outer_first (sort_key anchor_key xs)"
  "filter (\<lambda>thr. stack_anchor thr = a) (sort_key anchor_key xs) = filter (\<lambda>thr. stack_anchor thr = a) xs"
proof -
  have "sorted (map anchor_key (sort_key anchor_key xs))" by simp
  then show "sorted_wrt outer_first (sort_key anchor_key xs)"
    by (simp add: sorted_map anchor_key_outer_first)
  show "filter (\<lambda>thr. stack_anchor thr = a) (sort_key anchor_key xs) = filter (\<lambda>thr. stack_anchor thr = a) xs"
  proof (cases "\<exists>y \<in> set xs. stack_anchor y = a")
    case True
    then obtain y :: PyThreadData where "stack_anchor y = a" by blast
    with sort_key_stable [of anchor_key "anchor_key y" xs] show ?thesis by (simp add: anchor_key_eq)
  next
    case False
    then have "filter (\<lambda>thr. stack_anchor thr = a) xs = []"
      "filter (\<lambda>thr. stack_anchor thr = a) (sort_key anchor_key xs) = []"
      by (simp_all add: filter_empty_conv)
    then show ?thesis by simp
  qed
qed

text \<open>
  Property C23. Normalising threads changes nothing but their native frames and their order: the
  threads of a tid come together, tids in the order in which they were first seen; the threads of
  one tid are ordered by their stack anchors, higher addresses, which are the outer stacks, first and
  missing anchors last; and threads of the same tid and anchor are all there, in their original order.
\<close>

theorem normalizeThreads_order:
  "\<exists>groups.
     map (\<lambda>thr. thr\<lparr>native_frames := []\<rparr>) (normalizeThreads threads mode v) =
       map (\<lambda>thr. thr\<lparr>native_frames := []\<rparr>) (concat groups) \<and>
     length groups = length (first_seen (map tid threads)) \<and>
     (\<forall>i < length groups.
        sorted_wrt outer_first (groups ! i) \<and>
        (\<forall>a. filter (\<lambda>thr. stack_anchor thr = a) (groups ! i) =
             filter (\<lambda>thr. tid thr = first_seen (map tid threads) ! i \<and> stack_anchor thr = a) threads))"
  by (intro exI [of _ "map (\<lambda>t. sort_key anchor_key (filter (\<lambda>thr. tid thr = t) threads))
        (first_seen (map tid threads))"])
     (simp add: normalizeThreads_stripped sorted_by_anchor)

text \<open>
  Without subinterpreters, that is when no tid occurs twice, normalisation is the
  identity in every mode.
\<close>

theorem normalizeThreads_distinct:
  assumes "distinct (map tid threads)"
  shows "normalizeThreads threads mode v = threads"
proof -
  note single = filter_key_distinct [OF assms]
  have "normalizeThreads threads mode v =
      concat (map (\<lambda>x. normalize_group mode v (filter (\<lambda>thr. tid thr = tid x) threads)) threads)"
    using assms by (simp add: normalizeThreads_def group_by_tid_eq with_tid_def first_seen_distinct o_def)
  also have "\<dots> = concat (map (\<lambda>x. [x]) threads)"
    by (rule arg_cong [where f = concat], rule map_cong) (simp_all add: single normalize_group_def)
  finally show ?thesis by simp
qed

lemma slice_loop_no_entries:
  "entry_total data = 0 \<Longrightarrow>
     slice_loop natives ev c nc data = map (\<lambda>thr. thr\<lparr>native_frames := []\<rparr>) data"
  by (induction data) simp_all

text \<open>
  The native stack of a tid is lost when neither its Python stacks have an entry frame
  nor the native stack an evaluation frame: the counts match, and every stack gets an empty chunk.
\<close>

theorem slicing_drops_native_stack:
  assumes "native_frames (hd data) \<noteq> []" and "entry_total data = 0"
    and "eval_count v (native_frames (hd data)) = 0"
  shows "concat (map native_frames (sliceNativeStack data v)) = []"
  using assms eval_count_length [of "native_frames (hd data)" v]
  by (simp add: sliceNativeStack_def Let_def foldl_entry_total slice_loop_no_entries o_def)

section \<open>Witnesses\<close>

definition example_native :: "string \<Rightarrow> NativeFrame" where
  "example_native fn_name =
     \<lparr>address = 0, symbol = fn_name, native_path = ''a.c'', linenumber = 1, colnumber = 0,
      native_library = ''libc.so''\<rparr>"

definition example_frame :: "bool \<Rightarrow> PyFrameData" where
  "example_frame entry =
     \<lparr>frame_code = \<lparr>code_filename = ''a.py'', code_scope = ''f'',
        code_location = \<lparr>lineno = 1, end_lineno = 1, column = 0, end_column = 0\<rparr>\<rparr>,
      arguments = Map.empty, locals = Map.empty, is_entry = entry, is_shim = False\<rparr>"

definition example_thread :: "addr \<Rightarrow> bool list \<Rightarrow> string list \<Rightarrow> PyThreadData" where
  "example_thread anchor entries fn_names =
     \<lparr>tid = 7, thread_name = None, frames = map example_frame entries,
      native_frames = map example_native fn_names, gil_status = 0, gc_status = 0, interpreter_id = 0,
      stack_anchor = anchor\<rparr>"

abbreviation eval_frame_name :: string where
  "eval_frame_name \<equiv> ''_PyEval_EvalFrameDefault''"

text \<open>Two interpreters on one thread, the outer one with two entry frames and the inner one with one.\<close>

definition example_stacks :: "PyThreadData list" where
  "example_stacks =
     [example_thread 9000 [True, False, True] [''main'', eval_frame_name, eval_frame_name, eval_frame_name, ''read''],
      example_thread 8000 [True] []]"

theorem slices_partition_native_stack_witness:
  "concat (map native_frames (sliceNativeStack example_stacks (3, 12))) =
     map example_native [''main'', eval_frame_name, eval_frame_name, eval_frame_name, ''read'']"
proof -
  have "entry_total example_stacks = 3"
    by (simp add: example_stacks_def example_thread_def example_frame_def numEntryFrames_def)
  moreover have "eval_count (3, 12) (native_frames (hd example_stacks)) = 3" by code_simp
  moreover have "native_frames (hd example_stacks) =
      map example_native [''main'', eval_frame_name, eval_frame_name, eval_frame_name, ''read'']"
    by (simp add: example_stacks_def example_thread_def)
  ultimately show ?thesis
    using slices_partition_native_stack [of example_stacks "(3, 12)"] by (simp add: example_stacks_def)
qed

lemma count_map_key: "count (mset (map f xs)) a = length (filter (\<lambda>x. f x = a) xs)"
  by (induction xs) auto

theorem normalizeThreads_order_witness:
  "map stack_anchor (normalizeThreads
     [example_thread 0 [] [], example_thread 8000 [True] [], example_thread 9000 [True] []] Native_OFF (3, 12)) =
   [9000, 8000, 0]"
proof -
  let ?ts = "[example_thread 0 [] [], example_thread 8000 [True] [], example_thread 9000 [True] []]"
  have one: "first_seen (map tid ?ts) = [7]" by (simp add: first_seen_def example_thread_def)
  from normalizeThreads_order [of ?ts Native_OFF "(3, 12)"] obtain grp where
    r: "map (\<lambda>thr. thr\<lparr>native_frames := []\<rparr>) (normalizeThreads ?ts Native_OFF (3, 12)) =
        map (\<lambda>thr. thr\<lparr>native_frames := []\<rparr>) grp"
    and sorted: "sorted_wrt outer_first grp"
    and same: "\<And>a. filter (\<lambda>thr. stack_anchor thr = a) grp = filter (\<lambda>thr. tid thr = 7 \<and> stack_anchor thr = a) ?ts"
    unfolding one by (fastforce simp: length_Suc_conv)
  have anchors: "map stack_anchor (normalizeThreads ?ts Native_OFF (3, 12)) = map stack_anchor grp"
    using arg_cong [OF r, of "map stack_anchor"] by (simp add: o_def)
  have "count (mset (map stack_anchor grp)) a = count {#9000, 8000, 0#} a" for a
    using arg_cong [OF same [of a], of length] unfolding count_map_key
    by (simp add: example_thread_def split: if_splits)


  then have "mset (map stack_anchor grp) = {#9000, 8000, 0#}" by (rule multiset_eqI)

  then have "length grp = 3" by (metis size_mset length_map size_add_mset size_empty numeral_3_eq_3)
  then obtain x y z where grp: "grp = [x, y, z]" by (auto simp: numeral_3_eq_3 length_Suc_conv)
  have "{#stack_anchor x, stack_anchor y, stack_anchor z#} = {#9000, 8000, 0#}"
    using \<open>mset (map stack_anchor grp) = _\<close> unfolding grp by simp
  with sorted show ?thesis unfolding anchors grp
    by (auto simp: outer_first_def add_eq_conv_ex)
qed

theorem normalizeThreads_distinct_witness:
  "normalizeThreads [example_thread 9000 [True] [], (example_thread 8000 [True] [])\<lparr>tid := 8\<rparr>] Native_ALL (3, 12) =
     [example_thread 9000 [True] [], (example_thread 8000 [True] [])\<lparr>tid := 8\<rparr>]"
  by (rule normalizeThreads_distinct) (simp add: example_thread_def)

theorem slicing_drops_native_stack_witness:
  "concat (map native_frames
     (sliceNativeStack [example_thread 9000 [] [''main''], example_thread 8000 [] [''main'']] (3, 12))) = []"
proof -
  let ?data = "[example_thread 9000 [] [''main''], example_thread 8000 [] [''main'']]"
  have "eval_count (3, 12) (native_frames (hd ?data)) = 0" by code_simp
  then show ?thesis
    using slicing_drops_native_stack [of ?data "(3, 12)"]
    by (simp add: example_thread_def numEntryFrames_def)
qed

end
