(* ===== verification/Thread_Builder.thy ===== *)
theory Thread_Builder
  imports Py_Thread Interpreter_Search Normalize_Threads
begin

text \<open>
  From interpreters to the report (\<open>thread_builder.cpp\<close> and \<open>get_process_threads\<close> in
  \<open>bindings.cpp\<close>): the frames and threads read from the target become the records that are reported,
  interpreter by interpreter, with the native stacks and the threads that run no Python. The
  properties say which threads are reported and that none is lost or reported twice.
\<close>

section \<open>Threads and frames as data\<close>

text \<open>
  What the builders use beside the memory of the target: the native unwinder and the content of the
  files of \<open>/proc\<close> that can be opened.
\<close>

record thread_env =
  unwindThread :: "int \<Rightarrow> NativeFrame list result"
  proc_file :: "string \<Rightarrow> string option"

text \<open>
  \<open>getThreadName\<close> (\<open>maps_parser.cpp\<close>): the first line without its trailing blanks. A line of blanks
  is kept as it is.
\<close>

definition trim_trailing :: "string \<Rightarrow> string" where
  "trim_trailing name =
     (let stripped = rev (dropWhile (\<lambda>c. c \<in> {CHR '' '', CHR 0x09, CHR 0x0A, CHR 0x0D}) (rev name)) in
      if stripped = [] then name else stripped)"

definition comm_path :: "int \<Rightarrow> int \<Rightarrow> string" where
  "comm_path pid t = ''/proc/'' @ to_string_int pid @ ''/task/'' @ to_string_int t @ ''/comm''"

definition getThreadName :: "thread_env \<Rightarrow> int \<Rightarrow> int \<Rightarrow> string option" where
  "getThreadName env pid t =
     map_option (\<lambda>content. trim_trailing (takeWhile (\<lambda>c. c \<noteq> CHR 0x0A) content))
       (proc_file env (comm_path pid t))"

definition frame_data_of :: "CodeObject \<Rightarrow> FrameObject \<Rightarrow> PyFrameData" where
  "frame_data_of code f =
     \<lparr>frame_code = \<lparr>code_filename = d_filename code, code_scope = d_scope code,
                    code_location = d_location_info code\<rparr>,
      arguments = d_arguments f, locals = d_locals f, is_entry = d_is_entry f, is_shim = d_is_shim f\<rparr>"

text \<open>Frames without code and frames whose code cannot be read are skipped.\<close>

fun buildFrameStack :: "manager \<Rightarrow> bool \<Rightarrow> FrameObject list \<Rightarrow> PyFrameData list result" where
  "buildFrameStack m resolve_locals [] = Inr []"
| "buildFrameStack m resolve_locals (f # prev) =
     (case d_code f of
        None \<Rightarrow> buildFrameStack m resolve_locals prev
      | Some code \<Rightarrow>
          if d_filename code = ''???'' then buildFrameStack m resolve_locals prev
          else
            rbind (if resolve_locals then resolveLocalVariables m f else Inr f) (\<lambda>f'.
            rbind (buildFrameStack m resolve_locals prev) (\<lambda>stack.
              Inr (frame_data_of code f' # stack))))"

fun gil_code :: "GilStatus \<Rightarrow> int" where
  "gil_code GIL_UNKNOWN = - 1"
| "gil_code NOT_HELD = 0"
| "gil_code HELD = 1"

fun gc_code :: "GCStatus \<Rightarrow> int" where
  "gc_code COLLECTING_UNKNOWN = - 1"
| "gc_code NOT_COLLECTING = 0"
| "gc_code COLLECTING = 1"

text \<open>The native frames are reported in the opposite order of the unwinder's.\<close>

definition buildPythonThread ::
  "manager \<Rightarrow> thread_env \<Rightarrow> PyThread \<Rightarrow> int \<Rightarrow> bool \<Rightarrow> bool \<Rightarrow> int \<Rightarrow> PyThreadData result" where
  "buildPythonThread m env t pid add_native_traces resolve_locals interp_id =
     rbind (if add_native_traces then unwindThread env (pt_tid t) else Inr []) (\<lambda>native.
     rbind (buildFrameStack m resolve_locals (d_first_frame t)) (\<lambda>stack.
       Inr \<lparr>tid = pt_tid t, thread_name = getThreadName env pid (pt_tid t), frames = stack,
            native_frames = rev native, gil_status = gil_code (d_gil_status t),
            gc_status = gc_code (d_gc_status t), interpreter_id = interp_id,
            stack_anchor = d_stack_anchor t\<rparr>))"

definition buildNativeThread :: "thread_env \<Rightarrow> int \<Rightarrow> int \<Rightarrow> PyThreadData result" where
  "buildNativeThread env pid t =
     rbind (unwindThread env t) (\<lambda>native.
       Inr \<lparr>tid = t, thread_name = getThreadName env pid t, frames = [], native_frames = rev native,
            gil_status = 0, gc_status = 0, interpreter_id = 0, stack_anchor = 0\<rparr>)"

section \<open>The threads of all interpreters\<close>

text \<open>
  The parameters of a report: the pid, whether native stacks and local variables are wanted, the
  content of uninitialised memory and the room on the stack.
\<close>

record report =
  report_pid :: int
  add_native :: bool
  resolve_locals :: bool
  report_uninit :: "addr \<Rightarrow> LocationInfo"
  stack_depth :: nat

definition buildThreadsFromInterpreter ::
  "manager \<Rightarrow> thread_env \<Rightarrow> report \<Rightarrow> 64 word \<Rightarrow> addr \<Rightarrow> 64 word \<times> PyThreadData list result" where
  "buildThreadsFromInterpreter m env r tid_offset interpreter_head =
     (case getThreadFromInterpreterState m (report_uninit r) (stack_depth r) tid_offset interpreter_head of
        (off, threads) \<Rightarrow>
          (off, rbind threads (\<lambda>ts.
                rbind (getInterpreterId m interpreter_head) (\<lambda>interp_id.
                  rmap (\<lambda>t. buildPythonThread m env t (report_pid r) (add_native r) (resolve_locals r) interp_id)
                    ts))))"

text \<open>\<open>erase\<close> of the reported tids from the tids of the process.\<close>

fun erase_tids :: "PyThreadData list \<Rightarrow> int list \<Rightarrow> int list" where
  "erase_tids [] all_tids = all_tids"
| "erase_tids (thr # thrs) all_tids = erase_tids thrs (removeAll (tid thr) all_tids)"

text \<open>
  The loop over the interpreters. Before 3.11 only the last one is reported. There is no check for a
  cycle: \<open>None\<close> when the loop does not end.
\<close>

partial_function (option) interpreter_loop ::
  "manager \<Rightarrow> thread_env \<Rightarrow> report \<Rightarrow> 64 word \<Rightarrow> int list \<Rightarrow> PyThreadData list \<Rightarrow> addr \<Rightarrow>
   (int list \<times> PyThreadData list) result option" where
  "interpreter_loop m env r tid_offset all_tids python_threads head =
     (if head = 0 then Some (Inr (all_tids, python_threads))
      else
        case getNextInterpreter m head of
          Inl e \<Rightarrow> Some (Inl e)
        | Inr next \<Rightarrow>
            if next \<noteq> 0 \<and> \<not> versionIsAtLeast m 3 11
            then interpreter_loop m env r tid_offset all_tids python_threads next
            else
              case buildThreadsFromInterpreter m env r tid_offset head of
                (off, Inl e) \<Rightarrow> Some (Inl e)
              | (off, Inr new_threads) \<Rightarrow>
                  interpreter_loop m env r off (erase_tids new_threads all_tids)
                    (python_threads @ new_threads) next)"

section \<open>The report\<close>

text \<open>
  \<open>get_process_threads\<close> and \<open>get_process_threads_for_core\<close> after the process manager has been created:
  the threads that run Python, normalised, and, when all native stacks are wanted, the others. The
  Python objects made of these records are not modelled. Every exception but the two of the interface
  becomes an \<open>EngineError\<close>.
\<close>

definition interface_errors :: "'a result \<Rightarrow> 'a result" where
  "interface_errors r =
     try_catch r is_exception
       (\<lambda>e. if e = NotEnoughInformation \<or> e = EngineError then Inl e else Inl EngineError)"

definition report_for :: "NativeReportingMode \<Rightarrow> report \<Rightarrow> report" where
  "report_for native_mode r = r\<lparr>add_native := native_mode \<noteq> Native_OFF\<rparr>"

definition get_process_threads ::
  "manager \<Rightarrow> search_data \<Rightarrow> thread_env \<Rightarrow> report \<Rightarrow> 64 word \<Rightarrow> NativeReportingMode \<Rightarrow> 32 word \<Rightarrow>
   (PyThreadData list \<times> PyThreadData list) result" where
  "get_process_threads m d env r tid_offset native_mode meth = interface_errors
     (rbind (if native_mode \<noteq> Native_ALL then rbind (isInterpreterActive m) (\<lambda>_. Inr ()) else Inr ()) (\<lambda>_.
      rbind (getInterpreterStateAddr m d meth) (\<lambda>head.
      if head = 0 \<and> native_mode \<noteq> Native_ALL then Inl NotEnoughInformation
      else
        rbind (run_walk (interpreter_loop m env (report_for native_mode r) tid_offset (d_tids m) [] head))
          (\<lambda>(all_tids, python_threads).
        rbind (if native_mode = Native_ALL then rmap (buildNativeThread env (report_pid r)) all_tids
               else Inr []) (\<lambda>native_only_threads.
          Inr (normalizeThreads python_threads native_mode (d_major m, d_minor m),
               native_only_threads))))))"


section \<open>Which frames are reported\<close>

definition reportable :: "FrameObject \<Rightarrow> bool" where
  "reportable f \<longleftrightarrow> (case d_code f of None \<Rightarrow> False | Some code \<Rightarrow> d_filename code \<noteq> ''???'')"

lemma buildFrameStack_reportable:
  "buildFrameStack m resolve fs =
     rmap (\<lambda>f. rbind (if resolve then resolveLocalVariables m f else Inr f)
                  (\<lambda>f'. Inr (frame_data_of (the (d_code f)) f'))) (filter reportable fs)"
  by (induction fs) (auto simp: reportable_def rbind_assoc split: option.splits)

section \<open>Which threads are reported\<close>

lemma erase_tids_set: "set (erase_tids thrs all_tids) = set all_tids - tid ` set thrs"
  by (induction thrs arbitrary: all_tids) auto

lemma buildPythonThread_tid:
  "buildPythonThread m env t pid native resolve i = Inr thr \<Longrightarrow> tid thr = pt_tid t \<and> interpreter_id thr = i"
  by (auto simp: buildPythonThread_def result_simps)

lemma buildNativeThread_tid: "buildNativeThread env pid t = Inr thr \<Longrightarrow> tid thr = t \<and> frames thr = []"
  by (auto simp: buildNativeThread_def result_simps)

lemma native_threads_tids: "rmap (buildNativeThread env pid) ts = Inr thrs \<Longrightarrow> map tid thrs = ts"
  by (induction ts arbitrary: thrs) (auto simp: result_simps dest: buildNativeThread_tid)

lemma erase_tids_append: "erase_tids (xs @ ys) all_tids = erase_tids ys (erase_tids xs all_tids)"
  by (induction xs arbitrary: all_tids) auto

text \<open>
  The loop visits the linked list of interpreters; \<open>reported m hs\<close> are those of them it reports.
\<close>

definition next_interpreter :: "manager \<Rightarrow> addr \<rightharpoonup> addr" where
  "next_interpreter m h = (case getNextInterpreter m h of Inl _ \<Rightarrow> None | Inr n \<Rightarrow> Some n)"

definition reported :: "manager \<Rightarrow> addr list \<Rightarrow> addr list" where
  "reported m hs = (if versionIsAtLeast m 3 11 \<or> hs = [] then hs else [last hs])"

definition loop_result ::
  "manager \<Rightarrow> thread_env \<Rightarrow> report \<Rightarrow> int list \<Rightarrow> PyThreadData list \<Rightarrow> addr \<Rightarrow>
   (int list \<times> PyThreadData list) result \<Rightarrow> bool" where
  "loop_result m env r all_tids acc head res \<longleftrightarrow>
     (\<forall>left thrs. res = Inr (left, thrs) \<longrightarrow>
        (\<exists>hs tss. linked (next_interpreter m) (\<lambda>h. h = 0) head hs \<and>
           list_all2 (\<lambda>h ts. \<exists>off off'. buildThreadsFromInterpreter m env r off h = (off', Inr ts))
             (reported m hs) tss \<and>
           thrs = acc @ concat tss \<and> left = erase_tids (concat tss) all_tids))"

lemma loop_result_skip:
  assumes rest: "loop_result m env r all_tids acc n res" and n: "getNextInterpreter m h = Inr n" "h \<noteq> 0" "n \<noteq> 0"
    and v: "\<not> versionIsAtLeast m 3 11"
  shows "loop_result m env r all_tids acc h res"
  unfolding loop_result_def
proof (intro allI impI)
  fix left thrs assume "res = Inr (left, thrs)"
  with rest obtain hs tss where hs: "linked (next_interpreter m) (\<lambda>h. h = 0) n hs"
    and tss: "list_all2 (\<lambda>h ts. \<exists>off off'. buildThreadsFromInterpreter m env r off h = (off', Inr ts)) (reported m hs) tss"
      "thrs = acc @ concat tss" "left = erase_tids (concat tss) all_tids"
    unfolding loop_result_def by blast
  from hs n(3) have "hs \<noteq> []" by auto
  then have "reported m (h # hs) = reported m hs" using v by (simp add: reported_def)
  moreover have "linked (next_interpreter m) (\<lambda>h. h = 0) h (h # hs)" using hs n by (simp add: next_interpreter_def)
  ultimately show "\<exists>hs tss. linked (next_interpreter m) (\<lambda>h. h = 0) h hs \<and>
      list_all2 (\<lambda>h ts. \<exists>off off'. buildThreadsFromInterpreter m env r off h = (off', Inr ts)) (reported m hs) tss \<and>
      thrs = acc @ concat tss \<and> left = erase_tids (concat tss) all_tids"
    using tss by (intro exI [of _ "h # hs"] exI [of _ tss]) simp
qed

lemma loop_result_step:
  assumes rest: "loop_result m env r (erase_tids ts all_tids) (acc @ ts) n res"
    and n: "getNextInterpreter m h = Inr n" "h \<noteq> 0" "n = 0 \<or> versionIsAtLeast m 3 11"
    and ts: "buildThreadsFromInterpreter m env r off h = (off', Inr ts)"
  shows "loop_result m env r all_tids acc h res"
  unfolding loop_result_def
proof (intro allI impI)
  fix left thrs assume "res = Inr (left, thrs)"
  with rest obtain hs tss where hs: "linked (next_interpreter m) (\<lambda>h. h = 0) n hs"
    and tss: "list_all2 (\<lambda>h ts. \<exists>off off'. buildThreadsFromInterpreter m env r off h = (off', Inr ts)) (reported m hs) tss"
      "thrs = (acc @ ts) @ concat tss" "left = erase_tids (concat tss) (erase_tids ts all_tids)"
    unfolding loop_result_def by blast
  from hs n(3) have "reported m (h # hs) = h # reported m hs"
    by (cases hs) (auto simp: reported_def)
  moreover have "linked (next_interpreter m) (\<lambda>h. h = 0) h (h # hs)" using hs n by (simp add: next_interpreter_def)
  ultimately show "\<exists>hs tss. linked (next_interpreter m) (\<lambda>h. h = 0) h hs \<and>
      list_all2 (\<lambda>h ts. \<exists>off off'. buildThreadsFromInterpreter m env r off h = (off', Inr ts)) (reported m hs) tss \<and>
      thrs = acc @ concat tss \<and> left = erase_tids (concat tss) all_tids"
    using tss ts by (intro exI [of _ "h # hs"] exI [of _ "ts # tss"]) (auto simp: erase_tids_append)
qed

lemma interpreter_loop_Some:
  assumes "interpreter_loop m env r off all_tids acc head = Some res"
  shows "loop_result m env r all_tids acc head res"
proof (rule interpreter_loop.raw_induct [OF _ assms,
      where P = "\<lambda>m env r off all_tids acc head res. loop_result m env r all_tids acc head res"], goal_cases)
  case (1 loop m env r off all_tids acc head res)
  show ?case
  proof (cases "head = 0")
    case True
    with 1(2) show ?thesis
      by (auto simp: loop_result_def reported_def intro!: exI [of _ "[]"])
  next
    case False
    show ?thesis
    proof (cases "getNextInterpreter m head")
      case (Inl e)
      with 1(2) False show ?thesis by (auto simp: loop_result_def)
    next
      case (Inr n)
      obtain off' built where built: "buildThreadsFromInterpreter m env r off head = (off', built)" by fastforce
      show ?thesis
      proof (cases "n \<noteq> 0 \<and> \<not> versionIsAtLeast m 3 11")
        case True
        with 1(2) False Inr have "loop m env r off all_tids acc n = Some res" by simp
        from loop_result_skip [OF 1(1) [OF this] Inr False] True show ?thesis by blast
      next
        case skip: False
        show ?thesis
        proof (cases built)
          case (Inl e)
          with 1(2) False Inr skip built show ?thesis by (auto simp: loop_result_def)
        next
          case ts: (Inr ts)
          with 1(2) False Inr skip built
          have "loop m env r off' (erase_tids ts all_tids) (acc @ ts) n = Some res" by auto
          from loop_result_step [OF 1(1) [OF this] Inr False] skip built ts show ?thesis by blast
        qed
      qed
    qed
  qed
qed

text \<open>The parts of a successful report.\<close>

lemma interface_errors_Inr [simp]: "interface_errors r = Inr x \<longleftrightarrow> r = Inr x"
  by (cases r) (auto simp: interface_errors_def split: if_splits)

lemma interface_errors_Inl:
  "interface_errors r = Inl e \<Longrightarrow> e = NotEnoughInformation \<or> e = EngineError \<or> \<not> is_exception e"
  by (cases r) (auto simp: interface_errors_def split: if_splits)

lemma get_process_threads_InrE:
  assumes "get_process_threads m d env r off mode meth = Inr (py, native)"
  obtains head left thrs where
    "getInterpreterStateAddr m d meth = Inr head"
    "loop_result m env (report_for mode r) (d_tids m) [] head (Inr (left, thrs))"
    "py = normalizeThreads thrs mode (d_major m, d_minor m)"
    "if mode = Native_ALL then map tid native = left else native = []"
proof -
  define rest where "rest = (\<lambda>(all_tids, python_threads).
        rbind (if mode = Native_ALL then rmap (buildNativeThread env (report_pid r)) all_tids
               else Inr []) (\<lambda>native_only_threads.
          Inr (normalizeThreads python_threads mode (d_major m, d_minor m),
               native_only_threads)))"
  note f = assms [unfolded get_process_threads_def interface_errors_Inr, folded rest_def]
  obtain head where head: "getInterpreterStateAddr m d meth = Inr head" and
    g: "(if head = 0 \<and> mode \<noteq> Native_ALL then Inl NotEnoughInformation
         else rbind (run_walk (interpreter_loop m env (report_for mode r) off (d_tids m) [] head)) rest) =
        Inr (py, native)"
    by (rule rbind_InrE [OF f], erule rbind_InrE) (rule that)
  from g have "rbind (run_walk (interpreter_loop m env (report_for mode r) off (d_tids m) [] head)) rest =
        Inr (py, native)"
    by (cases "head = 0 \<and> mode \<noteq> Native_ALL") simp_all
  then obtain p where loop': "run_walk (interpreter_loop m env (report_for mode r) off (d_tids m) [] head) = Inr p"
    and h: "rest p = Inr (py, native)"
    by (rule rbind_InrE)
  obtain left thrs where p: "p = (left, thrs)" by (cases p)
  note loop = loop' [unfolded p]
  from h [unfolded rest_def p prod.case] have native: "(if mode = Native_ALL then rmap (buildNativeThread env (report_pid r)) left else Inr []) = Inr native"
    and py: "py = normalizeThreads thrs mode (d_major m, d_minor m)"
    by (auto elim: rbind_InrE)
  from loop have "interpreter_loop m env (report_for mode r) off (d_tids m) [] head = Some (Inr (left, thrs))"
    by (simp add: run_walk_def split: option.splits)
  from interpreter_loop_Some [OF this] head py native that show thesis
    by (auto dest: native_threads_tids split: if_splits)
qed

text \<open>
  Property C5. A report covers the list of interpreters that starts at the interpreter found: from 3.11
  on every interpreter of the list is reported exactly once, in order, before that the last one; the
  threads of each are what \<open>buildThreadsFromInterpreter\<close> returns, and the report is their
  normalisation.
\<close>

theorem interpreters_reported_once:
  assumes "get_process_threads m d env r off mode meth = Inr (py, native)"
  shows "\<exists>head hs tss. getInterpreterStateAddr m d meth = Inr head \<and>
    linked (next_interpreter m) (\<lambda>h. h = 0) head hs \<and> distinct hs \<and>
    list_all2 (\<lambda>h ts. \<exists>off off'.
        buildThreadsFromInterpreter m env (report_for mode r) off h = (off', Inr ts))
      (if versionIsAtLeast m 3 11 \<or> hs = [] then hs else [last hs]) tss \<and>
    py = normalizeThreads (concat tss) mode (d_major m, d_minor m)"
  using assms
proof (rule get_process_threads_InrE)
  fix head left thrs
  assume head: "getInterpreterStateAddr m d meth = Inr head"
    and "loop_result m env (report_for mode r) (d_tids m) [] head (Inr (left, thrs))"
    and py: "py = normalizeThreads thrs mode (d_major m, d_minor m)"
  then obtain hs tss where hs: "linked (next_interpreter m) (\<lambda>h. h = 0) head hs"
    and tss: "list_all2 (\<lambda>h ts. \<exists>off off'. buildThreadsFromInterpreter m env (report_for mode r) off h = (off', Inr ts))
        (reported m hs) tss" "thrs = concat tss"
    unfolding loop_result_def by auto
  from linked_distinct [OF hs] head hs tss py show ?thesis unfolding reported_def by blast
qed

text \<open>
  Property C4. When all native stacks are wanted, every thread of the process is reported: as a thread
  of an interpreter or as a native thread, never as both, and no native thread is made up.
\<close>

theorem every_thread_reported:
  assumes "get_process_threads m d env r off Native_ALL meth = Inr (py, native)"
  shows "set (d_tids m) \<subseteq> tid ` set py \<union> tid ` set native \<and> tid ` set py \<inter> tid ` set native = {} \<and>
    tid ` set native \<subseteq> set (d_tids m)"
  using assms
proof (rule get_process_threads_InrE)
  fix head left thrs
  assume "loop_result m env (report_for Native_ALL r) (d_tids m) [] head (Inr (left, thrs))"
    and py: "py = normalizeThreads thrs Native_ALL (d_major m, d_minor m)"
    and native: "if Native_ALL = Native_ALL then map tid native = left else native = []"
  then obtain tss where "thrs = [] @ concat tss" "left = erase_tids (concat tss) (d_tids m)"
    unfolding loop_result_def by blast
  then have left: "set left = set (d_tids m) - tid ` set thrs" by (simp only: erase_tids_set append.simps)
  from native have "left = map tid native" by simp
  then have "set left = tid ` set native" by simp
  with left have "tid ` set native = set (d_tids m) - tid ` set thrs" by (simp only:)
  moreover have "tid ` set py = tid ` set thrs" unfolding py by (rule normalizeThreads_tids)
  ultimately show ?thesis by (simp only:) blast
qed

text \<open>Nothing but the two exceptions of the interface escapes.\<close>

lemma get_process_threads_errors:
  "get_process_threads m d env r off mode meth = Inl e \<Longrightarrow>
     e = NotEnoughInformation \<or> e = EngineError \<or> \<not> is_exception e"
  unfolding get_process_threads_def by (rule interface_errors_Inl)


section \<open>A report\<close>

text \<open>
  The target of \<open>Interpreter_Search\<close>, a process with the tids 7 and 8: the interpreter is found by
  scanning its BSS and has one thread, of tid 7; the other thread is a native one.
\<close>

definition report_env :: thread_env where
  "report_env = \<lparr>unwindThread = (\<lambda>t. Inr []), proc_file = (\<lambda>path. Some ''python  '')\<rparr>"

definition report_data :: search_data where
  "report_data = \<lparr>elf_pyruntime = 0, search_bss = Some (search_map 8192 8208), search_heap = None\<rparr>"

definition example_report :: report where
  "example_report = \<lparr>report_pid = 7, add_native = False, resolve_locals = True,
     report_uninit = unset_locations, stack_depth = 9\<rparr>"

definition reported_thread :: "int \<Rightarrow> int \<Rightarrow> int \<Rightarrow> PyThreadData" where
  "reported_thread t gil gc = \<lparr>tid = t, thread_name = Some ''python'', frames = [], native_frames = [],
     gil_status = gil, gc_status = gc, interpreter_id = 0, stack_anchor = 0\<rparr>"

lemma report_interpreter:
  "buildThreadsFromInterpreter (search_target []) report_env (report_for Native_ALL example_report) 0 4096 =
     (0, Inr [reported_thread 7 (- 1) 0])"
proof -
  let ?m = "search_target []"
  have "getWord ?m S_is 4096 (o_tstate_head, 8) = Inr (4128 :: addr)"
    "getInterpreterId ?m 4096 = Inr 0" "getFrameAddr ?m 4128 = Inr 0"
    "getWord ?m S_thread 4128 (thread_o_next, 8) = Inr (0 :: addr)"
    "getWord ?m S_thread 4128 (o_thread_id, 8) = Inr (0 :: addr)"
    "getThreadTid ?m 0 4128 pid = Inr 7" "calculateGilStatus ?m 4128 = Inr GIL_UNKNOWN"
    "calculateGCStatus ?m 4128 = Inr NOT_COLLECTING" "versionIsAtLeast ?m 3 11" for pid
    by (simp_all add: search_target_def getInterpreterId_def eval_threads eval_reads
        manager_isAddressValid_def search_map_def virtual_map_new_def containsAddr_def)
  then show ?thesis
    by (simp add: buildThreadsFromInterpreter_def getThreadFromInterpreterState_def thread_head_def
        example_report_def report_for_def report_env_def buildPythonThread_def getThreadName_def
        trim_trailing_def reported_thread_def numeral_nat)
qed


lemma report_example:
  "get_process_threads (search_target []) report_data report_env example_report 0 Native_ALL 4 =
     Inr ([reported_thread 7 (- 1) 0], [reported_thread 8 0 0])"
proof -
  let ?m = "search_target []" and ?r = "report_for Native_ALL example_report"
  have next_is: "getNextInterpreter ?m 4096 = Inr 0"
    by (simp add: search_target_def getNextInterpreter_def eval_reads)
  have ended: "interpreter_loop ?m report_env ?r 0 [8] [reported_thread 7 (- 1) 0] 0 =
      Some (Inr ([8], [reported_thread 7 (- 1) 0]))"
    by (subst interpreter_loop.simps) simp
  have tids: "d_tids ?m = [7, 8]" "tid (reported_thread 7 (- 1) 0) = 7"
    by (simp_all add: search_target_def reported_thread_def)
  have loop: "interpreter_loop ?m report_env ?r 0 [7, 8] [] 4096 = Some (Inr ([8], [reported_thread 7 (- 1) 0]))"
    by (subst interpreter_loop.simps) (simp add: next_is report_interpreter ended tids)
  have native: "rmap (buildNativeThread report_env 7) [8] = Inr [reported_thread 8 0 0]"
    by (simp add: buildNativeThread_def report_env_def getThreadName_def trim_trailing_def
        reported_thread_def numeral_nat)
  have py: "normalizeThreads [reported_thread 7 (- 1) 0] Native_ALL v = [reported_thread 7 (- 1) 0]" for v
    by (simp add: normalizeThreads_def group_by_tid_def group_step_def normalize_group_def)
  have "getInterpreterStateAddr ?m report_data 4 = Inr 4096"
    unfolding report_data_def by (rule search_target_symbols)
  moreover have "report_pid example_report = 7" by (simp add: example_report_def)
  ultimately show ?thesis
    unfolding get_process_threads_def by (simp add: interface_errors_def tids loop run_walk_def native py del: rmap.simps)
qed

theorem interpreters_reported_once_witness:
  "\<exists>head hs tss. getInterpreterStateAddr (search_target []) report_data 4 = Inr head \<and>
     linked (next_interpreter (search_target [])) (\<lambda>h. h = 0) head hs \<and> distinct hs \<and>
     [reported_thread 7 (- 1) 0] =
       normalizeThreads (concat tss) Native_ALL (d_major (search_target []), d_minor (search_target []))"
  using interpreters_reported_once [OF report_example] by blast

theorem every_thread_reported_witness:
  "{7, 8} \<subseteq> tid ` set [reported_thread 7 (- 1) 0] \<union> tid ` set [reported_thread 8 0 0]"
  using every_thread_reported [OF report_example] by (simp add: search_target_def)

end
