(* ===== verification/Process_Creation.thy ===== *)
theory Process_Creation
  imports Process_Tracer Version_Detector Unwinder Thread_Builder
begin

text \<open>
  The creation of the process managers (\<open>ProcessManager::create\<close> and
  \<open>CoreFileProcessManager::create\<close> in \<open>process.cpp\<close>) and of the analyzers (\<open>elf_common.cpp\<close>): stopping
  the process, its mappings, the mapping of the interpreter and the version of Python, composed as the
  code composes them, with what is undone when one of the steps fails.
\<close>

section \<open>Analyzers\<close>

text \<open>\<open>pystack_find_elf\<close>: by build id, else by path.\<close>

definition pystack_find_elf :: "int \<Rightarrow> int \<Rightarrow> int" where
  "pystack_find_elf build_id_find_elf linux_proc_find_elf =
     (if build_id_find_elf > 0 then build_id_find_elf else linux_proc_find_elf)"

text \<open>What the calls of libelf and libdw return that the constructors check.\<close>

record dwfl_calls =
  dwfl_begin_ok :: bool
  report_code :: int
  report_end_code :: int
  attach_code :: int

record elf_calls = dwfl_calls +
  elf_version_ok :: bool
  open_fd :: int
  elf_begin_ok :: bool

definition ProcessAnalyzer_new :: "dwfl_calls \<Rightarrow> unit result" where
  "ProcessAnalyzer_new c =
     (if \<not> dwfl_begin_ok c then Inl ElfAnalyzerError
      else if report_code c \<noteq> 0 \<or> report_end_code c \<noteq> 0 then Inl ElfAnalyzerError
      else if attach_code c \<noteq> 0 then Inl ElfAnalyzerError
      else Inr ())"

text \<open>
  The constructor of \<open>CoreFileAnalyzer\<close> returns the pid and the resolved modules, with whether the core
  file is still open. The destructor, which closes it, does not run when the constructor fails.
\<close>

definition CoreFileAnalyzer_new ::
  "elf_calls \<Rightarrow> resolved result \<Rightarrow> (int \<times> resolved) result \<times> bool" where
  "CoreFileAnalyzer_new c resolved_libraries =
     (if \<not> elf_version_ok c then (Inl ElfAnalyzerError, False)
      else if open_fd c = - 1 then (Inl ElfAnalyzerError, False)
      else if \<not> elf_begin_ok c then (Inl ElfAnalyzerError, False)
      else if \<not> dwfl_begin_ok c then (Inl ElfAnalyzerError, True)
      else if report_code c < 0 \<or> report_end_code c \<noteq> 0 then (Inl ElfAnalyzerError, True)
      else
        (rbind resolved_libraries (\<lambda>res.
           if attach_code c < 0 then Inl ElfAnalyzerError else Inr (attach_code c, res)), True))"

definition CoreFileAnalyzer_destroy :: "bool \<Rightarrow> bool" where
  "CoreFileAnalyzer_destroy file_open = False"

section \<open>Process managers\<close>

text \<open>
  The environment the managers share: the file system, ELF files, the shell, the copies of the memory
  manager for a list of mappings and the addresses it accepts, what \<open>getAddressforSymbol\<close> of the unwinder
  returns for a symbol and a module, the modules of libdw, and the uninitialised \<open>d_is_free_threaded\<close>.
\<close>

record environment =
  env_fs :: file_system
  env_open_elf :: "string \<Rightarrow> elf_file option"
  env_popen :: "string \<Rightarrow> string option"
  env_copier :: "virtual_map list \<Rightarrow> copier"
  env_address_valid :: "addr \<Rightarrow> virtual_map \<Rightarrow> bool"
  env_symbol_address :: "string \<Rightarrow> string \<Rightarrow> addr"
  env_modules :: "dwfl_module list"
  env_free_threaded :: bool

record process_manager =
  pm_manager :: manager
  d_main_map :: virtual_map
  d_bss :: "virtual_map option"
  d_heap :: "virtual_map option"

definition AbstractProcessManager_new ::
  "environment \<Rightarrow> int \<Rightarrow> virtual_map list \<Rightarrow> virtual_map option \<Rightarrow> virtual_map option \<Rightarrow> virtual_map option \<Rightarrow>
   int list result \<Rightarrow> process_manager result" where
  "AbstractProcessManager_new env pid maps main_map bss heap get_tids =
     (case main_map of
        None \<Rightarrow> Inl (RuntimeError ''The main interpreter map could not be located'')
      | Some main \<Rightarrow>
          rbind get_tids (\<lambda>tids.
            Inr \<lparr>pm_manager =
                   \<lparr>d_manager = env_copier env maps, d_is_address_valid = env_address_valid env,
                    d_find_symbol = (\<lambda>s. env_symbol_address env s (d_path main)),
                    d_memory_maps = maps, manager_pid = pid, d_tids = tids, d_major = 0, d_minor = 0,
                    d_py_v = None, d_is_free_threaded = env_free_threaded env,
                    d_debug_offsets_addr = 0, d_debug_offsets = None\<rparr>,
                 d_main_map = main, d_bss = bss, d_heap = heap\<rparr>))"

definition findPyRuntimeFromElfData :: "environment \<Rightarrow> process_manager \<Rightarrow> addr result" where
  "findPyRuntimeFromElfData env pm =
     rbind (getSectionInfo (env_open_elf env) (d_path (d_main_map pm)) ''.PyRuntime'') (\<lambda>section.
       case section of
         None \<Rightarrow> Inr 0
       | Some section_info \<Rightarrow>
           rbind (getLoadPointOfModule (env_modules env) (d_path (d_main_map pm))) (\<lambda>load_addr.
             Inr (if load_addr = 0 then 0 else load_addr + corrected_addr section_info)))"

text \<open>\<open>initializeVersion\<close>: the ELF data are only looked at when the symbol is not found.\<close>

definition initialize_manager ::
  "environment \<Rightarrow> process_manager \<Rightarrow> (int \<times> int) result \<Rightarrow> process_manager result" where
  "initialize_manager env pm fallback =
     rbind (if d_find_symbol (pm_manager pm) ''_PyRuntime'' \<noteq> 0 then Inr 0
            else findPyRuntimeFromElfData env pm) (\<lambda>elf_runtime.
     rbind (initializeVersion (pm_manager pm) elf_runtime fallback) (\<lambda>m.
       Inr (pm\<lparr>pm_manager := m\<rparr>)))"

subsection \<open>Live processes\<close>

record live_environment = environment +
  live_ptrace :: ptrace_env
  live_task_files :: "string list option"
  live_proc_file :: "string \<Rightarrow> string option"
  live_readlink :: "string \<Rightarrow> string option"
  live_calls :: dwfl_calls

definition ProcessManager_new ::
  "live_environment \<Rightarrow> int \<Rightarrow> tracer option \<Rightarrow> virtual_map list \<Rightarrow> virtual_map option \<Rightarrow>
   virtual_map option \<Rightarrow> virtual_map option \<Rightarrow> process_manager result" where
  "ProcessManager_new env pid tr maps main_map bss heap =
     AbstractProcessManager_new (environment.truncate env) pid maps main_map bss heap
       (case tr of Some t \<Rightarrow> Inr (getTids t) | None \<Rightarrow> getProcessTids pid (live_task_files env))"

definition ProcessManager_initializeVersion ::
  "live_environment \<Rightarrow> process_manager \<Rightarrow> ProcessMemoryMapInfo \<Rightarrow> process_manager result" where
  "ProcessManager_initializeVersion env pm map_info =
     initialize_manager (environment.truncate env) pm
       (getVersionForProcess (env_popen env) map_info (Some (d_manager (pm_manager pm))))"

definition create_manager :: "live_environment \<Rightarrow> int \<Rightarrow> tracer option \<Rightarrow> process_manager result" where
  "create_manager env pid tr =
     rbind (parseProcMaps (live_proc_file env) pid) (\<lambda>virtual_maps.
     rbind (parseMapInformationForProcess (env_open_elf env) (live_readlink env) pid virtual_maps) (\<lambda>map_info.
     rbind (ProcessAnalyzer_new (live_calls env)) (\<lambda>_.
     rbind (ProcessManager_new env pid tr virtual_maps (Some (getMainMap map_info)) (map_bss map_info)
              (map_heap map_info)) (\<lambda>pm.
       ProcessManager_initializeVersion env pm map_info))))"

text \<open>
  \<open>ProcessManager::create\<close> with the state of the tracer at its end: when an exception leaves it, the
  tracer is destroyed. \<open>None\<close> when stopping the process does not end.
\<close>

definition create_process ::
  "live_environment \<Rightarrow> int \<Rightarrow> bool \<Rightarrow> (process_manager result \<times> tracer) option" where
  "create_process env pid stop_process =
     (if \<not> stop_process then Some (create_manager env pid None, no_threads)
      else
        case tracer_new (live_ptrace env) pid of
          None \<Rightarrow> None
        | Some (Inl (e, tr)) \<Rightarrow> Some (Inl e, tr)
        | Some (Inr tr) \<Rightarrow>
            (case create_manager env pid (Some tr) of
               Inl e \<Rightarrow> Some (Inl e, if is_exception e then tracer_destroy tr else tr)
             | Inr pm \<Rightarrow> Some (Inr pm, tr)))"

subsection \<open>Core files\<close>

record core_environment = environment +
  core_calls :: elf_calls
  core_report :: dwfl_report
  core_file_elf :: core_elf
  core_reported_modules :: "dwfl_module list"
  core_modules :: "resolved \<Rightarrow> dwfl_module list option"
  core_content :: "bytes option"
  core_threads :: "dwfl_thread list"
  core_threads_end :: int
  core_sort :: "CoreVirtualMap list \<Rightarrow> CoreVirtualMap list"

text \<open>
  libdw reports modules before their libraries are resolved and, when they have been, the retained and
  remapped ones. The load point of a file name is the start of its last module.
\<close>

definition module_load_points :: "simple_virtual_map list \<Rightarrow> (string \<rightharpoonup> addr)" where
  "module_load_points ms = fold (\<lambda>m points. points(filename_of (sm_filename m) \<mapsto> sm_start m)) ms Map.empty"

definition CoreFileProcessManager_new ::
  "core_environment \<Rightarrow> int \<Rightarrow> virtual_map list \<Rightarrow> virtual_map option \<Rightarrow> virtual_map option \<Rightarrow>
   virtual_map option \<Rightarrow> process_manager result" where
  "CoreFileProcessManager_new env pid maps main_map bss heap =
     AbstractProcessManager_new (environment.truncate env) pid maps main_map bss heap
       (getCoreTids (core_threads env) (core_threads_end env))"

definition CoreFileProcessManager_initializeVersion ::
  "core_environment \<Rightarrow> dwfl_module list \<Rightarrow> process_manager \<Rightarrow> ProcessMemoryMapInfo \<Rightarrow> process_manager result" where
  "CoreFileProcessManager_initializeVersion env modules pm map_info =
     initialize_manager ((environment.truncate env)\<lparr>env_modules := modules\<rparr>) pm
       (getVersionForCore (env_popen env) (core_content env) map_info)"

definition create_core_manager ::
  "core_environment \<Rightarrow> string \<Rightarrow> core_analyzer \<Rightarrow> int \<Rightarrow> dwfl_module list option \<Rightarrow> process_manager result" where
  "create_core_manager env executable an pid modules =
     rbind (populateMaps (env_fs env) (env_open_elf env) an (core_file_elf env) modules) (\<lambda>extractor.
     rbind (extractMappedFiles (core_file_elf env)) (\<lambda>mapped_files.
       let virtual_maps = parseCoreFileMaps (env_fs env) (core_sort env) mapped_files (d_core_maps extractor) in
       rbind (parseMapInformation (env_open_elf env) executable virtual_maps
                (Some (module_load_points (d_module_info extractor)))) (\<lambda>map_info.
       rbind (CoreFileProcessManager_new env pid virtual_maps (Some (getMainMap map_info)) (map_bss map_info)
                (map_heap map_info)) (\<lambda>pm.
         CoreFileProcessManager_initializeVersion env (the modules) pm map_info))))"

definition create_core ::
  "core_environment \<Rightarrow> string \<Rightarrow> string option \<Rightarrow> process_manager result \<times> bool" where
  "create_core env executable lib_search_path =
     (let an = \<lparr>d_executable = Some executable, d_lib_search_path = lib_search_path\<rparr>;
          libraries = resolveLibraries (core_report env) (env_fs env) an (core_reported_modules env) in
      case CoreFileAnalyzer_new (core_calls env) libraries of
        (Inl e, file_open) \<Rightarrow> (Inl e, file_open)
      | (Inr (pid, resolved_libraries), file_open) \<Rightarrow>
          (case create_core_manager env executable an pid (core_modules env resolved_libraries) of
             Inl e \<Rightarrow> (Inl e, if is_exception e then CoreFileAnalyzer_destroy file_open else file_open)
           | Inr pm \<Rightarrow> (Inr pm, file_open)))"

section \<open>What a created manager is\<close>

lemma version_fields_only:
  "setPythonVersion m ver = Inr m' \<Longrightarrow>
     d_memory_maps m' = d_memory_maps m \<and> d_tids m' = d_tids m \<and> manager_pid m' = manager_pid m"
  by (auto simp: setPythonVersion_def result_simps)

lemma debug_offsets_fields_only:
  assumes "setPythonVersionFromDebugOffsets m elf = Inr m'"
  shows "d_memory_maps m' = d_memory_maps m \<and> d_tids m' = d_tids m \<and> manager_pid m' = manager_pid m"
proof -
  have reset: "d_memory_maps (reset_version m) = d_memory_maps m \<and> d_tids (reset_version m) = d_tids m \<and>
      manager_pid (reset_version m) = manager_pid m"
    by (simp add: reset_version_def)
  have tried: "d_memory_maps m1 = d_memory_maps m \<and> d_tids m1 = d_tids m \<and> manager_pid m1 = manager_pid m"
    if "try_debug_offsets m a = Inr (Some m1)" for a m1
    using try_debug_offsets_cases [OF that] by (auto dest!: version_fields_only)
  show ?thesis
    using assms reset tried
    by (auto simp: setPythonVersionFromDebugOffsets_def result_simps split: if_splits option.splits)
qed

lemma initializeVersion_fields:
  assumes "initializeVersion m elf fallback = Inr m'"
  shows "d_memory_maps m' = d_memory_maps m \<and> d_tids m' = d_tids m \<and> manager_pid m' = manager_pid m"
  using assms
  by (auto simp: initializeVersion_def result_simps split: if_splits
      dest!: debug_offsets_fields_only version_fields_only)

text \<open>A manager whose offset tables can be used.\<close>

definition usable :: "manager \<Rightarrow> bool" where
  "usable m \<longleftrightarrow> version_inv m \<and> d_py_v m \<noteq> None \<and> (versionIsAtLeast m 3 14 \<longrightarrow> d_debug_offsets m \<noteq> None)"

lemma initialize_manager_usable:
  assumes "initialize_manager env pm fallback = Inr pm'"
    and "d_py_v (pm_manager pm) = None" and "d_debug_offsets (pm_manager pm) = None"
  shows "usable (pm_manager pm') \<and> d_memory_maps (pm_manager pm') = d_memory_maps (pm_manager pm) \<and>
    d_tids (pm_manager pm') = d_tids (pm_manager pm) \<and> manager_pid (pm_manager pm') = manager_pid (pm_manager pm) \<and>
    d_main_map pm' = d_main_map pm \<and> d_bss pm' = d_bss pm \<and> d_heap pm' = d_heap pm"
proof -
  obtain elf m where m: "initializeVersion (pm_manager pm) elf fallback = Inr m" "pm' = pm\<lparr>pm_manager := m\<rparr>"
    using assms(1) by (auto simp: initialize_manager_def result_simps)
  have "version_inv (pm_manager pm)" using assms(2,3) by (simp add: version_inv_def)
  from initializeVersion_inv [OF this m(1)] initializeVersion_fields [OF m(1)] m(2) show ?thesis
    by (auto simp: usable_def)
qed

text \<open>The interpreter of a list of mappings: the library if there is one, else the executable.\<close>

definition interpreter_map :: "string \<Rightarrow> virtual_map list \<Rightarrow> virtual_map \<Rightarrow> bool" where
  "interpreter_map binary maps m \<longleftrightarrow>
     (\<exists>name. List.find (named name) maps = Some m \<and>
        (if \<exists>n. libpython_file maps n then \<forall>n. libpython_file maps n \<longleftrightarrow> n = name
         else name = filename_of binary))"

lemma getMainMap_interpreter:
  assumes "parseMapInformation open_elf binary maps load_points = Inr info" and "filename_of binary \<noteq> ''''"
  shows "interpreter_map binary maps (getMainMap info)"
proof (cases "map_libpython info")
  case None
  with parseMapInformation_maps [OF assms] have "\<not> (\<exists>n. libpython_file maps n)"
    "List.find (named (filename_of binary)) maps = Some (map_python info)" by simp_all
  with None show ?thesis unfolding interpreter_map_def getMainMap_def by simp
next
  case (Some m)
  with parseMapInformation_maps [OF assms] obtain name where
    "List.find (named name) maps = Some m" "\<forall>n. libpython_file maps n \<longleftrightarrow> n = name" by auto
  with Some show ?thesis unfolding interpreter_map_def getMainMap_def option.case
    by (intro exI [of _ name]) simp
qed

text \<open>
  Property C15. A manager that has been created for a live process knows the mappings of the process, has
  the mapping of the one interpreter library or else of the executable as its main mapping and the
  threads of the tracer as its threads, and its offset tables can be used: those of a supported version,
  and from 3.14 on the ones the process publishes.
\<close>

theorem created_process_manager:
  assumes "create_process env pid True = Some (Inr pm, tr)"
    and "live_readlink env (''/proc/'' @ to_string_int pid @ ''/exe'') = Some exe"
    and "filename_of (take 4095 exe) \<noteq> ''''"
  shows "parseProcMaps (live_proc_file env) pid = Inr (d_memory_maps (pm_manager pm)) \<and>
    interpreter_map (take 4095 exe) (d_memory_maps (pm_manager pm)) (d_main_map pm) \<and>
    d_tids (pm_manager pm) = getTids tr \<and> usable (pm_manager pm)"
proof -
  obtain maps info pm0 where maps: "parseProcMaps (live_proc_file env) pid = Inr maps"
    and info: "parseMapInformation (env_open_elf env) (take 4095 exe) maps None = Inr info"
    and pm0: "ProcessManager_new env pid (Some tr) maps (Some (getMainMap info)) (map_bss info) (map_heap info) = Inr pm0"
    and init: "initialize_manager (environment.truncate env) pm0
         (getVersionForProcess (env_popen env) info (Some (d_manager (pm_manager pm0)))) = Inr pm"
    using assms(1,2)
    by (auto simp: create_process_def create_manager_def ProcessManager_initializeVersion_def
        parseMapInformationForProcess_def result_simps
        split: option.splits sum.splits)
  have f: "d_py_v (pm_manager pm0) = None" "d_debug_offsets (pm_manager pm0) = None"
    "d_memory_maps (pm_manager pm0) = maps" "d_tids (pm_manager pm0) = getTids tr" "d_main_map pm0 = getMainMap info"
    using pm0 by (auto simp: ProcessManager_new_def AbstractProcessManager_new_def)
  from initialize_manager_usable [OF init f(1,2)] f maps getMainMap_interpreter [OF info assms(3)]
  show ?thesis by simp
qed

lemma created_inv:
  assumes "create_process env pid stop_process = Some (Inr pm, tr)"
  shows "tracer_inv tr"
proof (cases "stop_process")
  case False
  with assms show ?thesis by (auto simp: create_process_def no_threads_def tracer_inv_def)
next
  case True
  with assms have "tracer_new (live_ptrace env) pid = Some (Inr tr)"
    by (auto simp: create_process_def split: option.splits sum.splits)
  then have "tracer_outcome (live_ptrace env) pid (Inr tr)"
    using tracer_loop_outcome tracer_reached.start unfolding tracer_new_def by blast
  then show ?thesis by (auto simp: tracer_outcome_def intro: tracer_reached_inv)
qed

lemma created_released:
  assumes "create_process env pid stop_process = Some (Inl e, tr)" and "is_exception e"
  shows "traced tr = {} \<or> (\<exists>k. getProcessTids pid (task_files (live_ptrace env) k) = Inl e)"
proof (cases "stop_process")
  case False
  with assms(1) show ?thesis by (auto simp: create_process_def no_threads_def)
next
  case True
  with assms(1) obtain res where res: "tracer_new (live_ptrace env) pid = Some res"
    by (auto simp: create_process_def split: option.splits)
  then have outcome: "tracer_outcome (live_ptrace env) pid res"
    using tracer_loop_outcome tracer_reached.start unfolding tracer_new_def by blast
  show ?thesis
  proof (cases res)
    case (Inl p)
    with True assms(1) res have p: "p = (e, tr)" by (cases p) (auto simp: create_process_def)
    with outcome Inl show ?thesis by (auto simp: tracer_outcome_def)
  next
    case (Inr tr0)
    with True assms(1,2) res have "tr = tracer_destroy tr0"
      by (auto simp: create_process_def split: sum.splits if_splits)
    moreover have "tracer_inv tr0" using outcome Inr by (auto simp: tracer_outcome_def intro: tracer_reached_inv)
    ultimately show ?thesis using tracer_inv_detach by (auto simp: tracer_destroy_def)
  qed
qed

text \<open>
  When the creation of a manager fails, no thread stays stopped, whatever step it is that
  fails; the one exception is that the threads of the process cannot be listed.
\<close>

theorem failed_creation_releases_process:
  assumes "create_process env pid stop_process = Some (Inl e, tr)" and "is_exception e"
    and "\<forall>k. succeeds (getProcessTids pid (task_files (live_ptrace env) k))"
  shows "traced tr = {}"
  using created_released [OF assms(1,2)] assms(3) by (metis Inl_Inr_False)

text \<open>The same for a core file, whose threads are those libdw finds in it.\<close>

lemma created_core_manager:
  assumes "create_core env executable lib_search_path = (Inr pm, file_open)" and "filename_of executable \<noteq> ''''"
  shows "interpreter_map executable (d_memory_maps (pm_manager pm)) (d_main_map pm) \<and>
    d_tids (pm_manager pm) = map dwfl_tid (core_threads env) \<and> usable (pm_manager pm)"
proof -
  obtain an pid modules where "create_core_manager env executable an pid modules = Inr pm"
    using assms(1) by (auto simp: create_core_def Let_def split: prod.splits sum.splits)
  then obtain maps points info pm0 env' fallback where
    info: "parseMapInformation (env_open_elf env) executable maps points = Inr info"
    and pm0: "CoreFileProcessManager_new env pid maps (Some (getMainMap info)) (map_bss info) (map_heap info) = Inr pm0"
    and init: "initialize_manager env' pm0 fallback = Inr pm"
    by (auto simp: create_core_manager_def CoreFileProcessManager_initializeVersion_def Let_def result_simps)
  have f: "d_py_v (pm_manager pm0) = None" "d_debug_offsets (pm_manager pm0) = None"
    "d_memory_maps (pm_manager pm0) = maps" "d_tids (pm_manager pm0) = map dwfl_tid (core_threads env)"
    "d_main_map pm0 = getMainMap info"
    using pm0 by (auto simp: CoreFileProcessManager_new_def AbstractProcessManager_new_def getCoreTids_def
        split: if_splits)
  from initialize_manager_usable [OF init f(1,2)] f getMainMap_interpreter [OF info assms(2)]
  show ?thesis by simp
qed

section \<open>Examples\<close>

text \<open>
  The process of the threads 7 and 8 runs Python 3.9, which a symbol tells; its one mapping is that of
  the executable. The second parameter says whether its mappings can be read.
\<close>

definition example_live :: "bool \<Rightarrow> live_environment" where
  "example_live readable =
     \<lparr>env_fs = \<lparr>file_status = (\<lambda>_. Inr Not_Found), directory_entries = (\<lambda>_. Inr []),
                canonical = (\<lambda>p. Inr p)\<rparr>,
      env_open_elf = (\<lambda>_. None), env_popen = (\<lambda>_. None),
      env_copier = (\<lambda>_ a n. if a = 4096 then Inr [0xF0, 0, 9, 3, 0, 0, 0, 0] else Inl InvalidRemoteAddress),
      env_address_valid = (\<lambda>_ _. False),
      env_symbol_address = (\<lambda>s _. if s = ''Py_Version'' then 4096 else 0),
      env_modules = [], env_free_threaded = False,
      live_ptrace = example_process (Some [''7'', ''8'']) 0, live_task_files = None,
      live_proc_file = (\<lambda>_. if readable then Some (maps_text [(3, example_map)]) else None),
      live_readlink = (\<lambda>_. Some ''/usr/bin/python''),
      live_calls = \<lparr>dwfl_begin_ok = True, report_code = 0, report_end_code = 0, attach_code = 0\<rparr>\<rparr>"

definition example_info :: ProcessMemoryMapInfo where
  "example_info = \<lparr>map_heap = None, map_bss = None, map_python = example_map, map_libpython = None\<rparr>"

lemma example_live_maps: "parseProcMaps (live_proc_file (example_live True)) 7 = Inr [example_map]"
  using maps_text_read [of "[(3, example_map)]"] example_proc_map
  by (simp add: parseProcMaps_def example_live_def)

lemma example_live_info:
  "parseMapInformationForProcess (env_open_elf (example_live True)) (live_readlink (example_live True)) 7
     [example_map] = Inr example_info"
  by (simp add: parseMapInformationForProcess_def example_live_def parseMapInformation_def Let_def
      maps_by_library_def example_map_def virtual_map_new_def filename_of_def getBaseMap_def contains_text_def
      getBss_def getSectionInfo_def fallback_bss_def example_info_def upt_conv_Cons)

definition example_created :: process_manager where
  "example_created =
     \<lparr>pm_manager = \<lparr>d_manager = env_copier (example_live True) [example_map], d_is_address_valid = (\<lambda>_ _. False),
        d_find_symbol = (\<lambda>s. if s = ''Py_Version'' then 4096 else 0), d_memory_maps = [example_map],
        manager_pid = 7, d_tids = [7, 8], d_major = 3, d_minor = 9, d_py_v = Some python_v3_9,
        d_is_free_threaded = False, d_debug_offsets_addr = 0, d_debug_offsets = None\<rparr>,
      d_main_map = example_map, d_bss = None, d_heap = None\<rparr>"

lemma example_create: "create_process (example_live True) 7 True = Some (Inr example_created, both_threads)"
proof -
  have p: "live_ptrace (example_live True) = example_process (Some [''7'', ''8'']) 0"
    "ProcessAnalyzer_new (live_calls (example_live True)) = Inr ()"
    by (simp_all add: example_live_def ProcessAnalyzer_new_def)
  have writable: "\<not> isWritable example_map" by (simp add: example_map_def virtual_map_new_def isWritable_def)
  have word: "(le_word [0xF0, 0, 9, 3, 0, 0, 0, 0] :: 64 word) = 0x030900F0" by (simp add: le_word_def)
  have "create_manager (example_live True) 7 (Some both_threads) = Inr example_created"
    unfolding create_manager_def example_live_maps rbind_simps example_live_info p(2)
    by (simp add: ProcessManager_new_def AbstractProcessManager_new_def ProcessManager_initializeVersion_def
        getTids_def both_threads_def
        environment.defs example_info_def getMainMap_def initialize_manager_def findPyRuntimeFromElfData_def
        getSectionInfo_def example_live_def initializeVersion_def setPythonVersionFromDebugOffsets_def
        findDebugOffsetsFromMaps_def writable findPythonVersion_def copyObjectFromProcess_def word version_byte_def
        setPythonVersion_def getCPythonOffsets_def versionIsAtLeast_def example_created_def)
  with example_stopped show ?thesis by (simp add: create_process_def p)
qed

theorem created_process_manager_witness:
  "d_main_map example_created = example_map \<and>
   parseProcMaps (live_proc_file (example_live True)) 7 = Inr (d_memory_maps (pm_manager example_created)) \<and>
   usable (pm_manager example_created)"
proof -
  have exe: "live_readlink (example_live True) (''/proc/'' @ to_string_int 7 @ ''/exe'') = Some ''/usr/bin/python''"
    "filename_of (take 4095 ''/usr/bin/python'') \<noteq> ''''"
    by (simp_all add: example_live_def filename_of_def)
  have "d_main_map example_created = example_map" by (simp add: example_created_def)
  with created_process_manager [OF example_create exe] show ?thesis by (elim conjE) (intro conjI)
qed

lemma example_unreadable:
  "create_process (example_live False) 7 True =
     Some (Inl (RuntimeError (''No such process id: '' @ to_string_int 7)), tracer_destroy both_threads)"
proof -
  have "live_ptrace (example_live False) = example_process (Some [''7'', ''8'']) 0"
    by (simp add: example_live_def)
  then show ?thesis
    using example_stopped by (simp add: create_process_def create_manager_def parseProcMaps_def example_live_def)
qed

theorem failed_creation_releases_process_witness: "traced (tracer_destroy both_threads) = {}"
proof -
  have "succeeds (getProcessTids 7 (task_files (live_ptrace (example_live False)) k))" for k
    by (simp add: example_live_def example_process_def example_tids)
  then show ?thesis by (intro failed_creation_releases_process [OF example_unreadable]) simp_all
qed

text \<open>
  The constructor of the core file analyzer leaves the file open when libdw rejects it: it only closes
  the file itself when libelf cannot read it, and the destructor of the unfinished object does not run.
\<close>

theorem failed_core_analysis_leaks_file:
  assumes "elf_version_ok c" and "open_fd c \<noteq> - 1" and "elf_begin_ok c" and "\<not> dwfl_begin_ok c \<or> report_code c < 0"
  shows "CoreFileAnalyzer_new c libraries = (Inl ElfAnalyzerError, True)"
  using assms by (auto simp: CoreFileAnalyzer_new_def)

end
