(* ===== verification/Python_Interface.thy ===== *)
theory Python_Interface
  imports Process_Creation
begin

text \<open>
  The interface of the extension module (\<open>bindings.cpp\<close>): the Python objects that are built for the
  threads of a report, the whole of \<open>get_process_threads\<close> and \<open>get_process_threads_for_core\<close> with their
  exceptions, and the wrappers of the core file analyzer and of the process managers. The conversions
  of strings and numbers that nanobind makes are not modelled.
\<close>

section \<open>Objects of frames and threads\<close>

text \<open>
  The frame objects of a report live in a store, in the order of their creation; a reference is the
  position of an object.
\<close>

record py_frame_object =
  py_prev :: "nat option"
  py_next :: "nat option"
  py_frame_data :: PyFrameData

record py_thread_object =
  py_tid :: int
  py_first_frame :: "nat option"
  py_native_frames :: "NativeFrame list"
  py_gil :: int
  py_gc_collecting :: int
  py_python_version :: "(int \<times> int) option"
  py_thread_name :: "string option"
  py_interpreter_id :: "int option"

type_synonym py_store = "py_frame_object list"

text \<open>The state of the loop: the store, the first and the previous frame object.\<close>

definition chain_step ::
  "py_store \<times> nat option \<times> nat option \<Rightarrow> PyFrameData \<Rightarrow> py_store \<times> nat option \<times> nat option" where
  "chain_step acc fdata =
     (case acc of (store, first_object, prev_object) \<Rightarrow>
        let i = length store;
            store1 = store @ [\<lparr>py_prev = prev_object, py_next = None, py_frame_data = fdata\<rparr>];
            store2 = (case prev_object of None \<Rightarrow> store1
                      | Some p \<Rightarrow> store1[p := (store1 ! p)\<lparr>py_next := Some i\<rparr>]) in
        (store2, if first_object = None then Some i else first_object, Some i))"

definition buildFrameChain :: "py_store \<Rightarrow> PyThreadData \<Rightarrow> py_store \<times> nat option" where
  "buildFrameChain store thr =
     (case foldl chain_step (store, None, None) (rev (frames thr)) of
        (store', first_object, _) \<Rightarrow> (store', first_object))"

definition buildNativeFramesList :: "NativeFrame list \<Rightarrow> NativeFrame list" where
  "buildNativeFramesList ns =
     map (\<lambda>nf. \<lparr>address = address nf, symbol = symbol nf, native_path = native_path nf,
                linenumber = linenumber nf, colnumber = colnumber nf, native_library = native_library nf\<rparr>) ns"

definition buildPyThreadObject ::
  "py_store \<Rightarrow> PyThreadData \<Rightarrow> int \<times> int \<Rightarrow> py_store \<times> py_thread_object" where
  "buildPyThreadObject store thr python_version =
     (case buildFrameChain store thr of
        (store', first_object) \<Rightarrow>
          (store', \<lparr>py_tid = tid thr, py_first_frame = first_object,
                    py_native_frames = buildNativeFramesList (native_frames thr), py_gil = gil_status thr,
                    py_gc_collecting = gc_status thr, py_python_version = Some python_version,
                    py_thread_name = thread_name thr, py_interpreter_id = Some (interpreter_id thr)\<rparr>))"

definition buildNativeOnlyThreadObject :: "PyThreadData \<Rightarrow> py_thread_object" where
  "buildNativeOnlyThreadObject thr =
     \<lparr>py_tid = tid thr, py_first_frame = None,
      py_native_frames = buildNativeFramesList (native_frames thr), py_gil = 0, py_gc_collecting = 0,
      py_python_version = None, py_thread_name = thread_name thr, py_interpreter_id = None\<rparr>"

fun thread_objects ::
  "py_store \<Rightarrow> PyThreadData list \<Rightarrow> int \<times> int \<Rightarrow> py_store \<times> py_thread_object list" where
  "thread_objects store [] python_version = (store, [])"
| "thread_objects store (thr # thrs) python_version =
     (case buildPyThreadObject store thr python_version of
        (store1, ob) \<Rightarrow>
          (case thread_objects store1 thrs python_version of (store2, obs) \<Rightarrow> (store2, ob # obs)))"

definition report_objects ::
  "PyThreadData list \<Rightarrow> PyThreadData list \<Rightarrow> int \<times> int \<Rightarrow> py_store \<times> py_thread_object list" where
  "report_objects python_threads native_only_threads python_version =
     (case thread_objects [] python_threads python_version of
        (store, obs) \<Rightarrow> (store, obs @ map buildNativeOnlyThreadObject native_only_threads))"

text \<open>\<open>_normalize_threads_for_testing\<close> of thread descriptions: tid, anchor, interpreter, symbols, frames.\<close>

type_synonym thread_desc = "int \<times> addr \<times> int \<times> string list \<times> (string \<times> bool) list"

definition test_thread :: "thread_desc \<Rightarrow> PyThreadData" where
  "test_thread desc =
     (case desc of (t, anchor, interp, symbols, fs) \<Rightarrow>
        \<lparr>tid = t, thread_name = None,
         frames = map (\<lambda>(scope, entry).
           \<lparr>frame_code = \<lparr>code_filename = ''test.py'', code_scope = scope,
                          code_location = \<lparr>lineno = 1, end_lineno = 1, column = 0, end_column = 0\<rparr>\<rparr>,
            arguments = Map.empty, locals = Map.empty, is_entry = entry, is_shim = False\<rparr>) fs,
         native_frames = map (\<lambda>s.
           \<lparr>address = 0, symbol = s, native_path = ''test.c'', linenumber = 1, colnumber = 0,
            native_library = ''''\<rparr>) symbols,
         gil_status = 0, gc_status = 0, interpreter_id = interp, stack_anchor = anchor\<rparr>)"

definition normalize_threads_for_testing ::
  "thread_desc list \<Rightarrow> NativeReportingMode \<Rightarrow> int \<times> int \<Rightarrow> py_store \<times> py_thread_object list" where
  "normalize_threads_for_testing descs native_mode python_version =
     thread_objects [] (normalizeThreads (map test_thread descs) native_mode python_version) python_version"

section \<open>Reports\<close>

text \<open>
  What a report uses of libdw, the content of uninitialised memory, the room on the stack and the
  offset of the tid in the thread structure that earlier reports found. The native stacks are those the
  unwinder gives for a thread by itself; its caches are transparent.
\<close>

record interface =
  if_dwarf :: dwarf
  if_threads :: "int \<Rightarrow> dwfl_thread option"
  if_uninit :: "addr \<Rightarrow> LocationInfo"
  if_depth :: nat
  if_tid_offset :: "64 word"

definition report_of :: "interface \<Rightarrow> int \<Rightarrow> bool \<Rightarrow> report" where
  "report_of ifc pid locs =
     \<lparr>report_pid = pid, add_native = False, resolve_locals = locs, report_uninit = if_uninit ifc,
      stack_depth = if_depth ifc\<rparr>"

text \<open>
  The search for the interpreter in a manager. The ELF data are looked up beforehand when their method
  is enabled.
\<close>

definition threads_of_manager ::
  "environment \<Rightarrow> interface \<Rightarrow> thread_env \<Rightarrow> process_manager \<Rightarrow> int \<Rightarrow> NativeReportingMode \<Rightarrow> bool \<Rightarrow>
   32 word \<Rightarrow> (PyThreadData list \<times> PyThreadData list) result" where
  "threads_of_manager env ifc tenv pm pid native_mode locs meth =
     rbind (if bit meth (method_bit METHOD_ELF_DATA) then findPyRuntimeFromElfData env pm else Inr 0) (\<lambda>elf.
       get_process_threads (pm_manager pm)
         \<lparr>elf_pyruntime = elf, search_bss = d_bss pm, search_heap = d_heap pm\<rparr> tenv
         (report_of ifc pid locs) (if_tid_offset ifc) native_mode meth)"

definition objects_of_manager ::
  "process_manager \<Rightarrow> (PyThreadData list \<times> PyThreadData list) result \<Rightarrow>
   (py_store \<times> py_thread_object list) result" where
  "objects_of_manager pm threads =
     rbind threads (\<lambda>(python_threads, native_only_threads).
       Inr (report_objects python_threads native_only_threads
              (d_major (pm_manager pm), d_minor (pm_manager pm))))"

text \<open>The report for a live process, with the tracer when it is done.\<close>

definition report_process ::
  "live_environment \<Rightarrow> interface \<Rightarrow> int \<Rightarrow> bool \<Rightarrow> NativeReportingMode \<Rightarrow> bool \<Rightarrow> 32 word \<Rightarrow>
   ((py_store \<times> py_thread_object list) result \<times> tracer) option" where
  "report_process env ifc pid stop_process native_mode locs meth =
     (let tenv = \<lparr>unwindThread = (\<lambda>t. map_sum id fst (unwindThread_process (if_dwarf ifc) (if_threads ifc) no_caches t)),
                  proc_file = live_proc_file env\<rparr> in
      case create_process env pid stop_process of
        None \<Rightarrow> None
      | Some (Inl e, tr) \<Rightarrow> Some (interface_errors (Inl e), tr)
      | Some (Inr pm, tr) \<Rightarrow>
          (let result = interface_errors (objects_of_manager pm
                 (threads_of_manager (environment.truncate env) ifc tenv pm pid native_mode locs meth)) in
           Some (result, case result of
                           Inl e \<Rightarrow> if is_exception e then tracer_destroy tr else tr
                         | Inr _ \<Rightarrow> tracer_destroy tr)))"

text \<open>The report for a core file, with whether the file is open at its end.\<close>

definition report_core ::
  "core_environment \<Rightarrow> interface \<Rightarrow> (string \<Rightarrow> string option) \<Rightarrow> string \<Rightarrow> string option \<Rightarrow>
   NativeReportingMode \<Rightarrow> bool \<Rightarrow> 32 word \<Rightarrow> (py_store \<times> py_thread_object list) result \<times> bool" where
  "report_core env ifc files executable lib_search_path native_mode locs meth =
     (let tenv = \<lparr>unwindThread = (\<lambda>t. map_sum id fst
                    (unwindThread_core (if_dwarf ifc) (core_threads env) (core_threads_end env) no_caches t)),
                  proc_file = files\<rparr> in
      case create_core env executable lib_search_path of
        (Inl e, file_open) \<Rightarrow> (interface_errors (Inl e), file_open)
      | (Inr pm, file_open) \<Rightarrow>
          (let result = interface_errors (objects_of_manager pm
                 (threads_of_manager (environment.truncate env) ifc tenv pm (manager_pid (pm_manager pm))
                    native_mode locs meth)) in
           (result, case result of
                      Inl e \<Rightarrow> if is_exception e then CoreFileAnalyzer_destroy file_open else file_open
                    | Inr _ \<Rightarrow> CoreFileAnalyzer_destroy file_open)))"

text \<open>
  The functions that Python calls check the method first. An \<open>EngineError\<close> carries the pid or the core
  file. What is not an exception (\<open>abort()\<close>, undefined behaviour) ends Python.
\<close>

datatype method_argument = No_Method | Not_A_Method | Method "32 word"

datatype python_error =
    Py_ValueError
  | Py_NotEnoughInformation
  | Py_EngineError "int option" "string option"
  | Py_Crash error

definition translate_exception :: "int option \<Rightarrow> string option \<Rightarrow> error \<Rightarrow> python_error" where
  "translate_exception pid corefile e =
     (if e = NotEnoughInformation then Py_NotEnoughInformation
      else if e = EngineError then Py_EngineError pid corefile
      else Py_Crash e)"

definition get_process_threads_binding ::
  "live_environment \<Rightarrow> interface \<Rightarrow> int \<Rightarrow> bool \<Rightarrow> NativeReportingMode \<Rightarrow> bool \<Rightarrow> method_argument \<Rightarrow>
   (python_error + (py_store \<times> py_thread_object list)) option" where
  "get_process_threads_binding env ifc pid stop_process native_mode locs method_obj =
     (case method_obj of
        Method m \<Rightarrow>
          map_option (\<lambda>(result, tr). map_sum (translate_exception (Some pid) None) id result)
            (report_process env ifc pid stop_process native_mode locs m)
      | _ \<Rightarrow> Some (Inl Py_ValueError))"

definition get_process_threads_for_core_binding ::
  "core_environment \<Rightarrow> interface \<Rightarrow> (string \<Rightarrow> string option) \<Rightarrow> string \<Rightarrow> string \<Rightarrow> string option \<Rightarrow>
   NativeReportingMode \<Rightarrow> bool \<Rightarrow> method_argument \<Rightarrow> python_error + (py_store \<times> py_thread_object list)" where
  "get_process_threads_for_core_binding env ifc files core_file executable lib_search_path native_mode locs method_obj =
     (case method_obj of
        Method m \<Rightarrow>
          map_sum (translate_exception None (Some core_file)) id
            (fst (report_core env ifc files executable lib_search_path native_mode locs m))
      | _ \<Rightarrow> Inl Py_ValueError)"

section \<open>The frames of a thread object\<close>

text \<open>The objects of a chain whose first object is at position \<open>n\<close>.\<close>

definition chain_object :: "nat \<Rightarrow> PyFrameData list \<Rightarrow> nat \<Rightarrow> py_frame_object" where
  "chain_object n fs k =
     \<lparr>py_prev = (if k = 0 then None else Some (n + k - 1)),
      py_next = (if Suc k < length fs then Some (n + Suc k) else None), py_frame_data = fs ! k\<rparr>"

definition chain_objects :: "nat \<Rightarrow> PyFrameData list \<Rightarrow> py_store" where
  "chain_objects n fs = map (chain_object n fs) [0..<length fs]"

lemma length_chain_objects [simp]: "length (chain_objects n fs) = length fs"
  by (simp add: chain_objects_def)

lemma nth_chain_objects [simp]: "k < length fs \<Longrightarrow> chain_objects n fs ! k = chain_object n fs k"
  by (simp add: chain_objects_def)

lemma chain_objects_snoc:
  assumes "length fs = Suc k"
  shows "chain_objects n (fs @ [f]) =
     (chain_objects n fs)[k := (chain_object n fs k)\<lparr>py_next := Some (n + Suc k)\<rparr>] @
     [\<lparr>py_prev = Some (n + k), py_next = None, py_frame_data = f\<rparr>]"
proof (rule nth_equalityI)
  fix i assume "i < length (chain_objects n (fs @ [f]))"
  then consider "i < k" | "i = k" | "i = Suc k" using assms by fastforce
  then show "chain_objects n (fs @ [f]) ! i =
      ((chain_objects n fs)[k := (chain_object n fs k)\<lparr>py_next := Some (n + Suc k)\<rparr>] @
       [\<lparr>py_prev = Some (n + k), py_next = None, py_frame_data = f\<rparr>]) ! i"
    by cases (use assms in \<open>simp_all add: chain_object_def nth_append\<close>)
qed (simp add: assms)

lemma foldl_chain_step:
  "foldl chain_step (store, None, None) fs =
     (store @ chain_objects (length store) fs, if fs = [] then None else Some (length store),
      if fs = [] then None else Some (length store + length fs - 1))"
proof (induction fs rule: rev_induct)
  case Nil
  then show ?case by (simp add: chain_objects_def)
next
  case (snoc f fs)
  show ?case
  proof (cases "fs = []")
    case True
    then show ?thesis by (simp add: chain_step_def Let_def chain_objects_def chain_object_def)
  next
    case False
    let ?n = "length store"
    obtain k where k: "length fs = Suc k" using False by (cases fs) auto
    have "foldl chain_step (store, None, None) (fs @ [f]) =
        chain_step (store @ chain_objects ?n fs, Some ?n, Some (?n + k)) f"
      using snoc False k by simp
    also have "\<dots> = (store @ chain_objects ?n (fs @ [f]), Some ?n, Some (?n + Suc k))"
      using k by (simp add: chain_objects_snoc [OF k] chain_step_def Let_def list_update_append nth_append)
    finally show ?thesis using k by simp
  qed
qed

lemma buildFrameChain_store:
  "buildFrameChain store thr =
     (store @ chain_objects (length store) (rev (frames thr)),
      if frames thr = [] then None else Some (length store))"
  by (simp add: buildFrameChain_def foldl_chain_step)

text \<open>
  \<open>all_frames\<close> of a thread object follows the \<open>next\<close> references; the number of steps is bounded by the
  number of frame objects there are.
\<close>

fun follow :: "nat \<Rightarrow> py_store \<Rightarrow> nat option \<Rightarrow> PyFrameData list" where
  "follow n store None = []"
| "follow 0 store (Some i) = []"
| "follow (Suc n) store (Some i) = py_frame_data (store ! i) # follow n store (py_next (store ! i))"

definition all_frames :: "py_store \<Rightarrow> py_thread_object \<Rightarrow> PyFrameData list" where
  "all_frames store ob = follow (length store) store (py_first_frame ob)"

lemma follow_chain:
  assumes "k < length fs" and "length fs - k \<le> m"
  shows "follow m (pre @ chain_objects (length pre) fs @ post) (Some (length pre + k)) = drop k fs"
  using assms
proof (induction m arbitrary: k)
  case (Suc m)
  let ?store = "pre @ chain_objects (length pre) fs @ post"
  have obj: "?store ! (length pre + k) = chain_object (length pre) fs k"
    using Suc.prems(1) by (simp add: nth_append)
  have step: "follow (Suc m) ?store (Some (length pre + k)) =
      fs ! k # follow m ?store (if Suc k < length fs then Some (length pre + Suc k) else None)"
    by (simp only: follow.simps obj) (simp add: chain_object_def)
  have "drop k fs = fs ! k # drop (Suc k) fs" using Suc.prems(1) by (simp add: Cons_nth_drop_Suc)
  with Suc.IH [of "Suc k"] Suc.prems(2) show ?case by (simp only: step) (simp split: if_splits)
qed simp

lemma thread_objects_frames:
  assumes "thread_objects store thrs v = (store', obs)"
  shows "\<exists>more. store' = store @ more \<and> length obs = length thrs \<and>
    (\<forall>i<length thrs. \<forall>post. all_frames (store' @ post) (obs ! i) = rev (frames (thrs ! i)))"
  using assms
proof (induction thrs arbitrary: store obs)
  case (Cons thr thrs)
  let ?chain = "chain_objects (length store) (rev (frames thr))"
  obtain obs' where rest: "thread_objects (store @ ?chain) thrs v = (store', obs')"
    and obs: "obs = \<lparr>py_tid = tid thr, py_first_frame = (if frames thr = [] then None else Some (length store)),
                    py_native_frames = buildNativeFramesList (native_frames thr), py_gil = gil_status thr,
                    py_gc_collecting = gc_status thr, py_python_version = Some v,
                    py_thread_name = thread_name thr, py_interpreter_id = Some (interpreter_id thr)\<rparr> # obs'"
    using Cons.prems by (auto simp: buildPyThreadObject_def buildFrameChain_store split: prod.splits)
  from Cons.IH [OF rest] obtain more where more: "store' = (store @ ?chain) @ more" "length obs' = length thrs"
    "\<forall>i<length thrs. \<forall>post. all_frames (store' @ post) (obs' ! i) = rev (frames (thrs ! i))" by blast
  have first: "all_frames (store' @ post) (obs ! 0) = rev (frames thr)" for post
  proof (cases "frames thr = []")
    case True
    then show ?thesis by (simp add: obs all_frames_def)
  next
    case False
    then show ?thesis
      using follow_chain [of 0 "rev (frames thr)" "length (store' @ post)" store "more @ post"] more(1)
      by (simp add: obs all_frames_def)
  qed
  show ?case
  proof (intro exI [of _ "?chain @ more"] conjI allI impI)
    fix i post assume "i < length (thr # thrs)"
    then show "all_frames (store' @ post) (obs ! i) = rev (frames ((thr # thrs) ! i))"
      using first more(3) by (cases i) (simp_all add: obs)
  qed (simp_all add: more obs)
qed simp

text \<open>
  Property C16. Walking the frames of a thread object from its first frame through the \<open>next\<close> references
  gives the frames of its thread, all of them and from the outermost to the innermost, for every thread
  of a report; the objects of different threads do not interfere.
\<close>

theorem frame_objects_walked_in_order:
  assumes "report_objects python_threads native_only_threads v = (store, obs)"
    and "i < length python_threads"
  shows "all_frames store (obs ! i) = rev (frames (python_threads ! i))"
proof -
  obtain obs' where obs': "thread_objects [] python_threads v = (store, obs')"
    "obs = obs' @ map buildNativeOnlyThreadObject native_only_threads"
    using assms(1) by (auto simp: report_objects_def split: prod.splits)
  from thread_objects_frames [OF obs'(1)] have "length obs' = length python_threads"
    "\<forall>i<length python_threads. \<forall>post. all_frames (store @ post) (obs' ! i) = rev (frames (python_threads ! i))"
    by blast+
  with assms(2) obs'(2) show ?thesis by (metis append_Nil2 nth_append)
qed

definition example_desc :: thread_desc where
  "example_desc = (7, 0, 0, [], [(''inner'', False), (''outer'', True)])"

theorem frame_objects_walked_in_order_witness:
  "map (code_scope \<circ> frame_code)
     (all_frames (fst (report_objects [test_thread example_desc, test_thread example_desc] [] (3, 12)))
       (snd (report_objects [test_thread example_desc, test_thread example_desc] [] (3, 12)) ! 1)) =
     [''outer'', ''inner'']"
proof -
  obtain store obs where r: "report_objects [test_thread example_desc, test_thread example_desc] [] (3, 12) = (store, obs)"
    by fastforce
  from frame_objects_walked_in_order [OF r, of 1] r show ?thesis
    by (simp add: test_thread_def example_desc_def)
qed

section \<open>What is left when a report is done\<close>

lemma interface_errors_exception:
  "interface_errors r = Inl e \<Longrightarrow> is_exception e \<or> r = Inl e"
  by (cases r) (auto simp: interface_errors_def split: if_splits)

lemma interface_errors_source:
  "interface_errors (Inl e) = Inl e' \<Longrightarrow> is_exception e' \<Longrightarrow> is_exception e"
  by (auto simp: interface_errors_def split: if_splits)

text \<open>
  Property C3. However a report on a live process ends, with a result or with any exception, the process
  is left with no thread stopped, except when it ends because the threads could not be listed while they
  were being stopped (\<open>failed_listing_keeps_threads_stopped\<close>). A crash of PyStack itself is left out.
\<close>

theorem report_leaves_nothing_stopped:
  assumes "report_process env ifc pid stop_process native_mode locs meth = Some (result, tr)"
    and "\<And>e. result = Inl e \<Longrightarrow> is_exception e"
  shows "traced tr = {} \<or>
    (\<exists>k e. getProcessTids pid (task_files (live_ptrace env) k) = Inl e \<and> result = interface_errors (Inl e))"
proof -
  obtain created tr0 where c: "create_process env pid stop_process = Some (created, tr0)"
    using assms(1) by (auto simp: report_process_def Let_def split: option.splits)
  show ?thesis
  proof (cases created)
    case (Inl e)
    with assms(1) c have r: "result = interface_errors (Inl e)" "tr = tr0"
      by (auto simp: report_process_def Let_def)
    have "is_exception e"
      using assms(2) r(1) by (cases "is_exception e") (auto simp: interface_errors_def)
    with created_released [OF c [unfolded Inl]] r show ?thesis by blast
  next
    case (Inr pm)
    with assms(1,2) c have "tr = tracer_destroy tr0"
      by (auto simp: report_process_def Let_def split: sum.splits if_splits)
    with created_inv [OF c [unfolded Inr]] show ?thesis using tracer_inv_detach by (auto simp: tracer_destroy_def)
  qed
qed

definition example_interface :: interface where
  "example_interface =
     \<lparr>if_dwarf = two_modules 0, if_threads = (\<lambda>_. None),
      if_uninit = (\<lambda>_. \<lparr>lineno = 0, end_lineno = 0, column = 0, end_column = 0\<rparr>), if_depth = 100,
      if_tid_offset = 0\<rparr>"

theorem report_leaves_nothing_stopped_witness:
  "traced (snd (the (report_process (example_live False) example_interface 7 True Native_OFF False 1))) = {}"
proof -
  have r: "report_process (example_live False) example_interface 7 True Native_OFF False 1 =
      Some (Inl EngineError, tracer_destroy both_threads)"
    by (simp add: report_process_def example_unreadable interface_errors_def Let_def)
  have "succeeds (getProcessTids 7 (task_files (live_ptrace (example_live False)) k))" for k
    by (simp add: example_live_def example_process_def example_tids)
  then have "getProcessTids 7 (task_files (live_ptrace (example_live False)) k) \<noteq> Inl e" for k e
    by (metis Inl_Inr_False)
  with report_leaves_nothing_stopped [OF r] show ?thesis by (simp add: r)
qed

section \<open>The core file analyzer\<close>

text \<open>
  \<open>CoreFileAnalyzerWrapper\<close>: what it answers is taken from the extractor, the missing modules of the
  analyzer and the notes of the core file. Dictionaries are lists of keys and values.
\<close>

datatype py_value = Py_int int | Py_str string

record core_wrapper =
  cw_extractor :: core_extractor
  cw_missing_modules :: "string list"
  cw_elf :: core_elf

definition d_ignored_libs :: "string list" where
  "d_ignored_libs = [''ld-linux'', ''linux-vdso'']"

definition isIgnoredLib :: "string \<Rightarrow> bool" where
  "isIgnoredLib path = list_ex (\<lambda>prefix. contains_text path prefix) d_ignored_libs"

record py_virtual_map =
  pv_start :: addr
  pv_end :: addr
  pv_filesize :: size_t
  pv_offset :: size_t
  pv_device :: string
  pv_flags :: string
  pv_inode :: size_t
  pv_path :: "string option"

definition py_map_of :: "virtual_map \<Rightarrow> py_virtual_map" where
  "py_map_of m =
     \<lparr>pv_start = d_start m, pv_end = d_end m, pv_filesize = d_filesize m, pv_offset = d_offset m,
      pv_device = d_device m, pv_flags = d_flags m, pv_inode = d_inode m,
      pv_path = (if d_path m = '''' then None else Some (d_path m))\<rparr>"

definition extract_maps ::
  "file_system \<Rightarrow> (CoreVirtualMap list \<Rightarrow> CoreVirtualMap list) \<Rightarrow> core_wrapper \<Rightarrow> py_virtual_map list result" where
  "extract_maps fs sort_by_start w =
     rbind (extractMappedFiles (cw_elf w)) (\<lambda>mapped_files.
       Inr (map py_map_of (parseCoreFileMaps fs sort_by_start mapped_files (d_core_maps (cw_extractor w)))))"

definition crash_dict :: "CoreCrashInfo \<Rightarrow> (string \<times> int) list" where
  "crash_dict info =
     [(''si_signo'', sint (si_signo info)), (''si_errno'', sint (si_errno info)), (''si_code'', sint (si_code info)),
      (''sender_pid'', sint (sender_pid info)), (''sender_uid'', sint (sender_uid info)),
      (''failed_addr'', uint (failed_addr info))]"

definition extract_failure_info :: "nat \<Rightarrow> core_wrapper \<Rightarrow> (string \<times> int) list result" where
  "extract_failure_info prstatus_size w =
     rbind (extractFailureInfo prstatus_size (cw_elf w)) (\<lambda>info. Inr (crash_dict info))"

definition c_str :: "bytes \<Rightarrow> string" where
  "c_str bs = string_of_bytes (takeWhile (\<lambda>b. b \<noteq> 0) bs)"

definition ps_dict :: "CorePsInfo \<Rightarrow> (string \<times> py_value) list" where
  "ps_dict info =
     [(''state'', Py_int (sint (ps_state info))), (''sname'', Py_int (sint (ps_sname info))),
      (''zomb'', Py_int (sint (ps_zomb info))), (''nice'', Py_int (sint (ps_nice info))),
      (''flag'', Py_int (uint (ps_flag info))), (''uid'', Py_int (sint (ps_uid info))),
      (''gid'', Py_int (sint (ps_gid info))), (''pid'', Py_int (sint (ps_pid info))),
      (''ppid'', Py_int (sint (ps_ppid info))), (''pgrp'', Py_int (sint (ps_pgrp info))),
      (''sid'', Py_int (sint (ps_sid info))), (''fname'', Py_str (c_str (ps_fname info))),
      (''psargs'', Py_str (c_str (ps_psargs info)))]"

definition extract_ps_info :: "core_wrapper \<Rightarrow> (string \<times> py_value) list result" where
  "extract_ps_info w = rbind (extractPSInfo (cw_elf w)) (\<lambda>info. Inr (ps_dict info))"

text \<open>\<open>missing_modules\<close>: a path is good when it can be opened.\<close>

definition missing_modules :: "(string \<Rightarrow> bool) \<Rightarrow> core_wrapper \<Rightarrow> string set" where
  "missing_modules good w =
     (let missing = filter (\<lambda>m. \<not> isIgnoredLib m) (cw_missing_modules w);
          paths = filter (\<lambda>p. p \<noteq> '''' \<and> \<not> isIgnoredLib p \<and> \<not> good p \<and>
                              filename_of p \<notin> set (map filename_of missing))
                    (map cv_path (d_core_maps (cw_extractor w))) in
      set missing \<union> set paths)"

definition extract_module_load_points :: "core_wrapper \<Rightarrow> (string \<rightharpoonup> addr)" where
  "extract_module_load_points w = module_load_points (d_module_info (cw_extractor w))"

definition extract_build_ids :: "core_wrapper \<Rightarrow> (string \<times> string \<times> string) list" where
  "extract_build_ids w =
     (let maps_by_file = fold (\<lambda>m ids. ids(cv_path m \<mapsto> cv_buildid m)) (d_core_maps (cw_extractor w)) Map.empty in
      map (\<lambda>m. (sm_filename m, sm_buildid m,
                 case maps_by_file (sm_filename m) of Some b \<Rightarrow> b | None \<Rightarrow> ''''))
        (filter (\<lambda>m. \<not> isIgnoredLib (sm_filename m)) (d_module_info (cw_extractor w))))"

definition get_bss_info ::
  "(string \<Rightarrow> elf_file option) \<Rightarrow> string \<Rightarrow> (string \<times> py_value) list option result" where
  "get_bss_info open_elf binary =
     rbind (getSectionInfo open_elf binary ''.bss'') (\<lambda>section.
       Inr (map_option (\<lambda>info.
         [(''name'', Py_str (section_name info)), (''flags'', Py_str (section_flags info)),
          (''addr'', Py_int (uint (section_addr info))), (''corrected_addr'', Py_int (uint (corrected_addr info))),
          (''offset'', Py_int (sint (section_offset info))), (''size'', Py_int (uint (section_size info)))]) section))"

section \<open>The wrapper of a process manager\<close>

text \<open>
  \<open>ProcessManagerWrapper\<close>. After \<open>reset\<close> (\<open>__exit__\<close>) there is no manager any more, and the other
  operations dereference a null pointer.
\<close>

type_synonym manager_wrapper = "process_manager option"

definition wrapped :: "manager_wrapper \<Rightarrow> (process_manager \<Rightarrow> 'a result) \<Rightarrow> 'a result" where
  "wrapped w f = (case w of None \<Rightarrow> Inl Undefined | Some pm \<Rightarrow> f pm)"

fun status_code :: "InterpreterStatus \<Rightarrow> int" where
  "status_code RUNNING = 1"
| "status_code FINALIZED = 2"
| "status_code UNKNOWN = - 1"

definition wrapper_interpreter_status :: "manager_wrapper \<Rightarrow> int result" where
  "wrapper_interpreter_status w =
     wrapped w (\<lambda>pm. rbind (isInterpreterActive (pm_manager pm)) (\<lambda>s. Inr (status_code s)))"

definition is_interpreter_active :: "manager_wrapper \<Rightarrow> bool result" where
  "is_interpreter_active w =
     wrapped w (\<lambda>pm. rbind (isInterpreterActive (pm_manager pm)) (\<lambda>s. Inr (s = RUNNING)))"

definition wrapper_reset :: "manager_wrapper \<Rightarrow> manager_wrapper" where
  "wrapper_reset w = None"

definition wrapper_pid :: "manager_wrapper \<Rightarrow> int result" where
  "wrapper_pid w = wrapped w (\<lambda>pm. Inr (manager_pid (pm_manager pm)))"

definition wrapper_python_version :: "manager_wrapper \<Rightarrow> (int \<times> int) result" where
  "wrapper_python_version w = wrapped w (\<lambda>pm. Inr (d_major (pm_manager pm), d_minor (pm_manager pm)))"

definition wrapper_virtual_maps :: "manager_wrapper \<Rightarrow> virtual_map list result" where
  "wrapper_virtual_maps w = wrapped w (\<lambda>pm. Inr (d_memory_maps (pm_manager pm)))"

text \<open>The messages about the status of the interpreter, by the level of the log.\<close>

datatype log_level = WARNING | INFO

definition logInterpreterStatus :: "int \<Rightarrow> (log_level \<times> string) option" where
  "logInterpreterStatus status =
     (if status = status_code FINALIZED then
        Some (WARNING, ''The interpreter is shutting itself down so it is possible that no Python stack trace is available for inspection.'')
      else if status = status_code RUNNING then Some (INFO, ''An active interpreter has been detected'')
      else None)"

definition check_interpreter_shutdown :: "int \<Rightarrow> (log_level \<times> string) option" where
  "check_interpreter_shutdown status =
     (if status = status_code FINALIZED then
        Some (WARNING, ''The interpreter is shutting itself down so it is possible that no Python stack trace is available for inspection.'')
      else if status \<noteq> - 1 then Some (INFO, ''An active interpreter has been detected'')
      else None)"

text \<open>The two ways of logging the status agree on every status there is.\<close>

lemma shutdown_messages_agree: "check_interpreter_shutdown (status_code s) = logInterpreterStatus (status_code s)"
  by (cases s) (simp_all add: check_interpreter_shutdown_def logInterpreterStatus_def)

text \<open>After the \<open>with\<close> block of a manager its properties crash.\<close>

theorem use_after_exit_crashes:
  "wrapper_pid (wrapper_reset w) = Inl Undefined \<and> wrapper_python_version (wrapper_reset w) = Inl Undefined \<and>
   wrapper_interpreter_status (wrapper_reset w) = Inl Undefined"
  by (simp add: wrapper_pid_def wrapper_python_version_def wrapper_interpreter_status_def wrapper_reset_def wrapped_def)

end
