(* ===== verification/Spec2Isabelle.thy ===== *)
theory Spec2Isabelle
  imports Offset_Check Python_Interface
begin

text \<open>
  PyStack prints the Python stacks (and, on request, the native ones) of the threads of a running
  Python process or of a core file, for CPython 2.7 and 3.3 to 3.14. This development models its core,
  the C++ code in \<open>src/src/pystack/_pystack\<close>: everything between the calls of the kernel, libelf and
  libdw on the one side and the Python objects of the report on the other. Paths below are relative to
  that directory.

  \<^bold>\<open>How the program works, and where it is modelled.\<close>
  A report on a process starts by stopping its threads (\<open>ProcessTracer\<close>), reads the mappings of the
  process (\<open>maps_parser.cpp\<close>), sets up the reading of its memory (\<open>mem.cpp\<close>), finds out which Python
  it runs (\<open>version_detector.cpp\<close>, or the debug offsets that the target publishes), looks for the list of
  interpreter states and walks it: interpreters to threads to frames to code objects and local variables.
  The native stacks come from libdw. A report on a core file does the same with a memory manager that
  reads the core and the libraries it names. The theories follow this order, each importing those it uses.

  \<^item> \<open>Prelude\<close>: machine types, exceptions and results, words, little-endian integers, numerals and
    lists. \<open>Regexps\<close>: \<open>std::regex\<close> on the expressions of the program. \<open>Linked_Chains\<close>: chains of linked
    structures. \<open>Transparent_Cache\<close>: the contract of caches that only save time.
  \<^item> Memory. \<open>Lru_Cache\<close> (\<open>LRUCache\<close>), \<open>Virtual_Map\<close> (\<open>VirtualMap\<close>), \<open>Memory_Manager\<close>
    (\<open>ProcessMemoryManager\<close>) and \<open>Core_Memory\<close> (\<open>CorefileRemoteMemoryManager\<close>) model \<open>mem.h\<close> and \<open>mem.cpp\<close>;
    the interface of both managers is the locale \<open>remote_memory\<close> of \<open>Remote_Memory\<close>.
  \<^item> Structures of CPython. \<open>C_Layout\<close> has the declarations of \<open>cpython/*.h\<close> as data with the layout
    rules of LP64; \<open>Offsets\<close> (\<open>version.h\<close>) and \<open>Version_Tables\<close> (\<open>version.cpp\<close>) have the tables of sizes and
    offsets that are computed from them; \<open>Structure_Reads\<close> has \<open>Structure<T>\<close> (\<open>structure.h\<close>) and the
    members of \<open>AbstractProcessManager\<close> it reads through; \<open>Debug_Offsets\<close> and \<open>Offset_Check\<close> have the
    discovery, the copying, the validation, the clamping and the comparison of \<open>_Py_DebugOffsets\<close> and the
    choice of the version (\<open>process.cpp\<close>).
  \<^item> Readers of objects. \<open>Remote_Objects\<close> (strings, bytes, C strings and interpreters; \<open>process.cpp\<close>,
    \<open>interpreter.cpp\<close>), \<open>Double_Format\<close> and \<open>Py_Types\<close> (\<open>pytypes.cpp\<close>), \<open>Linetable\<close> and \<open>Py_Code\<close>
    (\<open>pycode.cpp\<close>), \<open>Py_Frame\<close> (\<open>pyframe.cpp\<close>), \<open>Py_Thread\<close> (\<open>pythread.cpp\<close>).
  \<^item> Finding the interpreters: \<open>Interpreter_Search\<close> (\<open>process.cpp\<close> and \<open>getInterpreterStateAddr\<close> of
    \<open>thread_builder.cpp\<close>). Reports: \<open>Thread_Data\<close> (\<open>thread_builder.h\<close>, \<open>native_frame.cpp\<close>), \<open>Thread_Builder\<close>
    (\<open>thread_builder.cpp\<close>) and \<open>Normalize_Threads\<close> (\<open>bindings.cpp\<close>).
  \<^item> Processes, core files and ELF files. \<open>Process_Tracer\<close> (\<open>ProcessTracer\<close> in \<open>process.cpp\<close>),
    \<open>Elf_Common\<close> (\<open>elf_common.cpp\<close>), \<open>Core_File\<close> (\<open>corefile.cpp\<close>), \<open>Maps_Parser\<close> (\<open>maps_parser.cpp\<close>),
    \<open>Version_Detector\<close> (\<open>version_detector.cpp\<close>) and \<open>Unwinder\<close> (\<open>unwinder.cpp\<close>).
  \<^item> The whole. \<open>Process_Creation\<close> composes these into \<open>ProcessManager::create\<close> and
    \<open>CoreFileProcessManager::create\<close> (\<open>process.cpp\<close>); \<open>Python_Interface\<close> composes everything into
    \<open>get_process_threads\<close> and \<open>get_process_threads_for_core\<close> with their exceptions, and has the wrapper
    classes (\<open>bindings.cpp\<close>). This theory compares the two kinds of targets.

  \<^bold>\<open>State and operations.\<close>
  A class with state is a record with the names of its members and each method a function that returns
  the updated record: \<open>lru_cache\<close>, \<open>process_memory\<close>, \<open>core_memory\<close>, \<open>tracer\<close>, \<open>unwinder\<close>, \<open>process_manager\<close>.
  The readers only look at the target through a process manager (\<open>manager\<close>), whose memory manager is
  for them a function from ranges to bytes or an error: the target does not run, and
  \<open>copies_return_process_memory\<close> shows that the state of the live manager is not observable. An integer
  of the code has its width: sizes and addresses are 64-bit words that wrap around, \<open>sint\<close> is written where
  the code uses \<open>ssize_t\<close>, lengths of vectors are natural numbers.

  \<^bold>\<open>Errors.\<close>
  A function that can raise returns a value of \<open>'a result\<close>, the sum of \<open>error\<close> and the value. The handlers
  of the code are \<open>try_catch\<close> with the class they catch. \<open>Abort\<close>, \<open>Stack_Overflow\<close>, \<open>Diverges\<close> and
  \<open>Undefined\<close> are the outcomes no handler catches. A failing \<open>assert\<close> is \<open>Abort\<close>, as in a build with
  assertions; a function whose C++ counterpart has undefined behaviour
  on an input returns \<open>Inl Undefined\<close> there. What uninitialised members hold is an argument of
  the model (\<open>report_uninit\<close>).

  \<^bold>\<open>Loops and recursion.\<close>
  Loops whose end depends on the target or on the kernel (\<open>readv_loop\<close>, \<open>tracer_loop\<close>, \<open>note_loop\<close>,
  \<open>tid_walk\<close>, \<open>cstring_loop\<close>, \<open>interpreter_loop\<close>, \<open>frame_loop\<close>) are partial functions into
  options, so that a loop that does not end has the value \<open>None\<close>; that they end is proved where it holds
  (\<open>stopping_ends\<close>, \<open>repeated_frame_ends_unwinding\<close>, \<open>interpreters_reported_once\<close>,
  \<open>copies_return_process_memory\<close>), and that they need not end where it does not
  (\<open>unwinding_between_two_frames_diverges\<close>). Recursive constructors (frames, threads) and the printing
  of nested objects (\<open>print_nested\<close>) have an argument for the nesting that the stack of the thread allows,
  and return \<open>Stack_Overflow\<close> beyond it: a chain of frames needs its length (\<open>ending_chain_is_read\<close>), the
  printing of an object at most half its limit, whatever it contains (\<open>printing_nests_within_limit\<close>).
  All other definitions are total and structural or have a measure.

  \<^bold>\<open>What is shown.\<close>
  \<^item> Memory is read right: the copies of a live manager, of a core and of a library are the bytes of the
    process, the core or the file (\<open>copies_return_process_memory\<close>, \<open>core_copy_returns_dumped_memory\<close>,
    \<open>core_copy_from_library\<close>); the cache refines a list in recency order (\<open>put_refines_recency_list\<close>); a
    field read through a copied structure is the field of the process (\<open>getField_reads_in_place\<close>), and a core
    gives the same fields as the process (\<open>core_reads_like_process\<close>).
  \<^item> No read of a field leaves its structure: for the static tables (\<open>static_tables_readable\<close>,
    \<open>debug_offset_tables_readable\<close>) and for the ones the target publishes, whatever it publishes
    (\<open>loaded_offsets_readable\<close>, \<open>initialized_reads_in_bounds\<close>); \<open>offset_warnings_are_the_differences\<close>.
  \<^item> What is found is what is there: \<open>found_interpreter_is_valid\<close>, \<open>frames_read_are_the_chain\<close>,
    \<open>threads_read_are_the_chain\<close>, \<open>anchor_is_first_shim\<close>, \<open>one_gil_holder\<close>, \<open>variables_are_the_slots\<close>,
    \<open>interpreters_reported_once\<close>, \<open>every_thread_reported\<close>, and after the post-processing
    \<open>normalizeThreads_order\<close>, \<open>slices_partition_native_stack\<close> and \<open>frame_objects_walked_in_order\<close>.
  \<^item> Formats are decoded right: location tables against an encoder (\<open>parse_linetable_encoded\<close>,
    \<open>location_of_instruction\<close>) and against the intervals they describe (\<open>old_line_tables_intervals\<close>),
    \<open>/proc/PID/maps\<close> against what the kernel writes (\<open>proc_maps_read_back\<close>), \<open>NT_FILE\<close> notes
    (\<open>mapped_files_read_back\<close>); the mappings that are used are the right ones (\<open>interpreter_maps_found\<close>,
    \<open>core_maps_complete\<close>, \<open>resolved_libraries_complete\<close>).
  \<^item> Printing ends within its limit and lets no memory error escape (\<open>printing_respects_limit\<close>,
    \<open>printing_nests_within_limit\<close>, \<open>printing_contains_memory_errors\<close>).
  \<^item> The target is left running: \<open>process_is_stopped\<close>, \<open>stopping_ends\<close>, \<open>created_process_manager\<close>,
    \<open>report_leaves_nothing_stopped\<close>, which has one exception, a report that ends because the threads could
    not be listed (\<open>failed_listing_keeps_threads_stopped\<close>). That \<open>PTRACE_DETACH\<close> works on a stopped thread
    is assumed. The caches of the unwinder are not observable unless they confuse two
    modules (\<open>unwinder_caches_are_transparent\<close>).
  \<^item> Where the code does something else than it means to, a theorem shows it on a concrete input, next to the
    component (for instance \<open>core_copy_runs_past_segment\<close>, \<open>thread_cycles_are_fatal\<close>,
    \<open>lnotab_increment_sign_extended\<close>, \<open>scopes_cache_confuses_modules\<close>, \<open>use_after_exit_crashes\<close>); the
    conditions of the properties leave out exactly such inputs.

  \<^bold>\<open>Interfaces.\<close>
  \<open>chunk_cache\<close> is what the memory manager needs of its cache, \<open>remote_memory\<close> what the readers need of a
  memory manager, \<open>interpreter_finder\<close> what trying the methods needs of a method and \<open>transparent_cache\<close>
  what the users of a cache need not know; each is interpreted on the definitions of the components.

  \<^bold>\<open>Parameters.\<close>
  Code outside \<open>src\<close> is an argument: the kernel (\<open>os\<close>, \<open>ptrace_env\<close>, the files of \<open>/proc\<close>), whose documented
  behaviour for a stopped process is the hypothesis \<open>serves\<close>; the file system (\<open>files\<close>, \<open>file_system\<close>);
  what libelf says of a file and libdw of a module (\<open>program_header\<close>, \<open>dwarf\<close>); \<open>popen\<close>; the
  demangler. \<open>std::sort\<close> on keys that may be equal is an argument where its order could be seen.
  The pointer size is 8 bytes, the byte order little-endian, \<open>char\<close> signed, and elfutils is 0.188 or later.

  \<^bold>\<open>Not modelled.\<close>
  \<^item> Logging (\<open>logging.cpp\<close>): output only; where a message is the purpose of a function
    (\<open>warnIfOffsetsAreMismatched\<close>) the function returns what it logs.
  \<^item> The registration of the extension module and the conversions of nanobind at the end of \<open>bindings.cpp\<close>:
    declarations for a library.
  \<^item> Portability headers and accessors that only return a member, which are the selectors of the records.
  \<^item> The Python front end (command line, formatting) and the tests.
  \<^item> Memory that cannot be allocated, except for \<open>std::vector\<close> beyond its maximal size, and races with a
    target that was not stopped.
\<close>

section \<open>A process and its core\<close>

lemma live_copy_of_image:
  assumes "serves os img" and "coherent img st" and "consistent_maps (d_vmaps st)"
    and "len \<noteq> 0" and "unat addr + unat len \<le> 2 ^ 64"
  shows "live_copy os st addr len = image_copier img addr len"
  using copy_returns_process_memory [OF assms] by (auto simp: live_copy_def image_copier_def)

text \<open>The core \<open>cst\<close> records the \<open>n\<close> bytes at \<open>addr\<close> of a process, and does so correctly.\<close>

definition records_range :: "core_memory \<Rightarrow> image \<Rightarrow> addr \<Rightarrow> nat \<Rightarrow> bool" where
  "records_range cst img addr n \<longleftrightarrow>
     (\<exists>m \<in> set (core_vmaps cst). d_offset m \<noteq> 0 \<and> unat (d_start m) \<le> unat addr \<and>
        unat addr + n \<le> unat (d_start m) + unat (d_filesize m)) \<and>
     (\<forall>i < n. core_image cst (addr + of_nat i) = img (addr + of_nat i))"

lemma core_copy_of_image:
  assumes ok: "core_layout_ok cst" and rec: "records_range cst img addr (unat len)" and ne: "len \<noteq> 0"
  shows "core_copy fs cst addr len = image_copier img addr len"
    and "succeeds (core_copy fs cst addr len)"
    and "unat addr + unat len \<le> 2 ^ 64"
proof -
  obtain m where m: "m \<in> set (core_vmaps cst)" "d_offset m \<noteq> 0" "unat (d_start m) \<le> unat addr"
      "unat addr + unat len \<le> unat (d_start m) + unat (d_filesize m)"
    and eq: "\<forall>i < unat len. core_image cst (addr + of_nat i) = img (addr + of_nat i)"
    using rec by (auto simp: records_range_def)
  have "image_read img addr (unat len) = image_read (core_image cst) addr (unat len)"
    unfolding image_read_def using eq by (intro arg_cong [where f = those] map_cong) auto
  with core_copy_dumped [OF ok m ne] core_image_block [OF ok m]
  show "core_copy fs cst addr len = image_copier img addr len"
    by (simp add: core_copy_def image_copier_def image_result_def)
  show "succeeds (core_copy fs cst addr len)"
    using core_copy_dumped [OF ok m ne] by (simp add: core_copy_def)
  have "0 < unat len" using ne by (simp add: unat_gt_0)
  then have "d_filesize m \<noteq> 0" using m(3,4) by auto
  then have "unat (d_start m) + unat (d_filesize m) < 2 ^ 64" using layout_bounds(1) [OF ok m(1)] m(2) by blast
  with m(4) show "unat addr + unat len \<le> 2 ^ 64" by simp
qed

text \<open>
  Property C14. A core is as good as the process it was taken from: where the core records the memory of
  a structure, every field of the structure read from the core and read from the process, through the cache
  in any coherent state, gives the same result, and when the field lies in the structure this result
  is the content of the field in the memory of the process.
\<close>

theorem core_reads_like_process:
  assumes serves: "serves os img" "coherent img st" "consistent_maps (d_vmaps st)"
    and core: "core_layout_ok cst" "records_range cst img addr (unat (snd S (fst S v)))"
    and live: "d_manager m = live_copy os st" "offsets m = Inr v"
    and post: "d_manager mc = core_copy fs cst" "offsets mc = Inr v"
    and size: "snd S (fst S v) \<noteq> 0" "unat (snd S (fst S v)) < 2 ^ 63" "snd field < 2 ^ 63"
  shows "getField mc S addr field = getField m S addr field \<and>
    (field_in_bounds (snd S (fst S v)) (fst field (fst S v)) (snd field) \<longrightarrow>
       getField m S addr field = image_result img (addr + fst field (fst S v)) (snd field))"
proof -
  let ?sz = "snd S (fst S v)" and ?off = "fst field (fst S v)"
  note copied = core_copy_of_image(1,2) [OF core size(1), of fs] core_copy_of_image(3) [OF core size(1)]
  obtain buf where buf: "core_copy fs cst addr ?sz = Inr buf" using copied(2) by blast
  then have read: "image_read img addr (unat ?sz) = Some buf"
    using copied(1) by (auto simp: image_copier_def image_result_def split: option.splits)
  have live_buf: "live_copy os st addr ?sz = Inr buf"
    using live_copy_of_image [OF serves size(1) copied(3)] copied(1) buf by simp
  have "image_read img (addr + ?off) (snd field) = Some (block (unat ?off) (snd field) buf)"
    if "unat ?off + snd field \<le> unat ?sz"
    using image_read_block [OF read that] by simp
  with remote_memory.getField_copied [OF live.remote_memory_axioms live size(2) live_buf, of field]
    remote_memory.getField_copied [OF core.remote_memory_axioms post size(2) buf, of field] size(3)
  show ?thesis by (auto simp: image_result_def field_in_bounds_unat)
qed

definition example_segment :: core_memory where
  "example_segment =
     \<lparr>d_elf_load_segments_cache = Map.empty,
      core_vmaps = [virtual_map_new 4096 4112 16 ''rw-'' 4 '''' 0 ''''],
      d_shared_libs = [], d_corefile_data = [127, 69, 76, 70] @ map of_nat [0..<16]\<rparr>"

text \<open>The object header of \<open>header_image\<close>, in a live process and in a core.\<close>

theorem core_reads_like_process_witness:
  "getField (example_manager header_image header_tables\<lparr>d_manager := core_copy example_files example_segment\<rparr>)
     S_object 4096 (o_ob_type, 8) = Inr [8, 9, 10, 11, 12, 13, 14, 15]"
proof -
  let ?st = "process_memory_new 7 [] ()"
  let ?m = "example_manager header_image header_tables"
  let ?f = "(o_ob_type, 8) :: py_object_v member"
  let ?live = "?m\<lparr>d_manager := live_copy (os_of_image header_image) ?st\<rparr>"
  let ?core = "?m\<lparr>d_manager := core_copy example_files example_segment\<rparr>"
  have tables: "snd S_object (fst S_object header_tables) = 16" "o_ob_type (fst S_object header_tables) = 8"
    by (simp_all add: header_tables_def)
  have maps: "consistent_maps (d_vmaps ?st)" by (simp add: consistent_maps_def process_memory_new_def)
  have layout: "core_layout_ok example_segment"
    by (auto simp: core_layout_ok_def example_segment_def virtual_map_new_def d_corefile_size_def)
  have sixteen: "(\<forall>i < 16. P i) \<longleftrightarrow> list_all P [0..<16]" for P :: "nat \<Rightarrow> bool"
    by (auto simp: list_all_iff)
  have recorded: "records_range example_segment header_image 4096 (unat (snd S_object (fst S_object header_tables)))"
    unfolding tables
    by (simp add: records_range_def example_segment_def virtual_map_new_def core_image_def header_image_def
        getMemoryLocationFromCore_def dumped_def d_corefile_size_def sixteen upt_rec)
  have "getField ?core S_object 4096 ?f = getField ?live S_object 4096 ?f \<and>
      (field_in_bounds (snd S_object (fst S_object header_tables)) (fst ?f (fst S_object header_tables)) (snd ?f) \<longrightarrow>
       getField ?live S_object 4096 ?f =
         image_result header_image (4096 + fst ?f (fst S_object header_tables)) (snd ?f))"
    by (rule core_reads_like_process [OF os_of_image_serves coherent_new maps layout recorded])
       (simp_all add: header_tables_def example_manager_def offsets_def)
  then show ?thesis
    by (simp add: header_tables_def field_in_bounds_unat image_result_def image_read_def header_image_def upt_rec)
qed

end
